(* ===== verification/Prelude.thy ===== *)
theory Prelude
  imports Main "HOL-Library.Word" "HOL-Library.List_Lexorder" "HOL-Library.Char_ord"
begin

text \<open>
  Shared vocabulary of the development: Rust's \<open>Result\<close> with panics made explicit, the
  fixed-width integer operations the sources call (\<open>checked_add\<close>, \<open>saturating_sub\<close>, \<dots>),
  \<open>str::trim().is_empty()\<close>, and \<open>BTreeMap\<close> as a key-sorted association list.
  Two interfaces are stated as locales: \<open>ordered_map\<close> (what the state machine relies on in
  a \<open>BTreeMap\<close>) and \<open>command_machine\<close> (a partial step function with an invariant, of which
  the run kernel, the supervisor, the admission queue, the budget ledger, the delivery and cancellation
  tables of a worker and the capability registry are instances).
\<close>

named_theorems result_simps \<open>inversion rules for the result monad\<close>
named_theorems bt_simps \<open>lookup laws of ordered maps\<close>

type_synonym u64 = "64 word"
type_synonym u32 = "32 word"

section \<open>Results, with panics\<close>

text \<open>\<open>Ok\<close> and \<open>Err\<close> are Rust's constructors; \<open>Panic\<close> is an aborted call
  (\<open>unwrap\<close> on \<open>None\<close>).\<close>

datatype ('e, 'a) result = Ok 'a | Err 'e | Panic

fun and_then :: "('e, 'a) result \<Rightarrow> ('a \<Rightarrow> ('e, 'b) result) \<Rightarrow> ('e, 'b) result" where
  "and_then (Ok x) f = f x"
| "and_then (Err e) f = Err e"
| "and_then Panic f = Panic"

fun ok_or :: "'a option \<Rightarrow> 'e \<Rightarrow> ('e, 'a) result" where
  "ok_or (Some x) e = Ok x"
| "ok_or None e = Err e"

fun unwrap :: "'a option \<Rightarrow> ('e, 'a) result" where
  "unwrap (Some x) = Ok x"
| "unwrap None = Panic"

section \<open>Fixed-width arithmetic\<close>

definition checked_add :: "'a::len word \<Rightarrow> 'a word \<Rightarrow> 'a word option" where
  "checked_add a b = (if unat a + unat b < 2 ^ LENGTH('a) then Some (a + b) else None)"

definition checked_sub :: "'a::len word \<Rightarrow> 'a word \<Rightarrow> 'a word option" where
  "checked_sub a b = (if b \<le> a then Some (a - b) else None)"

definition saturating_add :: "'a::len word \<Rightarrow> 'a word \<Rightarrow> 'a word" where
  "saturating_add a b = (if unat a + unat b < 2 ^ LENGTH('a) then a + b else - 1)"

definition saturating_sub :: "'a::len word \<Rightarrow> 'a word \<Rightarrow> 'a word" where
  "saturating_sub a b = (if b \<le> a then a - b else 0)"

section \<open>Decimal printing\<close>

text \<open>\<open>Display\<close> of unsigned integers.\<close>

fun show_nat :: "nat \<Rightarrow> string" where
  "show_nat n = (if n < 10 then [char_of (48 + n)]
                 else show_nat (n div 10) @ [char_of (48 + n mod 10)])"

declare show_nat.simps [simp del]

definition show_word :: "'a::len word \<Rightarrow> string" where
  "show_word w = show_nat (unat w)"

section \<open>Blank strings\<close>

text \<open>The UTF-8 encodings of the Unicode \<open>White_Space\<close> characters, which \<open>str::trim\<close>
  removes; strings are UTF-8 byte sequences.\<close>

definition whitespace_encodings :: "string list" where
  "whitespace_encodings =
     [[CHR 0x09], [CHR 0x0A], [CHR 0x0B], [CHR 0x0C], [CHR 0x0D], [CHR 0x20],
      [CHR 0xC2, CHR 0x85], [CHR 0xC2, CHR 0xA0], [CHR 0xE1, CHR 0x9A, CHR 0x80],
      [CHR 0xE2, CHR 0x80, CHR 0x80], [CHR 0xE2, CHR 0x80, CHR 0x81],
      [CHR 0xE2, CHR 0x80, CHR 0x82], [CHR 0xE2, CHR 0x80, CHR 0x83],
      [CHR 0xE2, CHR 0x80, CHR 0x84], [CHR 0xE2, CHR 0x80, CHR 0x85],
      [CHR 0xE2, CHR 0x80, CHR 0x86], [CHR 0xE2, CHR 0x80, CHR 0x87],
      [CHR 0xE2, CHR 0x80, CHR 0x88], [CHR 0xE2, CHR 0x80, CHR 0x89],
      [CHR 0xE2, CHR 0x80, CHR 0x8A], [CHR 0xE2, CHR 0x80, CHR 0xA8],
      [CHR 0xE2, CHR 0x80, CHR 0xA9], [CHR 0xE2, CHR 0x80, CHR 0xAF],
      [CHR 0xE2, CHR 0x81, CHR 0x9F], [CHR 0xE3, CHR 0x80, CHR 0x80]]"

lemma whitespace_encodings_nonempty: "w \<in> set whitespace_encodings \<Longrightarrow> w \<noteq> []"
  by (auto simp: whitespace_encodings_def)

function trim_is_empty :: "string \<Rightarrow> bool" where
  "trim_is_empty s =
     (if s = [] then True
      else case find (\<lambda>w. take (length w) s = w) whitespace_encodings of
             None \<Rightarrow> False
           | Some w \<Rightarrow> trim_is_empty (drop (length w) s))"
  by pat_completeness auto
termination
proof (relation "measure length", goal_cases)
  case 1
  then show ?case by simp
next
  case (2 s w)
  then have "w \<in> set whitespace_encodings"
    by (auto simp: find_Some_iff)
  then have "w \<noteq> []" by (rule whitespace_encodings_nonempty)
  with 2 show ?case by simp
qed

declare trim_is_empty.simps [simp del]

section \<open>Ordered maps\<close>

text \<open>\<open>BTreeMap\<close>: an association list with strictly increasing keys, so that iteration
  order is key order. \<open>bt_modify\<close> is \<open>get_mut\<close> followed by a mutation, \<open>bt_update_all\<close>
  a loop over \<open>values_mut\<close>.\<close>

type_synonym ('k, 'v) btree = "('k \<times> 'v) list"

definition bt_get :: "('k, 'v) btree \<Rightarrow> 'k \<Rightarrow> 'v option" where
  "bt_get m k = map_of m k"

definition bt_contains :: "('k, 'v) btree \<Rightarrow> 'k \<Rightarrow> bool" where
  "bt_contains m k = (bt_get m k \<noteq> None)"

definition bt_keys :: "('k, 'v) btree \<Rightarrow> 'k list" where
  "bt_keys m = map fst m"

definition bt_values :: "('k, 'v) btree \<Rightarrow> 'v list" where
  "bt_values m = map snd m"

fun bt_insert :: "('k::linorder) \<Rightarrow> 'v \<Rightarrow> ('k, 'v) btree \<Rightarrow> ('k, 'v) btree" where
  "bt_insert k v [] = [(k, v)]"
| "bt_insert k v ((k', v') # m) =
     (if k = k' then (k, v) # m
      else if k < k' then (k, v) # (k', v') # m
      else (k', v') # bt_insert k v m)"

definition bt_update_all :: "('k \<Rightarrow> 'v \<Rightarrow> 'v) \<Rightarrow> ('k, 'v) btree \<Rightarrow> ('k, 'v) btree" where
  "bt_update_all f m = map (\<lambda>(k, v). (k, f k v)) m"

definition bt_modify :: "'k \<Rightarrow> ('v \<Rightarrow> 'v) \<Rightarrow> ('k, 'v) btree \<Rightarrow> ('k, 'v) btree" where
  "bt_modify k f m = bt_update_all (\<lambda>k' v. if k' = k then f v else v) m"

text \<open>\<open>entry(k).or_default().push(v)\<close> on a map to vectors.\<close>

definition bt_push :: "('k::linorder) \<Rightarrow> 'v \<Rightarrow> ('k, 'v list) btree \<Rightarrow> ('k, 'v list) btree" where
  "bt_push k v m = bt_insert k (case bt_get m k of None \<Rightarrow> [v] | Some vs \<Rightarrow> vs @ [v]) m"

definition bt_invar :: "('k::linorder, 'v) btree \<Rightarrow> bool" where
  "bt_invar m = sorted_wrt (<) (bt_keys m)"

section \<open>Lemmas: results\<close>

lemma and_then_eq_Ok [result_simps]:
  "and_then m f = Ok y \<longleftrightarrow> (\<exists>x. m = Ok x \<and> f x = Ok y)"
  by (cases m) auto

lemma and_then_eq_Err [result_simps]:
  "and_then m f = Err e \<longleftrightarrow> m = Err e \<or> (\<exists>x. m = Ok x \<and> f x = Err e)"
  by (cases m) auto

lemma and_then_eq_Panic [result_simps]:
  "and_then m f = Panic \<longleftrightarrow> m = Panic \<or> (\<exists>x. m = Ok x \<and> f x = Panic)"
  by (cases m) auto

lemma ok_or_eq_Ok [result_simps]: "ok_or x e = Ok y \<longleftrightarrow> x = Some y"
  by (cases x) auto

lemma ok_or_eq_Err [result_simps]: "ok_or x e = Err e' \<longleftrightarrow> x = None \<and> e' = e"
  by (cases x) auto

lemma ok_or_neq_Panic [result_simps, simp]: "ok_or x e \<noteq> Panic"
  by (cases x) auto

lemma unwrap_eq_Ok [result_simps]: "unwrap x = Ok y \<longleftrightarrow> x = Some y"
  by (cases x) auto

lemma unwrap_eq_Panic [result_simps]: "unwrap x = Panic \<longleftrightarrow> x = None"
  by (cases x) auto

lemma unwrap_neq_Err [result_simps, simp]: "unwrap x \<noteq> Err e"
  by (cases x) auto

lemma if_Err_eq_Ok [result_simps]: "(if c then Err e else m) = Ok y \<longleftrightarrow> \<not> c \<and> m = Ok y"
  by simp

lemma if_Err_eq_Panic [result_simps]: "(if c then Err e else m) = Panic \<longleftrightarrow> \<not> c \<and> m = Panic"
  by simp

section \<open>Lemmas: arithmetic\<close>

lemma checked_add_Some:
  fixes a b c :: "'a::len word"
  assumes "checked_add a b = Some c"
  shows "unat c = unat a + unat b"
  using assms by (auto simp: checked_add_def unat_word_ariths split: if_splits)

lemma checked_sub_Some:
  fixes a b c :: "'a::len word"
  assumes "checked_sub a b = Some c"
  shows "unat a = unat c + unat b"
  using assms by (auto simp: checked_sub_def unat_sub word_le_nat_alt split: if_splits)

lemma unat_saturating_add:
  fixes a b :: "'a::len word"
  shows "unat (saturating_add a b) = min (unat a + unat b) (2 ^ LENGTH('a) - 1)"
  by (auto simp: saturating_add_def unat_word_ariths unsigned_minus_1_eq_mask mask_eq_exp_minus_1)

lemma unat_saturating_sub:
  fixes a b :: "'a::len word"
  shows "unat (saturating_sub a b) = unat a - unat b"
  by (auto simp: saturating_sub_def unat_sub word_le_nat_alt)

lemma no_overflow_iff:
  fixes a b :: "'a::len word"
  shows "unat a + unat b < 2 ^ LENGTH('a) \<longleftrightarrow> a \<le> a + b"
proof (cases "unat a + unat b < 2 ^ LENGTH('a)")
  case True
  then show ?thesis by (simp add: word_le_nat_alt unat_word_ariths)
next
  case False
  define N :: nat where "N = 2 ^ LENGTH('a)"
  have lt: "unat a < N" "unat b < N" unfolding N_def by (rule unsigned_less)+
  moreover have "N \<le> unat a + unat b" using False unfolding N_def by linarith
  ultimately have "unat a + unat b - N < N" "N \<le> unat a + unat b" by linarith+
  then have "(unat a + unat b) mod N = unat a + unat b - N" by (simp add: le_mod_geq)
  with False lt show ?thesis unfolding word_le_nat_alt unat_word_ariths N_def [symmetric] by linarith
qed

text \<open>Overflow is tested on words when the definitions are evaluated.\<close>

lemma checked_add_code [code]: "checked_add a b = (if a \<le> a + b then Some (a + b) else None)"
  by (simp add: checked_add_def no_overflow_iff)

lemma saturating_add_code [code]: "saturating_add a b = (if a \<le> a + b then a + b else - 1)"
  by (simp add: saturating_add_def no_overflow_iff)

lemma unat_plus_one:
  fixes a :: "'a::len word"
  assumes "a \<noteq> - 1"
  shows "unat (a + 1) = unat a + 1"
  using assms unatSuc [of a] by (simp add: add.commute add_eq_0_iff)

lemma word_less_inc:
  fixes x y :: "'a::len word"
  assumes "x < y"
  shows "0 < x + 1" and "x + 1 \<le> y"
proof -
  have "x \<noteq> - 1" using assms word_n1_ge [of y] by auto
  then have "unat (x + 1) = Suc (unat x)" by (simp add: unat_plus_one)
  then show "0 < x + 1" "x + 1 \<le> y"
    using assms by (simp_all add: word_less_nat_alt word_le_nat_alt)
qed

section \<open>Lemmas: ordered maps\<close>

lemma bt_get_Nil [simp, bt_simps]: "bt_get [] k = None"
  by (simp add: bt_get_def)

lemma bt_get_Cons [simp, bt_simps]:
  "bt_get ((k', v) # m) k = (if k = k' then Some v else bt_get m k)"
  by (simp add: bt_get_def)

lemma bt_get_insert [simp, bt_simps]:
  "bt_get (bt_insert k v m) k' = (if k' = k then Some v else bt_get m k')"
  by (induction k v m rule: bt_insert.induct) auto

lemma bt_get_update_all [simp, bt_simps]:
  "bt_get (bt_update_all f m) k = map_option (f k) (bt_get m k)"
  by (induction m) (auto simp: bt_update_all_def bt_get_def)

lemma bt_get_modify [simp, bt_simps]:
  "bt_get (bt_modify k f m) k' =
     (if k' = k then map_option f (bt_get m k') else bt_get m k')"
  by (cases "bt_get m k'") (auto simp: bt_modify_def)

lemma bt_contains_iff: "bt_contains m k \<longleftrightarrow> (\<exists>v. bt_get m k = Some v)"
  by (simp add: bt_contains_def)

lemma bt_contains_iff_keys: "bt_contains m k \<longleftrightarrow> k \<in> set (bt_keys m)"
  by (induction m) (auto simp: bt_contains_def bt_keys_def split: if_splits)

lemma set_bt_keys: "set (bt_keys m) = dom (bt_get m)"
  by (auto simp: dom_def bt_contains_iff_keys [symmetric] bt_contains_def)

lemma bt_keys_insert: "set (bt_keys (bt_insert k v m)) = insert k (set (bt_keys m))"
  by (auto simp: set_bt_keys dom_def split: if_splits)

lemma bt_keys_update_all [simp]: "bt_keys (bt_update_all f m) = bt_keys m"
  by (induction m) (auto simp: bt_update_all_def bt_keys_def)

lemma bt_keys_modify [simp]: "bt_keys (bt_modify k f m) = bt_keys m"
  by (simp add: bt_modify_def)

lemma length_bt_update_all [simp]: "length (bt_update_all f m) = length m"
  by (simp add: bt_update_all_def)

lemma length_bt_modify [simp]: "length (bt_modify k f m) = length m"
  by (simp add: bt_modify_def)

lemma bt_invar_Nil [simp]: "bt_invar []"
  by (simp add: bt_invar_def bt_keys_def)

lemma bt_invar_insert [simp, intro]: "bt_invar m \<Longrightarrow> bt_invar (bt_insert k v m)"
proof (induction k v m rule: bt_insert.induct)
  case (1 k v)
  then show ?case by (simp add: bt_invar_def bt_keys_def)
next
  case (2 k v k' v' m)
  have "set (map fst (bt_insert k v m)) = insert k (set (map fst m))"
    using bt_keys_insert [of k v m] by (simp add: bt_keys_def)
  with 2 show ?case by (fastforce simp: bt_invar_def bt_keys_def)
qed

lemma bt_invar_update_all [simp]: "bt_invar (bt_update_all f m) = bt_invar m"
  by (simp add: bt_invar_def)

lemma bt_invar_modify [simp]: "bt_invar (bt_modify k f m) = bt_invar m"
  by (simp add: bt_invar_def)

lemma bt_invar_distinct: "bt_invar m \<Longrightarrow> distinct (bt_keys m)"
  by (simp add: bt_invar_def strict_sorted_iff)

lemma bt_get_iff_mem: "bt_invar m \<Longrightarrow> bt_get m k = Some v \<longleftrightarrow> (k, v) \<in> set m"
  using bt_invar_distinct [of m] by (auto simp: bt_get_def bt_keys_def)

lemma bt_values_iff: "bt_invar m \<Longrightarrow> v \<in> set (bt_values m) \<longleftrightarrow> (\<exists>k. bt_get m k = Some v)"
  by (auto simp: bt_values_def bt_get_iff_mem image_iff) force

lemma bt_get_push [simp, bt_simps]:
  "bt_get (bt_push k v m) k' =
     (if k' = k then Some (case bt_get m k of None \<Rightarrow> [v] | Some vs \<Rightarrow> vs @ [v])
      else bt_get m k')"
  by (simp add: bt_push_def)

lemma bt_invar_push [simp, intro]: "bt_invar m \<Longrightarrow> bt_invar (bt_push k v m)"
  by (simp add: bt_push_def)

lemma bt_update_all_cong:
  assumes "bt_invar m" and "\<And>k v. bt_get m k = Some v \<Longrightarrow> f k v = g k v"
  shows "bt_update_all f m = bt_update_all g m"
  using assms by (auto simp: bt_update_all_def bt_get_iff_mem)

lemma bt_update_all_comp [simp]:
  "bt_update_all f (bt_update_all g m) = bt_update_all (\<lambda>k v. f k (g k v)) m"
  by (simp add: bt_update_all_def case_prod_beta comp_def)

lemma bt_update_all_ident [simp]: "bt_update_all (\<lambda>k v. v) m = m"
  by (simp add: bt_update_all_def)

lemma bt_modify_ident: "(\<And>v. bt_get m k = Some v \<Longrightarrow> f v = v) \<Longrightarrow> bt_invar m \<Longrightarrow> bt_modify k f m = m"
  by (auto simp: bt_modify_def bt_update_all_def bt_get_iff_mem intro!: map_idI)

section \<open>Interfaces\<close>

text \<open>What the state machine relies on in a \<open>BTreeMap\<close>. A table is \<open>keyed\<close> when every
  record carries its own key, and \<open>refers\<close> to another when every record's reference is a
  key of it; both survive the operations that keep identifiers and references.\<close>

locale ordered_map =
  fixes get :: "'m \<Rightarrow> 'k \<Rightarrow> 'v option"
    and ins :: "'k \<Rightarrow> 'v \<Rightarrow> 'm \<Rightarrow> 'm"
    and upd :: "('k \<Rightarrow> 'v \<Rightarrow> 'v) \<Rightarrow> 'm \<Rightarrow> 'm"
    and invar :: "'m \<Rightarrow> bool"
  assumes get_ins: "get (ins k v m) k' = (if k' = k then Some v else get m k')"
    and get_upd: "get (upd f m) k = map_option (f k) (get m k)"
    and invar_ins: "invar m \<Longrightarrow> invar (ins k v m)"
    and invar_upd: "invar m \<Longrightarrow> invar (upd f m)"
begin

definition keyed :: "('v \<Rightarrow> 'k) \<Rightarrow> 'm \<Rightarrow> bool" where
  "keyed ident m \<longleftrightarrow> (\<forall>k v. get m k = Some v \<longrightarrow> ident v = k)"

definition refers :: "('v \<Rightarrow> 'r) \<Rightarrow> 'r set \<Rightarrow> 'm \<Rightarrow> bool" where
  "refers ref R m \<longleftrightarrow> (\<forall>k v. get m k = Some v \<longrightarrow> ref v \<in> R)"

lemma keyedD: "keyed ident m \<Longrightarrow> get m k = Some v \<Longrightarrow> ident v = k"
  by (simp add: keyed_def)

lemma refersD: "refers ref R m \<Longrightarrow> get m k = Some v \<Longrightarrow> ref v \<in> R"
  by (simp add: refers_def)

lemma keyed_ins: "keyed ident m \<Longrightarrow> ident v = k \<Longrightarrow> keyed ident (ins k v m)"
  by (simp add: keyed_def get_ins)

lemma keyed_upd: "keyed ident m \<Longrightarrow> (\<And>k v. ident (f k v) = ident v) \<Longrightarrow> keyed ident (upd f m)"
  by (auto simp: keyed_def get_upd)

lemma refers_ins: "refers ref R m \<Longrightarrow> ref v \<in> R \<Longrightarrow> refers ref R (ins k v m)"
  by (simp add: refers_def get_ins)

lemma refers_upd: "refers ref R m \<Longrightarrow> (\<And>k v. ref (f k v) = ref v) \<Longrightarrow> refers ref R (upd f m)"
  by (auto simp: refers_def get_upd)

lemma refers_mono: "refers ref R m \<Longrightarrow> R \<subseteq> R' \<Longrightarrow> refers ref R' m"
  by (auto simp: refers_def)

end

text \<open>A component driven by commands: a partial step and an invariant that every accepted
  step by a legal command keeps and that rules panics out.\<close>

locale command_machine =
  fixes step :: "'s \<Rightarrow> 'c \<Rightarrow> ('e, 's) result"
    and legal :: "'s \<Rightarrow> 'c \<Rightarrow> bool"
    and inv :: "'s \<Rightarrow> bool"
  assumes step_inv: "inv s \<Longrightarrow> legal s c \<Longrightarrow> step s c = Ok s' \<Longrightarrow> inv s'"
    and step_no_panic: "inv s \<Longrightarrow> legal s c \<Longrightarrow> step s c \<noteq> Panic"
begin

inductive reaches :: "'s \<Rightarrow> 's \<Rightarrow> bool" where
  refl: "reaches s s"
| step: "reaches s t \<Longrightarrow> legal t c \<Longrightarrow> step t c = Ok u \<Longrightarrow> reaches s u"

lemma reaches_inv: "reaches s t \<Longrightarrow> inv s \<Longrightarrow> inv t"
  by (induction rule: reaches.induct) (auto intro: step_inv)

lemma reaches_no_panic: "reaches s t \<Longrightarrow> inv s \<Longrightarrow> legal t c \<Longrightarrow> step t c \<noteq> Panic"
  by (rule step_no_panic) (rule reaches_inv)

lemma reaches_trans: "reaches t u \<Longrightarrow> reaches s t \<Longrightarrow> reaches s u"
  by (induction rule: reaches.induct) (auto intro: reaches.step)

text \<open>A reflexive, transitive relation that every step respects relates the ends of every run.\<close>

lemma reaches_respects:
  assumes "reaches s t" and "inv s"
    and "\<And>s. R s s" and "\<And>s t u. R s t \<Longrightarrow> R t u \<Longrightarrow> R s u"
    and "\<And>s c s'. inv s \<Longrightarrow> legal s c \<Longrightarrow> step s c = Ok s' \<Longrightarrow> R s s'"
  shows "R s t"
  using assms(1,2)
proof (induction rule: reaches.induct)
  case (refl s)
  show ?case by (rule assms(3))
next
  case (step s t c u)
  then have "R s t" and "inv t" by (auto intro: reaches_inv)
  then show ?case using assms(4,5) step.hyps by blast
qed

end

interpretation bt: ordered_map bt_get bt_insert bt_update_all bt_invar
  by unfold_locales auto

end
