(* ===== verification/Run_Model.thy ===== *)
theory Run_Model
  imports Prelude
begin

text \<open>
  The durable run, task and attempt model of \<open>tetonic-domain\<close>: \<open>run.rs\<close>, \<open>failure.rs\<close>,
  \<open>suspension.rs\<close>, \<open>identity.rs\<close>, \<open>classify.rs\<close>, \<open>workspace.rs\<close> and \<open>execution.rs\<close>, as far as the
  run supervisor uses them. Every struct is a record whose fields carry a prefix (Isabelle's
  field names are global), every enum a datatype whose constructors carry the enum's name
  where two enums share a variant name. Identifiers (\<open>TaskId\<close>, \<open>AttemptId\<close>, \<dots>) are newtypes
  around \<open>String\<close>; strings are UTF-8 byte sequences, so \<open>length\<close> is \<open>len()\<close> and the
  lexicographic order is the order of \<open>BTreeMap\<close> keys. \<open>f64\<close> values are kept as their bit
  patterns, the view \<open>RetryPolicy\<close>'s own equality takes.
\<close>

type_synonym task_id = string
type_synonym attempt_id = string
type_synonym run_id = string
type_synonym session_id = string
type_synonym lease_id = string
type_synonym transaction_id = string
type_synonym worker_id = string
type_synonym timestamp = int
type_synonym f64_bits = "64 word"

section \<open>States\<close>

datatype run_state =
  RunCreated | RunActive | RunCanceling | RunCanceled | RunFailed | RunSucceeded
| RunRecoveryRequired

datatype task_state =
  TaskCreated | TaskBlocked | TaskReady | TaskLeased | TaskRunning | TaskParked
| TaskSucceeded | TaskFailed | TaskCanceled | TaskSkipped

datatype attempt_state =
  AttemptCreated | AttemptLeased | AttemptStarting | AttemptRunning | AttemptSuspended
| AttemptSucceeded | AttemptFailed | AttemptTimedOut | AttemptLeaseExpired | AttemptCanceled
| AttemptSuperseded

datatype dependency_policy =
  RequireSuccess | AllowPartial | ContinueOnFailure | FallbackTask task_id

record task_dependency =
  depends_on :: task_id
  dep_policy :: dependency_policy

text \<open>\<open>derive(Debug)\<close> prints a unit variant as its name; error messages contain it.\<close>

fun run_state_debug :: "run_state \<Rightarrow> string" where
  "run_state_debug RunCreated = ''Created''"
| "run_state_debug RunActive = ''Active''"
| "run_state_debug RunCanceling = ''Canceling''"
| "run_state_debug RunCanceled = ''Canceled''"
| "run_state_debug RunFailed = ''Failed''"
| "run_state_debug RunSucceeded = ''Succeeded''"
| "run_state_debug RunRecoveryRequired = ''RecoveryRequired''"

fun task_state_debug :: "task_state \<Rightarrow> string" where
  "task_state_debug TaskCreated = ''Created''"
| "task_state_debug TaskBlocked = ''Blocked''"
| "task_state_debug TaskReady = ''Ready''"
| "task_state_debug TaskLeased = ''Leased''"
| "task_state_debug TaskRunning = ''Running''"
| "task_state_debug TaskParked = ''Parked''"
| "task_state_debug TaskSucceeded = ''Succeeded''"
| "task_state_debug TaskFailed = ''Failed''"
| "task_state_debug TaskCanceled = ''Canceled''"
| "task_state_debug TaskSkipped = ''Skipped''"

fun attempt_state_debug :: "attempt_state \<Rightarrow> string" where
  "attempt_state_debug AttemptCreated = ''Created''"
| "attempt_state_debug AttemptLeased = ''Leased''"
| "attempt_state_debug AttemptStarting = ''Starting''"
| "attempt_state_debug AttemptRunning = ''Running''"
| "attempt_state_debug AttemptSuspended = ''Suspended''"
| "attempt_state_debug AttemptSucceeded = ''Succeeded''"
| "attempt_state_debug AttemptFailed = ''Failed''"
| "attempt_state_debug AttemptTimedOut = ''TimedOut''"
| "attempt_state_debug AttemptLeaseExpired = ''LeaseExpired''"
| "attempt_state_debug AttemptCanceled = ''Canceled''"
| "attempt_state_debug AttemptSuperseded = ''Superseded''"

section \<open>Data classes\<close>

datatype data_class = Public | RepositorySource | SensitiveSource | Secret

fun data_class_sensitivity_rank :: "data_class \<Rightarrow> nat" where
  "data_class_sensitivity_rank Public = 0"
| "data_class_sensitivity_rank RepositorySource = 1"
| "data_class_sensitivity_rank SensitiveSource = 2"
| "data_class_sensitivity_rank Secret = 3"

fun data_class_debug :: "data_class \<Rightarrow> string" where
  "data_class_debug Public = ''Public''"
| "data_class_debug RepositorySource = ''RepositorySource''"
| "data_class_debug SensitiveSource = ''SensitiveSource''"
| "data_class_debug Secret = ''Secret''"

text \<open>\<open>derive(PartialOrd, Ord)\<close>: the order of declaration.\<close>

lemma data_class_rank_inj: "data_class_sensitivity_rank a = data_class_sensitivity_rank b \<Longrightarrow> a = b"
  by (cases a; cases b) auto

instantiation data_class :: linorder
begin

definition less_eq_data_class :: "data_class \<Rightarrow> data_class \<Rightarrow> bool" where
  "a \<le> b \<longleftrightarrow> data_class_sensitivity_rank a \<le> data_class_sensitivity_rank b"

definition less_data_class :: "data_class \<Rightarrow> data_class \<Rightarrow> bool" where
  "a < b \<longleftrightarrow> data_class_sensitivity_rank a < data_class_sensitivity_rank b"

instance
  by standard
    (auto simp: less_eq_data_class_def less_data_class_def intro: data_class_rank_inj)

end

definition can_downgrade_to :: "data_class \<Rightarrow> data_class \<Rightarrow> bool" where
  "can_downgrade_to self other \<longleftrightarrow> self \<le> other"

section \<open>Failures, leases, retries (\<open>failure.rs\<close>)\<close>

datatype failure_class =
  FcTransientTransport | FcWorkerUnavailable | FcLeaseExpired | FcTimedOut
| FcResourceExhausted | FcInvalidInput | FcPolicyDenied | FcVerificationFailed
| FcSandboxViolation | FcCanceled | FcPermanentExecutionFailure | FcInternalInvariantViolation

definition is_retryable_by_default :: "failure_class \<Rightarrow> bool" where
  "is_retryable_by_default c \<longleftrightarrow>
     c \<in> {FcTransientTransport, FcWorkerUnavailable, FcTimedOut, FcResourceExhausted}"

definition is_nonretryable_by_default :: "failure_class \<Rightarrow> bool" where
  "is_nonretryable_by_default c \<longleftrightarrow>
     c \<in> {FcInvalidInput, FcPolicyDenied, FcInternalInvariantViolation, FcSandboxViolation,
          FcPermanentExecutionFailure, FcCanceled}"

record retry_policy =
  rp_max_attempts :: u32
  rp_retryable_classes :: "failure_class list"
  rp_initial_delay_ms :: u64
  rp_backoff_factor :: f64_bits
  rp_max_delay_ms :: u64
  rp_jitter :: bool
  rp_require_different_target :: bool
  rp_refresh_workspace :: bool

text \<open>The default backoff factor \<open>2.0\<close> has the bit pattern \<open>0x4000000000000000\<close>.\<close>

definition default_retry_policy :: retry_policy where
  "default_retry_policy = \<lparr>rp_max_attempts = 3,
     rp_retryable_classes =
       [FcTransientTransport, FcWorkerUnavailable, FcLeaseExpired, FcTimedOut],
     rp_initial_delay_ms = 1000, rp_backoff_factor = 0x4000000000000000,
     rp_max_delay_ms = 60000, rp_jitter = True, rp_require_different_target = False,
     rp_refresh_workspace = False\<rparr>"

definition should_retry :: "retry_policy \<Rightarrow> failure_class \<Rightarrow> u32 \<Rightarrow> bool" where
  "should_retry p c attempt_count =
     (if is_nonretryable_by_default c then False
      else if rp_max_attempts p \<le> attempt_count then False
      else c \<in> set (rp_retryable_classes p) \<or> is_retryable_by_default c)"

text \<open>The \<open>f64\<close> expression
  \<open>(initial as f64 * factor.powi(attempt_count as i32 - 1)).min(max as f64) as u64\<close>
  is a parameter: its arguments are the initial delay, the factor's bits, the cap and the
  attempt count.\<close>

type_synonym backoff_fn = "u64 \<Rightarrow> f64_bits \<Rightarrow> u64 \<Rightarrow> u32 \<Rightarrow> u64"

definition next_delay_ms :: "backoff_fn \<Rightarrow> retry_policy \<Rightarrow> u32 \<Rightarrow> u64" where
  "next_delay_ms backoff p attempt_count =
     (let capped = backoff (rp_initial_delay_ms p) (rp_backoff_factor p) (rp_max_delay_ms p)
                     attempt_count
      in if rp_jitter p
         then capped div 2 + (capped div 2) * (ucast attempt_count mod 2)
         else capped)"

datatype execution_target_id = Local | Worker worker_id

fun as_label :: "execution_target_id \<Rightarrow> string" where
  "as_label Local = ''local''"
| "as_label (Worker w) = w"

definition from_label :: "string \<Rightarrow> execution_target_id" where
  "from_label raw = (if raw = ''local'' then Local else Worker raw)"

fun target_worker_id :: "execution_target_id \<Rightarrow> worker_id option" where
  "target_worker_id Local = None"
| "target_worker_id (Worker w) = Some w"

record attempt_lease =
  al_lease_id :: lease_id
  al_attempt_id :: attempt_id
  al_lease_epoch :: u64
  al_holder :: execution_target_id
  al_issued_at :: u64
  al_expires_at :: u64
  al_heartbeat_interval_secs :: u64
  al_last_heartbeat_sequence :: u64

record lease_proof =
  lp_lease_id :: lease_id
  lp_lease_epoch :: u64
  lp_holder :: execution_target_id

record resource_usage =
  ru_cpu_millis :: "u64 option"
  ru_memory_bytes :: "u64 option"

record heartbeat_report =
  hr_attempt_state :: string
  hr_progress_marker :: "string option"
  hr_resource_usage :: "resource_usage option"
  hr_output_size_bytes :: "u64 option"
  hr_lease_renewal_requested :: bool
  hr_executor_health :: "string option"

record run_deadlines =
  rd_queue_deadline :: "u64 option"
  rd_run_deadline :: "u64 option"
  rd_lease_duration_secs :: "u64 option"
  rd_attempt_execution_timeout_secs :: "u64 option"
  rd_process_timeout_secs :: "u64 option"
  rd_model_request_timeout_secs :: "u64 option"

definition default_run_deadlines :: run_deadlines where
  "default_run_deadlines = \<lparr>rd_queue_deadline = None, rd_run_deadline = None,
     rd_lease_duration_secs = None, rd_attempt_execution_timeout_secs = None,
     rd_process_timeout_secs = None, rd_model_request_timeout_secs = None\<rparr>"

datatype timeout_kind =
  TkQueue | TkLease | TkAttemptExecution | TkTask | TkRun | TkProcess | TkModelRequest

fun timeout_kind_debug :: "timeout_kind \<Rightarrow> string" where
  "timeout_kind_debug TkQueue = ''Queue''"
| "timeout_kind_debug TkLease = ''Lease''"
| "timeout_kind_debug TkAttemptExecution = ''AttemptExecution''"
| "timeout_kind_debug TkTask = ''Task''"
| "timeout_kind_debug TkRun = ''Run''"
| "timeout_kind_debug TkProcess = ''Process''"
| "timeout_kind_debug TkModelRequest = ''ModelRequest''"

record speculation_config =
  sc_allowed :: bool
  sc_max_simultaneous_attempts :: u32
  sc_require_result_agreement :: bool

definition default_speculation_config :: speculation_config where
  "default_speculation_config = \<lparr>sc_allowed = False, sc_max_simultaneous_attempts = 1,
     sc_require_result_agreement = False\<rparr>"

record cancellation_record =
  can_session_canceled :: bool
  can_run_canceled :: bool
  can_canceled_at :: "u64 option"
  can_reason :: "string option"

definition default_cancellation_record :: cancellation_record where
  "default_cancellation_record = \<lparr>can_session_canceled = False, can_run_canceled = False,
     can_canceled_at = None, can_reason = None\<rparr>"

record side_effect_commit_record =
  se_operation_key :: string
  se_committed :: bool
  se_transaction_id :: "transaction_id option"
  se_committed_at :: u64

record task_retry_state =
  trs_attempt_count :: u32
  trs_next_retry_at :: "u64 option"
  trs_last_failure_class :: "failure_class option"
  trs_last_failure_reason :: "string option"

definition default_task_retry_state :: task_retry_state where
  "default_task_retry_state = \<lparr>trs_attempt_count = 0, trs_next_retry_at = None,
     trs_last_failure_class = None, trs_last_failure_reason = None\<rparr>"

record verification_remediation =
  vr_retry_with_revised_input :: bool
  vr_spawn_remediation_task :: bool
  vr_require_different_specialist :: bool

definition default_verification_remediation :: verification_remediation where
  "default_verification_remediation = \<lparr>vr_retry_with_revised_input = False,
     vr_spawn_remediation_task = False, vr_require_different_specialist = False\<rparr>"

section \<open>Workspace versions and job specifications\<close>

datatype ws_version_scheme = SchemeGit | SchemeManifest

record workspace_version =
  wv_repository_id :: string
  wv_version_scheme :: ws_version_scheme
  wv_git_head :: "string option"
  wv_dirty_state_digest :: string
  wv_tracked_state_digest :: string
  wv_relevant_path_digests :: "(string, string) btree"
  wv_index_generation :: "u64 option"

text \<open>\<open>version_scheme as u8\<close> is the variant's index, printed in decimal.\<close>

definition state_fingerprint :: "workspace_version \<Rightarrow> string" where
  "state_fingerprint v =
     wv_repository_id v @ '':'' @
     (case wv_version_scheme v of SchemeGit \<Rightarrow> ''0'' | SchemeManifest \<Rightarrow> ''1'') @ '':'' @
     wv_dirty_state_digest v @ '':'' @ wv_tracked_state_digest v"

record agent_job_spec =
  js_identity_id :: string
  js_definition_digest :: string
  js_input_digest :: string
  js_capability_bindings :: "string list"
  js_artifact_bindings :: "string list"
  js_recovery_id :: string

section \<open>Task bindings (\<open>run.rs\<close>)\<close>

record artifact_ref =
  art_artifact_id :: string
  art_digest :: string

record resource_requirements =
  rr_cpu_millis :: "u64 option"
  rr_memory_bytes :: "u64 option"

record verification_policy =
  vp_required :: bool
  vp_command :: "string option"
  vp_remediation :: verification_remediation

record execution_scope =
  es_principal_id :: string
  es_organization_id :: string
  es_information_context_id :: string

record activation_binding =
  ab_request_id :: string
  ab_request_digest :: string
  ab_audit_session_id :: string

record delegated_task_binding =
  dt_parent_attempt :: attempt_id
  dt_parent_lease :: "lease_proof option"
  dt_activation :: activation_binding

record task_input_binding =
  tb_activation :: "activation_binding option"
  tb_delegation :: "delegated_task_binding option"
  tb_execution_scope :: "execution_scope option"
  tb_execution_grant_id :: "string option"
  tb_job_spec :: "agent_job_spec option"
  tb_job_role :: "string option"
  tb_task_definition_version :: u64
  tb_workspace_version :: "workspace_version option"
  tb_input_artifacts :: "artifact_ref list"
  tb_dependencies :: "task_dependency list"
  tb_data_class :: data_class
  tb_required_capabilities :: "string list"
  tb_resource_requirements :: resource_requirements
  tb_deadline :: "u64 option"
  tb_retry_policy :: retry_policy
  tb_verification_policy :: verification_policy

definition default_task_input_binding :: task_input_binding where
  "default_task_input_binding = \<lparr>tb_activation = None, tb_delegation = None,
     tb_execution_scope = None, tb_execution_grant_id = None, tb_job_spec = None,
     tb_job_role = None, tb_task_definition_version = 1, tb_workspace_version = None,
     tb_input_artifacts = [], tb_dependencies = [], tb_data_class = RepositorySource,
     tb_required_capabilities = [],
     tb_resource_requirements = \<lparr>rr_cpu_millis = None, rr_memory_bytes = None\<rparr>,
     tb_deadline = None, tb_retry_policy = default_retry_policy,
     tb_verification_policy = \<lparr>vp_required = False, vp_command = None,
       vp_remediation = default_verification_remediation\<rparr>\<rparr>"

section \<open>Suspensions (\<open>suspension.rs\<close>)\<close>

datatype suspension_reason = HumanInput

record attempt_suspension =
  sus_checkpoint :: artifact_ref
  sus_reason :: suspension_reason
  sus_suspended_at :: u64
  sus_remaining_seconds :: u64

section \<open>Commands (\<open>run.rs\<close>)\<close>

record trace_context =
  tc_trace_id :: string
  tc_span_id :: string
  tc_run_id :: "run_id option"
  tc_task_id :: "task_id option"
  tc_attempt_id :: "attempt_id option"
  tc_scheduler_decision_id :: "string option"

record command_envelope =
  env_command_id :: string
  env_expected_sequence :: "u64 option"
  env_trace :: trace_context
  env_actor :: string
  env_timestamp :: u64
  env_workspace_version :: "workspace_version option"
  env_idempotency_key :: "string option"

record create_run =
  crun_envelope :: command_envelope
  crun_session_id :: "session_id option"
  crun_run_id :: run_id
  crun_root_task_id :: task_id
  crun_root_binding :: task_input_binding
  crun_speculation :: "speculation_config option"
  crun_job_spec :: "agent_job_spec option"

record start_run =
  srun_envelope :: command_envelope
  srun_run_id :: run_id

record add_task =
  at_envelope :: command_envelope
  at_run_id :: run_id
  at_task_id :: task_id
  at_binding :: task_input_binding

record add_dependency =
  ad_envelope :: command_envelope
  ad_run_id :: run_id
  ad_task_id :: task_id
  ad_depends_on :: task_id
  ad_policy :: dependency_policy

record mark_task_ready =
  mr_envelope :: command_envelope
  mr_run_id :: run_id
  mr_task_id :: task_id

record create_attempt =
  ca_envelope :: command_envelope
  ca_run_id :: run_id
  ca_task_id :: task_id
  ca_attempt_id :: attempt_id
  ca_delivery_key :: "string option"

record lease_attempt =
  la_envelope :: command_envelope
  la_run_id :: run_id
  la_attempt_id :: attempt_id
  la_lease_id :: lease_id
  la_lease_epoch :: u64
  la_holder :: execution_target_id
  la_issued_at :: u64
  la_expires_at :: u64
  la_heartbeat_interval_secs :: u64

record start_attempt =
  sa_envelope :: command_envelope
  sa_run_id :: run_id
  sa_attempt_id :: attempt_id
  sa_lease_proof :: lease_proof

record suspend_attempt =
  sus_envelope :: command_envelope
  sus_run_id :: run_id
  sus_attempt_id :: attempt_id
  sus_lease_proof :: lease_proof
  sus_cmd_checkpoint :: artifact_ref
  sus_cmd_reason :: suspension_reason

record resume_attempt =
  res_envelope :: command_envelope
  res_run_id :: run_id
  res_attempt_id :: attempt_id
  res_checkpoint :: artifact_ref
  res_lease_proof :: lease_proof
  res_holder :: execution_target_id

record record_heartbeat =
  hb_envelope :: command_envelope
  hb_run_id :: run_id
  hb_attempt_id :: attempt_id
  hb_lease_proof :: lease_proof
  hb_heartbeat_sequence :: u64
  hb_report :: heartbeat_report
  hb_renewed_expires_at :: "u64 option"

record complete_attempt =
  comp_envelope :: command_envelope
  comp_run_id :: run_id
  comp_attempt_id :: attempt_id
  comp_task_version :: u64
  comp_workspace_version :: "workspace_version option"
  comp_input_digest :: string
  comp_result_digest :: string
  comp_lease_proof :: lease_proof

record claim_finalization =
  cf_envelope :: command_envelope
  cf_run_id :: run_id
  cf_attempt_id :: attempt_id
  cf_task_id :: task_id
  cf_task_version :: u64
  cf_input_digest :: string
  cf_lease_proof :: lease_proof

record fail_attempt =
  fa_envelope :: command_envelope
  fa_run_id :: run_id
  fa_attempt_id :: attempt_id
  fa_failure_class :: failure_class
  fa_reason :: string
  fa_lease_proof :: "lease_proof option"
  fa_timeout_kind :: "timeout_kind option"

record expire_lease =
  el_envelope :: command_envelope
  el_run_id :: run_id
  el_attempt_id :: attempt_id
  el_expired_at :: u64

record record_side_effect_commit_cmd =
  rse_envelope :: command_envelope
  rse_run_id :: run_id
  rse_task_id :: task_id
  rse_operation_key :: string
  rse_transaction_id :: "transaction_id option"
  rse_committed_at :: u64

record cancel_task =
  ct_envelope :: command_envelope
  ct_run_id :: run_id
  ct_task_id :: task_id

record cancel_run =
  crn_envelope :: command_envelope
  crn_run_id :: run_id

record accept_artifact =
  aa_envelope :: command_envelope
  aa_run_id :: run_id
  aa_task_id :: task_id
  aa_attempt_id :: attempt_id
  aa_artifact :: artifact_ref

record reject_artifact =
  ra_envelope :: command_envelope
  ra_run_id :: run_id
  ra_task_id :: task_id
  ra_attempt_id :: attempt_id
  ra_artifact_id :: string
  ra_reason :: string

datatype run_finish_outcome = OutcomeSucceeded | OutcomeFailed | OutcomeCanceled

record finish_run =
  fr_envelope :: command_envelope
  fr_run_id :: run_id
  fr_outcome :: run_finish_outcome

datatype run_command =
  CreateRun create_run
| StartRun start_run
| AddTask add_task
| AddDependency add_dependency
| MarkTaskReady mark_task_ready
| CreateAttempt create_attempt
| LeaseAttempt lease_attempt
| StartAttempt start_attempt
| ClaimExecution start_attempt
| SuspendAttempt suspend_attempt
| ResumeAttempt resume_attempt
| RecordHeartbeat record_heartbeat
| ClaimFinalization claim_finalization
| CompleteAttempt complete_attempt
| FailAttempt fail_attempt
| CancelTask cancel_task
| CancelRun cancel_run
| AcceptArtifact accept_artifact
| RejectArtifact reject_artifact
| RecordSideEffectCommit record_side_effect_commit_cmd
| ExpireLease expire_lease
| FinishRun finish_run
| RecordAttemptQuiescence start_attempt

fun command_envelope_of :: "run_command \<Rightarrow> command_envelope" where
  "command_envelope_of (CreateRun c) = crun_envelope c"
| "command_envelope_of (StartRun c) = srun_envelope c"
| "command_envelope_of (AddTask c) = at_envelope c"
| "command_envelope_of (AddDependency c) = ad_envelope c"
| "command_envelope_of (MarkTaskReady c) = mr_envelope c"
| "command_envelope_of (CreateAttempt c) = ca_envelope c"
| "command_envelope_of (LeaseAttempt c) = la_envelope c"
| "command_envelope_of (StartAttempt c) = sa_envelope c"
| "command_envelope_of (ClaimExecution c) = sa_envelope c"
| "command_envelope_of (SuspendAttempt c) = sus_envelope c"
| "command_envelope_of (ResumeAttempt c) = res_envelope c"
| "command_envelope_of (RecordHeartbeat c) = hb_envelope c"
| "command_envelope_of (ClaimFinalization c) = cf_envelope c"
| "command_envelope_of (CompleteAttempt c) = comp_envelope c"
| "command_envelope_of (FailAttempt c) = fa_envelope c"
| "command_envelope_of (CancelTask c) = ct_envelope c"
| "command_envelope_of (CancelRun c) = crn_envelope c"
| "command_envelope_of (AcceptArtifact c) = aa_envelope c"
| "command_envelope_of (RejectArtifact c) = ra_envelope c"
| "command_envelope_of (RecordSideEffectCommit c) = rse_envelope c"
| "command_envelope_of (ExpireLease c) = el_envelope c"
| "command_envelope_of (FinishRun c) = fr_envelope c"
| "command_envelope_of (RecordAttemptQuiescence c) = sa_envelope c"

fun command_run_id :: "run_command \<Rightarrow> run_id option" where
  "command_run_id (CreateRun c) = Some (crun_run_id c)"
| "command_run_id (StartRun c) = Some (srun_run_id c)"
| "command_run_id (AddTask c) = Some (at_run_id c)"
| "command_run_id (AddDependency c) = Some (ad_run_id c)"
| "command_run_id (MarkTaskReady c) = Some (mr_run_id c)"
| "command_run_id (CreateAttempt c) = Some (ca_run_id c)"
| "command_run_id (LeaseAttempt c) = Some (la_run_id c)"
| "command_run_id (StartAttempt c) = Some (sa_run_id c)"
| "command_run_id (ClaimExecution c) = Some (sa_run_id c)"
| "command_run_id (SuspendAttempt c) = Some (sus_run_id c)"
| "command_run_id (ResumeAttempt c) = Some (res_run_id c)"
| "command_run_id (RecordHeartbeat c) = Some (hb_run_id c)"
| "command_run_id (ClaimFinalization c) = Some (cf_run_id c)"
| "command_run_id (CompleteAttempt c) = Some (comp_run_id c)"
| "command_run_id (FailAttempt c) = Some (fa_run_id c)"
| "command_run_id (CancelTask c) = Some (ct_run_id c)"
| "command_run_id (CancelRun c) = Some (crn_run_id c)"
| "command_run_id (AcceptArtifact c) = Some (aa_run_id c)"
| "command_run_id (RejectArtifact c) = Some (ra_run_id c)"
| "command_run_id (RecordSideEffectCommit c) = Some (rse_run_id c)"
| "command_run_id (ExpireLease c) = Some (el_run_id c)"
| "command_run_id (FinishRun c) = Some (fr_run_id c)"
| "command_run_id (RecordAttemptQuiescence c) = Some (sa_run_id c)"

section \<open>Records and snapshots (\<open>run.rs\<close>)\<close>

record task_record =
  tr_task_id :: task_id
  tr_state :: task_state
  tr_binding :: task_input_binding
  tr_accepted_artifact :: "artifact_ref option"
  tr_active_attempt :: "attempt_id option"
  tr_winning_attempt :: "attempt_id option"
  tr_finalization_claim :: "attempt_id option"
  tr_completed_version :: "u64 option"
  tr_retry :: task_retry_state
  tr_side_effect_keys :: "string list"

record attempt_record =
  ar_suspension :: "attempt_suspension option"
  ar_execution_quiesced :: bool
  ar_execution_claimed :: bool
  ar_attempt_id :: attempt_id
  ar_task_id :: task_id
  ar_state :: attempt_state
  ar_task_version :: u64
  ar_workspace_version :: "workspace_version option"
  ar_input_digest :: string
  ar_result_digest :: "string option"
  ar_delivery_key :: "string option"
  ar_lease :: "attempt_lease option"
  ar_failure_class :: "failure_class option"
  ar_failure_reason :: "string option"
  ar_attempt_number :: u32

text \<open>\<open>serde_json::Value\<close>; a number is a \<open>u64\<close>, a negative \<open>i64\<close> or an \<open>f64\<close>.\<close>

datatype json_number = PosInt u64 | NegInt u64 | Float f64_bits

datatype json =
  JNull | JBool bool | JNumber json_number | JString string | JArray "json list"
| JObject "(string \<times> json) list"

datatype event_type =
  EvRunCreated | EvTaskAdded | EvDependencyAdded | EvTaskTransitioned | EvAttemptLeased
| EvAttemptCompleted | EvCancellationRequested | EvArtifactAccepted | EvApprovalRequested
| EvApprovalResolved | EvWorkspaceTransactionCommitted | EvOther string

record run_event_envelope =
  ev_event_id :: string
  ev_run_id :: run_id
  ev_sequence :: u64
  ev_event_type :: event_type
  ev_schema_version :: u32
  ev_command_id :: "string option"
  ev_causation_id :: "string option"
  ev_correlation_id :: "string option"
  ev_actor :: string
  ev_occurred_at :: timestamp
  ev_recorded_at :: timestamp
  ev_data_class :: data_class
  ev_payload_digest :: string
  ev_payload :: json

datatype replay_gap_reason = OlderThanFloor | GapCorruption

record replay_gap =
  rg_requested_after :: u64
  rg_earliest_available :: u64
  rg_snapshot_sequence :: "u64 option"
  rg_reason :: replay_gap_reason

record storage_limits =
  sl_global_quota_bytes :: u64
  sl_project_quota_bytes :: u64
  sl_run_quota_bytes :: u64
  sl_artifact_quota_bytes :: u64
  sl_trace_quota_bytes :: u64
  sl_reserved_recovery_bytes :: u64

definition default_storage_limits :: storage_limits where
  "default_storage_limits = \<lparr>sl_global_quota_bytes = 10 * 1024 * 1024 * 1024,
     sl_project_quota_bytes = 5 * 1024 * 1024 * 1024,
     sl_run_quota_bytes = 500 * 1024 * 1024,
     sl_artifact_quota_bytes = 1024 * 1024 * 1024,
     sl_trace_quota_bytes = 500 * 1024 * 1024,
     sl_reserved_recovery_bytes = 50 * 1024 * 1024\<rparr>"

record run_snapshot =
  rs_run_id :: run_id
  rs_session_id :: "session_id option"
  rs_state :: run_state
  rs_sequence :: u64
  rs_workspace_version :: "workspace_version option"
  rs_tasks :: "(task_id, task_record) btree"
  rs_attempts :: "(attempt_id, attempt_record) btree"
  rs_dependencies :: "(task_id, task_dependency list) btree"
  rs_events :: "run_event_envelope list"
  rs_delivery_index :: "(string, attempt_id) btree"
  rs_side_effect_commits :: "(string, side_effect_commit_record) btree"
  rs_deadlines :: run_deadlines
  rs_cancellation :: cancellation_record
  rs_speculation :: speculation_config
  rs_next_lease_epoch :: u64
  rs_job_spec :: "agent_job_spec option"

record run_command_result =
  rcr_run_id :: run_id
  rcr_sequence :: u64
  rcr_idempotent_replay :: bool
  rcr_snapshot :: run_snapshot

datatype run_supervisor_error =
  OrganizationCapacityExceeded | TeamCapacityExceeded | PrincipalCapacityExceeded
| ExecutionCapacityExceeded
| RunNotFound string | TaskNotFound string | AttemptNotFound string
| StaleSequence u64 u64
| InvalidTransition string
| CycleDetected | DependencyLocked
| RunNotAccepting run_state
| RecoveryRequired
| Conflict string
| StaleLeaseEpoch u64 u64
| StaleResult string
| DuplicateDelivery string
| RetryLimitExceeded
| SideEffectAlreadyCommitted string
| DeadlineExceeded timeout_kind
| Persistence string | Corruption string | StorageLimitExceeded string

definition redacts_detail :: "run_supervisor_error \<Rightarrow> bool" where
  "redacts_detail e =
     (case e of Persistence _ \<Rightarrow> True | Corruption _ \<Rightarrow> True | StorageLimitExceeded _ \<Rightarrow> True
      | _ \<Rightarrow> False)"

fun run_supervisor_error_display :: "run_supervisor_error \<Rightarrow> string" where
  "run_supervisor_error_display OrganizationCapacityExceeded =
     ''organization execution capacity is occupied; retry after admitted work quiesces''"
| "run_supervisor_error_display TeamCapacityExceeded =
     ''team execution capacity is occupied; retry after admitted work quiesces''"
| "run_supervisor_error_display PrincipalCapacityExceeded =
     ''initiating principal execution capacity is occupied; retry after admitted work quiesces''"
| "run_supervisor_error_display ExecutionCapacityExceeded =
     ''registered agent already has admitted work; retry after it has quiesced''"
| "run_supervisor_error_display (RunNotFound r) = ''run not found: '' @ r"
| "run_supervisor_error_display (TaskNotFound t) = ''task not found: '' @ t"
| "run_supervisor_error_display (AttemptNotFound a) = ''attempt not found: '' @ a"
| "run_supervisor_error_display (StaleSequence expected actual) =
     ''stale sequence: expected '' @ show_word expected @ '', actual '' @ show_word actual"
| "run_supervisor_error_display (InvalidTransition m) = ''invalid transition: '' @ m"
| "run_supervisor_error_display CycleDetected = ''cycle detected in task graph''"
| "run_supervisor_error_display DependencyLocked = ''dependency change after lease''"
| "run_supervisor_error_display (RunNotAccepting s) =
     ''run not accepting commands: '' @ run_state_debug s"
| "run_supervisor_error_display RecoveryRequired = ''recovery required''"
| "run_supervisor_error_display (Conflict m) = ''conflict: '' @ m"
| "run_supervisor_error_display (StaleLeaseEpoch expected actual) =
     ''stale lease epoch: expected '' @ show_word expected @ '', actual '' @ show_word actual"
| "run_supervisor_error_display (StaleResult m) = ''stale result: '' @ m"
| "run_supervisor_error_display (DuplicateDelivery m) = ''duplicate delivery: '' @ m"
| "run_supervisor_error_display RetryLimitExceeded = ''retry limit exceeded''"
| "run_supervisor_error_display (SideEffectAlreadyCommitted m) =
     ''side effect already committed: '' @ m"
| "run_supervisor_error_display (DeadlineExceeded k) =
     ''deadline exceeded: '' @ timeout_kind_debug k"
| "run_supervisor_error_display (Persistence m) = ''persistence error: '' @ m"
| "run_supervisor_error_display (Corruption m) = ''corruption detected: '' @ m"
| "run_supervisor_error_display (StorageLimitExceeded m) = ''storage limit exceeded: '' @ m"

definition employee_message :: "run_supervisor_error \<Rightarrow> string" where
  "employee_message e =
     (if redacts_detail e then ''request failed'' else run_supervisor_error_display e)"

text \<open>The supervisor's results, and the two services of the standard library that the
  transitions use and whose algorithm is not fixed: the default hasher (the hexadecimal digest
  of what was fed to it) and the \<open>f64\<close> backoff expression.\<close>

type_synonym 'a run_result = "(run_supervisor_error, 'a) result"

datatype hash_item = HashU64 u64 | HashStr string

record host =
  hasher_hex :: "hash_item list \<Rightarrow> string"
  backoff :: backoff_fn

end
