(* ===== verification/Dag.thy ===== *)
theory Dag
  imports Run_Model
begin

text \<open>
  \<open>tetonic-run/src/dag.rs\<close>: the task dependency graph. Cycle detection by depth-first
  search with an explicit visited set and stack (here with its termination proof and its
  equivalence to acyclicity of the edge relation), the dependency policies, the propagation of
  a failure to dependents, the Blocked/Ready recomputation and Kahn's topological sort.
\<close>

section \<open>Cycle detection\<close>

text \<open>\<open>BTreeSet\<close>s are sets; the search threads them and returns them with its verdict.\<close>

definition adj_nodes :: "(task_id, task_id list) btree \<Rightarrow> task_id set" where
  "adj_nodes adj = set (bt_keys adj) \<union> (\<Union>(k, ns) \<in> set adj. set ns)"

definition adj_succs :: "(task_id, task_id list) btree \<Rightarrow> task_id \<Rightarrow> task_id list" where
  "adj_succs adj node = (case bt_get adj node of None \<Rightarrow> [] | Some ns \<Rightarrow> ns)"

function (sequential) dfs ::
    "(task_id, task_id list) btree \<Rightarrow> task_id \<Rightarrow> task_id set \<Rightarrow> task_id set \<Rightarrow>
     bool \<times> task_id set \<times> task_id set"
  and dfs_each ::
    "(task_id, task_id list) btree \<Rightarrow> task_id list \<Rightarrow> task_id set \<Rightarrow> task_id set \<Rightarrow>
     bool \<times> task_id set \<times> task_id set"
where
  "dfs adj node visited stack =
     (if node \<in> stack then (True, visited, stack)
      else if node \<in> visited then (False, visited, stack)
      else case dfs_each adj (adj_succs adj node) (insert node visited) (insert node stack) of
             (True, visited', stack') \<Rightarrow> (True, visited', stack')
           | (False, visited', stack') \<Rightarrow> (False, visited', stack' - {node}))"
| "dfs_each adj [] visited stack = (False, visited, stack)"
| "dfs_each adj (n # ns) visited stack =
     (case dfs adj n visited stack of
        (True, visited', stack') \<Rightarrow> (True, visited', stack')
      | (False, visited', stack') \<Rightarrow> dfs_each adj ns visited' stack')"
  by pat_completeness auto

lemma dfs_visited_grows_dom:
  "dfs_dfs_each_dom (Inl (adj, node, v, s)) \<Longrightarrow> v \<subseteq> fst (snd (dfs adj node v s))"
  "dfs_dfs_each_dom (Inr (adj, ns, v, s)) \<Longrightarrow> v \<subseteq> fst (snd (dfs_each adj ns v s))"
proof (induction adj node v s and adj ns v s rule: dfs_dfs_each.pinduct)
  case (1 adj node v s)
  then show ?case by (auto simp: dfs.psimps split: prod.splits bool.splits)
next
  case (2 adj v s)
  then show ?case by (simp add: dfs_each.psimps)
next
  case (3 adj n ns v s)
  obtain b v' s' where d: "dfs adj n v s = (b, v', s')" by (cases "dfs adj n v s")
  show ?case
  proof (cases b)
    case True
    with 3 d show ?thesis by (simp add: dfs_each.psimps)
  next
    case False
    from 3(2) d have "v \<subseteq> v'" by simp
    moreover from 3(3) [OF d [symmetric], of v' s'] d False
    have "v' \<subseteq> fst (snd (dfs_each adj ns v' s'))" by simp
    ultimately show ?thesis using 3(1) d False by (auto simp: dfs_each.psimps)
  qed
qed

lemma finite_adj_nodes [simp]: "finite (adj_nodes adj)"
  by (auto simp: adj_nodes_def)

lemma adj_succs_outside: "node \<notin> adj_nodes adj \<Longrightarrow> adj_succs adj node = []"
  by (auto simp: adj_nodes_def adj_succs_def set_bt_keys split: option.splits)

lemma adj_fresh_decreases:
  "node \<in> adj_nodes adj \<Longrightarrow> node \<notin> v \<Longrightarrow>
   card (adj_nodes adj - insert node v) < card (adj_nodes adj - v)"
  by (rule psubset_card_mono) auto

definition dfs_measure :: "((task_id, task_id list) btree \<times> task_id \<times> task_id set \<times> task_id set) +
    ((task_id, task_id list) btree \<times> task_id list \<times> task_id set \<times> task_id set) \<Rightarrow> nat \<times> nat" where
  "dfs_measure x = (case x of
     Inl (adj, node, v, s) \<Rightarrow> (card (adj_nodes adj - v), 1)
   | Inr (adj, ns, v, s) \<Rightarrow> (card (adj_nodes adj - v), 2 * length ns))"

termination dfs
proof (relation "inv_image (less_than <*lex*> less_than) dfs_measure")
  fix adj node and v s :: "task_id set"
  assume "node \<notin> s" and "node \<notin> v"
  then show "(Inr (adj, adj_succs adj node, insert node v, insert node s), Inl (adj, node, v, s)) \<in>
    inv_image (less_than <*lex*> less_than) dfs_measure"
    using adj_fresh_decreases [of node adj v]
    by (cases "node \<in> adj_nodes adj")
      (simp_all del: card_Diff_insert add: dfs_measure_def adj_succs_outside)
next
  fix adj n ns v s b y v' s'
  assume "(b, y) = dfs adj n v s" "b = False" "(v', s') = y"
    and dom: "dfs_dfs_each_dom (Inl (adj, n, v, s))"
  then have "v \<subseteq> v'" using dfs_visited_grows_dom(1) [OF dom] by (metis fst_conv snd_conv)
  then have "card (adj_nodes adj - v') \<le> card (adj_nodes adj - v)"
    by (intro card_mono) auto
  then show "(Inr (adj, ns, v', s'), Inr (adj, n # ns, v, s)) \<in>
    inv_image (less_than <*lex*> less_than) dfs_measure"
    by (auto simp: dfs_measure_def)
qed (auto simp: dfs_measure_def)

declare dfs.simps [simp del]

definition has_cycle :: "(task_id, task_id list) btree \<Rightarrow> bool" where
  "has_cycle adj = fst (dfs_each adj (bt_keys adj) {} {})"

definition dependency_adj :: "(task_id, task_dependency list) btree \<Rightarrow> (task_id, task_id list) btree" where
  "dependency_adj dependencies =
     fold (\<lambda>(task, deps) adj. fold (\<lambda>d adj. bt_push task (depends_on d) adj) deps adj)
       dependencies []"

definition would_create_cycle ::
    "(task_id, task_dependency list) btree \<Rightarrow> task_id \<Rightarrow> task_id \<Rightarrow> bool" where
  "would_create_cycle dependencies from to =
     (if from = to then True else has_cycle (bt_push from to (dependency_adj dependencies)))"

section \<open>Dependency policies and readiness\<close>

definition task_is_executable :: "task_state \<Rightarrow> bool" where
  "task_is_executable st \<longleftrightarrow> st \<in> {TaskCreated, TaskBlocked, TaskReady}"

definition task_is_locked :: "task_state \<Rightarrow> bool" where
  "task_is_locked st \<longleftrightarrow> st \<in> {TaskLeased, TaskRunning, TaskParked}"

text \<open>The arms of the \<open>match dep.policy\<close> in \<open>dependencies_satisfied\<close>.\<close>

fun dependency_policy_ok :: "dependency_policy \<Rightarrow> task_state \<Rightarrow> bool" where
  "dependency_policy_ok RequireSuccess st \<longleftrightarrow> st = TaskSucceeded"
| "dependency_policy_ok AllowPartial st \<longleftrightarrow>
     st \<notin> {TaskCreated, TaskBlocked, TaskReady, TaskLeased, TaskRunning, TaskParked}"
| "dependency_policy_ok ContinueOnFailure st \<longleftrightarrow>
     st \<notin> {TaskCreated, TaskBlocked, TaskReady, TaskLeased, TaskRunning, TaskParked}"
| "dependency_policy_ok (FallbackTask _) st \<longleftrightarrow> st = TaskSucceeded \<or> st = TaskFailed"

definition dependency_met :: "run_snapshot \<Rightarrow> task_dependency \<Rightarrow> bool" where
  "dependency_met snapshot dep =
     (case bt_get (rs_tasks snapshot) (depends_on dep) of
        None \<Rightarrow> False
      | Some dep_task \<Rightarrow> dependency_policy_ok (dep_policy dep) (tr_state dep_task))"

definition dependencies_satisfied :: "run_snapshot \<Rightarrow> task_id \<Rightarrow> bool" where
  "dependencies_satisfied snapshot task_id =
     (case bt_get (rs_dependencies snapshot) task_id of
        None \<Rightarrow> True
      | Some deps \<Rightarrow> list_all (dependency_met snapshot) deps)"

text \<open>\<open>if let Some(task) = snapshot.tasks.get_mut(id) { task.state = st }\<close>\<close>

definition set_task_state :: "task_id \<Rightarrow> task_state \<Rightarrow> run_snapshot \<Rightarrow> run_snapshot" where
  "set_task_state task_id st snapshot =
     snapshot\<lparr>rs_tasks := bt_modify task_id (\<lambda>t. t\<lparr>tr_state := st\<rparr>) (rs_tasks snapshot)\<rparr>"

definition task_state_in :: "run_snapshot \<Rightarrow> task_id \<Rightarrow> task_state set \<Rightarrow> bool" where
  "task_state_in snapshot task_id sts =
     (case bt_get (rs_tasks snapshot) task_id of None \<Rightarrow> False | Some t \<Rightarrow> tr_state t \<in> sts)"

text \<open>One iteration of the inner loop of \<open>apply_dependency_failure\<close>.\<close>

definition dependency_failure_step ::
    "task_id \<Rightarrow> task_id \<Rightarrow> task_dependency \<Rightarrow> run_snapshot \<Rightarrow> run_snapshot" where
  "dependency_failure_step failed_task task_id dep snapshot =
     (if depends_on dep \<noteq> failed_task then snapshot
      else
        let should_ready =
              (case dep_policy dep of
                 AllowPartial \<Rightarrow> task_state_in snapshot task_id {TaskBlocked} \<and>
                   dependencies_satisfied snapshot task_id
               | ContinueOnFailure \<Rightarrow> task_state_in snapshot task_id {TaskBlocked} \<and>
                   dependencies_satisfied snapshot task_id
               | _ \<Rightarrow> False);
            should_skip =
              (case dep_policy dep of
                 RequireSuccess \<Rightarrow> task_state_in snapshot task_id {TaskBlocked, TaskCreated}
               | FallbackTask _ \<Rightarrow> task_state_in snapshot task_id {TaskBlocked, TaskCreated}
               | _ \<Rightarrow> False);
            skipped = (if should_skip then set_task_state task_id TaskSkipped snapshot else snapshot);
            fell_back =
              (case dep_policy dep of
                 FallbackTask fallback \<Rightarrow>
                   if should_skip \<and> task_state_in skipped fallback {TaskBlocked}
                   then set_task_state fallback TaskReady skipped else skipped
               | _ \<Rightarrow> skipped)
        in if should_ready then set_task_state task_id TaskReady fell_back else fell_back)"

definition apply_dependency_failure :: "task_id \<Rightarrow> run_snapshot \<Rightarrow> run_snapshot" where
  "apply_dependency_failure failed_task snapshot =
     fold (\<lambda>(task_id, deps). fold (dependency_failure_step failed_task task_id) deps)
       (rs_dependencies snapshot) snapshot"

definition recompute_task :: "task_id \<Rightarrow> run_snapshot \<Rightarrow> run_snapshot" where
  "recompute_task task_id snapshot =
     (case bt_get (rs_tasks snapshot) task_id of
        None \<Rightarrow> snapshot
      | Some task \<Rightarrow>
          if tr_state task \<notin> {TaskCreated, TaskBlocked, TaskReady} then snapshot
          else if dependencies_satisfied snapshot task_id
          then set_task_state task_id TaskReady snapshot
          else set_task_state task_id TaskBlocked snapshot)"

definition recompute_blocked_ready :: "run_snapshot \<Rightarrow> run_snapshot" where
  "recompute_blocked_ready snapshot =
     fold recompute_task (bt_keys (rs_tasks snapshot)) snapshot"

section \<open>Lemmas: cycle detection\<close>

definition adj_edges :: "(task_id, task_id list) btree \<Rightarrow> (task_id \<times> task_id) set" where
  "adj_edges adj = {(a, b). b \<in> set (adj_succs adj a)}"

definition dep_edges :: "(task_id, task_dependency list) btree \<Rightarrow> (task_id \<times> task_id) set" where
  "dep_edges deps = {(a, b). \<exists>ds. (a, ds) \<in> set deps \<and> b \<in> depends_on ` set ds}"

text \<open>A search that finds nothing leaves the stack as it was; one that finds something has
  reached a node from itself.\<close>

lemma dfs_sound:
  "dfs adj node v s = (b, v', s') \<Longrightarrow> \<forall>x\<in>s. (x, node) \<in> (adj_edges adj)\<^sup>+ \<Longrightarrow>
     (\<not> b \<longrightarrow> s' = s) \<and> (b \<longrightarrow> \<not> acyclic (adj_edges adj))"
  "dfs_each adj ns v s = (b, v', s') \<Longrightarrow>
     \<forall>x\<in>s. \<forall>n\<in>set ns. (x, n) \<in> (adj_edges adj)\<^sup>+ \<Longrightarrow>
     (\<not> b \<longrightarrow> s' = s) \<and> (b \<longrightarrow> \<not> acyclic (adj_edges adj))"
proof (induction adj node v s and adj ns v s arbitrary: b v' s' and b v' s' rule: dfs_dfs_each.induct)
  case (1 adj node v s)
  have "\<forall>x\<in>insert node s. \<forall>n\<in>set (adj_succs adj node). (x, n) \<in> (adj_edges adj)\<^sup>+"
    using 1(3) by (auto simp: adj_edges_def intro: trancl.intros)
  with 1 show ?case
    by (auto simp: dfs.simps [of adj node v s] acyclic_def split: if_splits prod.splits bool.splits)
next
  case (3 adj n ns v s)
  obtain b1 v1 s1 where d: "dfs adj n v s = (b1, v1, s1)" by (cases "dfs adj n v s")
  from 3(1) [OF d] 3(4) have ih: "(\<not> b1 \<longrightarrow> s1 = s) \<and> (b1 \<longrightarrow> \<not> acyclic (adj_edges adj))"
    by simp
  show ?case
  proof (cases b1)
    case True
    with 3(3) d ih show ?thesis by auto
  next
    case False
    with 3(3) d have "dfs_each adj ns v1 s1 = (b, v', s')" by simp
    with 3(2) [OF d [symmetric], of v1 s1 b v' s'] False ih 3(4) show ?thesis by simp
  qed
qed auto

text \<open>The finished nodes (visited, off the stack) are closed under edges and lie on no cycle.\<close>

definition finished_ok :: "(task_id \<times> task_id) set \<Rightarrow> task_id set \<Rightarrow> task_id set \<Rightarrow> bool" where
  "finished_ok E v s \<longleftrightarrow> s \<subseteq> v \<and> E `` (v - s) \<subseteq> v - s \<and> (\<forall>x\<in>v - s. (x, x) \<notin> E\<^sup>+)"

lemma finished_ok_closed_rtrancl:
  "finished_ok E v s \<Longrightarrow> x \<in> v - s \<Longrightarrow> (x, y) \<in> E\<^sup>* \<Longrightarrow> y \<in> v - s"
  by (rotate_tac 2, induction rule: rtrancl_induct) (auto simp: finished_ok_def)

lemma finished_ok_pop:
  assumes ok: "finished_ok E v (insert node s)" and succs: "E `` {node} \<subseteq> v - insert node s"
    and fresh: "node \<notin> s"
  shows "finished_ok E v s"
proof -
  have "(node, node) \<notin> E\<^sup>+"
  proof
    assume "(node, node) \<in> E\<^sup>+"
    then obtain n where "(node, n) \<in> E" "(n, node) \<in> E\<^sup>*" by (meson tranclD)
    with succs finished_ok_closed_rtrancl [OF ok] show False by blast
  qed
  moreover from ok succs fresh have "v - s = insert node (v - insert node s)"
    by (auto simp: finished_ok_def)
  ultimately show ?thesis using ok succs by (auto simp: finished_ok_def)
qed

lemma dfs_complete:
  "dfs adj node v s = (False, v', s') \<Longrightarrow> finished_ok (adj_edges adj) v s \<Longrightarrow>
     s' = s \<and> node \<in> v' - s \<and> v \<subseteq> v' \<and> finished_ok (adj_edges adj) v' s"
  "dfs_each adj ns v s = (False, v', s') \<Longrightarrow> finished_ok (adj_edges adj) v s \<Longrightarrow>
     s' = s \<and> set ns \<subseteq> v' - s \<and> v \<subseteq> v' \<and> finished_ok (adj_edges adj) v' s"
proof (induction adj node v s and adj ns v s arbitrary: v' s' and v' s' rule: dfs_dfs_each.induct)
  case (1 adj node v s)
  show ?case
  proof (cases "node \<in> v")
    case True
    with 1 show ?thesis by (auto simp: dfs.simps [of adj node v s] split: if_splits)
  next
    case False
    with 1(2) have "node \<notin> s" by (auto simp: dfs.simps [of adj node v s] split: if_splits)
    with False 1(2) obtain v2 s2 where
      d: "dfs_each adj (adj_succs adj node) (insert node v) (insert node s) = (False, v2, s2)"
      and r: "v' = v2" "s' = s2 - {node}"
      by (auto simp: dfs.simps [of adj node v s] split: prod.splits bool.splits)
    have "insert node v - insert node s = v - s" using False by auto
    with 1(3) have "finished_ok (adj_edges adj) (insert node v) (insert node s)"
      by (auto simp: finished_ok_def)
    note ih = 1(1) [OF \<open>node \<notin> s\<close> False d this]
    have "finished_ok (adj_edges adj) v2 s"
      by (rule finished_ok_pop [of _ _ node])
        (use ih \<open>node \<notin> s\<close> in \<open>auto simp: adj_edges_def\<close>)
    with ih r \<open>node \<notin> s\<close> show ?thesis by auto
  qed
next
  case (3 adj n ns v s)
  obtain b1 v1 s1 where d: "dfs adj n v s = (b1, v1, s1)" by (cases "dfs adj n v s")
  with 3(3) have "\<not> b1" and e: "dfs_each adj ns v1 s1 = (False, v', s')"
    by (auto split: bool.splits)
  with 3(1) [of v1 s1] d 3(4) have
    "s1 = s" "n \<in> v1 - s" "v \<subseteq> v1" "finished_ok (adj_edges adj) v1 s" by auto
  with 3(2) [OF d [symmetric], of v1 s1 v' s'] \<open>\<not> b1\<close> e show ?case by auto
qed auto

lemma has_cycle_correct: "has_cycle adj \<longleftrightarrow> \<not> acyclic (adj_edges adj)"
proof (cases "dfs_each adj (bt_keys adj) {} {}")
  case (fields b v' s')
  show ?thesis
  proof (cases b)
    case True
    with dfs_sound(2) [OF fields] fields show ?thesis by (simp add: has_cycle_def)
  next
    case False
    with dfs_complete(2) [of adj "bt_keys adj" "{}" "{}" v' s'] fields
    have ok: "set (bt_keys adj) \<subseteq> v'" "finished_ok (adj_edges adj) v' {}"
      by (auto simp: finished_ok_def)
    have "a \<in> set (bt_keys adj)" if "(a, b) \<in> adj_edges adj" for a b
      using that by (cases "bt_get adj a") (auto simp: adj_edges_def adj_succs_def set_bt_keys)
    then have "x \<in> v'" if "(x, x) \<in> (adj_edges adj)\<^sup>+" for x
      using ok(1) tranclD [OF that] by blast
    then have "acyclic (adj_edges adj)"
      using ok(2) by (auto simp: acyclic_def finished_ok_def)
    then show ?thesis using fields False by (simp add: has_cycle_def)
  qed
qed

lemma adj_edges_push: "adj_edges (bt_push k v adj) = insert (k, v) (adj_edges adj)"
  by (auto simp: adj_edges_def adj_succs_def split: option.splits if_splits)

lemma adj_edges_dependency_adj: "adj_edges (dependency_adj deps) = dep_edges deps"
proof -
  have inner: "adj_edges (fold (\<lambda>d adj. bt_push t (depends_on d) adj) ds adj) =
      {t} \<times> depends_on ` set ds \<union> adj_edges adj" for t ds adj
    by (induction ds arbitrary: adj) (auto simp: adj_edges_push)
  have "adj_edges (fold (\<lambda>(t, ds) adj. fold (\<lambda>d adj. bt_push t (depends_on d) adj) ds adj) deps adj) =
      dep_edges deps \<union> adj_edges adj" for adj
    by (induction deps arbitrary: adj) (auto simp: inner dep_edges_def)
  from this [of "[]"] show ?thesis
    by (simp add: dependency_adj_def) (simp add: adj_edges_def adj_succs_def)
qed

lemma would_create_cycle_iff:
  "would_create_cycle deps from to \<longleftrightarrow> \<not> acyclic (insert (from, to) (dep_edges deps))"
proof (cases "from = to")
  case True
  then show ?thesis by (auto simp: would_create_cycle_def acyclic_def intro!: exI [of _ to])
next
  case False
  then show ?thesis
    by (simp add: would_create_cycle_def has_cycle_correct adj_edges_push adj_edges_dependency_adj)
qed

section \<open>Lemmas: readiness\<close>

text \<open>What a scheduling pass may do: rewrite the state of tasks that have not started.\<close>

definition scheduling_step :: "run_snapshot \<Rightarrow> run_snapshot \<Rightarrow> bool" where
  "scheduling_step s s' \<longleftrightarrow>
     (\<exists>g. s' = s\<lparr>rs_tasks := bt_update_all (\<lambda>k t. t\<lparr>tr_state := g k t\<rparr>) (rs_tasks s)\<rparr> \<and>
        (\<forall>k t. g k t = tr_state t \<or>
           task_is_executable (tr_state t) \<and> g k t \<in> {TaskReady, TaskBlocked, TaskSkipped}))"

lemma scheduling_step_refl [simp, intro]: "scheduling_step s s"
  by (auto simp: scheduling_step_def intro!: exI [of _ "\<lambda>k t. tr_state t"])

lemma scheduling_step_trans [trans]:
  assumes "scheduling_step s s1" and "scheduling_step s1 s2"
  shows "scheduling_step s s2"
proof -
  from assms obtain g h where
    s1: "s1 = s\<lparr>rs_tasks := bt_update_all (\<lambda>k t. t\<lparr>tr_state := g k t\<rparr>) (rs_tasks s)\<rparr>" and
    g: "\<And>k t. g k t = tr_state t \<or>
      task_is_executable (tr_state t) \<and> g k t \<in> {TaskReady, TaskBlocked, TaskSkipped}" and
    s2: "s2 = s1\<lparr>rs_tasks := bt_update_all (\<lambda>k t. t\<lparr>tr_state := h k t\<rparr>) (rs_tasks s1)\<rparr>" and
    h: "\<And>k t. h k t = tr_state t \<or>
      task_is_executable (tr_state t) \<and> h k t \<in> {TaskReady, TaskBlocked, TaskSkipped}"
    by (auto simp: scheduling_step_def)
  show ?thesis unfolding scheduling_step_def
  proof (intro exI conjI allI)
    show "s2 = s\<lparr>rs_tasks := bt_update_all
        (\<lambda>k t. t\<lparr>tr_state := h k (t\<lparr>tr_state := g k t\<rparr>)\<rparr>) (rs_tasks s)\<rparr>"
      by (simp add: s1 s2)
    show "h k (t\<lparr>tr_state := g k t\<rparr>) = tr_state t \<or> task_is_executable (tr_state t) \<and>
        h k (t\<lparr>tr_state := g k t\<rparr>) \<in> {TaskReady, TaskBlocked, TaskSkipped}" for k t
      using g [of k t] h [of k "t\<lparr>tr_state := g k t\<rparr>"] by auto
  qed
qed

lemma scheduling_step_set:
  assumes "task_state_in s k A" and "A \<subseteq> {TaskCreated, TaskBlocked, TaskReady}"
    and "st \<in> {TaskReady, TaskBlocked, TaskSkipped}" and "bt_invar (rs_tasks s)"
  shows "scheduling_step s (set_task_state k st s)"
  unfolding scheduling_step_def
proof (intro exI conjI allI)
  let ?g = "\<lambda>k' t. if k' = k \<and> task_is_executable (tr_state t) then st else tr_state t"
  have "bt_modify k (\<lambda>t. t\<lparr>tr_state := st\<rparr>) (rs_tasks s) =
      bt_update_all (\<lambda>k t. t\<lparr>tr_state := ?g k t\<rparr>) (rs_tasks s)"
    unfolding bt_modify_def
    by (rule bt_update_all_cong)
      (use assms in \<open>auto simp: task_state_in_def task_is_executable_def\<close>)
  then show "set_task_state k st s =
      s\<lparr>rs_tasks := bt_update_all (\<lambda>k t. t\<lparr>tr_state := ?g k t\<rparr>) (rs_tasks s)\<rparr>"
    by (simp add: set_task_state_def)
qed (use assms in \<open>auto simp: task_is_executable_def\<close>)

lemma bt_invar_set_task_state [simp]:
  "bt_invar (rs_tasks (set_task_state k st s)) = bt_invar (rs_tasks s)"
  by (simp add: set_task_state_def)

lemma scheduling_step_frame:
  assumes "scheduling_step s s'"
  shows "bt_invar (rs_tasks s') = bt_invar (rs_tasks s)"
    and "bt_keys (rs_tasks s') = bt_keys (rs_tasks s)"
    and "rs_dependencies s' = rs_dependencies s" and "rs_attempts s' = rs_attempts s"
    and "\<exists>ts. s' = s\<lparr>rs_tasks := ts\<rparr>"
  using assms by (auto simp: scheduling_step_def)

lemma scheduling_step_get:
  assumes "scheduling_step s s'" and "bt_get (rs_tasks s') k = Some t'"
  obtains t where "bt_get (rs_tasks s) k = Some t" and "t' = t\<lparr>tr_state := tr_state t'\<rparr>"
    and "tr_state t' = tr_state t \<or> task_is_executable (tr_state t) \<and>
      tr_state t' \<in> {TaskReady, TaskBlocked, TaskSkipped}"
proof -
  from assms(1) obtain g where
    s': "s' = s\<lparr>rs_tasks := bt_update_all (\<lambda>k t. t\<lparr>tr_state := g k t\<rparr>) (rs_tasks s)\<rparr>" and
    g: "\<And>k t. g k t = tr_state t \<or>
      task_is_executable (tr_state t) \<and> g k t \<in> {TaskReady, TaskBlocked, TaskSkipped}"
    unfolding scheduling_step_def by blast
  from assms(2) s' obtain t where t: "bt_get (rs_tasks s) k = Some t" "t' = t\<lparr>tr_state := g k t\<rparr>"
    by auto
  show ?thesis
    by (rule that [OF t(1)]) (use t(2) g [of k t] in simp_all)
qed

lemma scheduling_step_get_None:
  "scheduling_step s s' \<Longrightarrow> bt_get (rs_tasks s') k = None \<longleftrightarrow> bt_get (rs_tasks s) k = None"
  by (auto simp: scheduling_step_def)

lemma fold_scheduling_step:
  assumes "\<And>x s. bt_invar (rs_tasks s) \<Longrightarrow> scheduling_step s (f x s)" and "bt_invar (rs_tasks s)"
  shows "scheduling_step s (fold f xs s)"
  using assms(2)
proof (induction xs arbitrary: s)
  case (Cons x xs)
  from Cons.prems have x: "scheduling_step s (f x s)" by (rule assms(1))
  with Cons.prems have "bt_invar (rs_tasks (f x s))" by (simp add: scheduling_step_frame(1) [OF x])
  with x Cons.IH show ?case by (auto intro: scheduling_step_trans)
qed simp

lemma scheduling_step_dependency_failure_step:
  assumes inv: "bt_invar (rs_tasks s)"
  shows "scheduling_step s (dependency_failure_step failed k dep s)"
proof (cases "dep_policy dep")
  case (FallbackTask fb)
  let ?skip = "task_state_in s k {TaskBlocked, TaskCreated}" and ?s1 = "set_task_state k TaskSkipped s"
  have s1: "scheduling_step s ?s1" if ?skip
    by (rule scheduling_step_set [OF that]) (use inv in auto)
  have "scheduling_step ?s1 (set_task_state fb TaskReady ?s1)" if "task_state_in ?s1 fb {TaskBlocked}"
    by (rule scheduling_step_set [OF that]) (use inv in auto)
  with s1 FallbackTask show ?thesis
    by (auto simp: dependency_failure_step_def Let_def intro: scheduling_step_trans)
qed (use inv in \<open>auto simp: dependency_failure_step_def Let_def intro: scheduling_step_set\<close>)

lemma scheduling_step_apply_dependency_failure:
  "bt_invar (rs_tasks s) \<Longrightarrow> scheduling_step s (apply_dependency_failure failed s)"
  unfolding apply_dependency_failure_def
  by (rule fold_scheduling_step)
    (auto intro!: fold_scheduling_step scheduling_step_dependency_failure_step)

text \<open>The recomputation in closed form: it does not depend on the order of the tasks.\<close>

definition refresh_task :: "run_snapshot \<Rightarrow> task_id \<Rightarrow> task_record \<Rightarrow> task_record" where
  "refresh_task s k t =
     (if task_is_executable (tr_state t)
      then t\<lparr>tr_state := (if dependencies_satisfied s k then TaskReady else TaskBlocked)\<rparr> else t)"

lemma dependencies_satisfied_cong:
  assumes "rs_dependencies s' = rs_dependencies s"
    and "\<And>k. map_option (\<lambda>t. if task_is_executable (tr_state t) then TaskReady else tr_state t)
           (bt_get (rs_tasks s') k) =
         map_option (\<lambda>t. if task_is_executable (tr_state t) then TaskReady else tr_state t)
           (bt_get (rs_tasks s) k)"
  shows "dependencies_satisfied s' k = dependencies_satisfied s k"
proof -
  have "dependency_met s' d = dependency_met s d" for d
    using assms(2) [of "depends_on d"] unfolding dependency_met_def
    by (cases "dep_policy d") (auto simp: task_is_executable_def split: option.splits if_splits)
  then have "dependency_met s' = dependency_met s" by (rule ext)
  then show ?thesis by (simp add: dependencies_satisfied_def assms(1) split: option.splits)
qed

lemma dependencies_satisfied_refresh:
  "dependencies_satisfied
     (s\<lparr>rs_tasks := bt_update_all (\<lambda>k t. if P k then refresh_task s k t else t) (rs_tasks s)\<rparr>) k =
   dependencies_satisfied s k"
  by (rule dependencies_satisfied_cong)
    (auto simp: refresh_task_def task_is_executable_def option.map_comp comp_def
       intro!: option.map_cong)

lemma recompute_task_eq:
  assumes "bt_invar (rs_tasks s)"
  shows "recompute_task k s =
    s\<lparr>rs_tasks := bt_update_all (\<lambda>k' t. if k' = k then refresh_task s k' t else t) (rs_tasks s)\<rparr>"
proof -
  let ?f = "\<lambda>k' t. if k' = k then refresh_task s k' t else t"
  let ?st = "if dependencies_satisfied s k then TaskReady else TaskBlocked"
  show ?thesis
  proof (cases "task_state_in s k {TaskCreated, TaskBlocked, TaskReady}")
    case True
    have "bt_update_all ?f (rs_tasks s) = bt_modify k (\<lambda>t. t\<lparr>tr_state := ?st\<rparr>) (rs_tasks s)"
      unfolding bt_modify_def by (rule bt_update_all_cong [OF assms])
        (use True in \<open>auto simp: task_state_in_def refresh_task_def task_is_executable_def\<close>)
    with True show ?thesis
      by (auto simp: recompute_task_def set_task_state_def task_state_in_def split: option.splits)
  next
    case False
    have "bt_update_all ?f (rs_tasks s) = bt_update_all (\<lambda>k t. t) (rs_tasks s)"
      by (rule bt_update_all_cong [OF assms])
        (use False in \<open>auto simp: task_state_in_def refresh_task_def task_is_executable_def\<close>)
    with False show ?thesis
      by (auto simp: recompute_task_def task_state_in_def split: option.splits)
  qed
qed

lemma refresh_task_cong:
  "refresh_task (s\<lparr>rs_tasks := bt_update_all (\<lambda>k t. if P k then refresh_task s k t else t) (rs_tasks s)\<rparr>)
     k t = refresh_task s k t"
  by (simp add: refresh_task_def dependencies_satisfied_refresh)

lemma refresh_task_idem [simp]: "refresh_task s k (refresh_task s k t) = refresh_task s k t"
  by (simp add: refresh_task_def task_is_executable_def)

lemma fold_recompute_task:
  "bt_invar (rs_tasks s) \<Longrightarrow> fold recompute_task ks s =
     s\<lparr>rs_tasks := bt_update_all (\<lambda>k t. if k \<in> set ks then refresh_task s k t else t) (rs_tasks s)\<rparr>"
proof (induction ks arbitrary: s)
  case (Cons k ks)
  let ?s1 = "recompute_task k s"
  have s1: "?s1 = s\<lparr>rs_tasks := bt_update_all (\<lambda>k' t. if k' = k then refresh_task s k' t else t) (rs_tasks s)\<rparr>"
    by (rule recompute_task_eq [OF Cons.prems])
  have r: "refresh_task ?s1 k' t = refresh_task s k' t" for k' t
    unfolding s1 by (rule refresh_task_cong)
  have "bt_invar (rs_tasks ?s1)" using Cons.prems by (simp add: s1)
  from Cons.IH [OF this] have
    "fold recompute_task ks ?s1 = ?s1\<lparr>rs_tasks :=
       bt_update_all (\<lambda>k t. if k \<in> set ks then refresh_task s k t else t) (rs_tasks ?s1)\<rparr>"
    by (simp add: r cong: if_cong)
  also have "\<dots> = s\<lparr>rs_tasks :=
      bt_update_all (\<lambda>k' t. if k' \<in> set (k # ks) then refresh_task s k' t else t) (rs_tasks s)\<rparr>"
    by (auto simp: s1 fun_eq_iff
        intro!: arg_cong [of _ _ "\<lambda>f. s\<lparr>rs_tasks := bt_update_all f (rs_tasks s)\<rparr>"])
  finally show ?case by simp
qed simp

lemma recompute_blocked_ready_eq:
  assumes "bt_invar (rs_tasks s)"
  shows "recompute_blocked_ready s = s\<lparr>rs_tasks := bt_update_all (refresh_task s) (rs_tasks s)\<rparr>"
proof -
  have "bt_update_all (\<lambda>k t. if k \<in> set (bt_keys (rs_tasks s)) then refresh_task s k t else t)
      (rs_tasks s) = bt_update_all (refresh_task s) (rs_tasks s)"
    by (rule bt_update_all_cong [OF assms]) (auto simp: set_bt_keys)
  then show ?thesis by (simp add: recompute_blocked_ready_def fold_recompute_task [OF assms])
qed

lemma scheduling_step_recompute:
  assumes "bt_invar (rs_tasks s)"
  shows "scheduling_step s (recompute_blocked_ready s)"
  unfolding scheduling_step_def
proof (intro exI conjI allI)
  show "recompute_blocked_ready s = s\<lparr>rs_tasks :=
      bt_update_all (\<lambda>k t. t\<lparr>tr_state := tr_state (refresh_task s k t)\<rparr>) (rs_tasks s)\<rparr>"
    unfolding recompute_blocked_ready_eq [OF assms]
    by (rule arg_cong [of _ _ "\<lambda>f. s\<lparr>rs_tasks := bt_update_all f (rs_tasks s)\<rparr>"])
      (auto simp: fun_eq_iff refresh_task_def)
qed (auto simp: refresh_task_def)

lemma recompute_blocked_ready_idem:
  assumes "bt_invar (rs_tasks s)"
  shows "recompute_blocked_ready (recompute_blocked_ready s) = recompute_blocked_ready s"
proof -
  have "refresh_task (s\<lparr>rs_tasks := bt_update_all (refresh_task s) (rs_tasks s)\<rparr>) = refresh_task s"
    using refresh_task_cong [where P = "\<lambda>_. True"] by (auto simp: fun_eq_iff)
  with assms show ?thesis
    by (simp add: recompute_blocked_ready_eq)
qed

end
