(* ===== verification/Lease.thy ===== *)
theory Lease
  imports Dag
begin

text \<open>
  The checks of \<open>tetonic-run\<close> that transitions share: lease proofs (\<open>lease.rs\<close>), input digests
  and delivery keys (\<open>idempotency.rs\<close>), side-effect commits (\<open>side_effect.rs\<close>), failure and
  retry (\<open>retry.rs\<close>) and the acceptance of results (\<open>acceptance.rs\<close>). A function that calls
  \<open>unwrap\<close> in the source returns a result whose value \<open>Panic\<close> is that abort. Where the source
  looks the same key up again after a mutation that keeps the keys, the model looks it up once.
\<close>

section \<open>Lookups and updates of a snapshot\<close>

text \<open>\<open>get(id).ok_or_else(|| NotFound(id))\<close> and \<open>get_mut(id)\<close> followed by a mutation.\<close>

definition get_task :: "run_snapshot \<Rightarrow> task_id \<Rightarrow> task_record run_result" where
  "get_task snapshot task_id = ok_or (bt_get (rs_tasks snapshot) task_id) (TaskNotFound task_id)"

definition get_attempt :: "run_snapshot \<Rightarrow> attempt_id \<Rightarrow> attempt_record run_result" where
  "get_attempt snapshot attempt_id =
     ok_or (bt_get (rs_attempts snapshot) attempt_id) (AttemptNotFound attempt_id)"

definition update_task ::
    "task_id \<Rightarrow> (task_record \<Rightarrow> task_record) \<Rightarrow> run_snapshot \<Rightarrow> run_snapshot" where
  "update_task task_id f snapshot =
     snapshot\<lparr>rs_tasks := bt_modify task_id f (rs_tasks snapshot)\<rparr>"

definition update_attempt ::
    "attempt_id \<Rightarrow> (attempt_record \<Rightarrow> attempt_record) \<Rightarrow> run_snapshot \<Rightarrow> run_snapshot" where
  "update_attempt attempt_id f snapshot =
     snapshot\<lparr>rs_attempts := bt_modify attempt_id f (rs_attempts snapshot)\<rparr>"

section \<open>Leases (\<open>lease.rs\<close>)\<close>

definition validate_lease_proof :: "attempt_record \<Rightarrow> lease_proof \<Rightarrow> unit run_result" where
  "validate_lease_proof attempt proof =
     (case ar_lease attempt of
        None \<Rightarrow> Err (InvalidTransition ''attempt has no lease'')
      | Some lease \<Rightarrow>
          if al_lease_id lease \<noteq> lp_lease_id proof then Err (StaleResult ''lease id mismatch'')
          else if al_lease_epoch lease \<noteq> lp_lease_epoch proof
          then Err (StaleLeaseEpoch (al_lease_epoch lease) (lp_lease_epoch proof))
          else if al_holder lease \<noteq> lp_holder proof
          then Err (StaleResult ''lease holder mismatch'')
          else Ok ())"

definition is_lease_current :: "attempt_record \<Rightarrow> u64 \<Rightarrow> bool" where
  "is_lease_current attempt now =
     (case ar_lease attempt of
        None \<Rightarrow> False
      | Some l \<Rightarrow> now \<le> al_expires_at l \<and>
          ar_state attempt \<in> {AttemptLeased, AttemptStarting, AttemptRunning})"

definition is_result_acceptable_state :: "attempt_state \<Rightarrow> bool" where
  "is_result_acceptable_state st \<longleftrightarrow> st \<in> {AttemptRunning, AttemptStarting, AttemptLeased}"

definition is_terminal_attempt :: "attempt_state \<Rightarrow> bool" where
  "is_terminal_attempt st \<longleftrightarrow>
     st \<in> {AttemptSucceeded, AttemptFailed, AttemptTimedOut, AttemptLeaseExpired,
           AttemptCanceled, AttemptSuperseded}"

definition renew_lease :: "u64 \<Rightarrow> u64 \<Rightarrow> attempt_lease \<Rightarrow> attempt_lease" where
  "renew_lease heartbeat_sequence new_expires_at lease =
     lease\<lparr>al_last_heartbeat_sequence := heartbeat_sequence, al_expires_at := new_expires_at\<rparr>"

definition can_renew_lease :: "run_snapshot \<Rightarrow> attempt_record \<Rightarrow> u64 \<Rightarrow> bool" where
  "can_renew_lease snapshot attempt now =
     (if can_run_canceled (rs_cancellation snapshot) \<or> rs_state snapshot = RunCanceled then False
      else if (case bt_get (rs_tasks snapshot) (ar_task_id attempt) of
                 None \<Rightarrow> False | Some t \<Rightarrow> tr_state t = TaskCanceled) then False
      else is_lease_current attempt now)"

section \<open>Digests and delivery keys (\<open>idempotency.rs\<close>)\<close>

definition binding_input_digest :: "host \<Rightarrow> task_input_binding \<Rightarrow> string" where
  "binding_input_digest h binding =
     ''input:'' @ hasher_hex h
       ([HashU64 (tb_task_definition_version binding)] @
        (case tb_workspace_version binding of
           None \<Rightarrow> [] | Some wv \<Rightarrow> [HashStr (state_fingerprint wv)]) @
        map (\<lambda>art. HashStr (art_digest art)) (tb_input_artifacts binding) @
        [HashStr (data_class_debug (tb_data_class binding))])"

definition check_delivery_key :: "run_snapshot \<Rightarrow> string \<Rightarrow> attempt_id \<Rightarrow> unit run_result" where
  "check_delivery_key snapshot delivery_key attempt_id =
     (case bt_get (rs_delivery_index snapshot) delivery_key of
        Some existing \<Rightarrow>
          if existing \<noteq> attempt_id
          then Err (DuplicateDelivery
                 (''delivery key '' @ delivery_key @ '' already bound to '' @ existing))
          else Ok ()
      | None \<Rightarrow> Ok ())"

definition register_delivery_key :: "string \<Rightarrow> attempt_id \<Rightarrow> run_snapshot \<Rightarrow> run_snapshot" where
  "register_delivery_key delivery_key attempt_id snapshot =
     snapshot\<lparr>rs_delivery_index := bt_insert delivery_key attempt_id (rs_delivery_index snapshot)\<rparr>"

definition workspace_matches :: "task_input_binding \<Rightarrow> workspace_version option \<Rightarrow> bool" where
  "workspace_matches binding wv \<longleftrightarrow> tb_workspace_version binding = wv"

definition input_digest_matches :: "host \<Rightarrow> task_input_binding \<Rightarrow> string \<Rightarrow> bool" where
  "input_digest_matches h binding digest \<longleftrightarrow> binding_input_digest h binding = digest"

section \<open>Side effects (\<open>side_effect.rs\<close>)\<close>

definition can_retry_side_effects :: "run_snapshot \<Rightarrow> task_id \<Rightarrow> bool" where
  "can_retry_side_effects snapshot task_id =
     (case bt_get (rs_tasks snapshot) task_id of
        None \<Rightarrow> False
      | Some task \<Rightarrow> list_all (\<lambda>key.
          case bt_get (rs_side_effect_commits snapshot) key of
            None \<Rightarrow> True | Some rec \<Rightarrow> \<not> se_committed rec) (tr_side_effect_keys task))"

definition push_side_effect_key :: "string \<Rightarrow> task_record \<Rightarrow> task_record" where
  "push_side_effect_key operation_key task =
     (if operation_key \<in> set (tr_side_effect_keys task) then task
      else task\<lparr>tr_side_effect_keys := tr_side_effect_keys task @ [operation_key]\<rparr>)"

definition record_side_effect_commit ::
    "run_snapshot \<Rightarrow> task_id \<Rightarrow> string \<Rightarrow> transaction_id option \<Rightarrow> u64 \<Rightarrow> run_snapshot run_result" where
  "record_side_effect_commit snapshot task_id operation_key transaction_id committed_at =
     (if (case bt_get (rs_side_effect_commits snapshot) operation_key of
            None \<Rightarrow> False | Some r \<Rightarrow> se_committed r)
      then Err (SideEffectAlreadyCommitted operation_key)
      else Ok (update_task task_id (push_side_effect_key operation_key)
        (snapshot\<lparr>rs_side_effect_commits := bt_insert operation_key
           \<lparr>se_operation_key = operation_key, se_committed = True,
            se_transaction_id = transaction_id, se_committed_at = committed_at\<rparr>
           (rs_side_effect_commits snapshot)\<rparr>)))"

section \<open>Failure and retry (\<open>retry.rs\<close>)\<close>

fun failure_class_for_timeout :: "timeout_kind \<Rightarrow> failure_class" where
  "failure_class_for_timeout TkLease = FcLeaseExpired"
| "failure_class_for_timeout _ = FcTimedOut"

fun map_attempt_state_for_failure :: "failure_class \<Rightarrow> attempt_state" where
  "map_attempt_state_for_failure FcLeaseExpired = AttemptLeaseExpired"
| "map_attempt_state_for_failure FcTimedOut = AttemptTimedOut"
| "map_attempt_state_for_failure FcCanceled = AttemptCanceled"
| "map_attempt_state_for_failure _ = AttemptFailed"

definition verification_remediation_for :: "failure_class \<Rightarrow> verification_remediation" where
  "verification_remediation_for c =
     (if c = FcVerificationFailed
      then \<lparr>vr_retry_with_revised_input = True, vr_spawn_remediation_task = True,
            vr_require_different_specialist = False\<rparr>
      else default_verification_remediation)"

definition apply_failure_with_retry ::
    "host \<Rightarrow> task_id \<Rightarrow> failure_class \<Rightarrow> string \<Rightarrow> u64 \<Rightarrow> run_snapshot \<Rightarrow> run_snapshot run_result" where
  "apply_failure_with_retry h task_id fclass reason now out =
     and_then (unwrap (bt_get (rs_tasks out) task_id)) (\<lambda>task.
       let policy = tb_retry_policy (tr_binding task);
           attempt_count = trs_attempt_count (tr_retry task) + 1;
           out1 = update_task task_id (\<lambda>t. t\<lparr>tr_retry :=
             \<lparr>trs_attempt_count = attempt_count, trs_next_retry_at = None,
              trs_last_failure_class = Some fclass, trs_last_failure_reason = Some reason\<rparr>\<rparr>) out;
           side_effect_ok = can_retry_side_effects out1 task_id;
           verification = tb_verification_policy (tr_binding task);
           verification_retry = (fclass = FcVerificationFailed \<and>
             vr_retry_with_revised_input (vp_remediation verification))
       in Ok (recompute_blocked_ready
         (if (should_retry policy fclass attempt_count \<or> verification_retry) \<and> side_effect_ok
          then let delay = next_delay_ms (backoff h) policy attempt_count
               in update_task task_id (\<lambda>t. t\<lparr>tr_state := TaskReady, tr_active_attempt := None,
                    tr_retry := (tr_retry t)\<lparr>trs_next_retry_at := Some (now + delay div 1000)\<rparr>\<rparr>) out1
          else apply_dependency_failure task_id
                 (update_task task_id
                   (\<lambda>t. t\<lparr>tr_state := TaskFailed, tr_active_attempt := None\<rparr>) out1))))"

section \<open>Acceptance of results (\<open>acceptance.rs\<close>)\<close>

definition expected_digest_ok :: "host \<Rightarrow> run_snapshot \<Rightarrow> task_record \<Rightarrow> string \<Rightarrow> bool" where
  "expected_digest_ok h snapshot task digest =
     (case (case tb_job_spec (tr_binding task) of
              Some spec \<Rightarrow> Some spec | None \<Rightarrow> rs_job_spec snapshot) of
        Some spec \<Rightarrow> js_input_digest spec = digest
      | None \<Rightarrow> input_digest_matches h (tr_binding task) digest)"

definition try_accept_completion ::
    "host \<Rightarrow> run_snapshot \<Rightarrow> complete_attempt \<Rightarrow> unit run_result" where
  "try_accept_completion h snapshot cmd =
     (if can_run_canceled (rs_cancellation snapshot) then Err (InvalidTransition ''run canceled'')
      else and_then (get_attempt snapshot (comp_attempt_id cmd)) (\<lambda>attempt.
        if ar_state attempt = AttemptSucceeded \<and>
           ar_result_digest attempt = Some (comp_result_digest cmd) then Ok ()
        else if \<not> is_result_acceptable_state (ar_state attempt)
        then Err (StaleResult (''cannot accept result from '' @ attempt_state_debug (ar_state attempt)))
        else and_then (validate_lease_proof attempt (comp_lease_proof cmd)) (\<lambda>_.
        if \<not> is_lease_current attempt (env_timestamp (comp_envelope cmd))
        then Err (StaleResult ''lease expired'')
        else if ar_task_version attempt \<noteq> comp_task_version cmd
        then Err (Conflict ''task version mismatch'')
        else and_then (get_task snapshot (ar_task_id attempt)) (\<lambda>task.
        if tr_state task = TaskCanceled then Err (InvalidTransition ''task canceled'')
        else if \<not> expected_digest_ok h snapshot task (comp_input_digest cmd)
        then Err (Conflict ''input digest mismatch'')
        else if \<not> workspace_matches (tr_binding task) (comp_workspace_version cmd)
        then Err (Conflict ''workspace version mismatch'')
        else if trim_is_empty (comp_result_digest cmd)
        then Err (Conflict ''invalid result digest'')
        else if (case tr_winning_attempt task of
                   None \<Rightarrow> False | Some winner \<Rightarrow> winner \<noteq> comp_attempt_id cmd)
        then Err (StaleResult ''another attempt already won'')
        else if (case tr_completed_version task of None \<Rightarrow> False
                 | Some completed \<Rightarrow> completed = comp_task_version cmd \<and> tr_winning_attempt task \<noteq> None)
        then Err (StaleResult ''task version already completed'')
        else if (case tb_deadline (tr_binding task) of None \<Rightarrow> False
                 | Some deadline \<Rightarrow> deadline \<le> env_timestamp (comp_envelope cmd))
        then Err (DeadlineExceeded TkTask)
        else Ok ()))))"

definition try_claim_finalization ::
    "host \<Rightarrow> run_snapshot \<Rightarrow> claim_finalization \<Rightarrow> unit run_result" where
  "try_claim_finalization h snapshot cmd =
     (if can_run_canceled (rs_cancellation snapshot) then Err (InvalidTransition ''run canceled'')
      else and_then (get_task snapshot (cf_task_id cmd)) (\<lambda>task.
        if (case tb_deadline (tr_binding task) of None \<Rightarrow> False
            | Some deadline \<Rightarrow> deadline \<le> env_timestamp (cf_envelope cmd))
        then Err (DeadlineExceeded TkTask)
        else if tr_finalization_claim task = Some (cf_attempt_id cmd) then Ok ()
        else if tr_finalization_claim task \<noteq> None
        then Err (StaleResult ''another attempt already claimed'')
        else if (case tr_winning_attempt task of
                   None \<Rightarrow> False | Some winner \<Rightarrow> winner \<noteq> cf_attempt_id cmd)
        then Err (StaleResult ''another attempt already won'')
        else if tr_state task = TaskCanceled then Err (InvalidTransition ''task canceled'')
        else and_then (get_attempt snapshot (cf_attempt_id cmd)) (\<lambda>attempt.
        if ar_task_id attempt \<noteq> cf_task_id cmd then Err (Conflict ''task mismatch'')
        else and_then (validate_lease_proof attempt (cf_lease_proof cmd)) (\<lambda>_.
        if \<not> is_lease_current attempt (env_timestamp (cf_envelope cmd))
        then Err (StaleResult ''lease expired'')
        else if ar_task_version attempt \<noteq> cf_task_version cmd
        then Err (Conflict ''task version mismatch'')
        else if \<not> expected_digest_ok h snapshot task (cf_input_digest cmd)
        then Err (Conflict ''input digest mismatch'')
        else Ok ()))))"

definition apply_winner_selection ::
    "attempt_id \<Rightarrow> task_id \<Rightarrow> u64 \<Rightarrow> run_snapshot \<Rightarrow> run_snapshot run_result" where
  "apply_winner_selection attempt_id task_id task_version out =
     and_then (unwrap (bt_get (rs_tasks out) task_id)) (\<lambda>_.
       let out1 = update_task task_id (\<lambda>task. task\<lparr>tr_winning_attempt := Some attempt_id,
                    tr_completed_version := Some task_version\<rparr>) out
       in Ok (out1\<lparr>rs_attempts := bt_update_all
            (\<lambda>id a. if ar_task_id a = task_id \<and> id \<noteq> attempt_id \<and>
                       ar_state a \<in> {AttemptCreated, AttemptLeased, AttemptStarting, AttemptRunning}
                    then a\<lparr>ar_state := AttemptSuperseded\<rparr> else a) (rs_attempts out1)\<rparr>))"

end
