(* ===== verification/Transition.thy ===== *)
theory Transition
  imports Lease
begin

text \<open>
  The state machine of a run: \<open>apply_command\<close> of \<open>tetonic-run/src/transition.rs\<close> with its
  handlers, including \<open>transition/suspension.rs\<close> and \<open>transition/task_admission.rs\<close>. Each
  handler is a function from a snapshot and a command to a result; a handler that fails leaves
  the snapshot as it was, as in the source, where it works on a clone.
\<close>

definition new_task :: "task_id \<Rightarrow> task_input_binding \<Rightarrow> task_record" where
  "new_task task_id binding = \<lparr>tr_task_id = task_id, tr_state = TaskCreated, tr_binding = binding,
     tr_accepted_artifact = None, tr_active_attempt = None, tr_winning_attempt = None,
     tr_finalization_claim = None, tr_completed_version = None,
     tr_retry = default_task_retry_state, tr_side_effect_keys = []\<rparr>"

definition ensure_not_recovery :: "run_snapshot \<Rightarrow> unit run_result" where
  "ensure_not_recovery run =
     (if rs_state run = RunRecoveryRequired then Err RecoveryRequired else Ok ())"

definition ensure_run_accepts_mutations :: "run_snapshot \<Rightarrow> unit run_result" where
  "ensure_run_accepts_mutations run =
     and_then (ensure_not_recovery run) (\<lambda>_.
       if can_run_canceled (rs_cancellation run) then Err (RunNotAccepting RunCanceled)
       else if rs_state run = RunActive \<or> rs_state run = RunCreated then Ok ()
       else Err (RunNotAccepting (rs_state run)))"

section \<open>Runs, tasks and dependencies\<close>

definition apply_create_run :: "run_snapshot \<Rightarrow> create_run \<Rightarrow> run_snapshot run_result" where
  "apply_create_run snapshot cmd =
     (if rs_tasks snapshot \<noteq> [] \<or> 0 < rs_sequence snapshot
      then Err (Conflict (''run '' @ crun_run_id cmd @ '' already exists''))
      else Ok (snapshot\<lparr>
        rs_run_id := crun_run_id cmd,
        rs_session_id := crun_session_id cmd,
        rs_state := RunCreated,
        rs_workspace_version := tb_workspace_version (crun_root_binding cmd),
        rs_deadlines := (rs_deadlines snapshot)\<lparr>rd_run_deadline := tb_deadline (crun_root_binding cmd)\<rparr>,
        rs_tasks := bt_insert (crun_root_task_id cmd)
          (new_task (crun_root_task_id cmd) (crun_root_binding cmd)) (rs_tasks snapshot),
        rs_speculation :=
          (case crun_speculation cmd of Some spec \<Rightarrow> spec | None \<Rightarrow> rs_speculation snapshot),
        rs_job_spec := crun_job_spec cmd\<rparr>))"

definition apply_start_run :: "run_snapshot \<Rightarrow> start_run \<Rightarrow> run_snapshot run_result" where
  "apply_start_run snapshot cmd =
     (if rs_run_id snapshot \<noteq> srun_run_id cmd then Err (RunNotFound (srun_run_id cmd))
      else if rs_state snapshot \<noteq> RunCreated
      then Err (InvalidTransition (''cannot start run from '' @ run_state_debug (rs_state snapshot)))
      else Ok (recompute_blocked_ready (snapshot\<lparr>rs_state := RunActive\<rparr>)))"

text \<open>The fence a delegating executor must pass to add a task.\<close>

definition check_delegation :: "run_snapshot \<Rightarrow> add_task \<Rightarrow> unit run_result" where
  "check_delegation snapshot cmd =
     (case tb_delegation (at_binding cmd) of
        None \<Rightarrow> Ok ()
      | Some delegation \<Rightarrow>
          (case dt_parent_lease delegation of
             None \<Rightarrow> Ok ()
           | Some proof \<Rightarrow>
               and_then (get_attempt snapshot (dt_parent_attempt delegation)) (\<lambda>parent.
               and_then (validate_lease_proof parent proof) (\<lambda>_.
               and_then (get_task snapshot (ar_task_id parent)) (\<lambda>task.
               if ar_state parent \<noteq> AttemptRunning \<or>
                  \<not> ar_execution_claimed parent \<or>
                  ar_execution_quiesced parent \<or>
                  ar_suspension parent \<noteq> None \<or>
                  tr_state task \<noteq> TaskRunning \<or>
                  tr_active_attempt task \<noteq> Some (ar_attempt_id parent) \<or>
                  tr_finalization_claim task \<noteq> None \<or>
                  \<not> is_lease_current parent (env_timestamp (at_envelope cmd)) \<or>
                  (case tb_deadline (tr_binding task) of None \<Rightarrow> False
                   | Some d \<Rightarrow> d \<le> env_timestamp (at_envelope cmd))
               then Err (InvalidTransition ''delegation requires the current running parent'')
               else Ok ())))))"

definition add_task :: "run_snapshot \<Rightarrow> add_task \<Rightarrow> run_snapshot run_result" where
  "add_task snapshot cmd =
     and_then (ensure_run_accepts_mutations snapshot) (\<lambda>_.
     and_then (check_delegation snapshot cmd) (\<lambda>_.
       if bt_contains (rs_tasks snapshot) (at_task_id cmd)
       then Err (Conflict (''task '' @ at_task_id cmd @ '' exists''))
       else Ok (recompute_blocked_ready
         (snapshot\<lparr>rs_tasks := bt_insert (at_task_id cmd)
            (new_task (at_task_id cmd) (at_binding cmd)) (rs_tasks snapshot)\<rparr>))))"

definition apply_add_dependency :: "run_snapshot \<Rightarrow> add_dependency \<Rightarrow> run_snapshot run_result" where
  "apply_add_dependency snapshot cmd =
     and_then (ensure_run_accepts_mutations snapshot) (\<lambda>_.
     and_then (get_task snapshot (ad_task_id cmd)) (\<lambda>task.
       if task_is_locked (tr_state task) then Err DependencyLocked
       else if \<not> bt_contains (rs_tasks snapshot) (ad_depends_on cmd)
       then Err (TaskNotFound (ad_depends_on cmd))
       else if would_create_cycle (rs_dependencies snapshot) (ad_task_id cmd) (ad_depends_on cmd)
       then Err CycleDetected
       else Ok (recompute_blocked_ready
         (snapshot\<lparr>rs_dependencies := bt_push (ad_task_id cmd)
            \<lparr>depends_on = ad_depends_on cmd, dep_policy = ad_policy cmd\<rparr>
            (rs_dependencies snapshot)\<rparr>))))"

definition apply_mark_task_ready :: "run_snapshot \<Rightarrow> mark_task_ready \<Rightarrow> run_snapshot run_result" where
  "apply_mark_task_ready snapshot cmd =
     and_then (ensure_run_accepts_mutations snapshot) (\<lambda>_.
     and_then (get_task snapshot (mr_task_id cmd)) (\<lambda>task.
       if tr_state task = TaskReady then Ok snapshot
       else if tr_state task \<notin> {TaskCreated, TaskBlocked}
       then Err (InvalidTransition (''cannot mark ready from '' @ task_state_debug (tr_state task)))
       else if (case trs_next_retry_at (tr_retry task) of None \<Rightarrow> False
                | Some retry_at \<Rightarrow> env_timestamp (mr_envelope cmd) < retry_at)
       then Err (InvalidTransition ''retry backoff not elapsed'')
       else if \<not> dependencies_satisfied snapshot (mr_task_id cmd)
       then Err (InvalidTransition ''dependencies not satisfied'')
       else Ok (update_task (mr_task_id cmd) (\<lambda>t. t\<lparr>tr_state := TaskReady\<rparr>) snapshot)))"

section \<open>Attempts: creation, lease, start, claim\<close>

definition attempt_is_active :: "attempt_state \<Rightarrow> bool" where
  "attempt_is_active st \<longleftrightarrow>
     st \<in> {AttemptCreated, AttemptLeased, AttemptStarting, AttemptRunning}"

definition active_count :: "run_snapshot \<Rightarrow> task_id \<Rightarrow> u32" where
  "active_count snapshot task_id =
     of_nat (length (filter (\<lambda>a. ar_task_id a = task_id \<and> attempt_is_active (ar_state a))
       (bt_values (rs_attempts snapshot))))"

definition new_attempt :: "host \<Rightarrow> run_snapshot \<Rightarrow> create_attempt \<Rightarrow> task_record \<Rightarrow> attempt_record" where
  "new_attempt h out cmd task =
     (let binding = tr_binding task in
      \<lparr>ar_suspension = None, ar_execution_quiesced = False, ar_execution_claimed = False,
       ar_attempt_id = ca_attempt_id cmd, ar_task_id = ca_task_id cmd, ar_state = AttemptCreated,
       ar_task_version = tb_task_definition_version binding,
       ar_workspace_version = tb_workspace_version binding,
       ar_input_digest =
         (case (case tb_job_spec binding of Some spec \<Rightarrow> Some spec | None \<Rightarrow> rs_job_spec out) of
            Some spec \<Rightarrow> js_input_digest spec
          | None \<Rightarrow> binding_input_digest h binding),
       ar_result_digest = None, ar_delivery_key = ca_delivery_key cmd, ar_lease = None,
       ar_failure_class = None, ar_failure_reason = None,
       ar_attempt_number = trs_attempt_count (tr_retry task) + 1\<rparr>)"

definition admit_attempt :: "host \<Rightarrow> run_snapshot \<Rightarrow> create_attempt \<Rightarrow> run_snapshot run_result" where
  "admit_attempt h snapshot cmd =
     and_then (get_task snapshot (ca_task_id cmd)) (\<lambda>task.
       if tr_state task \<noteq> TaskReady \<and> tr_state task \<noteq> TaskLeased \<and>
          \<not> (sc_allowed (rs_speculation snapshot) \<and> tr_state task = TaskRunning)
       then Err (InvalidTransition
              (''cannot create attempt for task in '' @ task_state_debug (tr_state task)))
       else if rp_max_attempts (tb_retry_policy (tr_binding task)) \<le> trs_attempt_count (tr_retry task)
       then Err RetryLimitExceeded
       else if bt_contains (rs_attempts snapshot) (ca_attempt_id cmd)
       then Err (Conflict (''attempt '' @ ca_attempt_id cmd @ '' exists''))
       else if sc_max_simultaneous_attempts (rs_speculation snapshot) \<le>
               active_count snapshot (ca_task_id cmd)
       then Err (Conflict ''max simultaneous attempts reached'')
       else
         let out = snapshot\<lparr>rs_attempts := bt_insert (ca_attempt_id cmd)
                     (new_attempt h snapshot cmd task) (rs_attempts snapshot)\<rparr>;
             out1 = (case ca_delivery_key cmd of
                       None \<Rightarrow> out
                     | Some key \<Rightarrow> register_delivery_key key (ca_attempt_id cmd) out)
         in Ok (update_task (ca_task_id cmd)
              (\<lambda>t. t\<lparr>tr_active_attempt := Some (ca_attempt_id cmd),
                     tr_state := (if tr_state t = TaskReady then TaskLeased else tr_state t)\<rparr>) out1))"

definition apply_create_attempt ::
    "host \<Rightarrow> run_snapshot \<Rightarrow> create_attempt \<Rightarrow> run_snapshot run_result" where
  "apply_create_attempt h snapshot cmd =
     and_then (ensure_run_accepts_mutations snapshot) (\<lambda>_.
       case ca_delivery_key cmd of
         None \<Rightarrow> admit_attempt h snapshot cmd
       | Some key \<Rightarrow>
           (case bt_get (rs_delivery_index snapshot) key of
              None \<Rightarrow> admit_attempt h snapshot cmd
            | Some existing \<Rightarrow>
                if existing \<noteq> ca_attempt_id cmd
                then Err (DuplicateDelivery (''delivery key bound to '' @ existing))
                else Ok snapshot))"

definition granted_lease :: "lease_attempt \<Rightarrow> u64 \<Rightarrow> attempt_lease" where
  "granted_lease cmd epoch =
     \<lparr>al_lease_id = la_lease_id cmd, al_attempt_id = la_attempt_id cmd, al_lease_epoch = epoch,
      al_holder = la_holder cmd, al_issued_at = la_issued_at cmd, al_expires_at = la_expires_at cmd,
      al_heartbeat_interval_secs = la_heartbeat_interval_secs cmd, al_last_heartbeat_sequence = 0\<rparr>"

definition apply_lease_attempt :: "run_snapshot \<Rightarrow> lease_attempt \<Rightarrow> run_snapshot run_result" where
  "apply_lease_attempt snapshot cmd =
     and_then (ensure_run_accepts_mutations snapshot) (\<lambda>_.
     and_then (get_attempt snapshot (la_attempt_id cmd)) (\<lambda>attempt.
       if ar_state attempt \<noteq> AttemptCreated
       then Err (InvalidTransition
              (''cannot lease attempt from '' @ attempt_state_debug (ar_state attempt)))
       else
         let epoch = (if 0 < la_lease_epoch cmd then la_lease_epoch cmd
                      else rs_next_lease_epoch snapshot + 1)
         in Ok (update_attempt (la_attempt_id cmd)
              (\<lambda>a. a\<lparr>ar_state := AttemptLeased, ar_lease := Some (granted_lease cmd epoch)\<rparr>)
              (snapshot\<lparr>rs_next_lease_epoch := epoch\<rparr>))))"

definition apply_start_attempt :: "run_snapshot \<Rightarrow> start_attempt \<Rightarrow> run_snapshot run_result" where
  "apply_start_attempt snapshot cmd =
     and_then (ensure_run_accepts_mutations snapshot) (\<lambda>_.
     and_then (get_attempt snapshot (sa_attempt_id cmd)) (\<lambda>attempt.
       if ar_state attempt \<noteq> AttemptLeased
       then Err (InvalidTransition
              (''cannot start attempt from '' @ attempt_state_debug (ar_state attempt)))
       else and_then (validate_lease_proof attempt (sa_lease_proof cmd)) (\<lambda>_.
         Ok (update_attempt (sa_attempt_id cmd) (\<lambda>a. a\<lparr>ar_state := AttemptStarting\<rparr>) snapshot))))"

definition apply_claim_execution :: "run_snapshot \<Rightarrow> start_attempt \<Rightarrow> run_snapshot run_result" where
  "apply_claim_execution snapshot cmd =
     and_then (ensure_run_accepts_mutations snapshot) (\<lambda>_.
     and_then (get_attempt snapshot (sa_attempt_id cmd)) (\<lambda>attempt.
       if ar_state attempt \<noteq> AttemptStarting \<or> ar_execution_claimed attempt
       then Err (DuplicateDelivery ''Attempt already dispatched or not started'')
       else and_then (validate_lease_proof attempt (sa_lease_proof cmd)) (\<lambda>_.
         if \<not> is_lease_current attempt (env_timestamp (sa_envelope cmd))
         then Err (StaleResult ''lease expired before dispatch'')
         else Ok (update_task (ar_task_id attempt) (\<lambda>t. t\<lparr>tr_state := TaskRunning\<rparr>)
           (update_attempt (sa_attempt_id cmd)
             (\<lambda>a. a\<lparr>ar_execution_claimed := True, ar_state := AttemptRunning\<rparr>) snapshot)))))"

section \<open>Suspension\<close>

definition others_quiescent :: "run_snapshot \<Rightarrow> attempt_id \<Rightarrow> bool" where
  "others_quiescent snapshot attempt_id =
     list_all (\<lambda>other. ar_attempt_id other = attempt_id \<or>
        ar_execution_quiesced other \<and> is_terminal_attempt (ar_state other))
       (bt_values (rs_attempts snapshot))"

text \<open>\<open>deadline.and_then(|d| d.checked_sub(now)).filter(|r| *r > 0)\<close>\<close>

definition unspent_seconds :: "u64 option \<Rightarrow> u64 \<Rightarrow> u64 option" where
  "unspent_seconds deadline now =
     (case deadline of
        None \<Rightarrow> None
      | Some d \<Rightarrow>
          (case checked_sub d now of
             None \<Rightarrow> None
           | Some r \<Rightarrow> if 0 < r then Some r else None))"

definition suspend :: "run_snapshot \<Rightarrow> suspend_attempt \<Rightarrow> run_snapshot run_result" where
  "suspend snapshot cmd =
     and_then (ensure_run_accepts_mutations snapshot) (\<lambda>_.
     and_then (get_attempt snapshot (sus_attempt_id cmd)) (\<lambda>attempt.
     and_then (validate_lease_proof attempt (sus_lease_proof cmd)) (\<lambda>_.
     and_then (get_task snapshot (ar_task_id attempt)) (\<lambda>task.
       if length (rs_tasks snapshot) \<noteq> 1 \<or>
          tr_active_attempt task \<noteq> Some (sus_attempt_id cmd) \<or>
          \<not> others_quiescent snapshot (sus_attempt_id cmd) \<or>
          tb_activation (tr_binding task) = None \<or>
          tb_delegation (tr_binding task) \<noteq> None \<or>
          tb_execution_scope (tr_binding task) = None \<or>
          ar_state attempt \<noteq> AttemptRunning \<or>
          \<not> ar_execution_claimed attempt \<or>
          ar_execution_quiesced attempt \<or>
          ar_suspension attempt \<noteq> None \<or>
          tr_state task \<noteq> TaskRunning \<or>
          tr_finalization_claim task \<noteq> None \<or>
          \<not> is_lease_current attempt (env_timestamp (sus_envelope cmd)) \<or>
          art_artifact_id (sus_cmd_checkpoint cmd) = [] \<or>
          256 < length (art_artifact_id (sus_cmd_checkpoint cmd)) \<or>
          art_digest (sus_cmd_checkpoint cmd) = [] \<or>
          256 < length (art_digest (sus_cmd_checkpoint cmd))
       then Err (InvalidTransition ''suspension requires a claimed, quiescent executor boundary'')
       else
         and_then (ok_or
              (unspent_seconds (tb_deadline (tr_binding task)) (env_timestamp (sus_envelope cmd)))
              (InvalidTransition ''suspension requires unspent execution time'')) (\<lambda>remaining_seconds.
            and_then (unwrap (bt_get (rs_attempts snapshot) (sus_attempt_id cmd))) (\<lambda>_.
            and_then (unwrap (bt_get (rs_tasks snapshot) (ar_task_id attempt))) (\<lambda>_.
            Ok (update_task (ar_task_id attempt) (\<lambda>t. t\<lparr>tr_state := TaskParked\<rparr>)
              (update_attempt (sus_attempt_id cmd)
                (\<lambda>a. a\<lparr>ar_state := AttemptSuspended, ar_execution_quiesced := True,
                       ar_suspension := Some \<lparr>sus_checkpoint = sus_cmd_checkpoint cmd,
                         sus_reason = sus_cmd_reason cmd,
                         sus_suspended_at = env_timestamp (sus_envelope cmd),
                         sus_remaining_seconds = remaining_seconds\<rparr>\<rparr>) snapshot)))))))))"

text \<open>The new lease of a resumed attempt: next epoch, new holder, five minutes.\<close>

definition resumed_lease :: "resume_attempt \<Rightarrow> u64 \<Rightarrow> attempt_lease \<Rightarrow> attempt_lease" where
  "resumed_lease cmd epoch lease =
     lease\<lparr>al_lease_epoch := epoch, al_holder := res_holder cmd,
       al_issued_at := env_timestamp (res_envelope cmd),
       al_expires_at := saturating_add (env_timestamp (res_envelope cmd)) 300,
       al_last_heartbeat_sequence := 0\<rparr>"

definition resume :: "run_snapshot \<Rightarrow> resume_attempt \<Rightarrow> run_snapshot run_result" where
  "resume snapshot cmd =
     and_then (ensure_run_accepts_mutations snapshot) (\<lambda>_.
     and_then (get_attempt snapshot (res_attempt_id cmd)) (\<lambda>attempt.
     and_then (validate_lease_proof attempt (res_lease_proof cmd)) (\<lambda>_.
     and_then (ok_or (ar_suspension attempt)
       (InvalidTransition ''attempt has no saved suspension'')) (\<lambda>parked.
     and_then (get_task snapshot (ar_task_id attempt)) (\<lambda>task.
       if length (rs_tasks snapshot) \<noteq> 1 \<or>
          tr_active_attempt task \<noteq> Some (res_attempt_id cmd) \<or>
          \<not> ar_execution_claimed attempt \<or>
          tr_finalization_claim task \<noteq> None \<or>
          \<not> others_quiescent snapshot (res_attempt_id cmd) \<or>
          tb_activation (tr_binding task) = None \<or>
          tb_delegation (tr_binding task) \<noteq> None \<or>
          tb_execution_scope (tr_binding task) = None \<or>
          ar_state attempt \<noteq> AttemptSuspended \<or>
          \<not> ar_execution_quiesced attempt \<or>
          tr_state task \<noteq> TaskParked \<or>
          sus_checkpoint parked \<noteq> res_checkpoint cmd \<or>
          env_timestamp (res_envelope cmd) < sus_suspended_at parked \<or>
          sus_remaining_seconds parked = 0
       then Err (InvalidTransition ''suspension changed before resumption'')
       else and_then (ok_or (checked_add (env_timestamp (res_envelope cmd)) (sus_remaining_seconds parked))
         (InvalidTransition ''resume deadline overflow'')) (\<lambda>deadline.
       and_then (ok_or (checked_add (rs_next_lease_epoch snapshot) 1)
         (InvalidTransition ''lease epoch overflow'')) (\<lambda>epoch.
       and_then (unwrap (bt_get (rs_attempts snapshot) (res_attempt_id cmd))) (\<lambda>resumed.
       and_then (unwrap (ar_lease resumed)) (\<lambda>lease.
       and_then (unwrap (bt_get (rs_tasks snapshot) (ar_task_id attempt))) (\<lambda>_.
       let out = update_task (ar_task_id attempt)
             (\<lambda>t. t\<lparr>tr_state := TaskLeased, tr_binding := (tr_binding t)\<lparr>tb_deadline := Some deadline\<rparr>\<rparr>)
             (update_attempt (res_attempt_id cmd)
               (\<lambda>a. a\<lparr>ar_state := AttemptStarting, ar_execution_claimed := False,
                      ar_execution_quiesced := False, ar_suspension := None,
                      ar_lease := Some (resumed_lease cmd epoch lease)\<rparr>)
               (snapshot\<lparr>rs_next_lease_epoch := epoch\<rparr>))
       in Ok (if tb_activation (tr_binding task) \<noteq> None
              then out\<lparr>rs_deadlines := (rs_deadlines out)\<lparr>rd_run_deadline := Some deadline\<rparr>\<rparr>
              else out)))))))))))"

section \<open>Heartbeat, finalization, completion, failure\<close>

definition apply_record_heartbeat :: "run_snapshot \<Rightarrow> record_heartbeat \<Rightarrow> run_snapshot run_result" where
  "apply_record_heartbeat snapshot cmd =
     and_then (get_attempt snapshot (hb_attempt_id cmd)) (\<lambda>attempt.
       if ar_state attempt \<notin> {AttemptLeased, AttemptStarting, AttemptRunning}
       then Err (InvalidTransition ''heartbeat on inactive attempt'')
       else and_then (validate_lease_proof attempt (hb_lease_proof cmd)) (\<lambda>_.
         if hb_heartbeat_sequence cmd \<le>
              (case ar_lease attempt of Some l \<Rightarrow> al_last_heartbeat_sequence l | None \<Rightarrow> 0)
         then Err (StaleResult ''non-monotonic heartbeat sequence'')
         else if \<not> can_renew_lease snapshot attempt (env_timestamp (hb_envelope cmd))
         then Err (InvalidTransition ''cannot renew lease'')
         else Ok (case hb_renewed_expires_at cmd of
             Some new_exp \<Rightarrow>
               if hr_lease_renewal_requested (hb_report cmd)
               then update_attempt (hb_attempt_id cmd) (\<lambda>a. a\<lparr>ar_lease :=
                      map_option (renew_lease (hb_heartbeat_sequence cmd) new_exp) (ar_lease a)\<rparr>) snapshot
               else snapshot
           | None \<Rightarrow>
               update_attempt (hb_attempt_id cmd) (\<lambda>a. a\<lparr>ar_lease :=
                 map_option (\<lambda>l. l\<lparr>al_last_heartbeat_sequence := hb_heartbeat_sequence cmd\<rparr>)
                   (ar_lease a)\<rparr>) snapshot)))"

definition apply_claim_finalization ::
    "host \<Rightarrow> run_snapshot \<Rightarrow> claim_finalization \<Rightarrow> run_snapshot run_result" where
  "apply_claim_finalization h snapshot cmd =
     and_then (ensure_not_recovery snapshot) (\<lambda>_.
     and_then (try_claim_finalization h snapshot cmd) (\<lambda>_.
     and_then (get_task snapshot (cf_task_id cmd)) (\<lambda>_.
     Ok (update_task (cf_task_id cmd)
       (\<lambda>t. t\<lparr>tr_finalization_claim := Some (cf_attempt_id cmd)\<rparr>) snapshot))))"

definition apply_complete_attempt ::
    "host \<Rightarrow> run_snapshot \<Rightarrow> complete_attempt \<Rightarrow> run_snapshot run_result" where
  "apply_complete_attempt h snapshot cmd =
     and_then (ensure_not_recovery snapshot) (\<lambda>_.
     and_then (try_accept_completion h snapshot cmd) (\<lambda>_.
     and_then (get_attempt snapshot (comp_attempt_id cmd)) (\<lambda>attempt.
       if ar_state attempt = AttemptSucceeded then Ok snapshot
       else apply_winner_selection (comp_attempt_id cmd) (ar_task_id attempt) (comp_task_version cmd)
         (update_attempt (comp_attempt_id cmd)
           (\<lambda>a. a\<lparr>ar_state := AttemptSucceeded, ar_result_digest := Some (comp_result_digest cmd),
                  ar_workspace_version := comp_workspace_version cmd\<rparr>) snapshot))))"

definition effective_failure_class :: "fail_attempt \<Rightarrow> failure_class" where
  "effective_failure_class cmd =
     (case fa_timeout_kind cmd of
        Some kind \<Rightarrow> failure_class_for_timeout kind
      | None \<Rightarrow> fa_failure_class cmd)"

definition apply_fail_attempt :: "host \<Rightarrow> run_snapshot \<Rightarrow> fail_attempt \<Rightarrow> run_snapshot run_result" where
  "apply_fail_attempt h snapshot cmd =
     and_then (ensure_not_recovery snapshot) (\<lambda>_.
     and_then (get_attempt snapshot (fa_attempt_id cmd)) (\<lambda>attempt.
     and_then (case fa_lease_proof cmd of
                 None \<Rightarrow> Ok () | Some proof \<Rightarrow> validate_lease_proof attempt proof) (\<lambda>_.
       if ar_state attempt \<notin> {AttemptRunning, AttemptStarting, AttemptLeased}
       then Err (InvalidTransition
              (''cannot fail attempt from '' @ attempt_state_debug (ar_state attempt)))
       else
         let fclass = effective_failure_class cmd
         in apply_failure_with_retry h (ar_task_id attempt) fclass (fa_reason cmd)
              (env_timestamp (fa_envelope cmd))
              (update_attempt (fa_attempt_id cmd)
                (\<lambda>a. a\<lparr>ar_state := map_attempt_state_for_failure fclass,
                       ar_failure_class := Some fclass,
                       ar_failure_reason := Some (fa_reason cmd)\<rparr>) snapshot))))"

definition apply_expire_lease :: "host \<Rightarrow> run_snapshot \<Rightarrow> expire_lease \<Rightarrow> run_snapshot run_result" where
  "apply_expire_lease h snapshot cmd =
     and_then (get_attempt snapshot (el_attempt_id cmd)) (\<lambda>attempt.
       if ar_state attempt \<notin> {AttemptLeased, AttemptStarting, AttemptRunning} then Ok snapshot
       else apply_failure_with_retry h (ar_task_id attempt) FcLeaseExpired ''lease expired''
         (el_expired_at cmd)
         (update_attempt (el_attempt_id cmd)
           (\<lambda>a. a\<lparr>ar_state := AttemptLeaseExpired, ar_failure_class := Some FcLeaseExpired,
                  ar_failure_reason := Some ''lease expired''\<rparr>) snapshot))"

section \<open>Cancellation, artifacts, end of the run\<close>

definition attempt_is_cancelable :: "attempt_state \<Rightarrow> bool" where
  "attempt_is_cancelable st \<longleftrightarrow>
     st \<in> {AttemptCreated, AttemptLeased, AttemptStarting, AttemptRunning, AttemptSuspended}"

definition cancel_attempt_record :: "attempt_record \<Rightarrow> attempt_record" where
  "cancel_attempt_record a =
     a\<lparr>ar_state := AttemptCanceled, ar_failure_class := Some FcCanceled\<rparr>"

definition apply_cancel_task :: "run_snapshot \<Rightarrow> cancel_task \<Rightarrow> run_snapshot run_result" where
  "apply_cancel_task snapshot cmd =
     and_then (get_task snapshot (ct_task_id cmd)) (\<lambda>task.
       if tr_state task = TaskSucceeded
       then Err (InvalidTransition ''cannot cancel succeeded task'')
       else
         let out = update_task (ct_task_id cmd) (\<lambda>t. t\<lparr>tr_state := TaskCanceled\<rparr>) snapshot
         in Ok (out\<lparr>rs_attempts := bt_update_all
              (\<lambda>_ a. if ar_task_id a = ct_task_id cmd \<and> attempt_is_cancelable (ar_state a)
                     then cancel_attempt_record a else a) (rs_attempts out)\<rparr>))"

definition apply_cancel_run :: "run_snapshot \<Rightarrow> cancel_run \<Rightarrow> run_snapshot run_result" where
  "apply_cancel_run snapshot cmd =
     (if rs_run_id snapshot \<noteq> crn_run_id cmd then Err (RunNotFound (crn_run_id cmd))
      else if rs_state snapshot \<in> {RunSucceeded, RunFailed, RunCanceled} then Ok snapshot
      else if rs_state snapshot = RunRecoveryRequired \<and>
              env_expected_sequence (crn_envelope cmd) \<noteq> Some (rs_sequence snapshot)
      then Err RecoveryRequired
      else Ok (snapshot\<lparr>
        rs_cancellation :=
          \<lparr>can_session_canceled = can_session_canceled (rs_cancellation snapshot),
           can_run_canceled = True,
           can_canceled_at = Some (env_timestamp (crn_envelope cmd)),
           can_reason = Some ''run canceled''\<rparr>,
        rs_tasks := bt_update_all
          (\<lambda>_ t. if task_is_executable (tr_state t) \<or> task_is_locked (tr_state t)
                 then t\<lparr>tr_state := TaskCanceled\<rparr> else t) (rs_tasks snapshot),
        rs_attempts := bt_update_all
          (\<lambda>_ a. if attempt_is_cancelable (ar_state a) then cancel_attempt_record a else a)
          (rs_attempts snapshot),
        rs_state := RunCanceled\<rparr>))"

definition apply_accept_artifact :: "run_snapshot \<Rightarrow> accept_artifact \<Rightarrow> run_snapshot run_result" where
  "apply_accept_artifact snapshot cmd =
     and_then (ensure_not_recovery snapshot) (\<lambda>_.
     and_then (get_attempt snapshot (aa_attempt_id cmd)) (\<lambda>attempt.
       if ar_state attempt \<noteq> AttemptSucceeded
       then Err (InvalidTransition ''attempt must succeed before artifact acceptance'')
       else if ar_task_id attempt \<noteq> aa_task_id cmd then Err (Conflict ''task/attempt mismatch'')
       else and_then (get_task snapshot (aa_task_id cmd)) (\<lambda>_.
         Ok (update_task (aa_task_id cmd)
           (\<lambda>t. t\<lparr>tr_accepted_artifact := Some (aa_artifact cmd), tr_state := TaskSucceeded\<rparr>)
           snapshot))))"

definition apply_reject_artifact ::
    "host \<Rightarrow> run_snapshot \<Rightarrow> reject_artifact \<Rightarrow> run_snapshot run_result" where
  "apply_reject_artifact h snapshot cmd =
     and_then (get_attempt snapshot (ra_attempt_id cmd)) (\<lambda>attempt.
       if ar_state attempt \<noteq> AttemptSucceeded
       then Err (InvalidTransition ''attempt not succeeded'')
       else if ar_task_id attempt \<noteq> ra_task_id cmd then Err (Conflict ''task/attempt mismatch'')
       else and_then (get_task snapshot (ra_task_id cmd)) (\<lambda>_.
         apply_failure_with_retry h (ar_task_id attempt) FcVerificationFailed (ra_reason cmd)
           (env_timestamp (ra_envelope cmd))
           (update_attempt (ra_attempt_id cmd)
             (\<lambda>a. a\<lparr>ar_state := AttemptFailed, ar_failure_class := Some FcVerificationFailed,
                    ar_failure_reason := Some (ra_reason cmd)\<rparr>)
             (update_task (ra_task_id cmd)
               (\<lambda>t. t\<lparr>tr_state := TaskReady, tr_winning_attempt := None,
                      tr_completed_version := None\<rparr>) snapshot))))"

definition apply_record_side_effect_commit ::
    "run_snapshot \<Rightarrow> record_side_effect_commit_cmd \<Rightarrow> run_snapshot run_result" where
  "apply_record_side_effect_commit snapshot cmd =
     record_side_effect_commit snapshot (rse_task_id cmd) (rse_operation_key cmd)
       (rse_transaction_id cmd) (rse_committed_at cmd)"

definition apply_finish_run :: "run_snapshot \<Rightarrow> finish_run \<Rightarrow> run_snapshot run_result" where
  "apply_finish_run snapshot cmd =
     (if rs_run_id snapshot \<noteq> fr_run_id cmd then Err (RunNotFound (fr_run_id cmd))
      else if rs_state snapshot = RunCanceled \<and> fr_outcome cmd = OutcomeCanceled then Ok snapshot
      else if rs_state snapshot \<notin> {RunActive, RunCreated}
      then Err (InvalidTransition (''cannot finish run from '' @ run_state_debug (rs_state snapshot)))
      else Ok (snapshot\<lparr>rs_state :=
        (case fr_outcome cmd of
           OutcomeSucceeded \<Rightarrow> RunSucceeded
         | OutcomeFailed \<Rightarrow> RunFailed
         | OutcomeCanceled \<Rightarrow> RunCanceled)\<rparr>))"

definition apply_attempt_quiescence :: "run_snapshot \<Rightarrow> start_attempt \<Rightarrow> run_snapshot run_result" where
  "apply_attempt_quiescence snapshot cmd =
     and_then (get_attempt snapshot (sa_attempt_id cmd)) (\<lambda>attempt.
     and_then (validate_lease_proof attempt (sa_lease_proof cmd)) (\<lambda>_.
       if \<not> is_terminal_attempt (ar_state attempt)
       then Err (InvalidTransition ''quiescence requires a terminal attempt'')
       else and_then (unwrap (bt_get (rs_attempts snapshot) (sa_attempt_id cmd))) (\<lambda>_.
         Ok (update_attempt (sa_attempt_id cmd) (\<lambda>a. a\<lparr>ar_execution_quiesced := True\<rparr>) snapshot))))"

section \<open>The dispatcher\<close>

fun apply_command :: "host \<Rightarrow> run_snapshot \<Rightarrow> run_command \<Rightarrow> run_snapshot run_result" where
  "apply_command h snapshot (CreateRun c) = apply_create_run snapshot c"
| "apply_command h snapshot (StartRun c) = apply_start_run snapshot c"
| "apply_command h snapshot (AddTask c) = add_task snapshot c"
| "apply_command h snapshot (AddDependency c) = apply_add_dependency snapshot c"
| "apply_command h snapshot (MarkTaskReady c) = apply_mark_task_ready snapshot c"
| "apply_command h snapshot (CreateAttempt c) = apply_create_attempt h snapshot c"
| "apply_command h snapshot (LeaseAttempt c) = apply_lease_attempt snapshot c"
| "apply_command h snapshot (StartAttempt c) = apply_start_attempt snapshot c"
| "apply_command h snapshot (ClaimExecution c) = apply_claim_execution snapshot c"
| "apply_command h snapshot (SuspendAttempt c) = suspend snapshot c"
| "apply_command h snapshot (ResumeAttempt c) = resume snapshot c"
| "apply_command h snapshot (RecordHeartbeat c) = apply_record_heartbeat snapshot c"
| "apply_command h snapshot (ClaimFinalization c) = apply_claim_finalization h snapshot c"
| "apply_command h snapshot (CompleteAttempt c) = apply_complete_attempt h snapshot c"
| "apply_command h snapshot (FailAttempt c) = apply_fail_attempt h snapshot c"
| "apply_command h snapshot (ExpireLease c) = apply_expire_lease h snapshot c"
| "apply_command h snapshot (CancelTask c) = apply_cancel_task snapshot c"
| "apply_command h snapshot (CancelRun c) = apply_cancel_run snapshot c"
| "apply_command h snapshot (AcceptArtifact c) = apply_accept_artifact snapshot c"
| "apply_command h snapshot (RejectArtifact c) = apply_reject_artifact h snapshot c"
| "apply_command h snapshot (RecordSideEffectCommit c) = apply_record_side_effect_commit snapshot c"
| "apply_command h snapshot (FinishRun c) = apply_finish_run snapshot c"
| "apply_command h snapshot (RecordAttemptQuiescence c) = apply_attempt_quiescence snapshot c"

fun event_type_for :: "run_command \<Rightarrow> string" where
  "event_type_for (CreateRun _) = ''run.created''"
| "event_type_for (StartRun _) = ''run.started''"
| "event_type_for (AddTask _) = ''task.added''"
| "event_type_for (AddDependency _) = ''dependency.added''"
| "event_type_for (MarkTaskReady _) = ''task.ready''"
| "event_type_for (CreateAttempt _) = ''attempt.created''"
| "event_type_for (LeaseAttempt _) = ''attempt.leased''"
| "event_type_for (StartAttempt _) = ''attempt.started''"
| "event_type_for (ClaimExecution _) = ''attempt.execution_claimed''"
| "event_type_for (SuspendAttempt _) = ''attempt.suspended''"
| "event_type_for (ResumeAttempt _) = ''attempt.resumed''"
| "event_type_for (RecordHeartbeat _) = ''attempt.heartbeat''"
| "event_type_for (ClaimFinalization _) = ''finalization.claimed''"
| "event_type_for (CompleteAttempt _) = ''attempt.completed''"
| "event_type_for (FailAttempt _) = ''attempt.failed''"
| "event_type_for (ExpireLease _) = ''attempt.lease_expired''"
| "event_type_for (CancelTask _) = ''task.canceled''"
| "event_type_for (CancelRun _) = ''run.canceled''"
| "event_type_for (AcceptArtifact _) = ''artifact.accepted''"
| "event_type_for (RejectArtifact _) = ''artifact.rejected''"
| "event_type_for (RecordSideEffectCommit _) = ''side_effect.committed''"
| "event_type_for (FinishRun _) = ''run.finished''"
| "event_type_for (RecordAttemptQuiescence _) = ''attempt.quiesced''"

fun failure_class_for_command :: "run_command \<Rightarrow> failure_class option" where
  "failure_class_for_command (FailAttempt c) = Some (fa_failure_class c)"
| "failure_class_for_command (ExpireLease _) = Some FcLeaseExpired"
| "failure_class_for_command (RejectArtifact _) = Some FcVerificationFailed"
| "failure_class_for_command _ = None"

end
