(* ===== verification/Run_Invariant.thy ===== *)
theory Run_Invariant
  imports Transition
begin

text \<open>
  The well-formedness invariant of run snapshots and its preservation by every command. The
  invariant ties the tables together (attempts to tasks, winners to succeeded attempts, delivery
  keys to attempts, parked tasks to suspended attempts), fixes the shape of an attempt in each
  of its states, and keeps the dependency graph over existing tasks and acyclic.
\<close>

section \<open>The invariant\<close>

type_synonym task_map = "task_id \<Rightarrow> task_record option"
type_synonym attempt_map = "attempt_id \<Rightarrow> attempt_record option"

text \<open>Lease, claim, quiescence and suspension of an attempt in each state.\<close>

definition attempt_shape :: "attempt_record \<Rightarrow> bool" where
  "attempt_shape a \<longleftrightarrow>
     (ar_state a = AttemptCreated \<longrightarrow> ar_lease a = None) \<and>
     (ar_state a \<in> {AttemptLeased, AttemptStarting, AttemptRunning, AttemptSuspended} \<longrightarrow>
        ar_lease a \<noteq> None) \<and>
     (ar_execution_quiesced a \<longrightarrow> ar_lease a \<noteq> None) \<and>
     (ar_state a \<in> {AttemptCreated, AttemptLeased, AttemptStarting} \<longrightarrow> \<not> ar_execution_claimed a) \<and>
     (ar_state a \<in> {AttemptRunning, AttemptSuspended} \<longrightarrow> ar_execution_claimed a) \<and>
     (attempt_is_active (ar_state a) \<longrightarrow> \<not> ar_execution_quiesced a \<and> ar_suspension a = None) \<and>
     (ar_state a = AttemptSuspended \<longrightarrow> ar_execution_quiesced a \<and>
        (\<exists>p. ar_suspension a = Some p \<and> 0 < sus_remaining_seconds p)) \<and>
     (\<forall>l. ar_lease a = Some l \<longrightarrow> al_attempt_id l = ar_attempt_id a)"

definition attempt_ok ::
    "task_map \<Rightarrow> (string \<Rightarrow> attempt_id option) \<Rightarrow> attempt_id \<Rightarrow> attempt_record \<Rightarrow> bool" where
  "attempt_ok T D k a \<longleftrightarrow>
     ar_attempt_id a = k \<and> attempt_shape a \<and>
     (\<exists>t. T (ar_task_id a) = Some t \<and>
        (ar_state a = AttemptSucceeded \<longrightarrow> tr_winning_attempt t = Some k) \<and>
        0 < ar_attempt_number a \<and>
        ar_attempt_number a \<le> rp_max_attempts (tb_retry_policy (tr_binding t))) \<and>
     (\<forall>key. ar_delivery_key a = Some key \<longrightarrow> D key = Some k)"

definition owns :: "attempt_map \<Rightarrow> task_id \<Rightarrow> attempt_id \<Rightarrow> (attempt_state \<Rightarrow> bool) \<Rightarrow> bool" where
  "owns A k aid P \<longleftrightarrow> (\<exists>a. A aid = Some a \<and> ar_task_id a = k \<and> P (ar_state a))"

definition task_ok ::
    "attempt_map \<Rightarrow> (string \<Rightarrow> side_effect_commit_record option) \<Rightarrow> task_id \<Rightarrow> task_record \<Rightarrow> bool" where
  "task_ok A C k t \<longleftrightarrow>
     tr_task_id t = k \<and>
     (\<forall>aid. tr_active_attempt t = Some aid \<longrightarrow> owns A k aid (\<lambda>_. True)) \<and>
     (\<forall>aid. tr_finalization_claim t = Some aid \<longrightarrow> owns A k aid (\<lambda>_. True)) \<and>
     (\<forall>aid. tr_winning_attempt t = Some aid \<longrightarrow> owns A k aid (\<lambda>st. st = AttemptSucceeded)) \<and>
     (tr_winning_attempt t = None \<longleftrightarrow> tr_completed_version t = None) \<and>
     (tr_state t = TaskParked \<longrightarrow>
        (\<exists>aid. tr_active_attempt t = Some aid \<and> owns A k aid (\<lambda>st. st = AttemptSuspended))) \<and>
     (tr_state t = TaskSucceeded \<longrightarrow>
        tr_accepted_artifact t \<noteq> None \<and> tr_winning_attempt t \<noteq> None) \<and>
     (\<forall>key \<in> set (tr_side_effect_keys t). C key \<noteq> None)"

definition wf_core ::
    "task_map \<Rightarrow> attempt_map \<Rightarrow> (string \<Rightarrow> attempt_id option) \<Rightarrow>
     (string \<Rightarrow> side_effect_commit_record option) \<Rightarrow> bool" where
  "wf_core T A D C \<longleftrightarrow>
     (\<forall>k t. T k = Some t \<longrightarrow> task_ok A C k t) \<and>
     (\<forall>k a. A k = Some a \<longrightarrow> attempt_ok T D k a) \<and>
     (\<forall>key aid. D key = Some aid \<longrightarrow> (\<exists>a. A aid = Some a \<and> ar_delivery_key a = Some key)) \<and>
     (\<forall>key r. C key = Some r \<longrightarrow> se_committed r \<and> se_operation_key r = key)"

definition wf_deps :: "run_snapshot \<Rightarrow> bool" where
  "wf_deps s \<longleftrightarrow> bt_invar (rs_dependencies s) \<and> acyclic (dep_edges (rs_dependencies s)) \<and>
     (\<forall>k ds. bt_get (rs_dependencies s) k = Some ds \<longrightarrow>
        bt_contains (rs_tasks s) k \<and> (\<forall>d \<in> set ds. bt_contains (rs_tasks s) (depends_on d)))"

definition wf_maps :: "run_snapshot \<Rightarrow> bool" where
  "wf_maps s \<longleftrightarrow> bt_invar (rs_tasks s) \<and> bt_invar (rs_attempts s) \<and>
     bt_invar (rs_delivery_index s) \<and> bt_invar (rs_side_effect_commits s)"

definition wf_cancel :: "run_snapshot \<Rightarrow> bool" where
  "wf_cancel s \<longleftrightarrow> (can_run_canceled (rs_cancellation s) \<longrightarrow>
     (\<forall>k a. bt_get (rs_attempts s) k = Some a \<longrightarrow> \<not> attempt_is_cancelable (ar_state a)))"

abbreviation wf_tables :: "run_snapshot \<Rightarrow> bool" where
  "wf_tables s \<equiv> wf_core (bt_get (rs_tasks s)) (bt_get (rs_attempts s))
     (bt_get (rs_delivery_index s)) (bt_get (rs_side_effect_commits s))"

definition wf_snapshot :: "run_snapshot \<Rightarrow> bool" where
  "wf_snapshot s \<longleftrightarrow> wf_maps s \<and> wf_tables s \<and> wf_deps s \<and> wf_cancel s"

section \<open>Inversion of the shared checks\<close>

lemma get_task_simps [result_simps]:
  "get_task s k = Ok t \<longleftrightarrow> bt_get (rs_tasks s) k = Some t"
  "get_task s k = Err e \<longleftrightarrow> bt_get (rs_tasks s) k = None \<and> e = TaskNotFound k"
  "get_task s k \<noteq> Panic"
  by (auto simp: get_task_def result_simps)

lemma get_attempt_simps [result_simps]:
  "get_attempt s k = Ok a \<longleftrightarrow> bt_get (rs_attempts s) k = Some a"
  "get_attempt s k = Err e \<longleftrightarrow> bt_get (rs_attempts s) k = None \<and> e = AttemptNotFound k"
  "get_attempt s k \<noteq> Panic"
  by (auto simp: get_attempt_def result_simps)

definition lease_matches :: "attempt_record \<Rightarrow> lease_proof \<Rightarrow> bool" where
  "lease_matches a p \<longleftrightarrow> (\<exists>l. ar_lease a = Some l \<and> al_lease_id l = lp_lease_id p \<and>
     al_lease_epoch l = lp_lease_epoch p \<and> al_holder l = lp_holder p)"

lemma validate_lease_proof_simps [result_simps]:
  "validate_lease_proof a p = Ok u \<longleftrightarrow> lease_matches a p"
  "validate_lease_proof a p \<noteq> Panic"
  by (auto simp: validate_lease_proof_def lease_matches_def split: option.splits if_splits)

lemma ensure_not_recovery_simps [result_simps]:
  "ensure_not_recovery s = Ok u \<longleftrightarrow> rs_state s \<noteq> RunRecoveryRequired"
  "ensure_not_recovery s \<noteq> Panic"
  by (auto simp: ensure_not_recovery_def)

definition accepting :: "run_snapshot \<Rightarrow> bool" where
  "accepting s \<longleftrightarrow> rs_state s \<in> {RunActive, RunCreated} \<and> \<not> can_run_canceled (rs_cancellation s)"

lemma ensure_run_accepts_mutations_simps [result_simps]:
  "ensure_run_accepts_mutations s = Ok u \<longleftrightarrow> accepting s"
  "ensure_run_accepts_mutations s \<noteq> Panic"
  by (auto simp: ensure_run_accepts_mutations_def accepting_def result_simps split: if_splits)

lemma check_delegation_neq_Panic [result_simps]: "check_delegation s c \<noteq> Panic"
  by (auto simp: check_delegation_def result_simps split: option.splits)

lemma try_accept_completion_neq_Panic [result_simps]: "try_accept_completion h s c \<noteq> Panic"
  by (auto simp: try_accept_completion_def result_simps split: option.splits if_splits)

lemma try_claim_finalization_neq_Panic [result_simps]: "try_claim_finalization h s c \<noteq> Panic"
  by (auto simp: try_claim_finalization_def result_simps split: option.splits if_splits)

section \<open>Local steps\<close>

text \<open>Changes of one record that keep \<open>wf_core\<close>, whatever the other records are.\<close>

definition attempt_step :: "task_map \<Rightarrow> attempt_record \<Rightarrow> attempt_record \<Rightarrow> bool" where
  "attempt_step T a a' \<longleftrightarrow>
     ar_attempt_id a' = ar_attempt_id a \<and> ar_task_id a' = ar_task_id a \<and>
     ar_delivery_key a' = ar_delivery_key a \<and> ar_attempt_number a' = ar_attempt_number a \<and>
     (attempt_shape a \<longrightarrow> attempt_shape a') \<and>
     (ar_state a' = AttemptSucceeded \<longleftrightarrow> ar_state a = AttemptSucceeded) \<and>
     (ar_state a = AttemptSuspended \<longrightarrow> ar_state a' = AttemptSuspended \<or>
        (\<forall>t. T (ar_task_id a) = Some t \<longrightarrow> tr_state t \<noteq> TaskParked))"

definition task_step :: "attempt_map \<Rightarrow> task_id \<Rightarrow> task_record \<Rightarrow> task_record \<Rightarrow> bool" where
  "task_step A k t t' \<longleftrightarrow>
     tr_task_id t' = tr_task_id t \<and> tr_winning_attempt t' = tr_winning_attempt t \<and>
     (tr_completed_version t' = None \<longleftrightarrow> tr_completed_version t = None) \<and>
     rp_max_attempts (tb_retry_policy (tr_binding t')) =
       rp_max_attempts (tb_retry_policy (tr_binding t)) \<and>
     tr_side_effect_keys t' = tr_side_effect_keys t \<and>
     (\<forall>aid. tr_active_attempt t' = Some aid \<longrightarrow>
        tr_active_attempt t = Some aid \<or> owns A k aid (\<lambda>_. True)) \<and>
     (\<forall>aid. tr_finalization_claim t' = Some aid \<longrightarrow>
        tr_finalization_claim t = Some aid \<or> owns A k aid (\<lambda>_. True)) \<and>
     (tr_state t' = TaskParked \<longrightarrow>
        tr_state t = TaskParked \<and> tr_active_attempt t' = tr_active_attempt t \<or>
        (\<exists>aid. tr_active_attempt t' = Some aid \<and> owns A k aid (\<lambda>st. st = AttemptSuspended))) \<and>
     (tr_state t' = TaskSucceeded \<longrightarrow>
        tr_state t = TaskSucceeded \<and> tr_accepted_artifact t' = tr_accepted_artifact t \<or>
        tr_accepted_artifact t' \<noteq> None \<and> tr_winning_attempt t \<noteq> None)"

lemma attempt_step_refl [simp]: "attempt_step T a a"
  by (simp add: attempt_step_def)

lemma task_step_refl [simp]: "task_step A k t t"
  by (simp add: task_step_def)

lemma owns_mono:
  "owns A k aid P \<Longrightarrow> (\<And>a. A aid = Some a \<Longrightarrow> ar_task_id a = k \<Longrightarrow> P (ar_state a) \<Longrightarrow>
     \<exists>a'. A' aid = Some a' \<and> ar_task_id a' = k \<and> Q (ar_state a')) \<Longrightarrow> owns A' k aid Q"
  by (auto simp: owns_def)

lemma wf_core_attempts:
  assumes wf: "wf_core T A D C" and rel: "\<And>k. rel_option (attempt_step T) (A k) (A' k)"
  shows "wf_core T A' D C"
proof -
  have fwd: "\<exists>a'. A' k = Some a' \<and> attempt_step T a a'" if "A k = Some a" for k a
    using rel [of k] that by (cases "A' k") auto
  have bwd: "\<exists>a. A k = Some a \<and> attempt_step T a a'" if "A' k = Some a'" for k a'
    using rel [of k] that by (cases "A k") auto
  have "task_ok A' C k t" if t: "T k = Some t" for k t
  proof -
    have ok: "task_ok A C k t" using wf t by (simp add: wf_core_def)
    have any: "owns A k aid (\<lambda>_. True) \<Longrightarrow> owns A' k aid (\<lambda>_. True)"
      and win: "owns A k aid (\<lambda>st. st = AttemptSucceeded) \<Longrightarrow> owns A' k aid (\<lambda>st. st = AttemptSucceeded)"
      and park: "owns A k aid (\<lambda>st. st = AttemptSuspended) \<Longrightarrow> tr_state t = TaskParked \<Longrightarrow>
        owns A' k aid (\<lambda>st. st = AttemptSuspended)" for aid
      using fwd t by (auto simp: owns_def attempt_step_def) metis+
    have "tr_state t = TaskParked \<longrightarrow>
        (\<exists>aid. tr_active_attempt t = Some aid \<and> owns A' k aid (\<lambda>st. st = AttemptSuspended))"
      using ok park unfolding task_ok_def by blast
    then show ?thesis using ok any win unfolding task_ok_def
      by (elim conjE) (intro conjI; blast)
  qed
  moreover have "attempt_ok T D k a'" if "A' k = Some a'" for k a'
    using bwd [OF that] wf by (fastforce simp: wf_core_def attempt_ok_def attempt_step_def)
  moreover have "\<exists>a'. A' aid = Some a' \<and> ar_delivery_key a' = Some key" if "D key = Some aid" for key aid
    using wf that fwd by (fastforce simp: wf_core_def attempt_step_def)
  ultimately show ?thesis using wf by (simp add: wf_core_def)
qed

lemma wf_core_tasks:
  assumes wf: "wf_core T A D C" and rel: "\<And>k. rel_option (task_step A k) (T k) (T' k)"
  shows "wf_core T' A D C"
proof -
  have fwd: "\<exists>t'. T' k = Some t' \<and> task_step A k t t'" if "T k = Some t" for k t
    using rel [of k] that by (cases "T' k") auto
  have bwd: "\<exists>t. T k = Some t \<and> task_step A k t t'" if "T' k = Some t'" for k t'
    using rel [of k] that by (cases "T k") auto
  have "task_ok A C k t'" if t': "T' k = Some t'" for k t'
  proof -
    obtain t where t: "T k = Some t" and step: "task_step A k t t'" using bwd [OF t'] by blast
    have "task_ok A C k t" using wf t by (simp add: wf_core_def)
    then show ?thesis using step unfolding task_ok_def task_step_def by (elim conjE) auto
  qed
  moreover have "attempt_ok T' D k a" if "A k = Some a" for k a
  proof -
    have "attempt_ok T D k a" using wf that by (simp add: wf_core_def)
    with fwd show ?thesis by (fastforce simp: attempt_ok_def task_step_def)
  qed
  ultimately show ?thesis using wf by (simp add: wf_core_def)
qed

section \<open>Updates of a snapshot\<close>

lemma update_task_selectors [simp]:
  "rs_tasks (update_task k f s) = bt_modify k f (rs_tasks s)"
  "rs_attempts (update_task k f s) = rs_attempts s"
  "rs_dependencies (update_task k f s) = rs_dependencies s"
  "rs_delivery_index (update_task k f s) = rs_delivery_index s"
  "rs_side_effect_commits (update_task k f s) = rs_side_effect_commits s"
  "rs_cancellation (update_task k f s) = rs_cancellation s"
  "rs_state (update_task k f s) = rs_state s"
  "rs_next_lease_epoch (update_task k f s) = rs_next_lease_epoch s"
  "rs_speculation (update_task k f s) = rs_speculation s"
  "rs_deadlines (update_task k f s) = rs_deadlines s"
  "rs_sequence (update_task k f s) = rs_sequence s"
  "rs_run_id (update_task k f s) = rs_run_id s"
  by (simp_all add: update_task_def)

lemma update_attempt_selectors [simp]:
  "rs_tasks (update_attempt k f s) = rs_tasks s"
  "rs_attempts (update_attempt k f s) = bt_modify k f (rs_attempts s)"
  "rs_dependencies (update_attempt k f s) = rs_dependencies s"
  "rs_delivery_index (update_attempt k f s) = rs_delivery_index s"
  "rs_side_effect_commits (update_attempt k f s) = rs_side_effect_commits s"
  "rs_cancellation (update_attempt k f s) = rs_cancellation s"
  "rs_state (update_attempt k f s) = rs_state s"
  "rs_next_lease_epoch (update_attempt k f s) = rs_next_lease_epoch s"
  "rs_speculation (update_attempt k f s) = rs_speculation s"
  "rs_deadlines (update_attempt k f s) = rs_deadlines s"
  "rs_sequence (update_attempt k f s) = rs_sequence s"
  "rs_run_id (update_attempt k f s) = rs_run_id s"
  by (simp_all add: update_attempt_def)

lemma wf_snapshot_frame [simp]:
  "wf_snapshot (s\<lparr>rs_state := st\<rparr>) = wf_snapshot s"
  "wf_snapshot (s\<lparr>rs_next_lease_epoch := e\<rparr>) = wf_snapshot s"
  "wf_snapshot (s\<lparr>rs_deadlines := d\<rparr>) = wf_snapshot s"
  "wf_snapshot (s\<lparr>rs_sequence := q\<rparr>) = wf_snapshot s"
  "wf_snapshot (s\<lparr>rs_events := e'\<rparr>) = wf_snapshot s"
  by (simp_all add: wf_snapshot_def wf_maps_def wf_deps_def wf_cancel_def)

lemma wf_deps_mono:
  "wf_deps s \<Longrightarrow> rs_dependencies s' = rs_dependencies s \<Longrightarrow>
   (\<And>k. bt_contains (rs_tasks s) k \<Longrightarrow> bt_contains (rs_tasks s') k) \<Longrightarrow> wf_deps s'"
  unfolding wf_deps_def by (elim conjE, intro conjI) auto

lemma bt_contains_modify [simp]: "bt_contains (bt_modify k f m) x = bt_contains m x"
  by (simp add: bt_contains_def)

lemma bt_contains_update_all [simp]: "bt_contains (bt_update_all f m) x = bt_contains m x"
  by (simp add: bt_contains_def)

lemma wf_update_attempt:
  assumes wf: "wf_snapshot s" and a: "bt_get (rs_attempts s) k = Some a"
    and step: "attempt_step (bt_get (rs_tasks s)) a (f a)"
    and live: "attempt_is_cancelable (ar_state (f a)) \<Longrightarrow> attempt_is_cancelable (ar_state a)"
  shows "wf_snapshot (update_attempt k f s)"
proof -
  have "wf_tables (update_attempt k f s)"
    unfolding update_attempt_selectors
    by (rule wf_core_attempts [where A = "bt_get (rs_attempts s)"])
      (use wf a step in \<open>auto simp: wf_snapshot_def option.rel_map option.rel_refl
         intro!: option.rel_refl_strong\<close>)
  moreover have "wf_cancel (update_attempt k f s)"
    using wf a live by (auto simp: wf_snapshot_def wf_cancel_def split: if_splits)
  ultimately show ?thesis using wf
    by (auto simp: wf_snapshot_def wf_maps_def intro: wf_deps_mono)
qed

lemma wf_update_task:
  assumes wf: "wf_snapshot s" and t: "bt_get (rs_tasks s) k = Some t"
    and step: "task_step (bt_get (rs_attempts s)) k t (f t)"
  shows "wf_snapshot (update_task k f s)"
proof -
  have "wf_tables (update_task k f s)"
    unfolding update_task_selectors
    by (rule wf_core_tasks [where T = "bt_get (rs_tasks s)"])
      (use wf t step in \<open>auto simp: wf_snapshot_def intro!: option.rel_refl_strong\<close>)
  with wf show ?thesis
    by (auto simp: wf_snapshot_def wf_maps_def wf_cancel_def intro: wf_deps_mono)
qed

lemma wf_scheduling_step:
  assumes wf: "wf_snapshot s" and step: "scheduling_step s s'"
  shows "wf_snapshot s'"
proof -
  obtain g where
    s': "s' = s\<lparr>rs_tasks := bt_update_all (\<lambda>k t. t\<lparr>tr_state := g k t\<rparr>) (rs_tasks s)\<rparr>" and
    g: "\<And>k t. g k t = tr_state t \<or>
      task_is_executable (tr_state t) \<and> g k t \<in> {TaskReady, TaskBlocked, TaskSkipped}"
    using step unfolding scheduling_step_def by blast
  have "task_step A k t (t\<lparr>tr_state := g k t\<rparr>)" for A k t
    using g [of k t] by (auto simp: task_step_def)
  then have "wf_tables s'"
    using wf by (auto simp: s' wf_snapshot_def option.rel_map
        intro!: wf_core_tasks [where T = "bt_get (rs_tasks s)"] option.rel_refl_strong)
  with wf show ?thesis
    by (auto simp: s' wf_snapshot_def wf_maps_def wf_cancel_def intro: wf_deps_mono)
qed

lemma wf_snapshotD_maps:
  "wf_snapshot s \<Longrightarrow> bt_invar (rs_tasks s)" "wf_snapshot s \<Longrightarrow> bt_invar (rs_attempts s)"
  "wf_snapshot s \<Longrightarrow> bt_invar (rs_dependencies s)"
  by (simp_all add: wf_snapshot_def wf_maps_def wf_deps_def)

lemma wf_recompute: "wf_snapshot s \<Longrightarrow> wf_snapshot (recompute_blocked_ready s)"
  by (auto intro: wf_scheduling_step scheduling_step_recompute wf_snapshotD_maps)

lemma wf_apply_dependency_failure:
  "wf_snapshot s \<Longrightarrow> wf_snapshot (apply_dependency_failure k s)"
  by (auto intro: wf_scheduling_step scheduling_step_apply_dependency_failure wf_snapshotD_maps)

lemma wf_snapshotD_task:
  "wf_snapshot s \<Longrightarrow> bt_get (rs_tasks s) k = Some t \<Longrightarrow>
   task_ok (bt_get (rs_attempts s)) (bt_get (rs_side_effect_commits s)) k t"
  by (simp add: wf_snapshot_def wf_core_def)

lemma wf_snapshotD_attempt:
  "wf_snapshot s \<Longrightarrow> bt_get (rs_attempts s) k = Some a \<Longrightarrow>
   attempt_ok (bt_get (rs_tasks s)) (bt_get (rs_delivery_index s)) k a"
  by (simp add: wf_snapshot_def wf_core_def)

lemma wf_snapshotD_attempt_task:
  assumes "wf_snapshot s" and "bt_get (rs_attempts s) k = Some a"
  obtains t where "bt_get (rs_tasks s) (ar_task_id a) = Some t"
  using wf_snapshotD_attempt [OF assms] by (auto simp: attempt_ok_def)

section \<open>Preservation, command by command\<close>

lemma wf_apply_failure_with_retry:
  assumes wf: "wf_snapshot s" and ok: "apply_failure_with_retry h k fc reason now s = Ok s'"
  shows "wf_snapshot s'"
proof -
  from ok obtain t where t: "bt_get (rs_tasks s) k = Some t"
    by (auto simp: apply_failure_with_retry_def result_simps)
  have upd: "wf_snapshot (update_task k f s2)"
    if "wf_snapshot s2" "bt_get (rs_tasks s2) k = Some t2" "\<And>A. task_step A k t2 (f t2)" for f s2 t2
    using that by (intro wf_update_task)
  define r1 :: task_retry_state where
    "r1 = \<lparr>trs_attempt_count = trs_attempt_count (tr_retry t) + 1, trs_next_retry_at = None,
       trs_last_failure_class = Some fc, trs_last_failure_reason = Some reason\<rparr>"
  define s1 where "s1 = update_task k (\<lambda>t. t\<lparr>tr_retry := r1\<rparr>) s"
  have wf1: "wf_snapshot s1"
    unfolding s1_def by (rule upd [OF wf t]) (simp add: task_step_def)
  have t1: "bt_get (rs_tasks s1) k = Some (t\<lparr>tr_retry := r1\<rparr>)"
    by (simp add: s1_def t)
  have "wf_snapshot (update_task k (\<lambda>t. t\<lparr>tr_state := TaskReady, tr_active_attempt := None,
      tr_retry := r t\<rparr>) s1)"
    and "wf_snapshot (update_task k (\<lambda>t. t\<lparr>tr_state := TaskFailed, tr_active_attempt := None\<rparr>) s1)" for r
    by (rule upd [OF wf1 t1], simp add: task_step_def)+
  then show ?thesis using ok t
    by (auto simp: apply_failure_with_retry_def result_simps Let_def s1_def r1_def
        intro!: wf_recompute wf_apply_dependency_failure split: if_splits)
qed

lemma wf_apply_create_run:
  assumes wf: "wf_snapshot s" and ok: "apply_create_run s c = Ok s'"
  shows "wf_snapshot s'"
proof -
  from ok have empty: "rs_tasks s = []" by (auto simp: apply_create_run_def split: if_splits)
  have noatt: "bt_get (rs_attempts s) k = None" for k
    using wf empty by (cases "bt_get (rs_attempts s) k") (auto elim: wf_snapshotD_attempt_task)
  have nodep: "rs_dependencies s = []"
  proof (cases "rs_dependencies s")
    case (Cons p ds)
    then have "bt_get (rs_dependencies s) (fst p) = Some (snd p)" by (cases p) simp
    with wf have "bt_contains (rs_tasks s) (fst p)"
      unfolding wf_snapshot_def wf_deps_def by blast
    then show ?thesis by (simp add: empty bt_contains_def)
  qed simp
  let ?k = "crun_root_task_id c" and ?t = "new_task (crun_root_task_id c) (crun_root_binding c)"
  have s': "rs_tasks s' = [(?k, ?t)]" "rs_attempts s' = rs_attempts s" "rs_dependencies s' = []"
    "rs_delivery_index s' = rs_delivery_index s" "rs_side_effect_commits s' = rs_side_effect_commits s"
    "rs_cancellation s' = rs_cancellation s"
    using ok empty nodep by (auto simp: apply_create_run_def split: if_splits)
  have "task_ok A C ?k ?t" for A C by (simp add: task_ok_def new_task_def)
  then have "wf_tables s'" using wf noatt unfolding s' wf_snapshot_def wf_core_def by simp
  moreover have "wf_deps s'" unfolding wf_deps_def s' by (simp add: dep_edges_def acyclic_def)
  moreover have "bt_invar [(?k, ?t)]" by (simp add: bt_invar_def bt_keys_def)
  ultimately show ?thesis using wf
    unfolding wf_snapshot_def wf_maps_def wf_cancel_def s' by simp
qed

lemma wf_insert_task:
  assumes wf: "wf_snapshot s" and fresh: "bt_get (rs_tasks s) k = None"
  shows "wf_snapshot (s\<lparr>rs_tasks := bt_insert k (new_task k b) (rs_tasks s)\<rparr>)"
proof -
  have "attempt_ok (bt_get (bt_insert k (new_task k b) (rs_tasks s))) (bt_get (rs_delivery_index s)) x a"
    if "bt_get (rs_attempts s) x = Some a" for x a
    using wf_snapshotD_attempt [OF wf that] fresh by (auto simp: attempt_ok_def)
  moreover have "task_ok A C k (new_task k b)" for A C by (simp add: task_ok_def new_task_def)
  moreover have "wf_deps (s\<lparr>rs_tasks := bt_insert k (new_task k b) (rs_tasks s)\<rparr>)"
    using wf by (auto simp: wf_snapshot_def bt_contains_def intro: wf_deps_mono)
  ultimately show ?thesis using wf
    by (auto simp: wf_snapshot_def wf_maps_def wf_cancel_def wf_core_def)
qed

lemma dep_edges_push:
  assumes "bt_invar deps"
  shows "dep_edges (bt_push k d deps) = insert (k, depends_on d) (dep_edges deps)"
  unfolding dep_edges_def
  by (auto simp: bt_get_iff_mem [symmetric] assms split: option.splits if_splits)

lemma wf_apply_add_dependency:
  assumes wf: "wf_snapshot s" and ok: "apply_add_dependency s c = Ok s'"
  shows "wf_snapshot s'"
proof -
  let ?d = "\<lparr>depends_on = ad_depends_on c, dep_policy = ad_policy c\<rparr>"
  let ?s = "s\<lparr>rs_dependencies := bt_push (ad_task_id c) ?d (rs_dependencies s)\<rparr>"
  from ok obtain t where
    t: "bt_get (rs_tasks s) (ad_task_id c) = Some t" "bt_contains (rs_tasks s) (ad_depends_on c)"
    and cyc: "\<not> would_create_cycle (rs_dependencies s) (ad_task_id c) (ad_depends_on c)"
    and s': "s' = recompute_blocked_ready ?s"
    by (auto simp: apply_add_dependency_def result_simps)
  have inv: "bt_invar (rs_dependencies s)" by (rule wf_snapshotD_maps [OF wf])
  from cyc have "acyclic (dep_edges (rs_dependencies ?s))"
    by (simp add: would_create_cycle_iff dep_edges_push [OF inv])
  moreover have "bt_contains (rs_tasks s) k \<and> (\<forall>d \<in> set ds. bt_contains (rs_tasks s) (depends_on d))"
    if "bt_get (rs_dependencies ?s) k = Some ds" for k ds
    using that t wf
    by (auto simp: wf_snapshot_def wf_deps_def bt_contains_iff split: if_splits option.splits)
  ultimately have "wf_deps ?s" using inv by (auto simp: wf_deps_def)
  then have "wf_snapshot ?s" using wf by (simp add: wf_snapshot_def wf_maps_def wf_cancel_def)
  then show ?thesis by (simp add: s' wf_recompute)
qed

lemma wf_apply_start_run: "wf_snapshot s \<Longrightarrow> apply_start_run s c = Ok s' \<Longrightarrow> wf_snapshot s'"
  by (auto simp: apply_start_run_def wf_recompute split: if_splits)

lemma wf_add_task: "wf_snapshot s \<Longrightarrow> add_task s c = Ok s' \<Longrightarrow> wf_snapshot s'"
  by (auto simp: add_task_def result_simps bt_contains_def intro!: wf_recompute wf_insert_task)

lemma wf_apply_mark_task_ready:
  "wf_snapshot s \<Longrightarrow> apply_mark_task_ready s c = Ok s' \<Longrightarrow> wf_snapshot s'"
  by (auto simp: apply_mark_task_ready_def result_simps task_step_def
      intro!: wf_update_task split: if_splits)

lemma wf_insert_attempt:
  assumes wf: "wf_snapshot s" and fresh: "bt_get (rs_attempts s) k = None"
    and ok: "attempt_ok (bt_get (rs_tasks s)) (bt_get D) k a" and D: "bt_invar D"
    and old: "\<And>key aid. bt_get (rs_delivery_index s) key = Some aid \<Longrightarrow> bt_get D key = Some aid"
    and new: "\<And>key aid. bt_get D key = Some aid \<Longrightarrow> bt_get (rs_delivery_index s) key = None \<Longrightarrow>
      aid = k \<and> ar_delivery_key a = Some key"
    and acc: "\<not> can_run_canceled (rs_cancellation s)"
  shows "wf_snapshot (s\<lparr>rs_attempts := bt_insert k a (rs_attempts s), rs_delivery_index := D\<rparr>)"
proof -
  let ?A = "bt_get (bt_insert k a (rs_attempts s))"
  have mono: "owns (bt_get (rs_attempts s)) t aid P \<Longrightarrow> owns ?A t aid P" for t aid P
    using fresh by (auto simp: owns_def)
  have "task_ok ?A (bt_get (rs_side_effect_commits s)) x t" if "bt_get (rs_tasks s) x = Some t" for x t
    using wf_snapshotD_task [OF wf that] mono unfolding task_ok_def by blast
  moreover have "attempt_ok (bt_get (rs_tasks s)) (bt_get D) x b" if "?A x = Some b" for x b
    using that ok wf_snapshotD_attempt [OF wf, of x b] old
    by (auto simp: attempt_ok_def split: if_splits)
  moreover have "\<exists>b. ?A aid = Some b \<and> ar_delivery_key b = Some key" if "bt_get D key = Some aid" for key aid
  proof (cases "bt_get (rs_delivery_index s) key")
    case None
    with new [OF that] show ?thesis by simp
  next
    case (Some aid')
    with wf old [OF Some] that fresh show ?thesis
      by (fastforce simp: wf_snapshot_def wf_core_def)
  qed
  moreover have "wf_deps (s\<lparr>rs_attempts := bt_insert k a (rs_attempts s), rs_delivery_index := D\<rparr>)"
    using wf by (auto simp: wf_snapshot_def intro: wf_deps_mono)
  ultimately show ?thesis using wf acc D
    by (simp add: wf_snapshot_def wf_maps_def wf_cancel_def wf_core_def)
qed

lemma wf_admit_attempt:
  assumes wf: "wf_snapshot s" and ok: "admit_attempt h s c = Ok s'" and acc: "accepting s"
    and key: "\<And>key. ca_delivery_key c = Some key \<Longrightarrow> bt_get (rs_delivery_index s) key = None"
  shows "wf_snapshot s'"
proof -
  let ?k = "ca_attempt_id c"
  from ok obtain t where
    t: "bt_get (rs_tasks s) (ca_task_id c) = Some t" and fresh: "bt_get (rs_attempts s) ?k = None"
    and cnt: "trs_attempt_count (tr_retry t) < rp_max_attempts (tb_retry_policy (tr_binding t))"
    by (auto simp: admit_attempt_def result_simps bt_contains_def not_le)
  let ?a = "new_attempt h s c t"
  let ?D = "case ca_delivery_key c of None \<Rightarrow> rs_delivery_index s
    | Some key \<Rightarrow> bt_insert key ?k (rs_delivery_index s)"
  let ?s1 = "s\<lparr>rs_attempts := bt_insert ?k ?a (rs_attempts s), rs_delivery_index := ?D\<rparr>"
  let ?f = "\<lambda>t. t\<lparr>tr_active_attempt := Some ?k,
    tr_state := (if tr_state t = TaskReady then TaskLeased else tr_state t)\<rparr>"
  have s': "s' = update_task (ca_task_id c) ?f ?s1"
    using ok t by (cases "ca_delivery_key c")
      (auto simp: admit_attempt_def result_simps register_delivery_key_def Let_def)
  note num = word_less_inc [OF cnt]
  have "attempt_ok (bt_get (rs_tasks s)) (bt_get ?D) ?k ?a"
    using t num by (auto simp: attempt_ok_def attempt_shape_def attempt_is_active_def
        new_attempt_def Let_def)
  then have wf1: "wf_snapshot ?s1"
    by (rule wf_insert_attempt [OF wf fresh])
      (use wf acc key in \<open>auto simp: wf_snapshot_def wf_maps_def accepting_def new_attempt_def Let_def
         split: option.splits if_splits\<close>)
  have "tr_state t \<noteq> TaskParked \<and> tr_state t \<noteq> TaskSucceeded"
    using ok t by (auto simp: admit_attempt_def result_simps)
  then show ?thesis unfolding s'
    by (intro wf_update_task [OF wf1, of _ t])
      (auto simp: t task_step_def owns_def new_attempt_def Let_def)
qed

lemma wf_apply_create_attempt:
  "wf_snapshot s \<Longrightarrow> apply_create_attempt h s c = Ok s' \<Longrightarrow> wf_snapshot s'"
  by (auto simp: apply_create_attempt_def result_simps intro: wf_admit_attempt
      split: option.splits if_splits)

lemmas attempt_step_defs = attempt_step_def attempt_shape_def attempt_is_active_def
  attempt_is_cancelable_def

lemma wf_snapshotD_attempt_id:
  "wf_snapshot s \<Longrightarrow> bt_get (rs_attempts s) k = Some a \<Longrightarrow> ar_attempt_id a = k"
  by (drule wf_snapshotD_attempt) (auto simp: attempt_ok_def)

lemma wf_apply_lease_attempt:
  assumes wf: "wf_snapshot s" and ok: "apply_lease_attempt s c = Ok s'"
  shows "wf_snapshot s'"
proof -
  from ok obtain a e where a: "bt_get (rs_attempts s) (la_attempt_id c) = Some a"
    "ar_state a = AttemptCreated" and
    s': "s' = update_attempt (la_attempt_id c)
      (\<lambda>a. a\<lparr>ar_state := AttemptLeased, ar_lease := Some (granted_lease c e)\<rparr>)
      (s\<lparr>rs_next_lease_epoch := e\<rparr>)"
    by (auto simp: apply_lease_attempt_def result_simps Let_def)
  show ?thesis unfolding s'
    by (rule wf_update_attempt [of _ _ a])
      (use wf a wf_snapshotD_attempt_id [OF wf a(1)] in
        \<open>auto simp: attempt_step_defs granted_lease_def\<close>)
qed

lemma wf_apply_start_attempt:
  "wf_snapshot s \<Longrightarrow> apply_start_attempt s c = Ok s' \<Longrightarrow> wf_snapshot s'"
  by (auto simp: apply_start_attempt_def result_simps attempt_step_defs intro!: wf_update_attempt)

lemma wf_apply_claim_execution:
  assumes wf: "wf_snapshot s" and ok: "apply_claim_execution s c = Ok s'"
  shows "wf_snapshot s'"
proof -
  let ?k = "sa_attempt_id c" and ?f = "\<lambda>a. a\<lparr>ar_execution_claimed := True, ar_state := AttemptRunning\<rparr>"
  from ok obtain a where a: "bt_get (rs_attempts s) ?k = Some a" "ar_state a = AttemptStarting" and
    s': "s' = update_task (ar_task_id a) (\<lambda>t. t\<lparr>tr_state := TaskRunning\<rparr>) (update_attempt ?k ?f s)"
    by (auto simp: apply_claim_execution_def result_simps)
  obtain t where t: "bt_get (rs_tasks s) (ar_task_id a) = Some t"
    using wf_snapshotD_attempt_task [OF wf a(1)] by blast
  have "wf_snapshot (update_attempt ?k ?f s)"
    by (rule wf_update_attempt [OF wf a(1)]) (use a in \<open>auto simp: attempt_step_defs\<close>)
  then show ?thesis unfolding s'
    by (rule wf_update_task [of _ _ t]) (auto simp: t task_step_def)
qed

lemma wf_apply_record_heartbeat:
  "wf_snapshot s \<Longrightarrow> apply_record_heartbeat s c = Ok s' \<Longrightarrow> wf_snapshot s'"
  by (auto simp: apply_record_heartbeat_def result_simps attempt_step_defs renew_lease_def
      intro!: wf_update_attempt split: option.splits if_splits)

lemma wf_apply_attempt_quiescence:
  "wf_snapshot s \<Longrightarrow> apply_attempt_quiescence s c = Ok s' \<Longrightarrow> wf_snapshot s'"
  by (auto simp: apply_attempt_quiescence_def result_simps attempt_step_defs is_terminal_attempt_def
      lease_matches_def intro!: wf_update_attempt)

lemma wf_apply_finish_run: "wf_snapshot s \<Longrightarrow> apply_finish_run s c = Ok s' \<Longrightarrow> wf_snapshot s'"
  by (auto simp: apply_finish_run_def split: if_splits)

lemma update_commute:
  "update_task k f (update_attempt j g s) = update_attempt j g (update_task k f s)"
  by (simp add: update_task_def update_attempt_def)

lemma unspent_seconds_Some:
  "unspent_seconds deadline now = Some r \<longleftrightarrow> deadline = Some (now + r) \<and> 0 < r \<and> now \<le> now + r"
  by (auto simp: unspent_seconds_def checked_sub_def split: option.splits if_splits)

lemma suspend_OkE:
  assumes "suspend s c = Ok s'"
  obtains a t r where "bt_get (rs_attempts s) (sus_attempt_id c) = Some a"
    and "bt_get (rs_tasks s) (ar_task_id a) = Some t" and "accepting s"
    and "lease_matches a (sus_lease_proof c)" and "ar_state a = AttemptRunning"
    and "ar_execution_claimed a" and "tr_state t = TaskRunning"
    and "tr_active_attempt t = Some (sus_attempt_id c)" and "length (rs_tasks s) = 1"
    and "tb_deadline (tr_binding t) = Some (env_timestamp (sus_envelope c) + r)" and "0 < r"
    and "env_timestamp (sus_envelope c) \<le> env_timestamp (sus_envelope c) + r"
    and "s' = update_task (ar_task_id a) (\<lambda>t. t\<lparr>tr_state := TaskParked\<rparr>)
      (update_attempt (sus_attempt_id c)
        (\<lambda>a. a\<lparr>ar_state := AttemptSuspended, ar_execution_quiesced := True,
           ar_suspension := Some \<lparr>sus_checkpoint = sus_cmd_checkpoint c, sus_reason = sus_cmd_reason c,
             sus_suspended_at = env_timestamp (sus_envelope c), sus_remaining_seconds = r\<rparr>\<rparr>) s)"
  using assms
  by (auto simp: suspend_def result_simps unspent_seconds_Some)

lemma wf_suspend:
  assumes wf: "wf_snapshot s" and ok: "suspend s c = Ok s'"
  shows "wf_snapshot s'"
  using ok
proof (cases rule: suspend_OkE)
  case (1 a t r)
  let ?f = "\<lambda>a. a\<lparr>ar_state := AttemptSuspended, ar_execution_quiesced := True,
           ar_suspension := Some \<lparr>sus_checkpoint = sus_cmd_checkpoint c, sus_reason = sus_cmd_reason c,
             sus_suspended_at = env_timestamp (sus_envelope c), sus_remaining_seconds = r\<rparr>\<rparr>"
  have "wf_snapshot (update_attempt (sus_attempt_id c) ?f s)"
    by (rule wf_update_attempt [OF wf 1(1)])
      (use 1 in \<open>auto simp: attempt_step_defs lease_matches_def\<close>)
  then show ?thesis unfolding 1(13)
    by (rule wf_update_task [of _ _ t]) (use 1 in \<open>auto simp: task_step_def owns_def\<close>)
qed

lemma resume_OkE:
  assumes "resume s c = Ok s'"
  obtains a t p l e d where "bt_get (rs_attempts s) (res_attempt_id c) = Some a"
    and "bt_get (rs_tasks s) (ar_task_id a) = Some t" and "accepting s"
    and "lease_matches a (res_lease_proof c)" and "ar_state a = AttemptSuspended"
    and "ar_suspension a = Some p" and "sus_checkpoint p = res_checkpoint c"
    and "ar_lease a = Some l" and "tr_state t = TaskParked"
    and "checked_add (rs_next_lease_epoch s) 1 = Some e"
    and "checked_add (env_timestamp (res_envelope c)) (sus_remaining_seconds p) = Some d"
    and "s' = (update_task (ar_task_id a)
        (\<lambda>t. t\<lparr>tr_state := TaskLeased, tr_binding := (tr_binding t)\<lparr>tb_deadline := Some d\<rparr>\<rparr>)
        (update_attempt (res_attempt_id c)
          (\<lambda>a. a\<lparr>ar_state := AttemptStarting, ar_execution_claimed := False,
             ar_execution_quiesced := False, ar_suspension := None,
             ar_lease := Some (resumed_lease c e l)\<rparr>) (s\<lparr>rs_next_lease_epoch := e\<rparr>)))
        \<lparr>rs_deadlines := (rs_deadlines s)\<lparr>rd_run_deadline := Some d\<rparr>\<rparr>"
  using assms by (auto simp: resume_def result_simps Let_def split: if_splits)

lemma wf_resume:
  assumes wf: "wf_snapshot s" and ok: "resume s c = Ok s'"
  shows "wf_snapshot s'"
  using ok
proof (cases rule: resume_OkE)
  case (1 a t p l e d)
  let ?s1 = "update_task (ar_task_id a)
    (\<lambda>t. t\<lparr>tr_state := TaskLeased, tr_binding := (tr_binding t)\<lparr>tb_deadline := Some d\<rparr>\<rparr>)
    (s\<lparr>rs_next_lease_epoch := e\<rparr>)"
  have a: "bt_get (rs_attempts ?s1) (res_attempt_id c) = Some a" using 1(1) by simp
  have "wf_snapshot ?s1"
    by (rule wf_update_task [of _ _ t]) (use wf 1(2) in \<open>auto simp: task_step_def\<close>)
  then have "wf_snapshot (update_attempt (res_attempt_id c)
      (\<lambda>a. a\<lparr>ar_state := AttemptStarting, ar_execution_claimed := False,
         ar_execution_quiesced := False, ar_suspension := None,
         ar_lease := Some (resumed_lease c e l)\<rparr>) ?s1)"
    by (rule wf_update_attempt [OF _ a])
      (use 1 in \<open>auto simp: attempt_step_defs resumed_lease_def\<close>)
  then show ?thesis unfolding 1(12) update_commute by simp
qed

lemma wf_apply_claim_finalization:
  assumes wf: "wf_snapshot s" and ok: "apply_claim_finalization h s c = Ok s'"
  shows "wf_snapshot s'"
proof -
  from ok obtain t where t: "bt_get (rs_tasks s) (cf_task_id c) = Some t" and
    s': "s' = update_task (cf_task_id c) (\<lambda>t. t\<lparr>tr_finalization_claim := Some (cf_attempt_id c)\<rparr>) s"
    and gate: "try_claim_finalization h s c = Ok ()"
    by (auto simp: apply_claim_finalization_def result_simps)
  have "tr_finalization_claim t = Some (cf_attempt_id c) \<or>
      owns (bt_get (rs_attempts s)) (cf_task_id c) (cf_attempt_id c) (\<lambda>_. True)"
    using gate t by (auto simp: try_claim_finalization_def result_simps owns_def split: if_splits)
  then show ?thesis unfolding s' by (intro wf_update_task [OF wf t]) (auto simp: task_step_def)
qed

lemma attempt_step_fail:
  assumes "ar_state a \<in> {AttemptRunning, AttemptStarting, AttemptLeased}"
    and "is_terminal_attempt st" and "st \<noteq> AttemptSucceeded"
  shows "attempt_step T a (a\<lparr>ar_state := st, ar_failure_class := x, ar_failure_reason := y\<rparr>)"
  using assms(1)
  by (cases st) (use assms in \<open>simp_all add: attempt_step_def attempt_shape_def
       attempt_is_active_def is_terminal_attempt_def, auto\<close>)

lemma wf_apply_fail_attempt:
  assumes wf: "wf_snapshot s" and ok: "apply_fail_attempt h s c = Ok s'"
  shows "wf_snapshot s'"
proof -
  let ?fc = "effective_failure_class c"
  from ok obtain a where a: "bt_get (rs_attempts s) (fa_attempt_id c) = Some a"
    "ar_state a \<in> {AttemptRunning, AttemptStarting, AttemptLeased}" and
    s': "apply_failure_with_retry h (ar_task_id a) ?fc (fa_reason c) (env_timestamp (fa_envelope c))
      (update_attempt (fa_attempt_id c)
        (\<lambda>a. a\<lparr>ar_state := map_attempt_state_for_failure ?fc, ar_failure_class := Some ?fc,
           ar_failure_reason := Some (fa_reason c)\<rparr>) s) = Ok s'"
    by (auto simp: apply_fail_attempt_def result_simps Let_def)
  have "is_terminal_attempt (map_attempt_state_for_failure ?fc)"
    and "map_attempt_state_for_failure ?fc \<noteq> AttemptSucceeded"
    and "\<not> attempt_is_cancelable (map_attempt_state_for_failure ?fc)"
    by (cases ?fc; simp add: is_terminal_attempt_def attempt_is_cancelable_def)+
  then have "wf_snapshot (update_attempt (fa_attempt_id c)
        (\<lambda>a. a\<lparr>ar_state := map_attempt_state_for_failure ?fc, ar_failure_class := Some ?fc,
           ar_failure_reason := Some (fa_reason c)\<rparr>) s)"
    by (intro wf_update_attempt [OF wf a(1)] attempt_step_fail) (simp_all add: a(2) del: insert_iff)
  then show ?thesis by (rule wf_apply_failure_with_retry [OF _ s'])
qed

lemma wf_apply_expire_lease:
  assumes wf: "wf_snapshot s" and ok: "apply_expire_lease h s c = Ok s'"
  shows "wf_snapshot s'"
proof -
  from ok obtain a where a: "bt_get (rs_attempts s) (el_attempt_id c) = Some a"
    by (auto simp: apply_expire_lease_def result_simps)
  have "wf_snapshot (update_attempt (el_attempt_id c)
      (\<lambda>a. a\<lparr>ar_state := AttemptLeaseExpired, ar_failure_class := Some FcLeaseExpired,
         ar_failure_reason := Some ''lease expired''\<rparr>) s)"
    if "ar_state a \<in> {AttemptLeased, AttemptStarting, AttemptRunning}"
    by (rule wf_update_attempt [OF wf a]) (use that in \<open>auto simp: attempt_step_defs\<close>)
  then show ?thesis using ok a wf
    by (auto simp: apply_expire_lease_def result_simps intro: wf_apply_failure_with_retry
        split: if_splits)
qed

lemma wf_update_attempts:
  assumes wf: "wf_snapshot s"
    and step: "\<And>k a. bt_get (rs_attempts s) k = Some a \<Longrightarrow> attempt_step (bt_get (rs_tasks s)) a (f k a)"
    and live: "\<And>k a. attempt_is_cancelable (ar_state (f k a)) \<Longrightarrow> attempt_is_cancelable (ar_state a)"
  shows "wf_snapshot (s\<lparr>rs_attempts := bt_update_all f (rs_attempts s)\<rparr>)"
proof -
  have "wf_tables (s\<lparr>rs_attempts := bt_update_all f (rs_attempts s)\<rparr>)"
    by (simp, rule wf_core_attempts [where A = "bt_get (rs_attempts s)"])
      (use wf step in \<open>auto simp: wf_snapshot_def option.rel_map intro!: option.rel_refl_strong\<close>)
  moreover have "wf_cancel (s\<lparr>rs_attempts := bt_update_all f (rs_attempts s)\<rparr>)"
    using wf live by (auto simp: wf_snapshot_def wf_cancel_def)
  ultimately show ?thesis using wf
    by (auto simp: wf_snapshot_def wf_maps_def intro: wf_deps_mono)
qed

lemma wf_apply_cancel_task:
  assumes wf: "wf_snapshot s" and ok: "apply_cancel_task s c = Ok s'"
  shows "wf_snapshot s'"
proof -
  let ?s1 = "update_task (ct_task_id c) (\<lambda>t. t\<lparr>tr_state := TaskCanceled\<rparr>) s"
  from ok obtain t where t: "bt_get (rs_tasks s) (ct_task_id c) = Some t" and
    s': "s' = ?s1\<lparr>rs_attempts := bt_update_all
      (\<lambda>_ a. if ar_task_id a = ct_task_id c \<and> attempt_is_cancelable (ar_state a)
             then cancel_attempt_record a else a) (rs_attempts ?s1)\<rparr>"
    by (auto simp: apply_cancel_task_def result_simps Let_def)
  have "wf_snapshot ?s1" by (rule wf_update_task [OF wf t]) (simp add: task_step_def)
  then show ?thesis unfolding s'
    by (rule wf_update_attempts)
      (auto simp: attempt_step_defs cancel_attempt_record_def t split: if_splits)
qed

lemma wf_apply_cancel_run:
  assumes wf: "wf_snapshot s" and ok: "apply_cancel_run s c = Ok s'"
  shows "wf_snapshot s'"
proof -
  let ?tf = "\<lambda>(_::task_id) t. if task_is_executable (tr_state t) \<or> task_is_locked (tr_state t)
    then t\<lparr>tr_state := TaskCanceled\<rparr> else t"
  let ?af = "\<lambda>(_::attempt_id) a. if attempt_is_cancelable (ar_state a)
    then cancel_attempt_record a else a"
  have core0: "wf_core (bt_get (bt_update_all ?tf (rs_tasks s))) (bt_get (rs_attempts s))
      (bt_get (rs_delivery_index s)) (bt_get (rs_side_effect_commits s))"
    by (rule wf_core_tasks [where T = "bt_get (rs_tasks s)"])
      (use wf in \<open>auto simp: wf_snapshot_def option.rel_map task_step_def intro!: option.rel_refl_strong\<close>)
  have notpark: "tr_state (?tf k t) \<noteq> TaskParked" for k t by (simp add: task_is_locked_def)
  have "tr_state t \<noteq> TaskParked" if "bt_get (bt_update_all ?tf (rs_tasks s)) k = Some t" for k t
    using that notpark by (cases "bt_get (rs_tasks s) k") (auto simp del: if_split)
  then have step: "attempt_step (bt_get (bt_update_all ?tf (rs_tasks s))) a (?af k a)" for k a
    by (auto simp: attempt_step_defs cancel_attempt_record_def)
  have core: "wf_core (bt_get (bt_update_all ?tf (rs_tasks s)))
      (bt_get (bt_update_all ?af (rs_attempts s)))
      (bt_get (rs_delivery_index s)) (bt_get (rs_side_effect_commits s))"
    by (rule wf_core_attempts [OF core0], unfold bt_get_update_all option.rel_map)
      (rule option.rel_refl_strong, rule step [unfolded bt_get_update_all])
  have dead: "\<not> attempt_is_cancelable (ar_state (?af k a))" for k a
    by (simp add: cancel_attempt_record_def attempt_is_cancelable_def)
  show ?thesis
  proof (cases "s' = s")
    case False
    with ok have "rs_tasks s' = bt_update_all ?tf (rs_tasks s)"
      "rs_attempts s' = bt_update_all ?af (rs_attempts s)"
      "rs_delivery_index s' = rs_delivery_index s" "rs_dependencies s' = rs_dependencies s"
      "rs_side_effect_commits s' = rs_side_effect_commits s"
      by (auto simp: apply_cancel_run_def split: if_splits)
    note s' = this
    have "wf_deps s'" using wf by (auto simp: wf_snapshot_def s' intro: wf_deps_mono)
    moreover have "wf_cancel s'" unfolding wf_cancel_def s' bt_get_update_all
      by (intro impI allI, elim map_option_eq_Some [THEN iffD1, elim_format] exE conjE)
        (use dead in blast)
    ultimately show ?thesis using wf core unfolding wf_snapshot_def wf_maps_def s' by simp
  qed (simp add: wf)
qed

lemma wf_succeeded_wins:
  assumes "wf_snapshot s" and "bt_get (rs_attempts s) k = Some a" and "ar_state a = AttemptSucceeded"
    and "bt_get (rs_tasks s) (ar_task_id a) = Some t"
  shows "tr_winning_attempt t = Some k"
  using wf_snapshotD_attempt [OF assms(1,2)] assms(3,4) by (auto simp: attempt_ok_def)

lemma wf_apply_accept_artifact:
  assumes wf: "wf_snapshot s" and ok: "apply_accept_artifact s c = Ok s'"
  shows "wf_snapshot s'"
proof -
  from ok obtain a t where a: "bt_get (rs_attempts s) (aa_attempt_id c) = Some a"
    "ar_state a = AttemptSucceeded" "ar_task_id a = aa_task_id c"
    and t: "bt_get (rs_tasks s) (aa_task_id c) = Some t" and
    s': "s' = update_task (aa_task_id c)
      (\<lambda>t. t\<lparr>tr_accepted_artifact := Some (aa_artifact c), tr_state := TaskSucceeded\<rparr>) s"
    by (auto simp: apply_accept_artifact_def result_simps)
  have "tr_winning_attempt t = Some (aa_attempt_id c)"
    using wf_succeeded_wins [OF wf a(1,2)] a(3) t by simp
  then show ?thesis unfolding s' by (intro wf_update_task [OF wf t]) (auto simp: task_step_def)
qed

text \<open>A result is accepted or withdrawn: the attempt and the winner field of its task change
  together.\<close>

lemma wf_core_winner:
  assumes wf: "wf_core T A D C" and a: "A aid = Some a" "ar_task_id a = k" and t: "T k = Some t"
    and a': "ar_attempt_id a' = aid" "ar_task_id a' = k" "attempt_shape a'"
      "ar_delivery_key a' = ar_delivery_key a" "ar_attempt_number a' = ar_attempt_number a"
      "ar_state a \<noteq> AttemptSuspended"
    and t': "tr_task_id t' = k" "tr_active_attempt t' = tr_active_attempt t"
      "tr_finalization_claim t' = tr_finalization_claim t" "tr_binding t' = tr_binding t"
      "tr_side_effect_keys t' = tr_side_effect_keys t" "tr_state t' = TaskParked \<Longrightarrow> tr_state t = TaskParked"
      "tr_state t' \<noteq> TaskSucceeded" "tr_winning_attempt t' = None \<longleftrightarrow> tr_completed_version t' = None"
    and win: "\<And>x. tr_winning_attempt t' = Some x \<longleftrightarrow> x = aid \<and> ar_state a' = AttemptSucceeded"
    and old: "\<And>x. tr_winning_attempt t = Some x \<Longrightarrow> x = aid"
  shows "wf_core (T(k \<mapsto> t')) (A(aid \<mapsto> a')) D C"
proof -
  have ok: "task_ok A C x u" if "T x = Some u" for x u using wf that by (simp add: wf_core_def)
  have aok: "attempt_ok T D x b" if "A x = Some b" for x b using wf that by (simp add: wf_core_def)
  have any: "owns A x y (\<lambda>_. True) \<Longrightarrow> owns (A(aid \<mapsto> a')) x y (\<lambda>_. True)" for x y
    using a a' by (auto simp: owns_def)
  have park: "owns A x y (\<lambda>st. st = AttemptSuspended) \<Longrightarrow>
      owns (A(aid \<mapsto> a')) x y (\<lambda>st. st = AttemptSuspended)" for x y
    using a a' by (auto simp: owns_def)
  have other: "owns A x y P \<Longrightarrow> x \<noteq> k \<Longrightarrow> owns (A(aid \<mapsto> a')) x y P" for x y P
    using a by (auto simp: owns_def)
  have "task_ok (A(aid \<mapsto> a')) C x u" if u: "(T(k \<mapsto> t')) x = Some u" for x u
  proof (cases "x = k")
    case True
    with u have u': "u = t'" by simp
    have owner: "owns (A(aid \<mapsto> a')) k aid (\<lambda>st. st = AttemptSucceeded)"
      if "ar_state a' = AttemptSucceeded" using that a' by (simp add: owns_def)
    have "tr_state t' = TaskParked \<longrightarrow> (\<exists>y. tr_active_attempt t' = Some y \<and>
        owns (A(aid \<mapsto> a')) k y (\<lambda>st. st = AttemptSuspended))"
      using ok [OF t] t'(2,6) park unfolding task_ok_def by fastforce
    then show ?thesis using ok [OF t] t'(1-5,7,8) win any owner unfolding task_ok_def True u'
      by (elim conjE) (intro conjI; simp)
  next
    case False
    then have "task_ok A C x u" using u ok by simp
    then show ?thesis using other [OF _ False] unfolding task_ok_def by blast
  qed
  moreover have "attempt_ok (T(k \<mapsto> t')) D x b" if "(A(aid \<mapsto> a')) x = Some b" for x b
  proof (cases "x = aid")
    case True
    with that aok [OF a(1)] a t a' t' win show ?thesis by (auto simp: attempt_ok_def)
  next
    case False
    with that aok [of x b] t t' old show ?thesis by (fastforce simp: attempt_ok_def)
  qed
  moreover have "\<exists>b. (A(aid \<mapsto> a')) y = Some b \<and> ar_delivery_key b = Some key" if "D key = Some y" for key y
    using wf that a a' by (fastforce simp: wf_core_def)
  ultimately show ?thesis using wf by (simp add: wf_core_def)
qed

lemma wf_snapshot_winner:
  assumes wf: "wf_snapshot s"
    and a: "bt_get (rs_attempts s) aid = Some a" "ar_task_id a = k" "ar_state a \<noteq> AttemptSuspended"
    and t: "bt_get (rs_tasks s) k = Some t"
    and a': "ar_attempt_id (g a) = aid" "ar_task_id (g a) = k" "attempt_shape a \<Longrightarrow> attempt_shape (g a)"
      "ar_delivery_key (g a) = ar_delivery_key a" "ar_attempt_number (g a) = ar_attempt_number a"
      "\<not> attempt_is_cancelable (ar_state (g a))"
    and t': "tr_task_id (f t) = k" "tr_active_attempt (f t) = tr_active_attempt t"
      "tr_finalization_claim (f t) = tr_finalization_claim t" "tr_binding (f t) = tr_binding t"
      "tr_side_effect_keys (f t) = tr_side_effect_keys t"
      "tr_state (f t) = TaskParked \<Longrightarrow> tr_state t = TaskParked" "tr_state (f t) \<noteq> TaskSucceeded"
      "tr_winning_attempt (f t) = None \<longleftrightarrow> tr_completed_version (f t) = None"
    and win: "\<And>x. tr_winning_attempt (f t) = Some x \<longleftrightarrow> x = aid \<and> ar_state (g a) = AttemptSucceeded"
    and old: "\<And>x. tr_winning_attempt t = Some x \<Longrightarrow> x = aid"
  shows "wf_snapshot (update_task k f (update_attempt aid g s))"
proof -
  have upd: "bt_get (bt_modify k f (rs_tasks s)) = (bt_get (rs_tasks s))(k \<mapsto> f t)"
    "bt_get (bt_modify aid g (rs_attempts s)) = (bt_get (rs_attempts s))(aid \<mapsto> g a)"
    using t a by (auto simp: fun_eq_iff)
  have "attempt_shape a" using wf_snapshotD_attempt [OF wf a(1)] by (simp add: attempt_ok_def)
  then have "wf_tables (update_task k f (update_attempt aid g s))"
    unfolding update_task_selectors update_attempt_selectors upd
    by (intro wf_core_winner [where a = a and t = t])
      (use wf a t a' t' win old in \<open>simp_all add: wf_snapshot_def\<close>)
  moreover have "wf_cancel (update_task k f (update_attempt aid g s))"
    using wf a a' by (auto simp: wf_snapshot_def wf_cancel_def split: if_splits)
  ultimately show ?thesis using wf
    by (auto simp: wf_snapshot_def wf_maps_def intro: wf_deps_mono)
qed

lemma apply_complete_attempt_OkE:
  assumes "apply_complete_attempt h s c = Ok s'" and "s' \<noteq> s"
  obtains a t where "bt_get (rs_attempts s) (comp_attempt_id c) = Some a"
    and "bt_get (rs_tasks s) (ar_task_id a) = Some t"
    and "is_result_acceptable_state (ar_state a)" and "lease_matches a (comp_lease_proof c)"
    and "is_lease_current a (env_timestamp (comp_envelope c))"
    and "ar_task_version a = comp_task_version c" and "tr_state t \<noteq> TaskCanceled"
    and "expected_digest_ok h s t (comp_input_digest c)"
    and "tb_workspace_version (tr_binding t) = comp_workspace_version c"
    and "\<not> trim_is_empty (comp_result_digest c)"
    and "\<forall>x. tr_winning_attempt t = Some x \<longrightarrow> x = comp_attempt_id c"
    and "\<forall>d. tb_deadline (tr_binding t) = Some d \<longrightarrow> env_timestamp (comp_envelope c) < d"
    and "\<not> can_run_canceled (rs_cancellation s)" and "rs_state s \<noteq> RunRecoveryRequired"
    and "s' = update_task (ar_task_id a)
        (\<lambda>t. t\<lparr>tr_winning_attempt := Some (comp_attempt_id c),
           tr_completed_version := Some (comp_task_version c)\<rparr>)
        (update_attempt (comp_attempt_id c)
          (\<lambda>a. a\<lparr>ar_state := AttemptSucceeded, ar_result_digest := Some (comp_result_digest c),
             ar_workspace_version := comp_workspace_version c\<rparr>)
          (s\<lparr>rs_attempts := bt_update_all
            (\<lambda>id b. if ar_task_id b = ar_task_id a \<and> id \<noteq> comp_attempt_id c \<and>
                attempt_is_active (ar_state b) then b\<lparr>ar_state := AttemptSuperseded\<rparr> else b)
            (rs_attempts s)\<rparr>))"
proof -
  from assms obtain a where a: "bt_get (rs_attempts s) (comp_attempt_id c) = Some a"
    "ar_state a \<noteq> AttemptSucceeded" and gate: "try_accept_completion h s c = Ok ()"
    and nr: "rs_state s \<noteq> RunRecoveryRequired"
    and sel: "apply_winner_selection (comp_attempt_id c) (ar_task_id a) (comp_task_version c)
      (update_attempt (comp_attempt_id c)
        (\<lambda>a. a\<lparr>ar_state := AttemptSucceeded, ar_result_digest := Some (comp_result_digest c),
           ar_workspace_version := comp_workspace_version c\<rparr>) s) = Ok s'"
    by (auto simp: apply_complete_attempt_def result_simps split: if_splits)
  from gate a obtain t where t: "bt_get (rs_tasks s) (ar_task_id a) = Some t"
    by (auto simp: try_accept_completion_def result_simps)
  have comm: "bt_update_all f (bt_modify x g m) = bt_modify x g (bt_update_all f m)"
    if "\<And>b. f x b = b" "\<And>b. f x (g b) = g b" for f g x and m :: "(attempt_id, attempt_record) btree"
    using that by (auto simp: bt_modify_def fun_eq_iff intro!: arg_cong2 [of _ _ _ _ bt_update_all])
  show ?thesis
    by (rule that [OF a(1) t])
      (use gate a t nr sel in \<open>auto simp: try_accept_completion_def result_simps workspace_matches_def
         apply_winner_selection_def Let_def update_attempt_def update_task_def comm attempt_is_active_def
         split: option.splits\<close>)
qed

lemma wf_apply_complete_attempt:
  assumes wf: "wf_snapshot s" and ok: "apply_complete_attempt h s c = Ok s'"
  shows "wf_snapshot s'"
proof (cases "s' = s")
  case False
  with ok show ?thesis
  proof (cases rule: apply_complete_attempt_OkE)
    case (1 a t)
    let ?k = "comp_attempt_id c"
    let ?s1 = "s\<lparr>rs_attempts := bt_update_all
      (\<lambda>id b. if ar_task_id b = ar_task_id a \<and> id \<noteq> comp_attempt_id c \<and>
          attempt_is_active (ar_state b) then b\<lparr>ar_state := AttemptSuperseded\<rparr> else b) (rs_attempts s)\<rparr>"
    have wf1: "wf_snapshot ?s1"
      by (rule wf_update_attempts [OF wf]) (auto simp: attempt_step_defs split: if_splits)
    have a1: "bt_get (rs_attempts ?s1) ?k = Some a" and t1: "bt_get (rs_tasks ?s1) (ar_task_id a) = Some t"
      using 1(1,2) by auto
    have "tr_winning_attempt t \<noteq> Some ?k"
      using wf_snapshotD_task [OF wf 1(2)] 1(1,3)
      by (auto simp: task_ok_def owns_def is_result_acceptable_state_def)
    then have win: "tr_winning_attempt t = None" using 1(11) by (cases "tr_winning_attempt t") auto
    then have notdone: "tr_state t \<noteq> TaskSucceeded"
      using wf_snapshotD_task [OF wf 1(2)] by (auto simp: task_ok_def)
    have ids: "ar_attempt_id a = ?k" and tid: "tr_task_id t = ar_task_id a"
      using wf_snapshotD_attempt [OF wf 1(1)] wf_snapshotD_task [OF wf 1(2)]
      by (auto simp: attempt_ok_def task_ok_def)
    show ?thesis unfolding 1(15)
      by (rule wf_snapshot_winner [OF wf1 a1 refl _ t1])
        (use ids tid win notdone 1(3) in \<open>auto simp: attempt_shape_def
           attempt_is_active_def attempt_is_cancelable_def is_result_acceptable_state_def\<close>)
  qed
qed (simp add: wf)

lemma wf_apply_reject_artifact:
  assumes wf: "wf_snapshot s" and ok: "apply_reject_artifact h s c = Ok s'"
  shows "wf_snapshot s'"
proof -
  let ?f = "\<lambda>t. t\<lparr>tr_state := TaskReady, tr_winning_attempt := None, tr_completed_version := None\<rparr>"
  let ?g = "\<lambda>a. a\<lparr>ar_state := AttemptFailed, ar_failure_class := Some FcVerificationFailed,
    ar_failure_reason := Some (ra_reason c)\<rparr>"
  from ok obtain a t where a: "bt_get (rs_attempts s) (ra_attempt_id c) = Some a"
    "ar_state a = AttemptSucceeded" "ar_task_id a = ra_task_id c"
    and t: "bt_get (rs_tasks s) (ra_task_id c) = Some t" and
    s': "apply_failure_with_retry h (ra_task_id c) FcVerificationFailed (ra_reason c)
      (env_timestamp (ra_envelope c))
      (update_attempt (ra_attempt_id c) ?g (update_task (ra_task_id c) ?f s)) = Ok s'"
    by (auto simp: apply_reject_artifact_def result_simps)
  have win: "tr_winning_attempt t = Some (ra_attempt_id c)"
    using wf_succeeded_wins [OF wf a(1,2)] a(3) t by simp
  have ids: "ar_attempt_id a = ra_attempt_id c" "tr_task_id t = ra_task_id c"
    using wf_snapshotD_attempt [OF wf a(1)] wf_snapshotD_task [OF wf t]
    by (auto simp: attempt_ok_def task_ok_def)
  have "wf_snapshot (update_task (ra_task_id c) ?f (update_attempt (ra_attempt_id c) ?g s))"
    by (rule wf_snapshot_winner [OF wf a(1,3) _ t])
      (use ids win a in \<open>auto simp: attempt_shape_def attempt_is_active_def attempt_is_cancelable_def\<close>)
  then show ?thesis unfolding update_commute by (rule wf_apply_failure_with_retry [OF _ s'])
qed

lemma push_side_effect_key_simps [simp]:
  "tr_task_id (push_side_effect_key k t) = tr_task_id t"
  "tr_state (push_side_effect_key k t) = tr_state t"
  "tr_binding (push_side_effect_key k t) = tr_binding t"
  "tr_accepted_artifact (push_side_effect_key k t) = tr_accepted_artifact t"
  "tr_active_attempt (push_side_effect_key k t) = tr_active_attempt t"
  "tr_winning_attempt (push_side_effect_key k t) = tr_winning_attempt t"
  "tr_finalization_claim (push_side_effect_key k t) = tr_finalization_claim t"
  "tr_completed_version (push_side_effect_key k t) = tr_completed_version t"
  "tr_retry (push_side_effect_key k t) = tr_retry t"
  "set (tr_side_effect_keys (push_side_effect_key k t)) = insert k (set (tr_side_effect_keys t))"
  by (auto simp: push_side_effect_key_def)

lemma wf_apply_record_side_effect_commit:
  assumes wf: "wf_snapshot s" and ok: "apply_record_side_effect_commit s c = Ok s'"
  shows "wf_snapshot s'"
proof -
  let ?k = "rse_operation_key c"
  have ok': "rs_tasks s' = bt_modify (rse_task_id c) (push_side_effect_key ?k) (rs_tasks s)"
    "rs_attempts s' = rs_attempts s" "rs_delivery_index s' = rs_delivery_index s"
    "rs_side_effect_commits s' = bt_insert ?k
       \<lparr>se_operation_key = ?k, se_committed = True, se_transaction_id = rse_transaction_id c,
        se_committed_at = rse_committed_at c\<rparr> (rs_side_effect_commits s)"
    "rs_dependencies s' = rs_dependencies s" "rs_cancellation s' = rs_cancellation s"
    using ok by (auto simp: apply_record_side_effect_commit_def record_side_effect_commit_def
        split: if_splits)
  have "task_ok (bt_get (rs_attempts s)) (bt_get (rs_side_effect_commits s')) k t"
    if "bt_get (rs_tasks s') k = Some t" for k t
    using that wf_snapshotD_task [OF wf, of k] unfolding ok'
    by (auto simp: task_ok_def split: if_splits option.splits)
  moreover have "attempt_ok (bt_get (rs_tasks s')) (bt_get (rs_delivery_index s)) k a"
    if "bt_get (rs_attempts s) k = Some a" for k a
    using wf_snapshotD_attempt [OF wf that] unfolding ok' by (auto simp: attempt_ok_def)
  moreover have "wf_deps s'" using wf by (auto simp: wf_snapshot_def ok' intro: wf_deps_mono)
  ultimately show ?thesis using wf
    by (auto simp: wf_snapshot_def wf_maps_def wf_core_def wf_cancel_def ok')
qed

section \<open>The dispatcher keeps the invariant and never panics\<close>

lemmas wf_handlers = wf_apply_create_run wf_apply_start_run wf_add_task wf_apply_add_dependency
  wf_apply_mark_task_ready wf_apply_create_attempt wf_apply_lease_attempt wf_apply_start_attempt
  wf_apply_claim_execution wf_suspend wf_resume wf_apply_record_heartbeat wf_apply_claim_finalization
  wf_apply_complete_attempt wf_apply_fail_attempt wf_apply_expire_lease wf_apply_cancel_task
  wf_apply_cancel_run wf_apply_accept_artifact wf_apply_reject_artifact
  wf_apply_record_side_effect_commit wf_apply_finish_run wf_apply_attempt_quiescence

lemma wf_apply_command:
  "wf_snapshot s \<Longrightarrow> apply_command h s c = Ok s' \<Longrightarrow> wf_snapshot s'"
  by (cases c) (auto dest: wf_handlers)

lemma apply_failure_with_retry_neq_Panic:
  "bt_get (rs_tasks s) k = Some t \<Longrightarrow> apply_failure_with_retry h k fc r now s \<noteq> Panic"
  by (simp add: apply_failure_with_retry_def Let_def)

lemma wf_attempt_task_exists:
  "wf_snapshot s \<Longrightarrow> bt_get (rs_attempts s) k = Some a \<Longrightarrow> \<exists>t. bt_get (rs_tasks s) (ar_task_id a) = Some t"
  by (erule (1) wf_snapshotD_attempt_task) blast

lemma no_panic_runs:
  "apply_create_run s c1 \<noteq> Panic" "apply_start_run s c2 \<noteq> Panic" "add_task s c3 \<noteq> Panic"
  "apply_add_dependency s c4 \<noteq> Panic" "apply_mark_task_ready s c5 \<noteq> Panic"
  "apply_create_attempt h s c6 \<noteq> Panic" "apply_lease_attempt s c7 \<noteq> Panic"
  "apply_start_attempt s c8 \<noteq> Panic" "apply_claim_execution s c9 \<noteq> Panic"
  "apply_record_heartbeat s c10 \<noteq> Panic" "apply_claim_finalization h s c11 \<noteq> Panic"
  "apply_cancel_task s c12 \<noteq> Panic" "apply_cancel_run s c13 \<noteq> Panic"
  "apply_accept_artifact s c14 \<noteq> Panic" "apply_record_side_effect_commit s c15 \<noteq> Panic"
  "apply_finish_run s c16 \<noteq> Panic" "apply_attempt_quiescence s c17 \<noteq> Panic"
  by (auto simp: apply_create_run_def apply_start_run_def add_task_def apply_add_dependency_def
      apply_mark_task_ready_def apply_create_attempt_def admit_attempt_def apply_lease_attempt_def
      apply_start_attempt_def apply_claim_execution_def apply_record_heartbeat_def
      apply_claim_finalization_def apply_cancel_task_def apply_cancel_run_def apply_accept_artifact_def
      apply_record_side_effect_commit_def record_side_effect_commit_def apply_finish_run_def
      apply_attempt_quiescence_def result_simps Let_def split: option.splits if_splits)

lemma no_panic_suspension: "suspend s c \<noteq> Panic" "resume s c' \<noteq> Panic"
  by (auto simp: suspend_def resume_def result_simps lease_matches_def Let_def)

lemma no_panic_results:
  assumes wf: "wf_snapshot s"
  shows "apply_complete_attempt h s c1 \<noteq> Panic" "apply_fail_attempt h s c2 \<noteq> Panic"
    "apply_expire_lease h s c3 \<noteq> Panic" "apply_reject_artifact h s c4 \<noteq> Panic"
  using wf_attempt_task_exists [OF wf]
  by (auto simp: apply_complete_attempt_def apply_winner_selection_def apply_fail_attempt_def
      apply_expire_lease_def apply_reject_artifact_def apply_failure_with_retry_def result_simps Let_def
      split: option.splits if_splits)

lemma apply_command_neq_Panic: "wf_snapshot s \<Longrightarrow> apply_command h s c \<noteq> Panic"
  by (cases c) (simp_all add: no_panic_runs no_panic_suspension no_panic_results)

interpretation run: command_machine "apply_command h" "\<lambda>_ _. True" wf_snapshot for h
  by unfold_locales (auto dest: wf_apply_command apply_command_neq_Panic)

end
