(* ===== verification/Recovery.thy ===== *)
theory Recovery
  imports Run_Invariant
begin

text \<open>
  Restart recovery and replay: \<open>tetonic-run/src/recovery.rs\<close> (which interrupted runs must be
  quarantined, and the expiry of leases that lapsed while the process was down) and
  \<open>replay.rs\<close> (the fresh projection). Both are pure functions of a snapshot.
\<close>

section \<open>Definitions\<close>

definition empty_snapshot :: "run_id \<Rightarrow> session_id option \<Rightarrow> run_snapshot" where
  "empty_snapshot run_id session_id =
     \<lparr>rs_run_id = run_id, rs_session_id = session_id, rs_state = RunCreated, rs_sequence = 0,
      rs_workspace_version = None, rs_tasks = [], rs_attempts = [], rs_dependencies = [],
      rs_events = [], rs_delivery_index = [], rs_side_effect_commits = [],
      rs_deadlines = default_run_deadlines, rs_cancellation = default_cancellation_record,
      rs_speculation = default_speculation_config, rs_next_lease_epoch = 0, rs_job_spec = None\<rparr>"

text \<open>The exemption of an intentionally parked run in \<open>detect_recovery_required\<close>.\<close>

definition parked_attempt_ok :: "run_snapshot \<Rightarrow> attempt_record \<Rightarrow> bool" where
  "parked_attempt_ok snapshot a \<longleftrightarrow>
     ar_state a = AttemptSuspended \<and> ar_execution_claimed a \<and> ar_lease a \<noteq> None \<and>
     (case ar_suspension a of None \<Rightarrow> False
      | Some p \<Rightarrow> 0 < sus_remaining_seconds p \<and> art_artifact_id (sus_checkpoint p) \<noteq> [] \<and>
          art_digest (sus_checkpoint p) \<noteq> []) \<and>
     (case bt_get (rs_tasks snapshot) (ar_task_id a) of None \<Rightarrow> False
      | Some t \<Rightarrow> tr_state t = TaskParked \<and> tr_active_attempt t = Some (ar_attempt_id a))"

definition intentionally_parked :: "run_snapshot \<Rightarrow> bool" where
  "intentionally_parked snapshot \<longleftrightarrow>
     rs_state snapshot = RunActive \<and>
     \<not> can_run_canceled (rs_cancellation snapshot) \<and>
     length (rs_tasks snapshot) = 1 \<and>
     list_all (\<lambda>t. tb_activation (tr_binding t) \<noteq> None \<and> tb_execution_scope (tr_binding t) \<noteq> None \<and>
        tb_delegation (tr_binding t) = None \<and> tr_finalization_claim t = None)
       (bt_values (rs_tasks snapshot)) \<and>
     list_ex (\<lambda>a. ar_state a = AttemptSuspended) (bt_values (rs_attempts snapshot)) \<and>
     list_all (\<lambda>a. ar_execution_quiesced a \<and>
        (is_terminal_attempt (ar_state a) \<or> parked_attempt_ok snapshot a))
       (bt_values (rs_attempts snapshot)) \<and>
     list_all (\<lambda>t. tr_state t \<in> {TaskParked, TaskSucceeded, TaskFailed, TaskCanceled, TaskSkipped})
       (bt_values (rs_tasks snapshot))"

text \<open>The verdict of the loop over the attempts.\<close>

definition attempt_needs_recovery :: "run_snapshot \<Rightarrow> u64 \<Rightarrow> attempt_record \<Rightarrow> bool" where
  "attempt_needs_recovery snapshot now a \<longleftrightarrow>
     ar_state a \<in> {AttemptLeased, AttemptStarting, AttemptRunning} \<and>
     (rs_state snapshot = RunActive \<and>
        (case bt_get (rs_tasks snapshot) (ar_task_id a) of None \<Rightarrow> False
         | Some task \<Rightarrow> (case tb_deadline (tr_binding task) of None \<Rightarrow> False
                         | Some deadline \<Rightarrow> deadline \<le> now)) \<or>
      (case ar_lease a of
         Some lease \<Rightarrow> al_expires_at lease < now
       | None \<Rightarrow> rs_state snapshot = RunActive))"

definition task_needs_recovery :: "run_snapshot \<Rightarrow> task_record \<Rightarrow> bool" where
  "task_needs_recovery snapshot t \<longleftrightarrow>
     (tr_state t = TaskLeased \<or> tr_state t = TaskRunning) \<and> tr_active_attempt t = None \<or>
     tr_finalization_claim t \<noteq> None \<and> rs_state snapshot = RunActive"

definition detect_recovery_required :: "run_snapshot \<Rightarrow> u64 \<Rightarrow> bool" where
  "detect_recovery_required snapshot now =
     (let attempts = bt_values (rs_attempts snapshot); tasks = bt_values (rs_tasks snapshot) in
      if rs_state snapshot = RunRecoveryRequired then True
      else if intentionally_parked snapshot then False
      else if list_ex (\<lambda>a. ar_state a = AttemptSuspended) attempts then True
      else if list_ex (attempt_needs_recovery snapshot now) attempts then True
      else if list_ex (task_needs_recovery snapshot) tasks then True
      else if rs_state snapshot = RunActive then
        if list_ex (\<lambda>a. ar_state a = AttemptSucceeded) attempts then True
        else rs_job_spec snapshot \<noteq> None \<and>
          list_ex (\<lambda>a. ar_state a \<in>
            {AttemptFailed, AttemptLeaseExpired, AttemptTimedOut, AttemptCanceled}) attempts \<and>
          \<not> list_ex (\<lambda>a. ar_state a \<in> {AttemptLeased, AttemptStarting, AttemptRunning}) attempts
      else False)"

definition lease_lapsed :: "u64 \<Rightarrow> attempt_record \<Rightarrow> bool" where
  "lease_lapsed now a \<longleftrightarrow>
     ar_state a \<in> {AttemptLeased, AttemptStarting, AttemptRunning} \<and>
     (case ar_lease a of None \<Rightarrow> False | Some l \<Rightarrow> al_expires_at l < now)"

definition recover_attempt :: "host \<Rightarrow> u64 \<Rightarrow> attempt_id \<Rightarrow> run_snapshot \<Rightarrow> run_snapshot run_result" where
  "recover_attempt h now attempt_id snapshot =
     and_then (unwrap (bt_get (rs_attempts snapshot) attempt_id)) (\<lambda>a.
       apply_failure_with_retry h (ar_task_id a) FcLeaseExpired ''lease expired on recovery'' now
         (update_attempt attempt_id (\<lambda>a. a\<lparr>ar_state := AttemptLeaseExpired,
            ar_failure_class := Some FcLeaseExpired,
            ar_failure_reason := Some ''lease expired on recovery''\<rparr>) snapshot))"

fun recover_attempts :: "host \<Rightarrow> u64 \<Rightarrow> attempt_id list \<Rightarrow> run_snapshot \<Rightarrow> run_snapshot run_result" where
  "recover_attempts h now [] snapshot = Ok snapshot"
| "recover_attempts h now (x # xs) snapshot =
     and_then (recover_attempt h now x snapshot) (recover_attempts h now xs)"

definition recover_expired_leases :: "host \<Rightarrow> run_snapshot \<Rightarrow> u64 \<Rightarrow> run_snapshot run_result" where
  "recover_expired_leases h snapshot now =
     recover_attempts h now
       (map fst (filter (\<lambda>(_, a). lease_lapsed now a) (rs_attempts snapshot))) snapshot"

text \<open>The per-run pass of \<open>recover_at_startup\<close>.\<close>

definition recover_run :: "host \<Rightarrow> u64 \<Rightarrow> run_snapshot \<Rightarrow> run_snapshot run_result" where
  "recover_run h now snapshot =
     and_then (recover_expired_leases h snapshot now) (\<lambda>snap.
       Ok (if detect_recovery_required snap now \<and> rs_state snap \<noteq> RunRecoveryRequired
           then snap\<lparr>rs_state := RunRecoveryRequired\<rparr> else snap))"

section \<open>Lemmas\<close>

lemma wf_empty_snapshot: "wf_snapshot (empty_snapshot r sess)"
  by (simp add: empty_snapshot_def wf_snapshot_def wf_maps_def wf_core_def wf_deps_def wf_cancel_def
      dep_edges_def acyclic_def)

lemma apply_failure_with_retry_frame:
  assumes inv: "bt_invar (rs_tasks s)" and ok: "apply_failure_with_retry h k fc r now s = Ok s'"
  shows "\<exists>ts. s' = s\<lparr>rs_tasks := ts\<rparr> \<and> bt_keys ts = bt_keys (rs_tasks s)"
proof -
  have upd: "scheduling_step (update_task k f (update_task k g s)) u \<Longrightarrow>
      \<exists>ts. u = s\<lparr>rs_tasks := ts\<rparr> \<and> bt_keys ts = bt_keys (rs_tasks s)" for f g u
    by (auto simp: scheduling_step_def update_task_def)
  have rec: "scheduling_step v (recompute_blocked_ready v)"
    and dep: "scheduling_step v (apply_dependency_failure k v)"
    if "v = update_task k f (update_task k g s)" for v f g
    using that inv
    by (auto intro: scheduling_step_recompute scheduling_step_apply_dependency_failure)
  have both: "scheduling_step v (recompute_blocked_ready (apply_dependency_failure k v))"
    if "v = update_task k f (update_task k g s)" for v f g
  proof -
    have d: "scheduling_step v (apply_dependency_failure k v)" by (rule dep [OF that])
    have "bt_invar (rs_tasks v)" using inv by (simp add: that)
    then have "bt_invar (rs_tasks (apply_dependency_failure k v))"
      by (simp only: scheduling_step_frame(1) [OF d])
    with d show ?thesis by (blast intro: scheduling_step_trans scheduling_step_recompute)
  qed
  show ?thesis using ok
    by (auto simp: apply_failure_with_retry_def result_simps Let_def split: if_splits
        intro!: upd [OF rec [OF refl]] upd [OF both [OF refl]])
qed

lemma recover_attempt_step:
  assumes wf: "wf_snapshot s" and x: "bt_get (rs_attempts s) x = Some a" and lapsed: "lease_lapsed now a"
  obtains s' where "recover_attempt h now x s = Ok s'" and "wf_snapshot s'"
    and "rs_attempts s' = bt_modify x (\<lambda>a. a\<lparr>ar_state := AttemptLeaseExpired,
      ar_failure_class := Some FcLeaseExpired,
      ar_failure_reason := Some ''lease expired on recovery''\<rparr>) (rs_attempts s)"
    and "rs_state s' = rs_state s"
proof -
  let ?s1 = "update_attempt x (\<lambda>a. a\<lparr>ar_state := AttemptLeaseExpired,
      ar_failure_class := Some FcLeaseExpired,
      ar_failure_reason := Some ''lease expired on recovery''\<rparr>) s"
  have wf1: "wf_snapshot ?s1"
    by (rule wf_update_attempt [OF wf x], rule attempt_step_fail)
      (use lapsed in \<open>auto simp: lease_lapsed_def is_terminal_attempt_def attempt_is_cancelable_def\<close>)
  obtain t where "bt_get (rs_tasks ?s1) (ar_task_id a) = Some t"
    using wf_snapshotD_attempt_task [OF wf x] by auto
  then obtain s' where s': "apply_failure_with_retry h (ar_task_id a) FcLeaseExpired
      ''lease expired on recovery'' now ?s1 = Ok s'"
    by (simp add: apply_failure_with_retry_def Let_def)
  from apply_failure_with_retry_frame [OF wf_snapshotD_maps(1) [OF wf1] s'] obtain ts where "s' = ?s1\<lparr>rs_tasks := ts\<rparr>" by blast
  then show ?thesis using s' wf_apply_failure_with_retry [OF wf1 s'] x
    by (intro that [of s']) (auto simp: recover_attempt_def)
qed

lemma recover_attempts_spec:
  assumes "wf_snapshot s" and "distinct xs"
    and "\<forall>x \<in> set xs. \<exists>a. bt_get (rs_attempts s) x = Some a \<and> lease_lapsed now a"
  shows "\<exists>s'. recover_attempts h now xs s = Ok s' \<and> wf_snapshot s' \<and> rs_state s' = rs_state s \<and>
    (\<forall>k. if k \<in> set xs then \<exists>a. bt_get (rs_attempts s') k = Some a \<and> ar_state a = AttemptLeaseExpired
         else bt_get (rs_attempts s') k = bt_get (rs_attempts s) k)"
  using assms
proof (induction xs arbitrary: s)
  case (Cons x xs)
  from Cons.prems(3) obtain a where a: "bt_get (rs_attempts s) x = Some a" "lease_lapsed now a" by auto
  from recover_attempt_step [OF Cons.prems(1) a] obtain s1 where
    s1: "recover_attempt h now x s = Ok s1" "wf_snapshot s1" "rs_state s1 = rs_state s"
    "rs_attempts s1 = bt_modify x (\<lambda>a. a\<lparr>ar_state := AttemptLeaseExpired,
      ar_failure_class := Some FcLeaseExpired,
      ar_failure_reason := Some ''lease expired on recovery''\<rparr>) (rs_attempts s)" by metis
  have "\<forall>y \<in> set xs. \<exists>a. bt_get (rs_attempts s1) y = Some a \<and> lease_lapsed now a"
    using Cons.prems(2,3) by (auto simp: s1(4))
  from Cons.IH [OF s1(2) _ this] Cons.prems(2) obtain s2 where
    s2: "recover_attempts h now xs s1 = Ok s2" "wf_snapshot s2" "rs_state s2 = rs_state s1"
    "\<forall>k. if k \<in> set xs then \<exists>a. bt_get (rs_attempts s2) k = Some a \<and> ar_state a = AttemptLeaseExpired
         else bt_get (rs_attempts s2) k = bt_get (rs_attempts s1) k" by auto
  have "if k \<in> set (x # xs)
      then \<exists>a. bt_get (rs_attempts s2) k = Some a \<and> ar_state a = AttemptLeaseExpired
      else bt_get (rs_attempts s2) k = bt_get (rs_attempts s) k" for k
    using s2(4) [rule_format, of k] Cons.prems(2) a(1) by (auto simp: s1(4) split: if_splits)
  then show ?case using s1 s2 by auto
qed auto

lemma recover_expired_leases_spec:
  assumes wf: "wf_snapshot s"
  shows "\<exists>s'. recover_expired_leases h s now = Ok s' \<and> wf_snapshot s' \<and> rs_state s' = rs_state s \<and>
    (\<forall>k a. bt_get (rs_attempts s') k = Some a \<longrightarrow> \<not> lease_lapsed now a)"
proof -
  let ?xs = "map fst (filter (\<lambda>(_, a). lease_lapsed now a) (rs_attempts s))"
  have inv: "bt_invar (rs_attempts s)" by (rule wf_snapshotD_maps [OF wf])
  have "distinct ?xs"
    using bt_invar_distinct [OF inv] by (auto simp: bt_keys_def intro: distinct_map_filter)
  moreover have mem: "x \<in> set ?xs \<longleftrightarrow> (\<exists>a. bt_get (rs_attempts s) x = Some a \<and> lease_lapsed now a)" for x
    by (auto simp: bt_get_iff_mem [OF inv] image_iff)
  ultimately obtain s' where s': "recover_attempts h now ?xs s = Ok s'" "wf_snapshot s'"
    "rs_state s' = rs_state s"
    "\<forall>k. if k \<in> set ?xs then \<exists>a. bt_get (rs_attempts s') k = Some a \<and> ar_state a = AttemptLeaseExpired
         else bt_get (rs_attempts s') k = bt_get (rs_attempts s) k"
    using recover_attempts_spec [OF wf, of ?xs now h] by blast
  have "\<not> lease_lapsed now a" if "bt_get (rs_attempts s') k = Some a" for k a
  proof (cases "k \<in> set ?xs")
    case True
    then have "\<exists>b. bt_get (rs_attempts s') k = Some b \<and> ar_state b = AttemptLeaseExpired"
      using s'(4) by presburger
    with that show ?thesis by (auto simp: lease_lapsed_def)
  next
    case False
    then have "bt_get (rs_attempts s) k = Some a" using s'(4) that by presburger
    with False mem show ?thesis by blast
  qed
  with s' show ?thesis by (auto simp: recover_expired_leases_def)
qed

lemma recover_run_spec:
  assumes "wf_snapshot s"
  shows "\<exists>s'. recover_run h now s = Ok s' \<and> wf_snapshot s' \<and>
    (\<forall>k a. bt_get (rs_attempts s') k = Some a \<longrightarrow> \<not> lease_lapsed now a) \<and>
    (detect_recovery_required s' now \<longleftrightarrow> rs_state s' = RunRecoveryRequired)"
proof -
  obtain s1 where s1: "recover_expired_leases h s now = Ok s1" "wf_snapshot s1"
    "\<forall>k a. bt_get (rs_attempts s1) k = Some a \<longrightarrow> \<not> lease_lapsed now a"
    using recover_expired_leases_spec [OF assms] by blast
  let ?s2 = "if detect_recovery_required s1 now \<and> rs_state s1 \<noteq> RunRecoveryRequired
    then s1\<lparr>rs_state := RunRecoveryRequired\<rparr> else s1"
  have "detect_recovery_required s now" if "rs_state s = RunRecoveryRequired" for s now
    using that by (simp add: detect_recovery_required_def)
  then have "detect_recovery_required ?s2 now \<longleftrightarrow> rs_state ?s2 = RunRecoveryRequired" by auto
  moreover have "recover_run h now s = Ok ?s2" using s1(1) by (simp add: recover_run_def)
  ultimately show ?thesis using s1(2,3) by (intro exI [of _ ?s2]) auto
qed

end
