(* ===== verification/Supervisor.thy ===== *)
theory Supervisor
  imports Recovery
begin

text \<open>
  The durable run supervisor (\<open>tetonic-run/src/service.rs\<close>) over its in-memory store, with the
  storage quota (\<open>quotas.rs\<close>), Safe Mode (\<open>migration.rs\<close>) and replay (\<open>replay.rs\<close>). Commands of
  one run are serialised by the run's lock, so a step of the model is one \<open>handle\<close> call. The
  JSON codec, the payload digest, the clock, the event ids and the \<open>f64\<close> soft limit come from
  outside and are fields of \<open>sup_host\<close> or of the per-call \<open>stamp\<close>.
\<close>

section \<open>Definitions\<close>

record sup_host =
  kernel_host :: host
  command_to_json :: "run_command \<Rightarrow> json option"
  command_from_json :: "json \<Rightarrow> (string, run_command) result"
  digest_payload :: "json \<Rightarrow> (string, string) result"
  json_size :: "json \<Rightarrow> u64"
  soft_limit_of :: "u64 \<Rightarrow> u64"

record stamp =
  st_event_id :: string
  st_occurred_at :: timestamp
  st_recorded_at :: timestamp

record storage_quota_manager =
  qm_limits :: storage_limits
  qm_current_global_usage_bytes :: u64

definition check_before_append :: "sup_host \<Rightarrow> storage_quota_manager \<Rightarrow> u64 \<Rightarrow> (string, bool) result" where
  "check_before_append h q payload_size =
     (let usage = qm_current_global_usage_bytes q; global = sl_global_quota_bytes (qm_limits q) in
      if global < usage + payload_size then Err ''Storage limit exceeded''
      else if soft_limit_of h global < usage + payload_size then Ok True
      else Ok False)"

definition record_usage :: "u64 \<Rightarrow> storage_quota_manager \<Rightarrow> storage_quota_manager" where
  "record_usage bytes q =
     q\<lparr>qm_current_global_usage_bytes := qm_current_global_usage_bytes q + bytes\<rparr>"

definition free_usage :: "u64 \<Rightarrow> storage_quota_manager \<Rightarrow> storage_quota_manager" where
  "free_usage bytes q =
     q\<lparr>qm_current_global_usage_bytes := saturating_sub (qm_current_global_usage_bytes q) bytes\<rparr>"

record supervisor =
  sup_memory :: "(run_id, run_snapshot) btree"
  sup_command_dedup :: "(run_id, (string, run_command_result) btree) btree"
  sup_quotas :: storage_quota_manager
  sup_safe_mode :: bool

definition without_recovery :: supervisor where
  "without_recovery = \<lparr>sup_memory = [], sup_command_dedup = [],
     sup_quotas = \<lparr>qm_limits = default_storage_limits, qm_current_global_usage_bytes = 0\<rparr>,
     sup_safe_mode = False\<rparr>"

definition check_command_id ::
    "supervisor \<Rightarrow> run_id \<Rightarrow> string \<Rightarrow> run_command_result option" where
  "check_command_id sv run_id command_id =
     (case bt_get (sup_command_dedup sv) run_id of
        None \<Rightarrow> None
      | Some m \<Rightarrow> map_option (\<lambda>r. r\<lparr>rcr_idempotent_replay := True\<rparr>) (bt_get m command_id))"

definition store_command_id ::
    "run_id \<Rightarrow> string \<Rightarrow> run_command_result \<Rightarrow> supervisor \<Rightarrow> supervisor" where
  "store_command_id run_id command_id result sv =
     sv\<lparr>sup_command_dedup := bt_insert run_id
       (bt_insert command_id result
         (case bt_get (sup_command_dedup sv) run_id of None \<Rightarrow> [] | Some m \<Rightarrow> m))
       (sup_command_dedup sv)\<rparr>"

fun grants_execution :: "run_command \<Rightarrow> bool" where
  "grants_execution (ClaimExecution _) = True"
| "grants_execution (ResumeAttempt _) = True"
| "grants_execution _ = False"

fun is_finish_run :: "run_command \<Rightarrow> bool" where
  "is_finish_run (FinishRun _) = True"
| "is_finish_run _ = False"

fun is_cancel_run :: "run_command \<Rightarrow> bool" where
  "is_cancel_run (CancelRun _) = True"
| "is_cancel_run _ = False"

fun allowed_when_terminal :: "run_command \<Rightarrow> bool" where
  "allowed_when_terminal (FinishRun _) = True"
| "allowed_when_terminal (CreateRun _) = True"
| "allowed_when_terminal (RecordAttemptQuiescence _) = True"
| "allowed_when_terminal _ = False"

text \<open>The \<open>match (&command, current)\<close> that selects the snapshot a command applies to.\<close>

fun select_base :: "run_command \<Rightarrow> run_id \<Rightarrow> run_snapshot option \<Rightarrow> run_snapshot run_result" where
  "select_base (CreateRun c) run_id None = Ok (empty_snapshot (crun_run_id c) (crun_session_id c))"
| "select_base (CreateRun c) run_id (Some _) = Err (Conflict (''run '' @ run_id @ '' exists''))"
| "select_base _ run_id None = Err (RunNotFound run_id)"
| "select_base _ run_id (Some s) = Ok s"

definition check_base :: "run_command \<Rightarrow> run_snapshot \<Rightarrow> unit run_result" where
  "check_base command base =
     (let expected_sequence = env_expected_sequence (command_envelope_of command) in
      if (case expected_sequence of None \<Rightarrow> False | Some e \<Rightarrow> e \<noteq> rs_sequence base)
      then (case expected_sequence of
              Some e \<Rightarrow> Err (StaleSequence e (rs_sequence base)) | None \<Rightarrow> Ok ())
      else if rs_state base = RunRecoveryRequired \<and>
              \<not> (is_cancel_run command \<and> expected_sequence = Some (rs_sequence base))
      then Err RecoveryRequired
      else if rs_state base \<in> {RunCanceled, RunFailed, RunSucceeded} \<and>
              \<not> allowed_when_terminal command
      then Err (RunNotAccepting (rs_state base))
      else Ok ())"

definition build_event ::
    "sup_host \<Rightarrow> stamp \<Rightarrow> run_command \<Rightarrow> run_snapshot \<Rightarrow> json \<Rightarrow> run_event_envelope run_result" where
  "build_event h st command next payload =
     (case digest_payload h payload of
        Ok digest \<Rightarrow> Ok \<lparr>ev_event_id = st_event_id st, ev_run_id = rs_run_id next,
          ev_sequence = rs_sequence next, ev_event_type = EvOther (event_type_for command),
          ev_schema_version = 1, ev_command_id = Some (env_command_id (command_envelope_of command)),
          ev_causation_id = None,
          ev_correlation_id = Some (tc_trace_id (env_trace (command_envelope_of command))),
          ev_actor = ''system'', ev_occurred_at = st_occurred_at st,
          ev_recorded_at = st_recorded_at st, ev_data_class = RepositorySource,
          ev_payload_digest = digest, ev_payload = payload\<rparr>
      | Err e \<Rightarrow> Err (Persistence e)
      | Panic \<Rightarrow> Panic)"

text \<open>What a command commits: the next snapshot with its event, computed without touching the
  supervisor.\<close>

definition prepare_commit ::
    "sup_host \<Rightarrow> stamp \<Rightarrow> run_command \<Rightarrow> run_snapshot \<Rightarrow> (run_snapshot \<times> json) run_result" where
  "prepare_commit h st command base =
     and_then (apply_command (kernel_host h) base command) (\<lambda>next0.
       let next = next0\<lparr>rs_sequence := rs_sequence base + 1\<rparr>
       in and_then (unwrap (command_to_json h command)) (\<lambda>payload.
          and_then (build_event h st command next payload) (\<lambda>event.
          Ok (next\<lparr>rs_events := rs_events next @ [event]\<rparr>, payload))))"

definition persist ::
    "sup_host \<Rightarrow> run_command \<Rightarrow> run_id \<Rightarrow> run_snapshot \<Rightarrow> json \<Rightarrow> supervisor \<Rightarrow>
     supervisor \<times> run_command_result run_result" where
  "persist h command run_id next payload sv =
     (let payload_size = json_size h payload in
      case check_before_append h (sup_quotas sv) payload_size of
        Err e \<Rightarrow> (sv\<lparr>sup_safe_mode := True\<rparr>, Err (StorageLimitExceeded e))
      | Panic \<Rightarrow> (sv, Panic)
      | Ok _ \<Rightarrow>
          let result = \<lparr>rcr_run_id = rs_run_id next, rcr_sequence = rs_sequence next,
                        rcr_idempotent_replay = False, rcr_snapshot = next\<rparr>
          in (store_command_id run_id (env_command_id (command_envelope_of command)) result
                (sv\<lparr>sup_memory := bt_insert (rs_run_id next) next (sup_memory sv),
                     sup_quotas := record_usage payload_size (sup_quotas sv)\<rparr>),
              Ok result))"

definition commit_of :: "sup_host \<Rightarrow> stamp \<Rightarrow> run_command \<Rightarrow> supervisor \<Rightarrow> run_id \<Rightarrow>
    (run_snapshot \<times> json) run_result" where
  "commit_of h st command sv run_id =
     and_then (select_base command run_id (bt_get (sup_memory sv) run_id)) (\<lambda>base.
     and_then (check_base command base) (\<lambda>_. prepare_commit h st command base))"

definition handle ::
    "sup_host \<Rightarrow> stamp \<Rightarrow> run_command \<Rightarrow> supervisor \<Rightarrow> supervisor \<times> run_command_result run_result" where
  "handle h st command sv =
     (if sup_safe_mode sv \<and> \<not> is_finish_run command
      then (sv, Err (Conflict ''System is in Safe Mode. Mutating commands are rejected.''))
      else case command_run_id command of
        None \<Rightarrow> (sv, Err (RunNotFound ''missing run_id''))
      | Some run_id \<Rightarrow>
          (case check_command_id sv run_id (env_command_id (command_envelope_of command)) of
             Some hit \<Rightarrow>
               (sv, if grants_execution command
                     then Err (DuplicateDelivery ''execution permission cannot be replayed'')
                     else Ok hit)
           | None \<Rightarrow>
               (case commit_of h st command sv run_id of
                  Ok (next, payload) \<Rightarrow> persist h command run_id next payload sv
                | Err e \<Rightarrow> (sv, Err e)
                | Panic \<Rightarrow> (sv, Panic))))"

definition snapshot_of :: "supervisor \<Rightarrow> run_id \<Rightarrow> run_snapshot run_result" where
  "snapshot_of sv run_id = ok_or (bt_get (sup_memory sv) run_id) (RunNotFound run_id)"

section \<open>Replay (\<open>replay.rs\<close>)\<close>

fun replay_events ::
    "sup_host \<Rightarrow> run_snapshot \<Rightarrow> run_event_envelope list \<Rightarrow> run_snapshot run_result" where
  "replay_events h snap [] = Ok snap"
| "replay_events h snap (event # events) =
     (case command_from_json h (ev_payload event) of
        Err e \<Rightarrow> Err (Persistence e)
      | Panic \<Rightarrow> Panic
      | Ok command \<Rightarrow>
          if ev_sequence event \<noteq> rs_sequence snap + 1
          then Err (Corruption (''Sequence gap in replay: expected '' @
                 show_word (rs_sequence snap + 1) @ '', got '' @ show_word (ev_sequence event)))
          else and_then (apply_command (kernel_host h) snap command) (\<lambda>snap'.
            replay_events h (snap'\<lparr>rs_sequence := ev_sequence event\<rparr>) events))"

definition replay_from_events ::
    "sup_host \<Rightarrow> run_snapshot \<Rightarrow> run_event_envelope list \<Rightarrow> run_snapshot run_result" where
  "replay_from_events h base events =
     and_then (replay_events h (base\<lparr>rs_events := []\<rparr>) events) (\<lambda>snap.
       Ok (snap\<lparr>rs_events := events\<rparr>))"

definition first_session :: "sup_host \<Rightarrow> run_event_envelope list \<Rightarrow> session_id option" where
  "first_session h events =
     (case events of
        [] \<Rightarrow> None
      | e # _ \<Rightarrow>
          (case command_from_json h (ev_payload e) of
             Ok (CreateRun cr) \<Rightarrow> crun_session_id cr
           | _ \<Rightarrow> None))"

definition replay_run :: "sup_host \<Rightarrow> supervisor \<Rightarrow> run_id \<Rightarrow> run_snapshot run_result" where
  "replay_run h sv run_id =
     (case bt_get (sup_memory sv) run_id of
        None \<Rightarrow> Err (RunNotFound run_id)
      | Some snap \<Rightarrow>
          replay_from_events h (empty_snapshot run_id (first_session h (rs_events snap)))
            (rs_events snap))"

section \<open>Observation and recovery\<close>

text \<open>The loop that collects the events after a sequence number: it pushes first and then
  compares the length with the limit.\<close>

fun collect_events :: "u64 \<Rightarrow> u32 \<Rightarrow> run_event_envelope list \<Rightarrow> run_event_envelope list \<Rightarrow>
    run_event_envelope list" where
  "collect_events after limit [] acc = acc"
| "collect_events after limit (event # events) acc =
     (if after < ev_sequence event
      then let acc' = acc @ [event]
           in if limit \<le> of_nat (length acc') then acc' else collect_events after limit events acc'
      else collect_events after limit events acc)"

definition resume_from_sequence ::
    "supervisor \<Rightarrow> run_id \<Rightarrow> u64 \<Rightarrow> u32 \<Rightarrow> (replay_gap, run_event_envelope list) result run_result" where
  "resume_from_sequence sv run_id after_sequence limit =
     (case bt_get (sup_memory sv) run_id of
        None \<Rightarrow> Err (RunNotFound run_id)
      | Some snap \<Rightarrow>
          (case rs_events snap of
             [] \<Rightarrow> Ok (Ok [])
           | e # es \<Rightarrow>
               let earliest_available = ev_sequence e in
               if 0 < after_sequence \<and> after_sequence < earliest_available \<and> 0 < earliest_available
               then Ok (Err \<lparr>rg_requested_after = after_sequence,
                      rg_earliest_available = earliest_available,
                      rg_snapshot_sequence = Some (rs_sequence snap), rg_reason = OlderThanFloor\<rparr>)
               else Ok (Ok (collect_events after_sequence limit (e # es) []))))"

fun recover_runs :: "sup_host \<Rightarrow> u64 \<Rightarrow> run_id list \<Rightarrow> supervisor \<Rightarrow> supervisor run_result" where
  "recover_runs h now [] sv = Ok sv"
| "recover_runs h now (run_id # run_ids) sv =
     (case bt_get (sup_memory sv) run_id of
        None \<Rightarrow> recover_runs h now run_ids sv
      | Some before \<Rightarrow>
          and_then (recover_run (kernel_host h) now before) (\<lambda>snap.
            recover_runs h now run_ids
              (if snap = before then sv
               else sv\<lparr>sup_memory := bt_insert run_id snap (sup_memory sv)\<rparr>)))"

definition recover_at_startup :: "sup_host \<Rightarrow> u64 \<Rightarrow> supervisor \<Rightarrow> supervisor run_result" where
  "recover_at_startup h now sv = recover_runs h now (bt_keys (sup_memory sv)) sv"

definition recovery_required_reason :: "supervisor \<Rightarrow> string option" where
  "recovery_required_reason sv =
     map_option (\<lambda>(run_id, _). ''run '' @ run_id @ '' is RecoveryRequired, not self-clearing'')
       (List.find (\<lambda>(_, snap). rs_state snap = RunRecoveryRequired) (sup_memory sv))"

definition recovery_required :: "supervisor \<Rightarrow> bool" where
  "recovery_required sv \<longleftrightarrow> recovery_required_reason sv \<noteq> None"

section \<open>Lemmas: transitions do not look at the event log\<close>

definition set_events :: "run_event_envelope list \<Rightarrow> run_snapshot \<Rightarrow> run_snapshot" where
  "set_events es s = s\<lparr>rs_events := es\<rparr>"

definition map_ok :: "('a \<Rightarrow> 'b) \<Rightarrow> ('e, 'a) result \<Rightarrow> ('e, 'b) result" where
  "map_ok f r = and_then r (\<lambda>x. Ok (f x))"

lemma map_ok_simps [simp]:
  "map_ok f (Ok x) = Ok (f x)" "map_ok f (Err e) = Err e" "map_ok f Panic = Panic"
  "map_ok f (and_then r g) = and_then r (\<lambda>x. map_ok f (g x))"
  "map_ok f (if b then r1 else r2) = (if b then map_ok f r1 else map_ok f r2)"
  by (simp_all add: map_ok_def) (cases r; simp add: map_ok_def)

lemma map_ok_case_option [simp]:
  "map_ok f (case x of None \<Rightarrow> r | Some y \<Rightarrow> g y) = (case x of None \<Rightarrow> map_ok f r | Some y \<Rightarrow> map_ok f (g y))"
  by (cases x) simp_all

lemma set_events_selectors [simp]:
  "rs_tasks (set_events es s) = rs_tasks s" "rs_attempts (set_events es s) = rs_attempts s"
  "rs_dependencies (set_events es s) = rs_dependencies s" "rs_state (set_events es s) = rs_state s"
  "rs_delivery_index (set_events es s) = rs_delivery_index s"
  "rs_side_effect_commits (set_events es s) = rs_side_effect_commits s"
  "rs_cancellation (set_events es s) = rs_cancellation s" "rs_run_id (set_events es s) = rs_run_id s"
  "rs_speculation (set_events es s) = rs_speculation s" "rs_deadlines (set_events es s) = rs_deadlines s"
  "rs_next_lease_epoch (set_events es s) = rs_next_lease_epoch s"
  "rs_job_spec (set_events es s) = rs_job_spec s" "rs_sequence (set_events es s) = rs_sequence s"
  "rs_events (set_events es s) = es"
  by (simp_all add: set_events_def)

lemma set_events_updates:
  "update_task k f (set_events es s) = set_events es (update_task k f s)"
  "update_attempt k g (set_events es s) = set_events es (update_attempt k g s)"
  "set_task_state k st (set_events es s) = set_events es (set_task_state k st s)"
  "(set_events es s)\<lparr>rs_state := x1\<rparr> = set_events es (s\<lparr>rs_state := x1\<rparr>)"
  "(set_events es s)\<lparr>rs_tasks := x2\<rparr> = set_events es (s\<lparr>rs_tasks := x2\<rparr>)"
  "(set_events es s)\<lparr>rs_attempts := x3\<rparr> = set_events es (s\<lparr>rs_attempts := x3\<rparr>)"
  "(set_events es s)\<lparr>rs_dependencies := x4\<rparr> = set_events es (s\<lparr>rs_dependencies := x4\<rparr>)"
  "(set_events es s)\<lparr>rs_delivery_index := x5\<rparr> = set_events es (s\<lparr>rs_delivery_index := x5\<rparr>)"
  "(set_events es s)\<lparr>rs_side_effect_commits := x6\<rparr> = set_events es (s\<lparr>rs_side_effect_commits := x6\<rparr>)"
  "(set_events es s)\<lparr>rs_deadlines := x7\<rparr> = set_events es (s\<lparr>rs_deadlines := x7\<rparr>)"
  "(set_events es s)\<lparr>rs_cancellation := x8\<rparr> = set_events es (s\<lparr>rs_cancellation := x8\<rparr>)"
  "(set_events es s)\<lparr>rs_next_lease_epoch := x9\<rparr> = set_events es (s\<lparr>rs_next_lease_epoch := x9\<rparr>)"
  "(set_events es s)\<lparr>rs_sequence := x10\<rparr> = set_events es (s\<lparr>rs_sequence := x10\<rparr>)"
  "(set_events es s)\<lparr>rs_run_id := x11\<rparr> = set_events es (s\<lparr>rs_run_id := x11\<rparr>)"
  "(set_events es s)\<lparr>rs_session_id := x12\<rparr> = set_events es (s\<lparr>rs_session_id := x12\<rparr>)"
  "(set_events es s)\<lparr>rs_workspace_version := x13\<rparr> = set_events es (s\<lparr>rs_workspace_version := x13\<rparr>)"
  "(set_events es s)\<lparr>rs_speculation := x14\<rparr> = set_events es (s\<lparr>rs_speculation := x14\<rparr>)"
  "(set_events es s)\<lparr>rs_job_spec := x15\<rparr> = set_events es (s\<lparr>rs_job_spec := x15\<rparr>)"
  "register_delivery_key key aid (set_events es s) = set_events es (register_delivery_key key aid s)"
  by (simp_all add: set_events_def update_task_def update_attempt_def set_task_state_def
      register_delivery_key_def)

lemma set_events_reads [simp]:
  "get_task (set_events es s) k = get_task s k" "get_attempt (set_events es s) k' = get_attempt s k'"
  "dependencies_satisfied (set_events es s) k = dependencies_satisfied s k"
  "task_state_in (set_events es s) k sts = task_state_in s k sts"
  "ensure_not_recovery (set_events es s) = ensure_not_recovery s"
  "ensure_run_accepts_mutations (set_events es s) = ensure_run_accepts_mutations s"
  "check_delegation (set_events es s) c = check_delegation s c"
  "active_count (set_events es s) k = active_count s k"
  "others_quiescent (set_events es s) k' = others_quiescent s k'"
  "can_renew_lease (set_events es s) a now = can_renew_lease s a now"
  "can_retry_side_effects (set_events es s) k = can_retry_side_effects s k"
  "expected_digest_ok h (set_events es s) t d = expected_digest_ok h s t d"
  "new_attempt h (set_events es s) ca t = new_attempt h s ca t"
  by (simp_all add: get_task_def get_attempt_def dependencies_satisfied_def dependency_met_def [abs_def]
      task_state_in_def ensure_not_recovery_def ensure_run_accepts_mutations_def check_delegation_def
      active_count_def others_quiescent_def can_renew_lease_def can_retry_side_effects_def
      expected_digest_ok_def new_attempt_def Let_def cong: option.case_cong if_cong)

lemma try_set_events [simp]:
  "try_accept_completion h (set_events es s) c = try_accept_completion h s c"
  "try_claim_finalization h (set_events es s) c' = try_claim_finalization h s c'"
  by (simp_all add: try_accept_completion_def try_claim_finalization_def cong: option.case_cong if_cong)

lemma fold_commutes:
  assumes "\<And>x s. f x (g s) = g (f x s)"
  shows "fold f xs (g s) = g (fold f xs s)"
  using assms by (induction xs arbitrary: s) auto

lemma recompute_set_events [simp]:
  "recompute_blocked_ready (set_events es s) = set_events es (recompute_blocked_ready s)"
  by (simp add: recompute_blocked_ready_def, rule fold_commutes)
    (auto simp: recompute_task_def set_events_updates split: option.splits)

lemma dependency_failure_set_events [simp]:
  "apply_dependency_failure k (set_events es s) = set_events es (apply_dependency_failure k s)"
  by (simp add: apply_dependency_failure_def, rule fold_commutes)
    (auto intro!: fold_commutes simp: dependency_failure_step_def Let_def set_events_updates
      split: dependency_policy.splits)

lemma failure_set_events [simp]:
  "apply_failure_with_retry h k fc r now (set_events es s) =
   map_ok (set_events es) (apply_failure_with_retry h k fc r now s)"
  by (cases "bt_get (rs_tasks s) k")
    (simp_all add: apply_failure_with_retry_def Let_def set_events_updates)

lemma winner_set_events [simp]:
  "apply_winner_selection aid k v (set_events es s) = map_ok (set_events es) (apply_winner_selection aid k v s)"
  by (simp add: apply_winner_selection_def Let_def set_events_updates)

lemmas handler_defs = apply_create_run_def apply_start_run_def add_task_def apply_add_dependency_def
  apply_mark_task_ready_def apply_create_attempt_def admit_attempt_def apply_lease_attempt_def
  apply_start_attempt_def apply_claim_execution_def suspend_def resume_def apply_record_heartbeat_def
  apply_claim_finalization_def apply_complete_attempt_def apply_fail_attempt_def
  apply_expire_lease_def apply_cancel_task_def apply_cancel_run_def apply_accept_artifact_def
  apply_reject_artifact_def apply_record_side_effect_commit_def record_side_effect_commit_def
  apply_finish_run_def apply_attempt_quiescence_def

lemma apply_command_set_events:
  "apply_command h (set_events es s) c = map_ok (set_events es) (apply_command h s c)"
  by (cases c) (simp_all add: handler_defs set_events_updates Let_def
      if_distrib [of "set_events es"] option.case_distrib [of "set_events es"]
      cong: option.case_cong if_cong)

lemma apply_command_keeps_events:
  assumes "apply_command h s c = Ok s'"
  shows "rs_events s' = rs_events s"
proof -
  have "set_events (rs_events s) s = s" by (simp add: set_events_def)
  then have "Ok s' = map_ok (set_events (rs_events s)) (Ok s')"
    using apply_command_set_events [of h "rs_events s" s c] assms by simp
  then have "s' = set_events (rs_events s) s'" by simp
  then show ?thesis using set_events_selectors by metis
qed

section \<open>Lemmas: the journal replays to the snapshot\<close>

lemma recompute_keeps_run_id:
  "bt_invar (rs_tasks s) \<Longrightarrow> rs_run_id (recompute_blocked_ready s) = rs_run_id s"
  using scheduling_step_frame(5) [OF scheduling_step_recompute] by fastforce

lemma failure_keeps_run_id:
  "apply_failure_with_retry h k fc r now s = Ok s' \<Longrightarrow> bt_invar (rs_tasks s) \<Longrightarrow> rs_run_id s' = rs_run_id s"
  by (drule (1) apply_failure_with_retry_frame [rotated]) auto

lemma apply_command_keeps_run_id:
  assumes inv: "bt_invar (rs_tasks s)" and ok: "apply_command h s c = Ok s'" and "\<And>x. c \<noteq> CreateRun x"
  shows "rs_run_id s' = rs_run_id s"
  using assms
  by (cases c) (auto simp: handler_defs result_simps Let_def recompute_keeps_run_id
      register_delivery_key_def apply_winner_selection_def dest!: failure_keeps_run_id
      split: if_splits option.splits)

text \<open>The documented behaviour of the JSON codec and digest on one command: it serialises, what it
  serialises to reads back as the command, and digesting it does not abort.\<close>

definition codec_ok :: "sup_host \<Rightarrow> run_command \<Rightarrow> bool" where
  "codec_ok h c \<longleftrightarrow>
     (case command_to_json h c of
        None \<Rightarrow> False
      | Some j \<Rightarrow> command_from_json h j = Ok c \<and> digest_payload h j \<noteq> Panic)"

definition journal_ok :: "sup_host \<Rightarrow> run_id \<Rightarrow> run_snapshot \<Rightarrow> bool" where
  "journal_ok h run_id s \<longleftrightarrow>
     rs_run_id s = run_id \<and> rs_events s \<noteq> [] \<and>
     map ev_sequence (rs_events s) = map (\<lambda>i. of_nat (Suc i)) [0..<length (rs_events s)] \<and>
     rs_sequence s = of_nat (length (rs_events s)) \<and>
     replay_events h (empty_snapshot run_id (first_session h (rs_events s))) (rs_events s) =
       Ok (set_events [] s)"

definition sup_inv :: "sup_host \<Rightarrow> supervisor \<Rightarrow> bool" where
  "sup_inv h sv \<longleftrightarrow>
     (\<forall>run_id s. bt_get (sup_memory sv) run_id = Some s \<longrightarrow> wf_snapshot s \<and> journal_ok h run_id s)"

definition sup_step ::
    "sup_host \<Rightarrow> supervisor \<Rightarrow> stamp \<times> run_command \<Rightarrow> (run_supervisor_error, supervisor) result" where
  "sup_step h sv sc =
     (if snd (handle h (fst sc) (snd sc) sv) = Panic then Panic
      else Ok (fst (handle h (fst sc) (snd sc) sv)))"

lemma replay_events_append:
  "replay_events h s (xs @ ys) = and_then (replay_events h s xs) (\<lambda>t. replay_events h t ys)"
proof (induction xs arbitrary: s)
  case (Cons x xs)
  show ?case
  proof (cases "command_from_json h (ev_payload x)")
    case (Ok c)
    then show ?thesis by (cases "apply_command (kernel_host h) s c") (simp_all add: Cons.IH)
  qed simp_all
qed simp

lemma first_session_append: "xs \<noteq> [] \<Longrightarrow> first_session h (xs @ ys) = first_session h xs"
  by (cases xs) (simp_all add: first_session_def)

lemma prepare_commit_OkE:
  assumes "prepare_commit h st c base = Ok (next, payload)" and "codec_ok h c"
  obtains n e where "apply_command (kernel_host h) base c = Ok n" and "command_from_json h payload = Ok c"
    and "ev_payload e = payload" and "ev_sequence e = rs_sequence base + 1"
    and "next = n\<lparr>rs_sequence := rs_sequence base + 1, rs_events := rs_events base @ [e]\<rparr>"
proof -
  from assms(1) obtain n e where n: "apply_command (kernel_host h) base c = Ok n"
    and j: "command_to_json h c = Some payload"
    and e: "build_event h st c (n\<lparr>rs_sequence := rs_sequence base + 1\<rparr>) payload = Ok e"
    and nx: "next = n\<lparr>rs_sequence := rs_sequence base + 1, rs_events := rs_events n @ [e]\<rparr>"
    by (auto simp: prepare_commit_def result_simps Let_def)
  have "command_from_json h payload = Ok c" using assms(2) j by (simp add: codec_ok_def)
  moreover have "ev_payload e = payload" "ev_sequence e = rs_sequence base + 1"
    using e by (auto simp: build_event_def split: result.splits)
  ultimately show ?thesis using n nx apply_command_keeps_events [OF n] by (intro that) auto
qed

lemma journal_extend:
  assumes fresh: "replay_events h (empty_snapshot r (first_session h es)) (rs_events base) =
      Ok (set_events [] base)" and es: "es = rs_events base @ [e]"
    and seq: "map ev_sequence (rs_events base) = map (\<lambda>i. of_nat (Suc i)) [0..<length (rs_events base)]"
      "rs_sequence base = of_nat (length (rs_events base))"
    and n: "apply_command (kernel_host h) base c = Ok n" "rs_run_id n = r"
    and e: "command_from_json h (ev_payload e) = Ok c" "ev_sequence e = rs_sequence base + 1"
  shows "journal_ok h r (n\<lparr>rs_sequence := rs_sequence base + 1, rs_events := es\<rparr>)"
proof -
  have "apply_command (kernel_host h) (set_events [] base) c = Ok (set_events [] n)"
    using n by (simp add: apply_command_set_events)
  then have "replay_events h (set_events [] base) [e] =
      Ok ((set_events [] n)\<lparr>rs_sequence := rs_sequence base + 1\<rparr>)"
    using e by simp
  moreover have "(set_events [] n)\<lparr>rs_sequence := rs_sequence base + 1\<rparr> =
      set_events [] (n\<lparr>rs_sequence := rs_sequence base + 1, rs_events := es\<rparr>)"
    by (simp add: set_events_def)
  ultimately have "replay_events h (empty_snapshot r (first_session h es)) es =
      Ok (set_events [] (n\<lparr>rs_sequence := rs_sequence base + 1, rs_events := es\<rparr>))"
    using fresh by (simp add: es replay_events_append)
  then show ?thesis using n(2) seq e(2) by (simp add: journal_ok_def es)
qed

lemma select_base_cases:
  assumes "select_base c r cur = Ok base"
  obtains (create) x where "c = CreateRun x" "cur = None"
    "base = empty_snapshot (crun_run_id x) (crun_session_id x)"
  | (existing) "\<And>x. c \<noteq> CreateRun x" "cur = Some base"
  using assms by (cases "(c, r, cur)" rule: select_base.cases) auto

lemma commit_journal_ok:
  assumes inv: "sup_inv h sv" and codec: "codec_ok h c" and r: "command_run_id c = Some r"
    and base: "select_base c r (bt_get (sup_memory sv) r) = Ok base"
    and prep: "prepare_commit h st c base = Ok (next, payload)"
  shows "wf_snapshot next \<and> journal_ok h r next"
proof -
  from prepare_commit_OkE [OF prep codec] obtain n e where
    n: "apply_command (kernel_host h) base c = Ok n" and e: "command_from_json h payload = Ok c"
    "ev_payload e = payload" "ev_sequence e = rs_sequence base + 1"
    and nx: "next = n\<lparr>rs_sequence := rs_sequence base + 1, rs_events := rs_events base @ [e]\<rparr>" by blast
  show ?thesis using base
  proof (cases rule: select_base_cases)
    case (create x)
    have wf: "wf_snapshot n" using wf_apply_command [OF _ n] create(3) by (simp add: wf_empty_snapshot)
    have ev: "rs_events base = []" by (simp add: create(3) empty_snapshot_def)
    have "rs_run_id n = r"
      using n r create by (auto simp: apply_create_run_def split: if_splits)
    moreover have "first_session h [e] = crun_session_id x" using e create(1) by (simp add: first_session_def)
    moreover have "set_events [] base = base" by (simp add: set_events_def create(3) empty_snapshot_def)
    ultimately have "journal_ok h r next"
      using r e n create unfolding nx
      by (intro journal_extend) (simp_all add: ev empty_snapshot_def)
    with wf show ?thesis by (simp add: nx)
  next
    case existing
    with inv have wf: "wf_snapshot base" and j: "journal_ok h r base" by (auto simp: sup_inv_def)
    have "rs_run_id n = r"
      using apply_command_keeps_run_id [OF wf_snapshotD_maps(1) [OF wf] n existing(1)] j
      by (simp add: journal_ok_def)
    then have "journal_ok h r next" unfolding nx using j n e
      by (intro journal_extend) (simp_all add: journal_ok_def first_session_append)
    with wf_apply_command [OF wf n] show ?thesis by (simp add: nx)
  qed
qed

lemma persist_memory:
  "bt_get (sup_memory (fst (persist h c r next payload sv))) k =
     (if snd (persist h c r next payload sv) \<noteq> Err (StorageLimitExceeded ''Storage limit exceeded'')
        \<and> k = rs_run_id next
      then Some next else bt_get (sup_memory sv) k)"
  by (auto simp: persist_def check_before_append_def store_command_id_def Let_def)

lemma commit_of_OkE:
  assumes "commit_of h st c sv r = Ok (nx, payload)"
  obtains base where "select_base c r (bt_get (sup_memory sv) r) = Ok base" "check_base c base = Ok ()"
    "prepare_commit h st c base = Ok (nx, payload)"
  using assms by (auto simp: commit_of_def result_simps)

lemma handle_cases:
  obtains (keep) "fst (handle h st c sv) = sv"
  | (commit) r nx payload where "command_run_id c = Some r"
    "check_command_id sv r (env_command_id (command_envelope_of c)) = None"
    "commit_of h st c sv r = Ok (nx, payload)"
    "handle h st c sv = persist h c r nx payload sv"
proof (cases "sup_safe_mode sv \<and> \<not> is_finish_run c")
  case True
  then show ?thesis by (intro keep) (simp add: handle_def)
next
  case safe: False
  show ?thesis
  proof (cases "command_run_id c")
    case None
    then show ?thesis using safe by (intro keep) (simp add: handle_def)
  next
    case (Some r)
    show ?thesis
    proof (cases "check_command_id sv r (env_command_id (command_envelope_of c))")
      case None
      with Some safe show ?thesis
        by (cases "commit_of h st c sv r") (auto simp: handle_def intro: keep commit)
    qed (use Some safe in \<open>auto simp: handle_def intro: keep\<close>)
  qed
qed

lemma handle_sup_inv:
  assumes inv: "sup_inv h sv" and codec: "codec_ok h c"
  shows "sup_inv h (fst (handle h st c sv))"
proof (cases rule: handle_cases [of h st c sv])
  case keep
  with inv show ?thesis by (simp add: sup_inv_def)
next
  case (commit r nx payload)
  from commit(3) obtain base where b: "select_base c r (bt_get (sup_memory sv) r) = Ok base"
    "prepare_commit h st c base = Ok (nx, payload)" by (elim commit_of_OkE)
  from commit_journal_ok [OF inv codec commit(1) b] have ok: "wf_snapshot nx" "journal_ok h r nx" by auto
  then have "rs_run_id nx = r" by (simp add: journal_ok_def)
  with ok inv show ?thesis by (auto simp: commit(4) sup_inv_def persist_memory split: if_splits)
qed

lemma persist_neq_Panic: "snd (persist h c r nx payload sv) \<noteq> Panic"
  by (simp add: persist_def check_before_append_def Let_def)

lemma commit_of_neq_Panic:
  assumes inv: "sup_inv h sv" and codec: "codec_ok h c"
  shows "commit_of h st c sv r \<noteq> Panic"
proof -
  have "prepare_commit h st c base \<noteq> Panic" if "wf_snapshot base" for base
    using apply_command_neq_Panic [OF that] codec
    by (auto simp: prepare_commit_def build_event_def codec_ok_def Let_def and_then_eq_Panic
        split: option.splits result.splits)
  moreover have "wf_snapshot base" if "select_base c r (bt_get (sup_memory sv) r) = Ok base" for base
    using that inv by (cases rule: select_base_cases) (auto simp: sup_inv_def wf_empty_snapshot)
  moreover have "select_base c r x \<noteq> Panic" "check_base c base \<noteq> Panic" for x base
    by (cases "(c, r, x)" rule: select_base.cases) (auto simp: check_base_def Let_def split: option.splits)
  ultimately show ?thesis by (auto simp: commit_of_def and_then_eq_Panic)
qed

lemma handle_neq_Panic:
  assumes "sup_inv h sv" and "codec_ok h c"
  shows "snd (handle h st c sv) \<noteq> Panic"
  using commit_of_neq_Panic [OF assms, of st] persist_neq_Panic
  by (auto simp: handle_def split: option.splits result.splits)

interpretation sup: command_machine "sup_step h" "\<lambda>_ sc. codec_ok h (snd sc)" "sup_inv h" for h
  by unfold_locales (auto simp: sup_step_def handle_sup_inv handle_neq_Panic split: if_splits)

lemma replay_run_inv:
  assumes "sup_inv h sv" and "bt_get (sup_memory sv) r = Some s"
  shows "replay_run h sv r = Ok s"
proof -
  from assms have "journal_ok h r s" by (simp add: sup_inv_def)
  then show ?thesis using assms(2)
    by (simp add: replay_run_def replay_from_events_def journal_ok_def empty_snapshot_def set_events_def)
qed

end
