(* ===== verification/Evolution.thy ===== *)
theory Evolution
  imports Supervisor
begin

text \<open>
  How a snapshot may change from one command to the next: the identity of an attempt is fixed, a
  claim of execution is only taken back by a resumption, a terminal attempt stays in its state
  unless its result is rejected, and the delivery keys, the committed side effects, the
  cancellation and the outcome of a run are never forgotten.
\<close>

fun is_resume :: "run_command \<Rightarrow> bool" where
  "is_resume (ResumeAttempt _) = True"
| "is_resume _ = False"

fun is_reject :: "run_command \<Rightarrow> bool" where
  "is_reject (RejectArtifact _) = True"
| "is_reject _ = False"

definition attempt_evolves :: "run_command \<Rightarrow> attempt_record \<Rightarrow> attempt_record \<Rightarrow> bool" where
  "attempt_evolves c a a' \<longleftrightarrow>
     ar_attempt_id a' = ar_attempt_id a \<and> ar_task_id a' = ar_task_id a \<and>
     ar_task_version a' = ar_task_version a \<and> ar_input_digest a' = ar_input_digest a \<and>
     ar_attempt_number a' = ar_attempt_number a \<and> ar_delivery_key a' = ar_delivery_key a \<and>
     (ar_execution_claimed a \<longrightarrow> is_resume c \<or> ar_execution_claimed a') \<and>
     (is_terminal_attempt (ar_state a) \<longrightarrow>
        ar_state a' = ar_state a \<and> ar_result_digest a' = ar_result_digest a \<or>
        is_reject c \<and> ar_state a = AttemptSucceeded \<and> ar_state a' = AttemptFailed)"

definition run_is_terminal :: "run_state \<Rightarrow> bool" where
  "run_is_terminal st \<longleftrightarrow> st \<in> {RunSucceeded, RunFailed, RunCanceled}"

definition history_kept :: "run_snapshot \<Rightarrow> run_snapshot \<Rightarrow> bool" where
  "history_kept s s' \<longleftrightarrow>
     (\<forall>k. bt_contains (rs_tasks s) k \<longrightarrow> bt_contains (rs_tasks s') k) \<and>
     (\<forall>key aid. bt_get (rs_delivery_index s) key = Some aid \<longrightarrow>
        bt_get (rs_delivery_index s') key = Some aid) \<and>
     (\<forall>key r. bt_get (rs_side_effect_commits s) key = Some r \<longrightarrow>
        bt_get (rs_side_effect_commits s') key = Some r) \<and>
     (can_run_canceled (rs_cancellation s) \<longrightarrow> can_run_canceled (rs_cancellation s')) \<and>
     (run_is_terminal (rs_state s) \<and> rs_tasks s \<noteq> [] \<longrightarrow> rs_state s' = rs_state s)"

section \<open>Frames\<close>

lemma bt_contains_insert [simp]: "bt_contains (bt_insert k v m) x \<longleftrightarrow> x = k \<or> bt_contains m x"
  by (auto simp: bt_contains_def)

lemma bt_contains_Nil [simp]: "\<not> bt_contains [] k"
  by (simp add: bt_contains_def)

lemma recompute_frame:
  assumes "bt_invar (rs_tasks s)"
  shows "rs_attempts (recompute_blocked_ready s) = rs_attempts s"
    "rs_delivery_index (recompute_blocked_ready s) = rs_delivery_index s"
    "rs_side_effect_commits (recompute_blocked_ready s) = rs_side_effect_commits s"
    "rs_cancellation (recompute_blocked_ready s) = rs_cancellation s"
    "rs_state (recompute_blocked_ready s) = rs_state s"
    "bt_contains (rs_tasks (recompute_blocked_ready s)) k = bt_contains (rs_tasks s) k"
  using scheduling_step_recompute [OF assms] by (auto simp: scheduling_step_def)

lemma failure_frame:
  assumes "apply_failure_with_retry h k fc r now s = Ok s'" and "bt_invar (rs_tasks s)"
  shows "rs_attempts s' = rs_attempts s" "rs_delivery_index s' = rs_delivery_index s"
    "rs_side_effect_commits s' = rs_side_effect_commits s" "rs_cancellation s' = rs_cancellation s"
    "rs_state s' = rs_state s" "bt_contains (rs_tasks s') x = bt_contains (rs_tasks s) x"
proof -
  obtain ts where s': "s' = s\<lparr>rs_tasks := ts\<rparr>" "bt_keys ts = bt_keys (rs_tasks s)"
    using apply_failure_with_retry_frame [OF assms(2,1)] by blast
  then show "rs_attempts s' = rs_attempts s" "rs_delivery_index s' = rs_delivery_index s"
    "rs_side_effect_commits s' = rs_side_effect_commits s" "rs_cancellation s' = rs_cancellation s"
    "rs_state s' = rs_state s" by simp_all
  show "bt_contains (rs_tasks s') x = bt_contains (rs_tasks s) x"
    using s' by (simp add: bt_contains_iff_keys)
qed

section \<open>Attempts\<close>

lemma attempt_evolves_refl [simp]: "attempt_evolves c a a"
  by (simp add: attempt_evolves_def)

lemma evolve_update:
  assumes "bt_get m k = Some a" and "bt_get m j = Some b" and "attempt_evolves c b (f b)"
  shows "\<exists>a'. bt_get (bt_modify j f m) k = Some a' \<and> attempt_evolves c a a'"
  using assms by auto

lemmas evolves_simps = attempt_evolves_def is_terminal_attempt_def is_result_acceptable_state_def
  attempt_is_cancelable_def cancel_attempt_record_def

lemma evolve_runs:
  assumes "bt_invar (rs_tasks s)" and "bt_get (rs_attempts s) k = Some a"
  shows "apply_create_run s c1 = Ok s' \<Longrightarrow> bt_get (rs_attempts s') k = Some a"
    "apply_start_run s c2 = Ok s' \<Longrightarrow> bt_get (rs_attempts s') k = Some a"
    "add_task s c3 = Ok s' \<Longrightarrow> bt_get (rs_attempts s') k = Some a"
    "apply_add_dependency s c4 = Ok s' \<Longrightarrow> bt_get (rs_attempts s') k = Some a"
    "apply_mark_task_ready s c5 = Ok s' \<Longrightarrow> bt_get (rs_attempts s') k = Some a"
    "apply_create_attempt h s c6 = Ok s' \<Longrightarrow> bt_get (rs_attempts s') k = Some a"
    "apply_claim_finalization h s c7 = Ok s' \<Longrightarrow> bt_get (rs_attempts s') k = Some a"
    "apply_accept_artifact s c8 = Ok s' \<Longrightarrow> bt_get (rs_attempts s') k = Some a"
    "apply_record_side_effect_commit s c9 = Ok s' \<Longrightarrow> bt_get (rs_attempts s') k = Some a"
    "apply_finish_run s c10 = Ok s' \<Longrightarrow> bt_get (rs_attempts s') k = Some a"
  using assms by (auto simp: handler_defs result_simps Let_def recompute_frame bt_contains_iff
      register_delivery_key_def split: if_splits option.splits)

lemma evolve_leases:
  assumes "bt_get (rs_attempts s) k = Some a"
  shows "apply_lease_attempt s c1 = Ok s' \<Longrightarrow>
      \<exists>a'. bt_get (rs_attempts s') k = Some a' \<and> attempt_evolves c a a'"
    "apply_start_attempt s c2 = Ok s' \<Longrightarrow>
      \<exists>a'. bt_get (rs_attempts s') k = Some a' \<and> attempt_evolves c a a'"
    "apply_claim_execution s c3 = Ok s' \<Longrightarrow>
      \<exists>a'. bt_get (rs_attempts s') k = Some a' \<and> attempt_evolves c a a'"
    "apply_record_heartbeat s c4 = Ok s' \<Longrightarrow>
      \<exists>a'. bt_get (rs_attempts s') k = Some a' \<and> attempt_evolves c a a'"
    "apply_attempt_quiescence s c5 = Ok s' \<Longrightarrow>
      \<exists>a'. bt_get (rs_attempts s') k = Some a' \<and> attempt_evolves c a a'"
  using assms by (auto simp: handler_defs result_simps Let_def evolves_simps
      split: if_splits option.splits)

lemma evolve_cancel:
  assumes "bt_get (rs_attempts s) k = Some a"
  shows "apply_cancel_task s c1 = Ok s' \<Longrightarrow>
      \<exists>a'. bt_get (rs_attempts s') k = Some a' \<and> attempt_evolves c a a'"
    "apply_cancel_run s c2 = Ok s' \<Longrightarrow>
      \<exists>a'. bt_get (rs_attempts s') k = Some a' \<and> attempt_evolves c a a'"
  using assms by (auto simp: handler_defs result_simps Let_def evolves_simps split: if_splits)

lemma evolve_suspension:
  assumes a: "bt_get (rs_attempts s) k = Some a"
  shows "suspend s c1 = Ok s' \<Longrightarrow> \<exists>a'. bt_get (rs_attempts s') k = Some a' \<and> attempt_evolves c a a'"
    "resume s c2 = Ok s' \<Longrightarrow>
      \<exists>a'. bt_get (rs_attempts s') k = Some a' \<and> attempt_evolves (ResumeAttempt c2) a a'"
  using a by (auto elim!: suspend_OkE resume_OkE simp: evolves_simps)

lemma evolve_complete:
  assumes a: "bt_get (rs_attempts s) k = Some a" and ok: "apply_complete_attempt h s c1 = Ok s'"
  shows "\<exists>a'. bt_get (rs_attempts s') k = Some a' \<and> attempt_evolves c a a'"
proof (cases "s' = s")
  case False
  with ok show ?thesis
    by (rule apply_complete_attempt_OkE)
      (use a in \<open>auto simp: evolves_simps attempt_is_active_def\<close>)
qed (use a in simp)

lemma evolve_failure:
  assumes inv: "bt_invar (rs_tasks s)" and a: "bt_get (rs_attempts s) k = Some a"
  shows "apply_fail_attempt h s c1 = Ok s' \<Longrightarrow>
      \<exists>a'. bt_get (rs_attempts s') k = Some a' \<and> attempt_evolves c a a'"
    "apply_expire_lease h s c2 = Ok s' \<Longrightarrow>
      \<exists>a'. bt_get (rs_attempts s') k = Some a' \<and> attempt_evolves c a a'"
    "apply_reject_artifact h s c3 = Ok s' \<Longrightarrow>
      \<exists>a'. bt_get (rs_attempts s') k = Some a' \<and> attempt_evolves (RejectArtifact c3) a a'"
  using inv a by (auto simp: handler_defs result_simps Let_def evolves_simps
      dest!: failure_frame(1) split: if_splits)

lemma attempts_evolve:
  assumes wf: "wf_snapshot s" and ok: "apply_command h s c = Ok s'"
    and a: "bt_get (rs_attempts s) k = Some a"
  shows "\<exists>a'. bt_get (rs_attempts s') k = Some a' \<and> attempt_evolves c a a'"
  using ok
  by (cases c) (auto dest: evolve_runs [OF wf_snapshotD_maps(1) [OF wf] a]
    intro: evolve_leases [OF a] evolve_cancel [OF a] evolve_suspension [OF a] evolve_complete [OF a]
      evolve_failure [OF wf_snapshotD_maps(1) [OF wf] a] attempt_evolves_refl)

section \<open>Tables\<close>

lemma history_kept_refl: "history_kept s s"
  by (simp add: history_kept_def)

lemma nonempty_contains: "m \<noteq> [] \<longleftrightarrow> (\<exists>k. bt_contains m k)"
  by (cases m) (auto simp: bt_contains_iff_keys bt_keys_def)

lemma history_kept_trans: "history_kept s t \<Longrightarrow> history_kept t u \<Longrightarrow> history_kept s u"
  unfolding history_kept_def nonempty_contains by (elim conjE, intro conjI) auto

lemma history_keptI:
  assumes "\<And>k. bt_contains (rs_tasks s') k = bt_contains (rs_tasks s) k"
    and "rs_delivery_index s' = rs_delivery_index s"
    and "rs_side_effect_commits s' = rs_side_effect_commits s"
    and "can_run_canceled (rs_cancellation s) \<longrightarrow> can_run_canceled (rs_cancellation s')"
    and "run_is_terminal (rs_state s) \<and> rs_tasks s \<noteq> [] \<longrightarrow> rs_state s' = rs_state s"
  shows "history_kept s s'"
  using assms by (simp add: history_kept_def)

lemma history_runs:
  assumes inv: "bt_invar (rs_tasks s)"
  shows "apply_start_run s c2 = Ok s' \<Longrightarrow> history_kept s s'"
    "apply_add_dependency s c4 = Ok s' \<Longrightarrow> history_kept s s'"
    "apply_mark_task_ready s c5 = Ok s' \<Longrightarrow> history_kept s s'"
    "apply_finish_run s c10 = Ok s' \<Longrightarrow> history_kept s s'"
    "apply_cancel_task s c11 = Ok s' \<Longrightarrow> history_kept s s'"
    "apply_cancel_run s c12 = Ok s' \<Longrightarrow> history_kept s s'"
    "apply_accept_artifact s c8 = Ok s' \<Longrightarrow> history_kept s s'"
  using inv by (auto simp: handler_defs result_simps Let_def recompute_frame run_is_terminal_def
      intro!: history_keptI split: if_splits run_finish_outcome.splits)

lemma history_attempts:
  "apply_lease_attempt s c1 = Ok s' \<Longrightarrow> history_kept s s'"
  "apply_start_attempt s c2 = Ok s' \<Longrightarrow> history_kept s s'"
  "apply_claim_execution s c3 = Ok s' \<Longrightarrow> history_kept s s'"
  "apply_record_heartbeat s c4 = Ok s' \<Longrightarrow> history_kept s s'"
  "apply_attempt_quiescence s c5 = Ok s' \<Longrightarrow> history_kept s s'"
  "apply_claim_finalization h s c7 = Ok s' \<Longrightarrow> history_kept s s'"
  by (auto simp: handler_defs result_simps Let_def intro!: history_keptI split: if_splits option.splits)

lemma history_suspension:
  "suspend s c1 = Ok s' \<Longrightarrow> history_kept s s'" "resume s c2 = Ok s' \<Longrightarrow> history_kept s s'"
  by (auto elim!: suspend_OkE resume_OkE intro!: history_keptI)

lemma history_complete: "apply_complete_attempt h s c1 = Ok s' \<Longrightarrow> history_kept s s'"
  by (cases "s' = s") (auto simp: history_kept_refl elim!: apply_complete_attempt_OkE intro!: history_keptI)

lemma history_failure:
  assumes inv: "bt_invar (rs_tasks s)"
  shows "apply_fail_attempt h s c1 = Ok s' \<Longrightarrow> history_kept s s'"
    "apply_expire_lease h s c2 = Ok s' \<Longrightarrow> history_kept s s'"
    "apply_reject_artifact h s c3 = Ok s' \<Longrightarrow> history_kept s s'"
  using inv by (auto simp: handler_defs result_simps Let_def failure_frame [where h = h]
      intro!: history_keptI split: if_splits)

lemma history_inserts:
  assumes wf: "wf_snapshot s"
  shows "apply_create_run s c1 = Ok s' \<Longrightarrow> history_kept s s'"
    "add_task s c3 = Ok s' \<Longrightarrow> history_kept s s'"
    "apply_create_attempt h s c6 = Ok s' \<Longrightarrow> history_kept s s'"
    "apply_record_side_effect_commit s c9 = Ok s' \<Longrightarrow> history_kept s s'"
proof -
  have inv: "bt_invar (rs_tasks s)" using wf by (rule wf_snapshotD_maps)
  have "se_committed r" if "bt_get (rs_side_effect_commits s) key = Some r" for key r
    using wf that unfolding wf_snapshot_def wf_core_def by blast
  then show "apply_record_side_effect_commit s c9 = Ok s' \<Longrightarrow> history_kept s s'"
    by (auto simp: handler_defs result_simps history_kept_def split: if_splits option.splits)
  show "apply_create_run s c1 = Ok s' \<Longrightarrow> history_kept s s'"
    "add_task s c3 = Ok s' \<Longrightarrow> history_kept s s'"
    "apply_create_attempt h s c6 = Ok s' \<Longrightarrow> history_kept s s'"
    using inv by (auto simp: handler_defs result_simps Let_def recompute_frame history_kept_def
        register_delivery_key_def split: if_splits option.splits)
qed

lemma history_kept_command:
  assumes wf: "wf_snapshot s" and ok: "apply_command h s c = Ok s'"
  shows "history_kept s s'"
  using ok by (cases c) (auto intro: history_runs [OF wf_snapshotD_maps(1) [OF wf]] history_attempts
      history_suspension history_complete history_failure [OF wf_snapshotD_maps(1) [OF wf]]
      history_inserts [OF wf])

lemma history_kept_reaches:
  assumes "run.reaches h s t" and "wf_snapshot s"
  shows "history_kept s t"
  using assms by (rule run.reaches_respects)
    (auto intro: history_kept_refl history_kept_trans history_kept_command)

section \<open>Runs without resumption, runs without rejection\<close>

text \<open>The same machine, driven by the commands that keep the field in question.\<close>

interpretation unresumed: command_machine "apply_command h" "\<lambda>_ c. \<not> is_resume c" wf_snapshot for h
  by unfold_locales (auto dest: wf_apply_command apply_command_neq_Panic)

interpretation unrejected: command_machine "apply_command h" "\<lambda>_ c. \<not> is_reject c" wf_snapshot for h
  by unfold_locales (auto dest: wf_apply_command apply_command_neq_Panic)

definition claims_kept :: "run_snapshot \<Rightarrow> run_snapshot \<Rightarrow> bool" where
  "claims_kept s t \<longleftrightarrow> (\<forall>k a. bt_get (rs_attempts s) k = Some a \<and> ar_execution_claimed a \<longrightarrow>
     (\<exists>a'. bt_get (rs_attempts t) k = Some a' \<and> ar_execution_claimed a'))"

definition outcomes_kept :: "run_snapshot \<Rightarrow> run_snapshot \<Rightarrow> bool" where
  "outcomes_kept s t \<longleftrightarrow> (\<forall>k a. bt_get (rs_attempts s) k = Some a \<and> is_terminal_attempt (ar_state a) \<longrightarrow>
     (\<exists>a'. bt_get (rs_attempts t) k = Some a' \<and> ar_state a' = ar_state a \<and>
        ar_result_digest a' = ar_result_digest a))"

lemma claims_kept_reaches:
  assumes "unresumed.reaches h s t" and "wf_snapshot s"
  shows "claims_kept s t"
  using assms
proof (rule unresumed.reaches_respects)
  fix s c s' assume "wf_snapshot s" "\<not> is_resume c" "apply_command h s c = Ok s'"
  then show "claims_kept s s'" by (fastforce simp: claims_kept_def attempt_evolves_def dest: attempts_evolve)
qed (fastforce simp: claims_kept_def)+

lemma outcomes_kept_reaches:
  assumes "unrejected.reaches h s t" and "wf_snapshot s"
  shows "outcomes_kept s t"
  using assms
proof (rule unrejected.reaches_respects)
  fix s c s' assume "wf_snapshot s" "\<not> is_reject c" "apply_command h s c = Ok s'"
  then show "outcomes_kept s s'"
    by (fastforce simp: outcomes_kept_def attempt_evolves_def dest: attempts_evolve)
qed (fastforce simp: outcomes_kept_def)+

end
