(* ===== verification/Scenario.thy ===== *)
theory Scenario
  imports Supervisor
begin

text \<open>
  A concrete run: one task, activated by a request, executed by the local target from creation to
  acceptance, with the side branches (suspension, failure, cancellation) that the properties are
  evaluated on. The services the code takes from outside (hasher, backoff, JSON codec, digest) get
  concrete instances here.
\<close>

section \<open>Instances of the outside services\<close>

fun hash_item_text :: "hash_item \<Rightarrow> string" where
  "hash_item_text (HashU64 w) = show_word w @ '';''"
| "hash_item_text (HashStr s) = s @ '';''"

definition demo_host :: host where
  "demo_host = \<lparr>hasher_hex = (\<lambda>items. concat (map hash_item_text items)),
     backoff = (\<lambda>initial_delay factor cap n. min (initial_delay * ucast n) cap)\<rparr>"

section \<open>Commands\<close>

definition demo_env :: "string \<Rightarrow> u64 \<Rightarrow> command_envelope" where
  "demo_env command_id now = \<lparr>env_command_id = command_id, env_expected_sequence = None,
     env_trace = \<lparr>tc_trace_id = ''tr'', tc_span_id = ''sp'', tc_run_id = None, tc_task_id = None,
       tc_attempt_id = None, tc_scheduler_decision_id = None\<rparr>,
     env_actor = ''u'', env_timestamp = now, env_workspace_version = None,
     env_idempotency_key = None\<rparr>"

definition demo_binding :: task_input_binding where
  "demo_binding = default_task_input_binding\<lparr>
     tb_activation := Some \<lparr>ab_request_id = ''q'', ab_request_digest = ''d'', ab_audit_session_id = ''s''\<rparr>,
     tb_execution_scope := Some \<lparr>es_principal_id = ''p'', es_organization_id = ''o'',
       es_information_context_id = ''c''\<rparr>,
     tb_deadline := Some 1000\<rparr>"

definition demo_proof :: lease_proof where
  "demo_proof = \<lparr>lp_lease_id = ''l'', lp_lease_epoch = 1, lp_holder = Local\<rparr>"

definition demo_artifact :: artifact_ref where
  "demo_artifact = \<lparr>art_artifact_id = ''x'', art_digest = ''y''\<rparr>"

definition demo_create :: create_run where
  "demo_create = \<lparr>crun_envelope = demo_env ''c1'' 10, crun_session_id = Some ''s'', crun_run_id = ''r'',
     crun_root_task_id = ''t'', crun_root_binding = demo_binding, crun_speculation = None,
     crun_job_spec = None\<rparr>"

definition demo_start :: start_run where
  "demo_start = \<lparr>srun_envelope = (demo_env ''c2'' 11)\<lparr>env_expected_sequence := Some 1\<rparr>, srun_run_id = ''r''\<rparr>"

definition demo_attempt :: create_attempt where
  "demo_attempt = \<lparr>ca_envelope = demo_env ''c3'' 12, ca_run_id = ''r'', ca_task_id = ''t'',
     ca_attempt_id = ''a'', ca_delivery_key = Some ''k''\<rparr>"

definition demo_lease :: lease_attempt where
  "demo_lease = \<lparr>la_envelope = demo_env ''c4'' 13, la_run_id = ''r'', la_attempt_id = ''a'',
     la_lease_id = ''l'', la_lease_epoch = 0, la_holder = Local, la_issued_at = 13,
     la_expires_at = 500, la_heartbeat_interval_secs = 30\<rparr>"

definition demo_started :: "string \<Rightarrow> u64 \<Rightarrow> start_attempt" where
  "demo_started command_id now = \<lparr>sa_envelope = demo_env command_id now, sa_run_id = ''r'',
     sa_attempt_id = ''a'', sa_lease_proof = demo_proof\<rparr>"

definition demo_complete :: complete_attempt where
  "demo_complete = \<lparr>comp_envelope = demo_env ''c7'' 20, comp_run_id = ''r'', comp_attempt_id = ''a'',
     comp_task_version = 1, comp_workspace_version = None,
     comp_input_digest = binding_input_digest demo_host demo_binding, comp_result_digest = ''y'',
     comp_lease_proof = demo_proof\<rparr>"

definition demo_accept :: accept_artifact where
  "demo_accept = \<lparr>aa_envelope = demo_env ''c8'' 21, aa_run_id = ''r'', aa_task_id = ''t'',
     aa_attempt_id = ''a'', aa_artifact = demo_artifact\<rparr>"

definition demo_finish :: finish_run where
  "demo_finish = \<lparr>fr_envelope = demo_env ''c9'' 22, fr_run_id = ''r'', fr_outcome = OutcomeSucceeded\<rparr>"

definition demo_commands :: "run_command list" where
  "demo_commands = [CreateRun demo_create, StartRun demo_start, CreateAttempt demo_attempt,
     LeaseAttempt demo_lease, StartAttempt (demo_started ''c5'' 14),
     ClaimExecution (demo_started ''c6'' 15), CompleteAttempt demo_complete,
     AcceptArtifact demo_accept, FinishRun demo_finish]"

text \<open>Side branches, from the state in which the attempt runs.\<close>

definition demo_suspend :: suspend_attempt where
  "demo_suspend = \<lparr>sus_envelope = demo_env ''d1'' 30, sus_run_id = ''r'', sus_attempt_id = ''a'',
     sus_lease_proof = demo_proof, sus_cmd_checkpoint = demo_artifact, sus_cmd_reason = HumanInput\<rparr>"

definition demo_resume :: resume_attempt where
  "demo_resume = \<lparr>res_envelope = demo_env ''d2'' 5000, res_run_id = ''r'', res_attempt_id = ''a'',
     res_checkpoint = demo_artifact, res_lease_proof = demo_proof, res_holder = Worker ''w''\<rparr>"

definition demo_commit :: record_side_effect_commit_cmd where
  "demo_commit = \<lparr>rse_envelope = demo_env ''d3'' 16, rse_run_id = ''r'', rse_task_id = ''t'',
     rse_operation_key = ''op'', rse_transaction_id = None, rse_committed_at = 16\<rparr>"

definition demo_fail :: fail_attempt where
  "demo_fail = \<lparr>fa_envelope = demo_env ''d4'' 17, fa_run_id = ''r'', fa_attempt_id = ''a'',
     fa_failure_class = FcTransientTransport, fa_reason = ''net'', fa_lease_proof = Some demo_proof,
     fa_timeout_kind = None\<rparr>"

definition demo_cancel :: cancel_run where
  "demo_cancel = \<lparr>crn_envelope = demo_env ''d5'' 18, crn_run_id = ''r''\<rparr>"

definition demo_heartbeat :: "u64 \<Rightarrow> record_heartbeat" where
  "demo_heartbeat n = \<lparr>hb_envelope = demo_env ''d6'' 16, hb_run_id = ''r'', hb_attempt_id = ''a'',
     hb_lease_proof = demo_proof, hb_heartbeat_sequence = n,
     hb_report = \<lparr>hr_attempt_state = ''Running'', hr_progress_marker = None, hr_resource_usage = None,
       hr_output_size_bytes = None, hr_lease_renewal_requested = True, hr_executor_health = None\<rparr>,
     hb_renewed_expires_at = Some 900\<rparr>"

section \<open>States\<close>

fun run_commands :: "host \<Rightarrow> run_snapshot \<Rightarrow> run_command list \<Rightarrow> run_snapshot run_result" where
  "run_commands h s [] = Ok s"
| "run_commands h s (c # cs) = and_then (apply_command h s c) (\<lambda>s'. run_commands h s' cs)"

definition demo_after :: "run_command list \<Rightarrow> run_snapshot" where
  "demo_after cs = (case run_commands demo_host (empty_snapshot ''r'' None) cs of
     Ok s \<Rightarrow> s | _ \<Rightarrow> empty_snapshot ''r'' None)"

definition demo_running :: run_snapshot where
  "demo_running = demo_after (take 6 demo_commands)"

lemma run_commands_reaches: "run_commands h s cs = Ok t \<Longrightarrow> run.reaches h s t"
proof (induction cs arbitrary: s)
  case (Cons c cs)
  then obtain s' where s': "apply_command h s c = Ok s'" "run_commands h s' cs = Ok t"
    by (auto simp: result_simps)
  have "run.reaches h s s'" using run.refl run.step [OF run.refl _ s'(1)] by simp
  with Cons.IH [OF s'(2)] show ?case by (rule run.reaches_trans)
qed (simp add: run.refl)

lemma demo_after_reaches: "run.reaches demo_host (empty_snapshot ''r'' None) (demo_after cs)"
  by (cases "run_commands demo_host (empty_snapshot ''r'' None) cs")
    (simp_all add: demo_after_def run_commands_reaches run.refl)

lemma wf_demo_after: "wf_snapshot (demo_after cs)"
  using demo_after_reaches by (rule run.reaches_inv) (rule wf_empty_snapshot)

lemma wf_demo_running: "wf_snapshot demo_running"
  by (simp add: demo_running_def wf_demo_after)

lemma demo_running_attempt: "map_option ar_state (bt_get (rs_attempts demo_running) ''a'') = Some AttemptRunning"
  by code_simp

lemma demo_done: "rs_state (demo_after demo_commands) = RunSucceeded"
  by code_simp

end
