(* ===== verification/Topo.thy ===== *)
theory Topo
  imports Dag
begin

text \<open>
  \<open>topo_sort_tasks\<close> of \<open>tetonic-run/src/dag.rs\<close>: Kahn's algorithm on the dependency graph.
  The worklist loop of the source need not end on arbitrary degree tables, so it is a
  \<open>partial_function (option)\<close>; the lemmas show that from the tables the function builds it
  always returns, and what it returns.
\<close>

section \<open>Definitions\<close>

text \<open>\<open>indegree.entry(k).or_insert(0)\<close>; a \<open>usize\<close> that counts list entries is a \<open>nat\<close>.\<close>

definition or_insert_zero :: "task_id \<Rightarrow> (task_id, nat) btree \<Rightarrow> (task_id, nat) btree" where
  "or_insert_zero k m = (if bt_contains m k then m else bt_insert k 0 m)"

definition count_dependency ::
    "task_id \<Rightarrow> task_dependency \<Rightarrow> (task_id, nat) btree \<Rightarrow> (task_id, nat) btree" where
  "count_dependency task_id d m =
     or_insert_zero (depends_on d)
       (bt_insert task_id (case bt_get m task_id of Some v \<Rightarrow> v + 1 | None \<Rightarrow> 1) m)"

definition topo_indegree :: "run_snapshot \<Rightarrow> (task_id, nat) btree" where
  "topo_indegree snapshot =
     fold (\<lambda>(task_id, deps) m. fold (count_dependency task_id) deps (or_insert_zero task_id m))
       (rs_dependencies snapshot)
       (fold or_insert_zero (bt_keys (rs_tasks snapshot)) [])"

definition topo_children :: "run_snapshot \<Rightarrow> (task_id, task_id list) btree" where
  "topo_children snapshot =
     fold (\<lambda>(task_id, deps) adj. fold (\<lambda>d adj. bt_push (depends_on d) task_id adj) deps adj)
       (rs_dependencies snapshot) []"

definition topo_visit ::
    "task_id \<Rightarrow> task_id list \<times> (task_id, nat) btree \<Rightarrow> task_id list \<times> (task_id, nat) btree" where
  "topo_visit c qm =
     (case qm of (q, indegree) \<Rightarrow>
        (case bt_get indegree c of
           None \<Rightarrow> (q, indegree)
         | Some deg \<Rightarrow>
             (if deg - 1 = 0 then q @ [c] else q, bt_modify c (\<lambda>_. deg - 1) indegree)))"

partial_function (option) topo_loop ::
    "(task_id, task_id list) btree \<Rightarrow> task_id list \<Rightarrow> (task_id, nat) btree \<Rightarrow> task_id list \<Rightarrow>
     task_id list option"
where
  "topo_loop adj q indegree order =
     (case q of
        [] \<Rightarrow> Some order
      | n # q' \<Rightarrow>
          (case fold topo_visit (adj_succs adj n) (q', indegree) of
             (q'', indegree') \<Rightarrow> topo_loop adj q'' indegree' (order @ [n])))"

definition topo_sort_tasks :: "run_snapshot \<Rightarrow> task_id list option" where
  "topo_sort_tasks snapshot =
     (let indegree = topo_indegree snapshot
      in topo_loop (topo_children snapshot)
           (map fst (filter (\<lambda>(_, deg). deg = 0) indegree)) indegree [])"

section \<open>Lemmas\<close>

text \<open>The targets of a task's dependencies, with repetitions.\<close>

definition dep_targets :: "(task_id, task_dependency list) btree \<Rightarrow> task_id \<Rightarrow> task_id list" where
  "dep_targets deps t =
     concat (map (\<lambda>(t', ds). if t' = t then map depends_on ds else []) deps)"

definition topo_nodes :: "run_snapshot \<Rightarrow> task_id set" where
  "topo_nodes s = set (bt_keys (rs_tasks s)) \<union> fst ` set (rs_dependencies s) \<union>
     (\<Union>(t, ds) \<in> set (rs_dependencies s). depends_on ` set ds)"

lemma dep_edges_targets: "(a, b) \<in> dep_edges deps \<longleftrightarrow> b \<in> set (dep_targets deps a)"
  by (force simp: dep_edges_def dep_targets_def split: if_splits)

lemma count_list_append [simp]: "count_list (xs @ ys) x = count_list xs x + count_list ys x"
  by (induction xs) auto

lemma count_dep_targets:
  "count_list (dep_targets ((t, ds) # deps) a) b =
     (if t = a then count_list (map depends_on ds) b else 0) + count_list (dep_targets deps a) b"
  by (auto simp: dep_targets_def)

lemma adj_succs_push:
  "adj_succs (bt_push k v adj) n = (if n = k then adj_succs adj n @ [v] else adj_succs adj n)"
  by (auto simp: adj_succs_def split: option.splits)

lemma count_topo_children:
  "count_list (adj_succs (topo_children s) n) c = count_list (dep_targets (rs_dependencies s) c) n"
proof -
  have inner: "count_list (adj_succs (fold (\<lambda>d adj. bt_push (depends_on d) t adj) ds adj) n) c =
      (if t = c then count_list (map depends_on ds) n else 0) + count_list (adj_succs adj n) c"
    for t ds adj
    by (induction ds arbitrary: adj) (auto simp: adj_succs_push)
  have "count_list (adj_succs (fold (\<lambda>(t, ds) adj. fold (\<lambda>d adj. bt_push (depends_on d) t adj) ds adj)
      deps adj) n) c = count_list (dep_targets deps c) n + count_list (adj_succs adj n) c" for deps adj
  proof (induction deps arbitrary: adj)
    case (Cons p deps)
    then show ?case by (cases p) (simp add: count_dep_targets inner)
  qed (simp add: dep_targets_def)
  from this [of "rs_dependencies s" "[]"] show ?thesis
    by (simp add: topo_children_def adj_succs_def)
qed

definition degree_of :: "(task_id, nat) btree \<Rightarrow> task_id \<Rightarrow> nat" where
  "degree_of m x = (case bt_get m x of None \<Rightarrow> 0 | Some v \<Rightarrow> v)"

lemma dom_or_insert_zero: "dom (bt_get (or_insert_zero k m)) = insert k (dom (bt_get m))"
  by (auto simp: or_insert_zero_def bt_contains_def dom_def split: if_splits)

lemma degree_or_insert_zero: "degree_of (or_insert_zero k m) x = degree_of m x"
  by (auto simp: or_insert_zero_def bt_contains_def degree_of_def)

lemma dom_count_dependency:
  "dom (bt_get (count_dependency t d m)) = {t, depends_on d} \<union> dom (bt_get m)"
  unfolding count_dependency_def dom_or_insert_zero by (auto simp: dom_def split: if_splits)

lemma degree_count_dependency:
  "degree_of (count_dependency t d m) x = degree_of m x + (if x = t then 1 else 0)"
  by (simp add: count_dependency_def degree_or_insert_zero)
    (simp add: degree_of_def split: option.splits)

lemma topo_tasks_degree:
  "dom (bt_get (fold or_insert_zero ks m)) = set ks \<union> dom (bt_get m)"
  "degree_of (fold or_insert_zero ks m) x = degree_of m x"
  by (induction ks arbitrary: m) (simp_all add: dom_or_insert_zero degree_or_insert_zero)

lemma topo_inner_degree:
  "insert t (dom (bt_get (fold (count_dependency t) ds m))) =
     insert t (depends_on ` set ds \<union> dom (bt_get m))"
  "degree_of (fold (count_dependency t) ds m) x =
     degree_of m x + (if x = t then length ds else 0)"
  by (induction ds arbitrary: m)
    (simp_all add: dom_count_dependency degree_count_dependency insert_commute)

lemma topo_inner_dom:
  "dom (bt_get (fold (count_dependency t) ds (or_insert_zero t m))) =
     insert t (depends_on ` set ds \<union> dom (bt_get m))"
proof -
  have mono: "t \<in> dom (bt_get m) \<Longrightarrow> t \<in> dom (bt_get (fold (count_dependency t) ds m))" for m
    by (induction ds arbitrary: m) (auto simp: dom_count_dependency)
  have "t \<in> dom (bt_get (fold (count_dependency t) ds (or_insert_zero t m)))"
    by (rule mono) (simp add: dom_or_insert_zero)
  with topo_inner_degree(1) [of t ds "or_insert_zero t m"] show ?thesis
    by (simp add: dom_or_insert_zero insert_absorb)
qed

lemma topo_outer_degree:
  "dom (bt_get (fold (\<lambda>(t, ds) m. fold (count_dependency t) ds (or_insert_zero t m)) deps m)) =
     fst ` set deps \<union> (\<Union>(t, ds) \<in> set deps. depends_on ` set ds) \<union> dom (bt_get m)"
  "degree_of (fold (\<lambda>(t, ds) m. fold (count_dependency t) ds (or_insert_zero t m)) deps m) x =
     degree_of m x + length (dep_targets deps x)"
proof (induction deps arbitrary: m)
  case (Cons p deps)
  obtain t ds where p: "p = (t, ds)" by (cases p)
  { case 1 show ?case by (simp add: p Cons.IH(1) topo_inner_dom Un_ac) next
    case 2 show ?case
      by (simp add: p Cons.IH(2) topo_inner_degree(2) degree_or_insert_zero dep_targets_def) }
qed (simp_all add: dep_targets_def)

lemma dom_topo_indegree: "dom (bt_get (topo_indegree s)) = topo_nodes s"
  unfolding topo_indegree_def topo_outer_degree topo_tasks_degree topo_nodes_def
  by (auto simp: dom_def)

lemma degree_topo_indegree:
  "degree_of (topo_indegree s) x = length (dep_targets (rs_dependencies s) x)"
  unfolding topo_indegree_def topo_outer_degree topo_tasks_degree by (simp add: degree_of_def)

lemma bt_invar_topo_indegree: "bt_invar (topo_indegree s)"
proof -
  have zero: "bt_invar m \<Longrightarrow> bt_invar (or_insert_zero k m)" for k m
    by (simp add: or_insert_zero_def)
  have tasks: "bt_invar m \<Longrightarrow> bt_invar (fold or_insert_zero ks m)" for ks m
    by (induction ks arbitrary: m) (auto simp: zero)
  have inner: "bt_invar m \<Longrightarrow> bt_invar (fold (count_dependency t) ds m)" for t ds m
    by (induction ds arbitrary: m) (auto simp: zero count_dependency_def)
  have "bt_invar m \<Longrightarrow>
      bt_invar (fold (\<lambda>(t, ds) m. fold (count_dependency t) ds (or_insert_zero t m)) deps m)" for deps m
    by (induction deps arbitrary: m) (auto simp: inner zero)
  then show ?thesis by (simp add: topo_indegree_def tasks)
qed

text \<open>The loop invariant: a node's degree counts its dependencies not yet ordered, the worklist
  and the order together are the nodes of degree zero, and every ordered node comes after
  its dependencies.\<close>

definition kahn_inv ::
    "run_snapshot \<Rightarrow> task_id list \<Rightarrow> (task_id, nat) btree \<Rightarrow> task_id list \<Rightarrow> bool" where
  "kahn_inv s q m order \<longleftrightarrow>
     distinct (order @ q) \<and> dom (bt_get m) = topo_nodes s \<and>
     (\<forall>c. degree_of m c = length (filter (\<lambda>d. d \<notin> set order) (dep_targets (rs_dependencies s) c))) \<and>
     set order \<union> set q = {c \<in> topo_nodes s. degree_of m c = 0} \<and>
     (\<forall>xs c ys. order = xs @ c # ys \<longrightarrow> set (dep_targets (rs_dependencies s) c) \<subseteq> set xs)"

lemma topo_visits:
  assumes "fold topo_visit cs (q, m) = (q', m')"
    and "\<And>c. count_list cs c \<le> degree_of m c" and "set cs \<subseteq> dom (bt_get m)"
  shows "dom (bt_get m') = dom (bt_get m) \<and>
    (\<forall>c. degree_of m' c = degree_of m c - count_list cs c) \<and>
    (\<exists>ps. q' = q @ ps \<and> distinct ps \<and> set ps = {c \<in> set cs. degree_of m c = count_list cs c})"
  using assms
proof (induction cs arbitrary: q m)
  case (Cons c cs)
  define d where "d = degree_of m c - 1"
  let ?q = "if d = 0 then q @ [c] else q" and ?m = "bt_modify c (\<lambda>_. d) m"
  have c: "c \<in> dom (bt_get m)" using Cons.prems(3) by simp
  then have step: "topo_visit c (q, m) = (?q, ?m)"
    by (auto simp: topo_visit_def degree_of_def d_def)
  have deg: "degree_of ?m x = (if x = c then d else degree_of m x)" for x
    using c by (auto simp: degree_of_def)
  have dom: "dom (bt_get ?m) = dom (bt_get m)" by (auto simp: dom_def)
  have c1: "degree_of m c = Suc d" "count_list cs c \<le> d"
    using Cons.prems(2) [of c] by (simp_all add: d_def)
  have le: "count_list cs x \<le> degree_of ?m x" for x
    using Cons.prems(2) [of x] c1(2) unfolding deg by (auto split: if_splits)
  have rest: "fold topo_visit cs (?q, ?m) = (q', m')" using Cons.prems(1) step by simp
  have sub: "set cs \<subseteq> dom (bt_get ?m)" using Cons.prems(3) unfolding dom by simp
  from Cons.IH [OF rest le sub, unfolded dom] obtain ps where
    ih: "dom (bt_get m') = dom (bt_get m)" "\<And>x. degree_of m' x = degree_of ?m x - count_list cs x"
    "q' = ?q @ ps" "distinct ps" "set ps = {x \<in> set cs. degree_of ?m x = count_list cs x}"
    by blast
  note ih = ih(1) ih(2-5) [unfolded deg]
  have c0: "count_list cs c = 0 \<longleftrightarrow> c \<notin> set cs" by (simp add: count_list_0_iff)
  have "\<exists>rs. q' = q @ rs \<and> distinct rs \<and>
      set rs = {x \<in> set (c # cs). degree_of m x = count_list (c # cs) x}"
  proof (cases "d = 0")
    case True
    with c1 have "c \<notin> set cs" using c0 by simp
    with True c1 ih show ?thesis by (intro exI [of _ "c # ps"]) (auto simp: c0)
  next
    case False
    with ih c1 show ?thesis by (intro exI [of _ ps]) (auto simp: c0)
  qed
  with ih(1,2) c1 show ?case by auto
qed auto

lemma length_filter_insert:
  "n \<notin> A \<Longrightarrow> length (filter (\<lambda>d. d \<notin> A) L) =
     length (filter (\<lambda>d. d \<notin> insert n A) L) + count_list L n"
  by (induction L) auto

lemma dep_targets_outside: "c \<notin> topo_nodes s \<Longrightarrow> dep_targets (rs_dependencies s) c = []"
  by (force simp: topo_nodes_def dep_targets_def split: if_splits)

lemma kahn_inv_step:
  assumes inv: "kahn_inv s (n # q) m order"
    and step: "fold topo_visit (adj_succs (topo_children s) n) (q, m) = (q', m')"
  shows "kahn_inv s q' m' (order @ [n])"
proof -
  let ?cs = "adj_succs (topo_children s) n" and ?L = "dep_targets (rs_dependencies s)"
  have fresh: "n \<notin> set order" and dist: "distinct (order @ n # q)"
    and dom: "dom (bt_get m) = topo_nodes s"
    and deg: "\<And>c. degree_of m c = length (filter (\<lambda>d. d \<notin> set order) (?L c))"
    and zero: "set order \<union> set (n # q) = {c \<in> topo_nodes s. degree_of m c = 0}"
    and sorted: "\<And>xs c ys. order = xs @ c # ys \<Longrightarrow> set (?L c) \<subseteq> set xs"
    using inv by (auto simp: kahn_inv_def)
  have deg': "degree_of m c = length (filter (\<lambda>d. d \<notin> insert n (set order)) (?L c)) + count_list ?cs c"
    for c using length_filter_insert [OF fresh] by (simp add: deg count_topo_children)
  have mem: "c \<in> set ?cs \<longleftrightarrow> count_list ?cs c \<noteq> 0" for c by (simp add: count_list_0_iff)
  then have "set ?cs \<subseteq> dom (bt_get m)"
    unfolding dom count_topo_children using dep_targets_outside [of _ s] by fastforce
  with topo_visits [OF step] obtain ps where
    v: "dom (bt_get m') = dom (bt_get m)" "\<And>c. degree_of m' c = degree_of m c - count_list ?cs c"
    "q' = q @ ps" "distinct ps" "set ps = {c \<in> set ?cs. degree_of m c = count_list ?cs c}"
    using deg' by auto
  have new: "degree_of m c \<noteq> 0" if "c \<in> set ps" for c using that v(5) mem by auto
  then have "set ps \<inter> (set order \<union> set (n # q)) = {}" unfolding zero by (auto dest!: new)
  then have "distinct ((order @ [n]) @ q')" using dist v(3,4) by auto
  moreover have "degree_of m' c = length (filter (\<lambda>d. d \<notin> set (order @ [n])) (?L c))" for c
    using deg' [of c] by (simp add: v(2))
  moreover have "set (order @ [n]) \<union> set q' = {c \<in> topo_nodes s. degree_of m' c = 0}"
  proof -
    have "set (order @ [n]) \<union> set q' = {c \<in> topo_nodes s. degree_of m c = 0} \<union> set ps"
      using zero v(3) by auto
    also have "\<dots> = {c \<in> topo_nodes s. degree_of m' c = 0}"
      using \<open>set ?cs \<subseteq> dom (bt_get m)\<close> deg' dom v(2,5) mem by (auto simp: le_eq_less_or_eq)
    finally show ?thesis .
  qed
  moreover have "set (?L c) \<subseteq> set xs" if "order @ [n] = xs @ c # ys" for xs c ys
  proof (cases ys rule: rev_cases)
    case Nil
    with that have "c = n" "xs = order" by auto
    moreover have "degree_of m n = 0" using zero by auto
    ultimately show ?thesis using deg [of n] by (auto simp: filter_empty_conv)
  next
    case (snoc ys' y)
    with that sorted [of xs c ys'] show ?thesis by simp
  qed
  ultimately show ?thesis using v(1) dom by (simp add: kahn_inv_def)
qed

lemma kahn_inv_init:
  "kahn_inv s (map fst (filter (\<lambda>(_, deg). deg = 0) (topo_indegree s))) (topo_indegree s) []"
proof -
  have "distinct (map fst (topo_indegree s))"
    using bt_invar_distinct [OF bt_invar_topo_indegree] by (simp add: bt_keys_def)
  then have "distinct (map fst (filter (\<lambda>(_, deg). deg = 0) (topo_indegree s)))"
    by (rule distinct_map_filter)
  moreover have "set (map fst (filter (\<lambda>(_, deg). deg = 0) (topo_indegree s))) =
      {c \<in> topo_nodes s. degree_of (topo_indegree s) c = 0}"
    by (auto simp: dom_topo_indegree [symmetric] degree_of_def image_iff
        bt_get_iff_mem [OF bt_invar_topo_indegree, symmetric] split: option.splits)
  ultimately show ?thesis
    by (auto simp: kahn_inv_def dom_topo_indegree degree_topo_indegree)
qed

lemma finite_topo_nodes: "finite (topo_nodes s)"
  by (auto simp: topo_nodes_def)

lemma topo_loop_returns:
  "kahn_inv s q m order \<Longrightarrow>
   \<exists>order' m'. topo_loop (topo_children s) q m order = Some order' \<and> kahn_inv s [] m' order'"
proof (induction "card (topo_nodes s) - length order" arbitrary: q m order rule: less_induct)
  case less
  show ?case
  proof (cases q)
    case Nil
    with less.prems show ?thesis by (auto simp: topo_loop.simps)
  next
    case (Cons n q1)
    obtain q' m' where step: "fold topo_visit (adj_succs (topo_children s) n) (q1, m) = (q', m')"
      by (cases "fold topo_visit (adj_succs (topo_children s) n) (q1, m)")
    have inv: "kahn_inv s q' m' (order @ [n])"
      using less.prems Cons step by (auto intro: kahn_inv_step)
    then have "distinct (order @ [n])" "set (order @ [n]) \<subseteq> topo_nodes s"
      by (auto simp: kahn_inv_def)
    then have "length (order @ [n]) \<le> card (topo_nodes s)"
      using card_mono [OF finite_topo_nodes] by (metis distinct_card)
    with less.hyps [OF _ inv] step Cons show ?thesis
      by (simp add: topo_loop.simps [of _ "n # q1"])
  qed
qed

lemma kahn_inv_final_complete:
  assumes inv: "kahn_inv s [] m order" and acyclic: "acyclic (dep_edges (rs_dependencies s))"
  shows "set order = topo_nodes s"
proof
  have all: "set order = {c \<in> topo_nodes s. degree_of m c = 0}"
    using inv unfolding kahn_inv_def list.set Un_empty_right by (elim conjE)
  have deg: "degree_of m c = length (filter (\<lambda>d. d \<notin> set order) (dep_targets (rs_dependencies s) c))" for c
    using inv unfolding kahn_inv_def by (elim conjE) (erule allE)
  show "set order \<subseteq> topo_nodes s" unfolding all by blast
  let ?E = "dep_edges (rs_dependencies s)"
  have "?E \<subseteq> topo_nodes s \<times> topo_nodes s"
    by (intro subrelI) (auto simp: dep_edges_def topo_nodes_def intro: rev_image_eqI)
  then have "finite ?E" by (rule finite_subset) (simp add: finite_topo_nodes)
  then have "wf (?E\<inverse>)" using acyclic by (rule finite_acyclic_wf_converse)
  then have "c \<in> topo_nodes s \<longrightarrow> c \<in> set order" for c
  proof (induction c rule: wf_induct_rule)
    case (less c)
    show ?case
    proof
      assume c: "c \<in> topo_nodes s"
      have "d \<in> set order" if "d \<in> set (dep_targets (rs_dependencies s) c)" for d
        using that less [of d] \<open>?E \<subseteq> _\<close> by (auto simp: dep_edges_targets [symmetric])
      then have "degree_of m c = 0" by (simp add: deg filter_empty_conv)
      with c show "c \<in> set order" unfolding all by simp
    qed
  qed
  then show "topo_nodes s \<subseteq> set order" by blast
qed

lemma topo_sort_tasks_returns:
  "\<exists>order m. topo_sort_tasks s = Some order \<and> kahn_inv s [] m order"
  using topo_loop_returns [OF kahn_inv_init] by (simp add: topo_sort_tasks_def Let_def)

end
