(* ===== verification/Run_Properties.thy ===== *)
theory Run_Properties
  imports Evolution Scenario Topo
begin

text \<open>
  The properties of the run kernel: what holds in every snapshot that commands can produce from an
  empty run, what each family of commands guarantees, and the instances that show the hypotheses
  hold on the scenario.
\<close>

section \<open>Reachable snapshots\<close>

text \<open>C1: every snapshot that a sequence of accepted commands produces from an empty run is
  well formed: tasks, attempts, delivery keys and side-effect commits refer to each other
  consistently, each attempt has the lease, claim and suspension its state calls for, the
  dependency graph is acyclic and over existing tasks, and a cancelled run has no live attempt.\<close>

theorem run_invariant:
  assumes "run.reaches h (empty_snapshot run_id session_id) s"
  shows "wf_snapshot s"
  using assms by (rule run.reaches_inv) (rule wf_empty_snapshot)

theorem run_invariant_witness:
  "rs_state (demo_after demo_commands) = RunSucceeded \<and> wf_snapshot (demo_after demo_commands)"
  using run_invariant [OF demo_after_reaches] demo_done by blast

text \<open>C29: no command panics in a reachable snapshot; every \<open>unwrap\<close> of the transitions finds
  its value.\<close>

theorem run_never_panics:
  assumes "run.reaches h (empty_snapshot run_id session_id) s"
  shows "apply_command h s c \<noteq> Panic"
  using assms by (rule run.reaches_no_panic) (rule wf_empty_snapshot, rule TrueI)

theorem run_never_panics_witness:
  "apply_command demo_host demo_running (ResumeAttempt demo_resume) \<noteq> Panic"
  unfolding demo_running_def by (rule run_never_panics [OF demo_after_reaches])

text \<open>C2: at most one attempt of a task holds an accepted result: two succeeded attempts of the
  same task are the same attempt.\<close>

theorem at_most_one_winner:
  assumes "run.reaches h (empty_snapshot run_id session_id) s"
    and "bt_get (rs_attempts s) k1 = Some a1" and "bt_get (rs_attempts s) k2 = Some a2"
    and "ar_state a1 = AttemptSucceeded" and "ar_state a2 = AttemptSucceeded"
    and "ar_task_id a1 = ar_task_id a2"
  shows "k1 = k2"
proof -
  have wf: "wf_snapshot s" using assms(1) by (rule run.reaches_inv) (rule wf_empty_snapshot)
  obtain t where t: "bt_get (rs_tasks s) (ar_task_id a1) = Some t"
    using wf_attempt_task_exists [OF wf assms(2)] by blast
  from wf_succeeded_wins [OF wf assms(2,4) t] wf_succeeded_wins [OF wf assms(3,5)] t assms(6)
  show ?thesis by simp
qed

theorem at_most_one_winner_witness:
  "\<exists>a. bt_get (rs_attempts (demo_after demo_commands)) ''a'' = Some a \<and> ar_state a = AttemptSucceeded \<and>
     (\<forall>k b. bt_get (rs_attempts (demo_after demo_commands)) k = Some b \<and> ar_state b = AttemptSucceeded \<and>
        ar_task_id b = ar_task_id a \<longrightarrow> k = ''a'')"
proof -
  have "map_option ar_state (bt_get (rs_attempts (demo_after demo_commands)) ''a'') = Some AttemptSucceeded"
    by code_simp
  then obtain a where "bt_get (rs_attempts (demo_after demo_commands)) ''a'' = Some a"
    "ar_state a = AttemptSucceeded" by auto
  then show ?thesis using at_most_one_winner [OF demo_after_reaches] by blast
qed

text \<open>A task is only reported succeeded when an artifact was accepted for it and one of its
  own attempts succeeded and is recorded as the winner.\<close>

lemma succeeded_task_has_winner:
  assumes "run.reaches h (empty_snapshot run_id session_id) s"
    and "bt_get (rs_tasks s) k = Some t" and "tr_state t = TaskSucceeded"
  shows "tr_accepted_artifact t \<noteq> None \<and>
    (\<exists>aid a. tr_winning_attempt t = Some aid \<and> bt_get (rs_attempts s) aid = Some a \<and>
       ar_task_id a = k \<and> ar_state a = AttemptSucceeded)"
proof -
  have "wf_snapshot s" using assms(1) by (rule run.reaches_inv) (rule wf_empty_snapshot)
  from wf_snapshotD_task [OF this assms(2)] assms(3) show ?thesis
    by (auto simp: task_ok_def owns_def)
qed

text \<open>C30: the number of an attempt never exceeds the retry limit of its task.\<close>

theorem attempt_number_bounded:
  assumes "run.reaches h (empty_snapshot run_id session_id) s"
    and "bt_get (rs_attempts s) k = Some a"
  shows "\<exists>t. bt_get (rs_tasks s) (ar_task_id a) = Some t \<and> 0 < ar_attempt_number a \<and>
    ar_attempt_number a \<le> rp_max_attempts (tb_retry_policy (tr_binding t))"
proof -
  have "wf_snapshot s" using assms(1) by (rule run.reaches_inv) (rule wf_empty_snapshot)
  from wf_snapshotD_attempt [OF this assms(2)] show ?thesis by (auto simp: attempt_ok_def)
qed

theorem attempt_number_bounded_witness:
  "\<exists>a t. bt_get (rs_attempts demo_running) ''a'' = Some a \<and>
     bt_get (rs_tasks demo_running) (ar_task_id a) = Some t \<and>
     ar_attempt_number a \<le> rp_max_attempts (tb_retry_policy (tr_binding t))"
proof -
  obtain a where "bt_get (rs_attempts demo_running) ''a'' = Some a"
    using demo_running_attempt by auto
  then show ?thesis using attempt_number_bounded [OF demo_after_reaches] unfolding demo_running_def by blast
qed

section \<open>Results are fenced\<close>

text \<open>When a completion may change the run: the specification of the acceptance gate.\<close>

definition completion_allowed :: "host \<Rightarrow> run_snapshot \<Rightarrow> complete_attempt \<Rightarrow> bool" where
  "completion_allowed h s c \<longleftrightarrow>
     rs_state s \<noteq> RunRecoveryRequired \<and> \<not> can_run_canceled (rs_cancellation s) \<and>
     \<not> trim_is_empty (comp_result_digest c) \<and>
     (\<exists>a l t. bt_get (rs_attempts s) (comp_attempt_id c) = Some a \<and> ar_lease a = Some l \<and>
        bt_get (rs_tasks s) (ar_task_id a) = Some t \<and>
        ar_state a \<in> {AttemptLeased, AttemptStarting, AttemptRunning} \<and>
        comp_lease_proof c = \<lparr>lp_lease_id = al_lease_id l, lp_lease_epoch = al_lease_epoch l,
          lp_holder = al_holder l\<rparr> \<and>
        env_timestamp (comp_envelope c) \<le> al_expires_at l \<and>
        (\<forall>d. tb_deadline (tr_binding t) = Some d \<longrightarrow> env_timestamp (comp_envelope c) < d) \<and>
        ar_task_version a = comp_task_version c \<and>
        tb_workspace_version (tr_binding t) = comp_workspace_version c \<and>
        expected_digest_ok h s t (comp_input_digest c) \<and>
        tr_state t \<noteq> TaskCanceled \<and> tr_winning_attempt t = None)"

lemma lease_matches_eq:
  "lease_matches a p \<longleftrightarrow> (\<exists>l. ar_lease a = Some l \<and>
     p = \<lparr>lp_lease_id = al_lease_id l, lp_lease_epoch = al_lease_epoch l, lp_holder = al_holder l\<rparr>)"
  by (cases p) (auto simp: lease_matches_def)

lemma completion_allowed_Ok:
  assumes "completion_allowed h s c"
  shows "\<exists>s'. apply_complete_attempt h s c = Ok s' \<and> s' \<noteq> s"
proof -
  from assms obtain a l t where a: "bt_get (rs_attempts s) (comp_attempt_id c) = Some a"
    "ar_state a \<in> {AttemptLeased, AttemptStarting, AttemptRunning}" "ar_lease a = Some l"
    and t: "bt_get (rs_tasks s) (ar_task_id a) = Some t" by (auto simp: completion_allowed_def)
  have gate: "try_accept_completion h s c = Ok ()"
    using assms by (auto simp: completion_allowed_def try_accept_completion_def get_attempt_def
        get_task_def validate_lease_proof_def is_lease_current_def workspace_matches_def
        is_result_acceptable_state_def split: option.splits)
  then obtain s' where s': "apply_complete_attempt h s c = Ok s'"
    and st: "map_option ar_state (bt_get (rs_attempts s') (comp_attempt_id c)) = Some AttemptSucceeded"
    using assms a t
    by (auto simp: apply_complete_attempt_def completion_allowed_def ensure_not_recovery_def
        get_attempt_def apply_winner_selection_def Let_def)
  have "s' \<noteq> s" using st a by auto
  with s' show ?thesis by blast
qed

text \<open>C4: a completion changes the run exactly when the acceptance specification allows it: current
  lease epoch and holder, unexpired lease, unexpired deadline, matching task version, input digest
  and workspace version, a non-blank result, no cancellation, no earlier winner.\<close>

theorem completion_fence:
  assumes "wf_snapshot s"
  shows "(\<exists>s'. apply_complete_attempt h s c = Ok s' \<and> s' \<noteq> s) \<longleftrightarrow> completion_allowed h s c"
proof
  assume "\<exists>s'. apply_complete_attempt h s c = Ok s' \<and> s' \<noteq> s"
  then obtain s' where "apply_complete_attempt h s c = Ok s'" "s' \<noteq> s" by blast
  then show "completion_allowed h s c"
  proof (cases rule: apply_complete_attempt_OkE)
    case (1 a t)
    have "tr_winning_attempt t \<noteq> Some (comp_attempt_id c)"
      using wf_snapshotD_task [OF assms 1(2)] 1(1,3)
      by (auto simp: task_ok_def owns_def is_result_acceptable_state_def)
    then have "tr_winning_attempt t = None" using 1(11) by (cases "tr_winning_attempt t") auto
    with 1 show ?thesis
      by (auto simp: completion_allowed_def lease_matches_eq is_lease_current_def)
  qed
qed (rule completion_allowed_Ok)

theorem completion_fence_witness:
  "completion_allowed demo_host demo_running demo_complete \<and>
   \<not> completion_allowed demo_host demo_running (demo_complete\<lparr>comp_lease_proof := demo_proof\<lparr>lp_lease_epoch := 2\<rparr>\<rparr>)"
proof -
  have "case apply_complete_attempt demo_host demo_running demo_complete of Ok s' \<Rightarrow> s' \<noteq> demo_running | _ \<Rightarrow> False"
    and "case apply_complete_attempt demo_host demo_running
        (demo_complete\<lparr>comp_lease_proof := demo_proof\<lparr>lp_lease_epoch := 2\<rparr>\<rparr>) of Ok s' \<Rightarrow> False | _ \<Rightarrow> True"
    by code_simp+
  then show ?thesis unfolding completion_fence [OF wf_demo_running, symmetric]
    by (auto split: result.splits)
qed











section \<open>Nothing is executed, decided or committed twice\<close>

text \<open>C6: permission to execute is granted at most once: after an accepted execution claim, as long as
  the attempt is not resumed, no later claim for the same attempt is accepted, whatever other
  commands come in between.\<close>

theorem execution_claimed_once:
  assumes "wf_snapshot s" and "apply_claim_execution s c = Ok s1" and "unresumed.reaches h s1 s2"
    and "sa_attempt_id c' = sa_attempt_id c"
  shows "\<exists>e. apply_claim_execution s2 c' = Err e"
proof -
  have wf1: "wf_snapshot s1" by (rule wf_apply_claim_execution [OF assms(1,2)])
  have "\<exists>a. bt_get (rs_attempts s1) (sa_attempt_id c) = Some a \<and> ar_execution_claimed a"
    using assms(2) by (auto simp: apply_claim_execution_def result_simps)
  with claims_kept_reaches [OF assms(3) wf1] obtain a where
    "bt_get (rs_attempts s2) (sa_attempt_id c') = Some a" "ar_execution_claimed a"
    unfolding claims_kept_def assms(4) by blast
  then have "apply_claim_execution s2 c' \<noteq> Ok s3" for s3
    by (auto simp: apply_claim_execution_def result_simps)
  with no_panic_runs(9) [of s2 c'] show ?thesis by (cases "apply_claim_execution s2 c'") auto
qed

lemma demo_claim_ok:
  "apply_claim_execution (demo_after (take 5 demo_commands)) (demo_started ''c6'' 15) = Ok demo_running"
  by code_simp

theorem execution_claimed_once_witness:
  "\<exists>e. apply_claim_execution demo_running (demo_started ''again'' 16) = Err e"
  by (rule execution_claimed_once [OF wf_demo_after demo_claim_ok unresumed.refl])
    (simp add: demo_started_def)




text \<open>The outcome of a run is final: once a run with tasks is succeeded, failed or cancelled, no
  sequence of commands changes its state.\<close>

theorem terminal_run_final:
  assumes "wf_snapshot s" and "run.reaches h s s'"
    and "rs_state s \<in> {RunSucceeded, RunFailed, RunCanceled}" and "rs_tasks s \<noteq> []"
  shows "rs_state s' = rs_state s"
  using history_kept_reaches [OF assms(2,1)] assms(3,4)
  by (auto simp: history_kept_def run_is_terminal_def)

lemma run_step: "apply_command h s c = Ok s' \<Longrightarrow> run.reaches h s s'"
  using run.step [OF run.refl] by blast





text \<open>C24: a side effect is committed at most once: after a recorded commit of an operation key, every
  later commit of the same key is refused as already committed.\<close>

theorem side_effect_committed_once:
  assumes "wf_snapshot s" and "apply_record_side_effect_commit s c = Ok s1" and "run.reaches h s1 s2"
    and "rse_operation_key c' = rse_operation_key c"
  shows "apply_record_side_effect_commit s2 c' = Err (SideEffectAlreadyCommitted (rse_operation_key c))"
proof -
  have wf1: "wf_snapshot s1" by (rule wf_apply_record_side_effect_commit [OF assms(1,2)])
  have "\<exists>r. bt_get (rs_side_effect_commits s1) (rse_operation_key c) = Some r \<and> se_committed r"
    using assms(2) by (auto simp: handler_defs split: if_splits)
  with history_kept_reaches [OF assms(3) wf1] obtain r where
    "bt_get (rs_side_effect_commits s2) (rse_operation_key c) = Some r" "se_committed r"
    unfolding history_kept_def by blast
  then show ?thesis using assms(4) by (simp add: handler_defs)
qed

definition demo_committed :: run_snapshot where
  "demo_committed = demo_after (take 6 demo_commands @ [RecordSideEffectCommit demo_commit])"

lemma demo_commit_ok: "apply_record_side_effect_commit demo_running demo_commit = Ok demo_committed"
  by code_simp

theorem side_effect_committed_once_witness:
  "apply_record_side_effect_commit demo_committed demo_commit = Err (SideEffectAlreadyCommitted ''op'')"
  using side_effect_committed_once [OF wf_demo_running demo_commit_ok run.refl refl]
  by (simp add: demo_commit_def)

lemma recompute_keeps_failed:
  assumes "bt_invar (rs_tasks s)" and "bt_get (rs_tasks s) k = Some t" and "tr_state t = TaskFailed"
  shows "\<exists>t'. bt_get (rs_tasks (recompute_blocked_ready (apply_dependency_failure k s))) k = Some t' \<and>
    tr_state t' = TaskFailed"
proof -
  have d: "scheduling_step s (apply_dependency_failure k s)"
    using assms(1) by (rule scheduling_step_apply_dependency_failure)
  with assms(1) have "bt_invar (rs_tasks (apply_dependency_failure k s))"
    by (simp only: scheduling_step_frame(1) [OF d])
  with d have "scheduling_step s (recompute_blocked_ready (apply_dependency_failure k s))"
    by (blast intro: scheduling_step_trans scheduling_step_recompute)
  then obtain g where g: "rs_tasks (recompute_blocked_ready (apply_dependency_failure k s)) =
      bt_update_all (\<lambda>k t. t\<lparr>tr_state := g k t\<rparr>) (rs_tasks s)"
    "\<And>k t. g k t = tr_state t \<or> task_is_executable (tr_state t)"
    unfolding scheduling_step_def by fastforce
  then show ?thesis using g(2) [of k t] assms(2,3) by (auto simp: task_is_executable_def)
qed

lemma committed_not_retryable:
  assumes wf: "wf_snapshot s" and "bt_get (rs_tasks s) k = Some t" and "tr_side_effect_keys t \<noteq> []"
  shows "\<not> can_retry_side_effects s k"
proof -
  from assms(3) obtain key where key: "key \<in> set (tr_side_effect_keys t)" by (cases "tr_side_effect_keys t") auto
  with wf_snapshotD_task [OF assms(1,2)] obtain r where r: "bt_get (rs_side_effect_commits s) key = Some r"
    by (auto simp: task_ok_def)
  with wf have "se_committed r" unfolding wf_snapshot_def wf_core_def by blast
  with key r assms(2) show ?thesis
    by (auto simp: can_retry_side_effects_def list_all_iff intro!: bexI [of _ key])
qed

text \<open>Work whose side effects were committed is never retried: when an attempt of a task with a
  recorded side effect fails, the task fails, whatever its retry policy says.\<close>

theorem committed_effects_not_retried:
  assumes "wf_snapshot s" and "apply_fail_attempt h s c = Ok s'"
    and "bt_get (rs_attempts s) (fa_attempt_id c) = Some a"
    and "bt_get (rs_tasks s) (ar_task_id a) = Some t" and "tr_side_effect_keys t \<noteq> []"
  shows "map_option tr_state (bt_get (rs_tasks s') (ar_task_id a)) = Some TaskFailed"
proof -
  let ?fc = "effective_failure_class c"
  let ?s1 = "update_attempt (fa_attempt_id c) (\<lambda>a. a\<lparr>ar_state := map_attempt_state_for_failure ?fc,
    ar_failure_class := Some ?fc, ar_failure_reason := Some (fa_reason c)\<rparr>) s"
  from assms(2,3) have s': "apply_failure_with_retry h (ar_task_id a) ?fc (fa_reason c)
      (env_timestamp (fa_envelope c)) ?s1 = Ok s'"
    by (auto simp: apply_fail_attempt_def result_simps Let_def)
  have "\<not> can_retry_side_effects (update_task (ar_task_id a) (\<lambda>t. t\<lparr>tr_retry := r\<rparr>) ?s1) (ar_task_id a)" for r
    using committed_not_retryable [OF assms(1,4,5)] assms(4) by (simp add: can_retry_side_effects_def)
  then show ?thesis using s' assms(4) wf_snapshotD_maps(1) [OF assms(1)]
    by (auto simp: apply_failure_with_retry_def result_simps Let_def intro!: recompute_keeps_failed)
qed

text \<open>A delivery key names one attempt for ever: after an accepted creation with a key, repeating
  the creation changes nothing, and a creation of another attempt under the key is refused as a
  duplicate as long as the run accepts creations at all.\<close>

lemma delivery_key_idempotent:
  assumes "wf_snapshot s" and "apply_create_attempt h s c = Ok s1" and "run.reaches h s1 s2"
    and "ca_delivery_key c = Some key" and "ca_delivery_key c' = Some key"
    and "ensure_run_accepts_mutations s2 = Ok ()"
  shows "apply_create_attempt h s2 c' =
    (if ca_attempt_id c' = ca_attempt_id c then Ok s2
     else Err (DuplicateDelivery (''delivery key bound to '' @ ca_attempt_id c)))"
proof -
  have wf1: "wf_snapshot s1" by (rule wf_apply_create_attempt [OF assms(1,2)])
  have "bt_get (rs_delivery_index s1) key = Some (ca_attempt_id c)"
    using assms(2,4) by (auto simp: handler_defs result_simps register_delivery_key_def Let_def
        split: option.splits if_splits)
  with history_kept_reaches [OF assms(3) wf1] have "bt_get (rs_delivery_index s2) key = Some (ca_attempt_id c)"
    by (simp add: history_kept_def)
  with assms(5,6) show ?thesis by (simp add: apply_create_attempt_def)
qed

section \<open>Scheduling\<close>

text \<open>C28: the cycle check of \<open>AddDependency\<close> is exact: it reports a cycle if and only if the graph with
  the new edge has one.\<close>

theorem cycle_check_exact:
  "would_create_cycle deps from to \<longleftrightarrow> \<not> acyclic (insert (from, to) (dep_edges deps))"
  by (rule would_create_cycle_iff)

lemma topo_nodes_wf: "wf_snapshot s \<Longrightarrow> topo_nodes s = set (bt_keys (rs_tasks s))"
proof -
  assume wf: "wf_snapshot s"
  have inv: "bt_invar (rs_dependencies s)" by (rule wf_snapshotD_maps [OF wf])
  have "bt_contains (rs_tasks s) t \<and> (\<forall>d \<in> set ds. bt_contains (rs_tasks s) (depends_on d))"
    if "(t, ds) \<in> set (rs_dependencies s)" for t ds
    using wf that unfolding wf_snapshot_def wf_deps_def bt_get_iff_mem [OF inv, symmetric] by blast
  then show ?thesis by (fastforce simp: topo_nodes_def bt_contains_iff_keys)
qed

text \<open>C27: the topological sort of a well-formed run returns, lists every task exactly once and every
  task after all its dependencies.\<close>

theorem topo_sort_correct:
  assumes "wf_snapshot s"
  shows "\<exists>order. topo_sort_tasks s = Some order \<and> distinct order \<and>
    set order = set (bt_keys (rs_tasks s)) \<and>
    (\<forall>before t after. order = before @ t # after \<longrightarrow>
       (\<forall>d. (t, d) \<in> dep_edges (rs_dependencies s) \<longrightarrow> d \<in> set before))"
proof -
  obtain order m where order: "topo_sort_tasks s = Some order" and inv: "kahn_inv s [] m order"
    using topo_sort_tasks_returns by blast
  have "acyclic (dep_edges (rs_dependencies s))" using assms by (simp add: wf_snapshot_def wf_deps_def)
  with inv have "set order = set (bt_keys (rs_tasks s))"
    by (simp add: kahn_inv_final_complete topo_nodes_wf [OF assms])
  moreover have "distinct order" using inv by (simp add: kahn_inv_def)
  moreover have "d \<in> set before" if "order = before @ t # after" "(t, d) \<in> dep_edges (rs_dependencies s)"
    for before t after d
    using inv that unfolding kahn_inv_def dep_edges_targets by blast
  ultimately show ?thesis using order by blast
qed

definition demo_second_task :: add_task where
  "demo_second_task = \<lparr>at_envelope = demo_env ''e1'' 12, at_run_id = ''r'', at_task_id = ''b'',
     at_binding = demo_binding\<rparr>"

definition demo_dependency :: add_dependency where
  "demo_dependency = \<lparr>ad_envelope = demo_env ''e2'' 12, ad_run_id = ''r'', ad_task_id = ''b'',
     ad_depends_on = ''t'', ad_policy = RequireSuccess\<rparr>"

definition demo_two_tasks :: run_snapshot where
  "demo_two_tasks = demo_after (take 2 demo_commands @ [AddTask demo_second_task, AddDependency demo_dependency])"

lemma demo_two_tasks:
  "bt_keys (rs_tasks demo_two_tasks) = [''b'', ''t'']"
  "map_option tr_state (bt_get (rs_tasks demo_two_tasks) ''b'') = Some TaskBlocked"
  "map_option (map depends_on) (bt_get (rs_dependencies demo_two_tasks) ''b'') = Some [''t'']"
  by code_simp+

theorem topo_sort_correct_witness:
  "\<exists>order. topo_sort_tasks demo_two_tasks = Some order \<and> set order = {''b'', ''t''} \<and> distinct order"
  using topo_sort_correct [of demo_two_tasks] demo_two_tasks(1)
  by (auto simp: demo_two_tasks_def wf_demo_after)

text \<open>Recomputing readiness sets every task that has not been handed out to Ready or Blocked
  according to its dependencies, leaves every other task alone, and does nothing the second time.\<close>

lemma recompute_correct:
  assumes "wf_snapshot s" and "bt_get (rs_tasks s) k = Some t"
  shows "bt_get (rs_tasks (recompute_blocked_ready s)) k =
      Some (if tr_state t \<in> {TaskCreated, TaskBlocked, TaskReady}
            then t\<lparr>tr_state := if dependencies_satisfied s k then TaskReady else TaskBlocked\<rparr> else t) \<and>
    recompute_blocked_ready (recompute_blocked_ready s) = recompute_blocked_ready s"
  using recompute_blocked_ready_eq [OF wf_snapshotD_maps(1) [OF assms(1)]]
    recompute_blocked_ready_idem [OF wf_snapshotD_maps(1) [OF assms(1)]] assms(2)
  by (simp add: refresh_task_def task_is_executable_def)

section \<open>Time\<close>

text \<open>Waiting for a person costs no execution time: after a suspension and the resumption of the
  same attempt, the time from the resumption to the new deadline is the time that was left from the
  suspension to the old one.\<close>

lemma suspension_conserves_time:
  assumes "suspend s c = Ok s1" and "resume s1 c' = Ok s2" and "res_attempt_id c' = sus_attempt_id c"
    and "bt_get (rs_attempts s) (sus_attempt_id c) = Some a" and "bt_get (rs_tasks s) (ar_task_id a) = Some t"
  shows "\<exists>d d' t'. tb_deadline (tr_binding t) = Some d \<and> env_timestamp (sus_envelope c) < d \<and>
    bt_get (rs_tasks s2) (ar_task_id a) = Some t' \<and> tb_deadline (tr_binding t') = Some d' \<and>
    unat d' - unat (env_timestamp (res_envelope c')) = unat d - unat (env_timestamp (sus_envelope c))"
  using assms(1)
proof (cases rule: suspend_OkE)
  case s: (1 a1 t1 r)
  with assms(4,5) have eqs: "a1 = a" "t1 = t" by auto
  from assms(2) show ?thesis
  proof (cases rule: resume_OkE)
    case (1 a2 t2 p l e d')
    have "a2 = a\<lparr>ar_state := AttemptSuspended, ar_execution_quiesced := True,
        ar_suspension := Some \<lparr>sus_checkpoint = sus_cmd_checkpoint c, sus_reason = sus_cmd_reason c,
          sus_suspended_at = env_timestamp (sus_envelope c), sus_remaining_seconds = r\<rparr>\<rparr>"
      using 1(1) assms(3,4) by (simp add: s(13) eqs)
    with 1(2,6) have p: "sus_remaining_seconds p = r" and tid: "ar_task_id a2 = ar_task_id a" by auto
    have "unat d' = unat (env_timestamp (res_envelope c')) + unat r"
      using checked_add_Some [OF 1(11)] p by simp
    moreover have "unat (env_timestamp (sus_envelope c) + r) = unat (env_timestamp (sus_envelope c)) + unat r"
      using s(12) by (simp add: no_overflow_iff [symmetric] unat_word_ariths)
    moreover have "0 < unat r" using s(11) by (simp add: word_less_nat_alt)
    ultimately show ?thesis using s(10) 1(2)
      by (auto simp: 1(12) tid eqs word_less_nat_alt)
  qed
qed

text \<open>Heartbeats are ordered: an accepted heartbeat carries a sequence number above the last
  recorded one under an unexpired lease, and once recorded (renewal requested or no new expiry
  offered) a heartbeat with the same or a smaller number is refused.\<close>

lemma heartbeat_monotone:
  assumes "apply_record_heartbeat s c = Ok s'"
  shows "(\<exists>a l. bt_get (rs_attempts s) (hb_attempt_id c) = Some a \<and> ar_lease a = Some l \<and>
      al_last_heartbeat_sequence l < hb_heartbeat_sequence c \<and>
      env_timestamp (hb_envelope c) \<le> al_expires_at l) \<and>
    ((hb_renewed_expires_at c = None \<or> hr_lease_renewal_requested (hb_report c)) \<longrightarrow>
     (\<forall>c'. hb_attempt_id c' = hb_attempt_id c \<and> hb_heartbeat_sequence c' \<le> hb_heartbeat_sequence c \<longrightarrow>
        (\<exists>e. apply_record_heartbeat s' c' = Err e)))"
proof -
  from assms obtain a l where a: "bt_get (rs_attempts s) (hb_attempt_id c) = Some a" "ar_lease a = Some l"
    "al_last_heartbeat_sequence l < hb_heartbeat_sequence c"
    "env_timestamp (hb_envelope c) \<le> al_expires_at l"
    by (auto simp: apply_record_heartbeat_def result_simps can_renew_lease_def is_lease_current_def
        split: option.splits if_splits)
  have "\<exists>e. apply_record_heartbeat s' c' = Err e"
    if rec: "hb_renewed_expires_at c = None \<or> hr_lease_renewal_requested (hb_report c)"
      and c': "hb_attempt_id c' = hb_attempt_id c" "hb_heartbeat_sequence c' \<le> hb_heartbeat_sequence c" for c'
  proof -
    have "\<exists>a' l'. bt_get (rs_attempts s') (hb_attempt_id c) = Some a' \<and> ar_lease a' = Some l' \<and>
        al_last_heartbeat_sequence l' = hb_heartbeat_sequence c"
      using assms a rec by (auto simp: apply_record_heartbeat_def result_simps renew_lease_def
          split: option.splits if_splits)
    then have "apply_record_heartbeat s' c' \<noteq> Ok s''" for s''
      using c' by (auto simp: apply_record_heartbeat_def result_simps)
    with no_panic_runs(10) [of s' c'] show ?thesis by (cases "apply_record_heartbeat s' c'") auto
  qed
  with a show ?thesis by blast
qed

section \<open>Restart\<close>







end
