(* ===== verification/Supervisor_Properties.thy ===== *)
theory Supervisor_Properties
  imports Scenario
begin

text \<open>
  The properties of the run supervisor over its in-memory store: the journal replays to the
  snapshot, redelivered commands are answered from the record, refused commands change nothing,
  quarantined runs are left alone, and observers get exactly the events they ask for.
\<close>

section \<open>The scenario under the supervisor\<close>

text \<open>A JSON codec for the commands of the scenario, which their command ids tell apart.\<close>

definition demo_sup_host :: sup_host where
  "demo_sup_host = \<lparr>kernel_host = demo_host,
     command_to_json = (\<lambda>c. Some (JString (env_command_id (command_envelope_of c)))),
     command_from_json = (\<lambda>j. case List.find
        (\<lambda>c. j = JString (env_command_id (command_envelope_of c))) demo_commands of
          Some c \<Rightarrow> Ok c | None \<Rightarrow> Err ''unknown command''),
     digest_payload = (\<lambda>_. Ok ''digest''), json_size = (\<lambda>_. 4), soft_limit_of = (\<lambda>g. g)\<rparr>"

definition demo_stamp :: stamp where
  "demo_stamp = \<lparr>st_event_id = ''e'', st_occurred_at = 0, st_recorded_at = 0\<rparr>"

definition demo_sup :: "nat \<Rightarrow> supervisor" where
  "demo_sup n = fold (\<lambda>c sv. fst (handle demo_sup_host demo_stamp c sv)) (take n demo_commands) without_recovery"

lemma demo_codec_ok: "list_all (codec_ok demo_sup_host) demo_commands"
  by code_simp

section \<open>Lemmas\<close>

lemma sup_inv_without_recovery: "sup_inv h without_recovery"
  by (simp add: sup_inv_def without_recovery_def)

lemma sup_reaches_inv: "sup.reaches h without_recovery sv \<Longrightarrow> sup_inv h sv"
  by (erule sup.reaches_inv) (rule sup_inv_without_recovery)

lemma handle_reaches:
  assumes "sup.reaches h sv0 sv" and "sup_inv h sv0" and "codec_ok h c"
  shows "sup.reaches h sv0 (fst (handle h st c sv))"
  using sup.step [OF assms(1), of "(st, c)"] assms(3)
    handle_neq_Panic [OF sup.reaches_inv [OF assms(1,2)] assms(3)]
  by (simp add: sup_step_def)

lemma demo_sup_reaches: "sup.reaches demo_sup_host without_recovery (demo_sup n)"
proof -
  have "sup.reaches demo_sup_host without_recovery
      (fold (\<lambda>c sv. fst (handle demo_sup_host demo_stamp c sv)) cs sv)"
    if "list_all (codec_ok demo_sup_host) cs" "sup.reaches demo_sup_host without_recovery sv" for cs sv
    using that by (induction cs arbitrary: sv) (auto intro: handle_reaches sup_inv_without_recovery)
  moreover have "list_all (codec_ok demo_sup_host) (take n demo_commands)"
    using demo_codec_ok by (auto simp: list_all_iff dest: in_set_takeD)
  ultimately show ?thesis by (simp add: demo_sup_def sup.refl)
qed

lemma demo_sup_run: "map_option rs_state (bt_get (sup_memory (demo_sup 9)) ''r'') = Some RunSucceeded"
  by code_simp

section \<open>Properties\<close>

text \<open>C3: the journal of a run is complete: replaying the recorded events of any run of a supervisor
  reproduces its current snapshot exactly, events included.\<close>

theorem replay_reproduces_run:
  assumes "sup.reaches h without_recovery sv" and "bt_get (sup_memory sv) r = Some s"
  shows "replay_run h sv r = Ok s"
  using sup_reaches_inv [OF assms(1)] assms(2) by (rule replay_run_inv)

theorem replay_reproduces_run_witness:
  "\<exists>s. bt_get (sup_memory (demo_sup 9)) ''r'' = Some s \<and> rs_state s = RunSucceeded \<and>
     replay_run demo_sup_host (demo_sup 9) ''r'' = Ok s"
proof -
  obtain s where "bt_get (sup_memory (demo_sup 9)) ''r'' = Some s" "rs_state s = RunSucceeded"
    using demo_sup_run by (elim map_option_eq_Some [THEN iffD1, elim_format] exE conjE)
  with replay_reproduces_run [OF demo_sup_reaches this(1)] show ?thesis by blast
qed

text \<open>The events of a run are numbered 1, 2, 3, \<dots> without gaps, and the run's sequence number is
  the number of its events.\<close>

lemma journal_gap_free:
  assumes "sup.reaches h without_recovery sv" and "bt_get (sup_memory sv) r = Some s"
  shows "map ev_sequence (rs_events s) = map (\<lambda>i. of_nat (Suc i)) [0..<length (rs_events s)] \<and>
    rs_sequence s = of_nat (length (rs_events s)) \<and> rs_run_id s = r \<and> wf_snapshot s"
  using sup_reaches_inv [OF assms(1)] assms(2) by (auto simp: sup_inv_def journal_ok_def)


definition run_result_of :: "run_snapshot \<Rightarrow> run_command_result" where
  "run_result_of nx = \<lparr>rcr_run_id = rs_run_id nx, rcr_sequence = rs_sequence nx,
     rcr_idempotent_replay = False, rcr_snapshot = nx\<rparr>"

lemma run_result_of_snapshot [simp]: "rcr_snapshot (run_result_of nx) = nx"
  by (simp add: run_result_of_def)

lemma persist_OkE:
  assumes "persist h c r nx payload sv = (sv', Ok res)"
  obtains q where "sv' = store_command_id r (env_command_id (command_envelope_of c)) res
      (sv\<lparr>sup_memory := bt_insert (rs_run_id nx) nx (sup_memory sv), sup_quotas := q\<rparr>)"
    and "res = run_result_of nx"
proof (cases "check_before_append h (sup_quotas sv) (json_size h payload)")
  case (Ok u)
  from assms have "(store_command_id r (env_command_id (command_envelope_of c)) (run_result_of nx)
      (sv\<lparr>sup_memory := bt_insert (rs_run_id nx) nx (sup_memory sv),
        sup_quotas := record_usage (json_size h payload) (sup_quotas sv)\<rparr>), Ok (run_result_of nx)) = (sv', Ok res)"
    unfolding persist_def Let_def Ok result.case run_result_of_def by blast
  then have "run_result_of nx = res" and "sv' = store_command_id r (env_command_id (command_envelope_of c)) res
      (sv\<lparr>sup_memory := bt_insert (rs_run_id nx) nx (sup_memory sv),
        sup_quotas := record_usage (json_size h payload) (sup_quotas sv)\<rparr>)"
    by (auto simp only: prod.inject result.inject)
  then show ?thesis by (intro that) (simp_all only:)
qed (use assms in \<open>simp_all only: persist_def Let_def result.case prod.inject result.distinct simp_thms\<close>)




text \<open>C34: a refused command leaves every run and the record of commands as they were; the only trace
  a refusal can leave is Safe Mode, and only when the storage quota is exceeded.\<close>

theorem refused_command_changes_nothing:
  assumes "handle h st c sv = (sv', Err e)"
  shows "sv' = sv \<or> sv' = sv\<lparr>sup_safe_mode := True\<rparr> \<and> e = StorageLimitExceeded ''Storage limit exceeded''"
  using assms by (auto simp: handle_def persist_def check_before_append_def Let_def
      split: if_splits option.splits result.splits)

theorem refused_command_changes_nothing_witness:
  "\<exists>e. handle demo_sup_host demo_stamp (StartRun demo_start) without_recovery = (without_recovery, Err e)"
proof -
  have "handle demo_sup_host demo_stamp (StartRun demo_start) without_recovery =
      (without_recovery, Err (RunNotFound ''r''))" by code_simp
  with refused_command_changes_nothing [OF this] show ?thesis by blast
qed

text \<open>Optimistic concurrency: a command that names the sequence number it was prepared against is
  only executed when the run is at that number, and takes the run to the next one.\<close>

lemma expected_sequence_enforced:
  assumes "sup.reaches h without_recovery sv" and "codec_ok h c"
    and "handle h st c sv = (sv', Ok res)" and "\<not> rcr_idempotent_replay res"
    and "env_expected_sequence (command_envelope_of c) = Some e" and "command_run_id c = Some r"
    and "bt_get (sup_memory sv) r = Some s"
  shows "rs_sequence s = e \<and> bt_get (sup_memory sv') r = Some (rcr_snapshot res) \<and>
    rs_sequence (rcr_snapshot res) = e + 1"
proof -
  have inv: "sup_inv h sv" by (rule sup_reaches_inv [OF assms(1)])
  have "check_command_id sv r (env_command_id (command_envelope_of c)) = None"
    using assms(3,4,6) by (auto simp: handle_def check_command_id_def split: if_splits option.splits)
  then obtain nx payload where commit: "commit_of h st c sv r = Ok (nx, payload)"
    and p: "persist h c r nx payload sv = (sv', Ok res)"
    using assms(3,6) by (auto simp: handle_def split: if_splits result.splits)
  from commit obtain base where b: "select_base c r (bt_get (sup_memory sv) r) = Ok base"
    "check_base c base = Ok ()" "prepare_commit h st c base = Ok (nx, payload)" by (elim commit_of_OkE)
  from b(1) have base: "base = s" using assms(7) by (cases rule: select_base_cases) auto
  have "rs_sequence s = e" using b(2) assms(5) by (auto simp: base check_base_def Let_def split: if_splits)
  moreover have "rs_sequence nx = rs_sequence s + 1"
    using b(3) assms(2) unfolding base by (rule prepare_commit_OkE) simp
  moreover have "rs_run_id nx = r"
    using commit_journal_ok [OF inv assms(2,6) b(1,3)] by (simp add: journal_ok_def)
  ultimately show ?thesis using p by (elim persist_OkE) (auto simp: store_command_id_def)
qed

text \<open>Quarantine holds: the snapshot of a run that requires recovery is only ever changed by a
  cancellation that names the run's exact sequence number, and the snapshot of a finished run only
  by a repeated finish or by the report that an attempt has stopped.\<close>

lemma quarantine_enforced:
  assumes "sup.reaches h without_recovery sv" and "codec_ok h c"
    and "bt_get (sup_memory sv) r = Some s"
    and "bt_get (sup_memory (fst (handle h st c sv))) r \<noteq> Some s"
  shows "(rs_state s = RunRecoveryRequired \<longrightarrow>
      is_cancel_run c \<and> env_expected_sequence (command_envelope_of c) = Some (rs_sequence s)) \<and>
    (rs_state s \<in> {RunCanceled, RunFailed, RunSucceeded} \<longrightarrow> allowed_when_terminal c)"
proof (cases rule: handle_cases [of h st c sv])
  case keep
  with assms(3,4) show ?thesis by simp
next
  case (commit r' nx payload)
  have inv: "sup_inv h sv" by (rule sup_reaches_inv [OF assms(1)])
  from commit(3) obtain base where b: "select_base c r' (bt_get (sup_memory sv) r') = Ok base"
    "check_base c base = Ok ()" "prepare_commit h st c base = Ok (nx, payload)" by (elim commit_of_OkE)
  have "rs_run_id nx = r'"
    using commit_journal_ok [OF inv assms(2) commit(1) b(1,3)] by (simp add: journal_ok_def)
  then have "r' = r" using assms(3,4) by (auto simp: commit(4) persist_memory split: if_splits)
  with b(1) assms(3) have "base = s" by (cases rule: select_base_cases) auto
  with b(2) show ?thesis by (auto simp: check_base_def Let_def split: if_splits option.splits)
qed

lemma unat_of_nat_below:
  fixes w :: "'a::len word"
  assumes "n \<le> unat w"
  shows "unat (of_nat n :: 'a word) = n"
proof -
  have "unat w < 2 ^ LENGTH('a)" by (rule unsigned_less)
  with assms have "n < 2 ^ LENGTH('a)" by (rule order_le_less_trans)
  then show ?thesis by (simp add: unat_of_nat)
qed

lemma collect_events_spec:
  assumes "unat limit - length acc = Suc n"
  shows "collect_events after limit es acc = acc @ take (Suc n) (filter (\<lambda>e. after < ev_sequence e) es)"
  using assms
proof (induction es arbitrary: acc n)
  case (Cons e es)
  show ?case
  proof (cases "after < ev_sequence e")
    case True
    have "length (acc @ [e]) \<le> unat limit" using Cons.prems by simp
    from unat_of_nat_below [OF this] Cons.prems
    have lim: "limit \<le> of_nat (length (acc @ [e])) \<longleftrightarrow> n = 0" by (auto simp: word_le_nat_alt)
    show ?thesis
    proof (cases n)
      case 0
      with True lim show ?thesis by (simp add: Let_def)
    next
      case (Suc m)
      with Cons.prems have "unat limit - length (acc @ [e]) = Suc m" by simp
      from Cons.IH [OF this] True lim Suc show ?thesis by (simp add: Let_def)
    qed
  qed (simp add: Cons.IH [OF Cons.prems])
qed simp

lemma filter_eq_drop:
  "(\<And>i. i < length xs \<Longrightarrow> P (xs ! i) \<longleftrightarrow> k \<le> i) \<Longrightarrow> filter P xs = drop k xs"
proof (induction xs arbitrary: k)
  case (Cons x xs)
  have "P (xs ! i) \<longleftrightarrow> k - 1 \<le> i" if "i < length xs" for i
    using Cons.prems [of "Suc i"] that by auto
  from Cons.IH [OF this] have "filter P xs = drop (k - 1) xs" .
  moreover have "P x \<longleftrightarrow> k = 0" using Cons.prems [of 0] by simp
  ultimately show ?case by (cases k) auto
qed simp

text \<open>Observers miss nothing: asking a run for at most \<open>limit\<close> (at least one) events after a
  sequence number returns exactly the next events of the journal, and never reports a gap.\<close>

lemma observer_sees_suffix:
  assumes "sup.reaches h without_recovery sv" and "bt_get (sup_memory sv) r = Some s"
    and "0 < limit" and "length (rs_events s) < 2 ^ 64"
  shows "resume_from_sequence sv r after limit =
    Ok (Ok (take (unat limit) (drop (unat after) (rs_events s))))"
proof -
  let ?es = "rs_events s"
  have "journal_ok h r s" using sup_reaches_inv [OF assms(1)] assms(2) by (simp add: sup_inv_def)
  then have ne: "?es \<noteq> []" and seqs: "map ev_sequence ?es = map (\<lambda>i. of_nat (Suc i)) [0..<length ?es]"
    by (auto simp: journal_ok_def)
  have seq: "unat (ev_sequence (?es ! i)) = Suc i" if "i < length ?es" for i
  proof -
    from seqs that have "ev_sequence (?es ! i) = of_nat (Suc i)"
      by (metis (no_types, lifting) add_0 length_map length_upt minus_nat.diff_0 nth_map nth_upt)
    moreover have "Suc i < 2 ^ 64" using that assms(4) by simp
    ultimately show ?thesis by (simp add: unat_of_nat del: of_nat_Suc)
  qed
  have "filter (\<lambda>e. after < ev_sequence e) ?es = drop (unat after) ?es"
    by (rule filter_eq_drop) (auto simp: word_less_nat_alt seq)
  moreover obtain n where "unat limit - length ([] :: run_event_envelope list) = Suc n"
    using assms(3) by (cases "unat limit") (auto simp: word_less_nat_alt)
  moreover obtain e es where es: "?es = e # es" using ne by (cases ?es) auto
  moreover have "ev_sequence e = 1" using seq [of 0] es by (simp add: word_unat_eq_iff)
  ultimately show ?thesis using assms(2) collect_events_spec [of limit "[]" _ after ?es]
    by (auto simp: resume_from_sequence_def Let_def word_less_nat_alt)
qed

text \<open>A run as the recovery pass leaves it.\<close>

definition recovered :: "u64 \<Rightarrow> run_snapshot \<Rightarrow> bool" where
  "recovered now s \<longleftrightarrow> wf_snapshot s \<and>
     (\<forall>k a. bt_get (rs_attempts s) k = Some a \<longrightarrow> \<not> lease_lapsed now a) \<and>
     (detect_recovery_required s now \<longleftrightarrow> rs_state s = RunRecoveryRequired)"

lemma recover_runs_spec:
  assumes "\<And>r s. bt_get (sup_memory sv) r = Some s \<Longrightarrow> wf_snapshot s"
  shows "\<exists>sv'. recover_runs h now rs sv = Ok sv' \<and>
    (\<forall>r s. bt_get (sup_memory sv') r = Some s \<longrightarrow>
       (r \<in> set rs \<longrightarrow> recovered now s) \<and>
       (r \<in> set rs \<or> bt_get (sup_memory sv) r = Some s)) \<and>
    (\<forall>r. bt_contains (sup_memory sv') r = bt_contains (sup_memory sv) r)"
  using assms
proof (induction rs arbitrary: sv)
  case (Cons x rs)
  show ?case
  proof (cases "bt_get (sup_memory sv) x")
    case None
    from Cons.IH [of sv] Cons.prems obtain sv' where IH: "recover_runs h now rs sv = Ok sv'"
      "\<forall>r s. bt_get (sup_memory sv') r = Some s \<longrightarrow> (r \<in> set rs \<longrightarrow> recovered now s) \<and>
         (r \<in> set rs \<or> bt_get (sup_memory sv) r = Some s)"
      "\<forall>r. bt_contains (sup_memory sv') r = bt_contains (sup_memory sv) r" by blast
    moreover have "bt_get (sup_memory sv') x = None" using IH(3) [rule_format, of x] None
      unfolding bt_contains_def by auto
    ultimately show ?thesis using None by auto
  next
    case (Some s0)
    from recover_run_spec [OF Cons.prems [OF Some]] obtain s1 where
      s1: "recover_run (kernel_host h) now s0 = Ok s1" "recovered now s1"
      unfolding recovered_def by blast
    let ?sv = "if s1 = s0 then sv else sv\<lparr>sup_memory := bt_insert x s1 (sup_memory sv)\<rparr>"
    have get: "bt_get (sup_memory ?sv) r = (if r = x then Some s1 else bt_get (sup_memory sv) r)" for r
      using Some by auto
    have wf: "wf_snapshot s" if "bt_get (sup_memory ?sv) r = Some s" for r s
      using that Cons.prems s1(2) by (auto simp: get recovered_def split: if_splits)
    from Cons.IH [of ?sv] wf obtain sv' where IH: "recover_runs h now rs ?sv = Ok sv'"
      "\<forall>r s. bt_get (sup_memory sv') r = Some s \<longrightarrow> (r \<in> set rs \<longrightarrow> recovered now s) \<and>
         (r \<in> set rs \<or> bt_get (sup_memory ?sv) r = Some s)"
      "\<forall>r. bt_contains (sup_memory sv') r = bt_contains (sup_memory ?sv) r" by blast
    have "bt_contains (sup_memory ?sv) r = bt_contains (sup_memory sv) r" for r
      using Some by (auto simp: bt_contains_def)
    with IH s1 Some show ?thesis unfolding get by (intro exI [of _ sv']) (auto split: if_splits)
  qed
qed auto

text \<open>Startup recovery always completes, for every run: afterwards no run holds a lapsed lease,
  every run that the detector flags is quarantined, no other run is, and no run is lost.\<close>

lemma startup_recovery_correct:
  assumes "\<forall>r s. bt_get (sup_memory sv) r = Some s \<longrightarrow> wf_snapshot s"
  shows "\<exists>sv'. recover_at_startup h now sv = Ok sv' \<and>
    (\<forall>r. bt_contains (sup_memory sv') r = bt_contains (sup_memory sv) r) \<and>
    (\<forall>r s. bt_get (sup_memory sv') r = Some s \<longrightarrow> recovered now s)"
proof -
  obtain sv' where sv': "recover_runs h now (bt_keys (sup_memory sv)) sv = Ok sv'"
    "\<forall>r s. bt_get (sup_memory sv') r = Some s \<longrightarrow> r \<in> set (bt_keys (sup_memory sv)) \<longrightarrow> recovered now s"
    "\<forall>r. bt_contains (sup_memory sv') r = bt_contains (sup_memory sv) r"
    using recover_runs_spec [of sv h now "bt_keys (sup_memory sv)"] assms by blast
  moreover have "recovered now s" if "bt_get (sup_memory sv') r = Some s" for r s
    using that sv'(2,3) unfolding bt_contains_iff_keys [symmetric] bt_contains_iff by blast
  ultimately show ?thesis by (auto simp: recover_at_startup_def)
qed

end
