(* ===== verification/Placement.thy ===== *)
theory Placement
  imports Run_Model
begin

text \<open>
  Placement types and the trust matrix: \<open>tetonic-domain/src/placement.rs\<close> and \<open>trust.rs\<close>, and
  \<open>tetonic-policy/src/placement.rs\<close>. A placement decision says where work of a data class may go;
  the matrix says which worker trust tier may see which class.
\<close>

section \<open>Trust tiers and placement decisions\<close>

datatype worker_trust =
  LocalMachine | OwnerControlledEstate | AdministrativelyManaged | ExternalUntrusted

fun worker_trust_as_str :: "worker_trust \<Rightarrow> string" where
  "worker_trust_as_str LocalMachine = ''local_machine''"
| "worker_trust_as_str OwnerControlledEstate = ''owner_controlled_estate''"
| "worker_trust_as_str AdministrativelyManaged = ''administratively_managed''"
| "worker_trust_as_str ExternalUntrusted = ''external_untrusted''"

definition worker_trust_parse :: "string \<Rightarrow> worker_trust option" where
  "worker_trust_parse s =
     (if s = ''local_machine'' then Some LocalMachine
      else if s = ''owner_controlled_estate'' then Some OwnerControlledEstate
      else if s = ''administratively_managed'' then Some AdministrativelyManaged
      else if s = ''external_untrusted'' then Some ExternalUntrusted
      else None)"

datatype placement_reason =
  SecretLocalOnly | WorkerTrustInsufficient | ProjectPolicyDenied | CapabilityUnavailable
| SandboxInsufficient | WorkerRevoked | WorkerQuarantined | CapabilityStale
| ProtocolIncompatible | InputTooLarge | RedactionRequired | RedactionFailed
| VerificationUnavailable

fun placement_reason_code :: "placement_reason \<Rightarrow> string" where
  "placement_reason_code SecretLocalOnly = ''secret_local_only''"
| "placement_reason_code WorkerTrustInsufficient = ''worker_trust_insufficient''"
| "placement_reason_code ProjectPolicyDenied = ''project_policy_denied''"
| "placement_reason_code CapabilityUnavailable = ''capability_unavailable''"
| "placement_reason_code SandboxInsufficient = ''sandbox_insufficient''"
| "placement_reason_code WorkerRevoked = ''worker_revoked''"
| "placement_reason_code WorkerQuarantined = ''worker_quarantined''"
| "placement_reason_code CapabilityStale = ''capability_stale''"
| "placement_reason_code ProtocolIncompatible = ''protocol_incompatible''"
| "placement_reason_code InputTooLarge = ''input_too_large''"
| "placement_reason_code RedactionRequired = ''redaction_required''"
| "placement_reason_code RedactionFailed = ''redaction_failed''"
| "placement_reason_code VerificationUnavailable = ''verification_unavailable''"

record eligible_target =
  et_worker_id :: worker_id
  et_trust :: worker_trust

datatype verification_requirement = VerificationNone | VerificationRequired "string option"

text \<open>\<open>RedactionPlanReference\<close> has the one field \<open>plan_id\<close>, and stands here as that string.\<close>

datatype placement_decision =
  PlaceLocalOnly placement_reason
| Eligible "eligible_target list" verification_requirement
| EligibleAfterRedaction "eligible_target list" string data_class
| PlaceDenied placement_reason

fun placement_allows_remote :: "placement_decision \<Rightarrow> bool" where
  "placement_allows_remote (Eligible targets req) = True"
| "placement_allows_remote (EligibleAfterRedaction targets plan cls) = True"
| "placement_allows_remote (PlaceLocalOnly r) = False"
| "placement_allows_remote (PlaceDenied r) = False"

record project_placement_policy =
  allow_sensitive_to_owner_estate :: bool
  allow_repository_to_admin_managed :: bool
  required_verification :: "string option"

definition default_project_placement_policy :: project_placement_policy where
  "default_project_placement_policy = \<lparr>allow_sensitive_to_owner_estate = True,
     allow_repository_to_admin_managed = False, required_verification = None\<rparr>"

record placement_explanation =
  px_decision :: string
  px_reason_code :: string
  px_worker_trust :: "string option"
  px_data_class :: "string option"

fun ui_summary ::
    "placement_decision \<Rightarrow> data_class option \<Rightarrow> worker_trust option \<Rightarrow> placement_explanation" where
  "ui_summary (PlaceLocalOnly reason) cls trust =
     \<lparr>px_decision = ''local_only'', px_reason_code = placement_reason_code reason,
      px_worker_trust = map_option worker_trust_as_str trust,
      px_data_class = map_option data_class_debug cls\<rparr>"
| "ui_summary (Eligible targets req) cls trust =
     \<lparr>px_decision = ''eligible'', px_reason_code = ''eligible'',
      px_worker_trust = map_option worker_trust_as_str trust,
      px_data_class = map_option data_class_debug cls\<rparr>"
| "ui_summary (EligibleAfterRedaction targets plan resulting_class) cls trust =
     \<lparr>px_decision = ''eligible_after_redaction'', px_reason_code = ''redaction_required'',
      px_worker_trust = map_option worker_trust_as_str trust,
      px_data_class = Some (data_class_debug resulting_class)\<rparr>"
| "ui_summary (PlaceDenied reason) cls trust =
     \<lparr>px_decision = ''denied'', px_reason_code = placement_reason_code reason,
      px_worker_trust = map_option worker_trust_as_str trust,
      px_data_class = map_option data_class_debug cls\<rparr>"

section \<open>The trust matrix\<close>

text \<open>\<open>Result<(), PlacementReason>\<close>: \<open>Inl\<close> is the error.\<close>

definition trust_permits_data_class ::
    "worker_trust \<Rightarrow> data_class \<Rightarrow> project_placement_policy \<Rightarrow> placement_reason + unit" where
  "trust_permits_data_class trust cls project =
     (if cls = Secret then Inl SecretLocalOnly
      else case (cls, trust) of
        (Public, _) \<Rightarrow> Inr ()
      | (RepositorySource, LocalMachine) \<Rightarrow> Inr ()
      | (RepositorySource, OwnerControlledEstate) \<Rightarrow> Inr ()
      | (RepositorySource, AdministrativelyManaged) \<Rightarrow>
          if allow_repository_to_admin_managed project then Inr () else Inl ProjectPolicyDenied
      | (RepositorySource, ExternalUntrusted) \<Rightarrow> Inl WorkerTrustInsufficient
      | (SensitiveSource, LocalMachine) \<Rightarrow> Inr ()
      | (SensitiveSource, OwnerControlledEstate) \<Rightarrow>
          if allow_sensitive_to_owner_estate project then Inr () else Inl ProjectPolicyDenied
      | (SensitiveSource, AdministrativelyManaged) \<Rightarrow> Inl WorkerTrustInsufficient
      | (SensitiveSource, ExternalUntrusted) \<Rightarrow> Inl WorkerTrustInsufficient
      | (Secret, _) \<Rightarrow> Inl SecretLocalOnly)"

definition placement_to_dispatch_local_only :: "placement_reason \<Rightarrow> bool" where
  "placement_to_dispatch_local_only reason \<longleftrightarrow>
     reason \<in> {SecretLocalOnly, WorkerTrustInsufficient, ProjectPolicyDenied, RedactionRequired,
       RedactionFailed}"

definition evaluate_trust_placement ::
    "worker_trust \<Rightarrow> data_class \<Rightarrow> project_placement_policy \<Rightarrow> placement_decision" where
  "evaluate_trust_placement trust cls project =
     (if cls = Secret then PlaceLocalOnly SecretLocalOnly
      else case trust_permits_data_class trust cls project of
             Inr _ \<Rightarrow> Eligible [] VerificationNone
           | Inl reason \<Rightarrow>
               if placement_to_dispatch_local_only reason then PlaceLocalOnly reason
               else PlaceDenied reason)"

section \<open>Lemmas\<close>

text \<open>The trust tiers in order, the most trusted first.\<close>

fun trust_rank :: "worker_trust \<Rightarrow> nat" where
  "trust_rank LocalMachine = 0"
| "trust_rank OwnerControlledEstate = 1"
| "trust_rank AdministrativelyManaged = 2"
| "trust_rank ExternalUntrusted = 3"

lemma trust_permits_Inl_local_only:
  "trust_permits_data_class t c p = Inl r \<Longrightarrow> placement_to_dispatch_local_only r"
  by (cases c; cases t)
    (auto simp: trust_permits_data_class_def placement_to_dispatch_local_only_def split: if_splits)

lemma trust_permits_antimono:
  assumes "trust_permits_data_class t c p = Inr ()" "c' \<le> c" "trust_rank t' \<le> trust_rank t"
  shows "trust_permits_data_class t' c' p = Inr ()"
  using assms
  by (cases c; cases c'; cases t; cases t')
    (auto simp: trust_permits_data_class_def less_eq_data_class_def split: if_splits)

lemma placement_allows_remote_iff:
  "placement_allows_remote (evaluate_trust_placement t c p) \<longleftrightarrow> trust_permits_data_class t c p = Inr ()"
  by (cases c; cases t)
    (auto simp: evaluate_trust_placement_def trust_permits_data_class_def)

end
