(* ===== verification/Guard.thy ===== *)
theory Guard
  imports Placement
begin

text \<open>
  Classification and the dispatch guard: \<open>tetonic-domain/src/classify.rs\<close> and \<open>dispatch.rs\<close>, and
  \<open>tetonic-policy/src/\<close> \<open>classify.rs\<close>, \<open>fabric.rs\<close>, \<open>mode.rs\<close>, \<open>engine.rs\<close>, \<open>dispatch.rs\<close> and
  \<open>hosted.rs\<close>. Strings are UTF-8 byte sequences, so \<open>str::find\<close> and \<open>str::contains\<close> are byte
  searches (UTF-8 is self-synchronising) and \<open>len\<close> is \<open>length\<close>. \<open>Utc::now()\<close> is an argument.
  The engine's mutexed fields are a record; \<open>Result\<close> is a sum with the error on the left.
\<close>

section \<open>The string operations the classifier uses\<close>

definition to_ascii_lowercase :: "string \<Rightarrow> string" where
  "to_ascii_lowercase s =
     map (\<lambda>c. if CHR ''A'' \<le> c \<and> c \<le> CHR ''Z'' then char_of (of_char c + (32::nat)) else c) s"

definition starts_with :: "string \<Rightarrow> string \<Rightarrow> bool" where
  "starts_with s pat \<longleftrightarrow> take (length pat) s = pat"

definition ends_with :: "string \<Rightarrow> string \<Rightarrow> bool" where
  "ends_with s pat \<longleftrightarrow> length pat \<le> length s \<and> drop (length s - length pat) s = pat"

fun str_find :: "string \<Rightarrow> string \<Rightarrow> nat option" where
  "str_find [] pat = (if pat = [] then Some 0 else None)"
| "str_find (c # s) pat =
     (if starts_with (c # s) pat then Some 0 else map_option Suc (str_find s pat))"

definition str_contains :: "string \<Rightarrow> string \<Rightarrow> bool" where
  "str_contains s pat \<longleftrightarrow> str_find s pat \<noteq> None"

definition split_once :: "string \<Rightarrow> char \<Rightarrow> (string \<times> string) option" where
  "split_once s d =
     (case str_find s [d] of None \<Rightarrow> None | Some i \<Rightarrow> Some (take i s, drop (Suc i) s))"

text \<open>\<open>str::trim\<close>: whitespace encodings are removed at the front, then at the back.\<close>

function trim_start :: "string \<Rightarrow> string" where
  "trim_start s =
     (if s = [] then []
      else case find (\<lambda>w. starts_with s w) whitespace_encodings of
             None \<Rightarrow> s
           | Some w \<Rightarrow> trim_start (drop (length w) s))"
  by pat_completeness auto
termination
proof (relation "measure length", goal_cases)
  case 1
  show ?case by simp
next
  case (2 s w)
  then have "w \<in> set whitespace_encodings" by (auto simp: find_Some_iff)
  then have "w \<noteq> []" by (rule whitespace_encodings_nonempty)
  with 2 show ?case by simp
qed

function trim_end :: "string \<Rightarrow> string" where
  "trim_end s =
     (if s = [] then []
      else case find (\<lambda>w. ends_with s w) whitespace_encodings of
             None \<Rightarrow> s
           | Some w \<Rightarrow> trim_end (take (length s - length w) s))"
  by pat_completeness auto
termination
proof (relation "measure length", goal_cases)
  case 1
  show ?case by simp
next
  case (2 s w)
  then have "w \<in> set whitespace_encodings" by (auto simp: find_Some_iff)
  then have "w \<noteq> []" by (rule whitespace_encodings_nonempty)
  with 2 show ?case by simp
qed

declare trim_start.simps [simp del] trim_end.simps [simp del]

definition str_trim :: "string \<Rightarrow> string" where
  "str_trim s = trim_end (trim_start s)"

text \<open>\<open>str::lines\<close>: a line ends in \<open>\n\<close> or \<open>\r\n\<close>, which is removed; the last line may have neither.\<close>

definition strip_cr :: "string \<Rightarrow> string" where
  "strip_cr l = (if l \<noteq> [] \<and> last l = CHR 0x0D then butlast l else l)"

function str_lines :: "string \<Rightarrow> string list" where
  "str_lines s =
     (if s = [] then []
      else case dropWhile (\<lambda>c. c \<noteq> CHR 0x0A) s of
             [] \<Rightarrow> [s]
           | _ # rest \<Rightarrow> strip_cr (takeWhile (\<lambda>c. c \<noteq> CHR 0x0A) s) # str_lines rest)"
  by pat_completeness auto
termination
proof (relation "measure length", goal_cases)
  case 1
  show ?case by simp
next
  case (2 s x rest)
  have "length (dropWhile (\<lambda>c. c \<noteq> CHR 0x0A) s) \<le> length s" by (rule length_dropWhile_le)
  with 2 show ?case by simp
qed

declare str_lines.simps [simp del]

definition is_ascii_alphanumeric :: "char \<Rightarrow> bool" where
  "is_ascii_alphanumeric c \<longleftrightarrow>
     CHR ''0'' \<le> c \<and> c \<le> CHR ''9'' \<or> CHR ''A'' \<le> c \<and> c \<le> CHR ''Z'' \<or> CHR ''a'' \<le> c \<and> c \<le> CHR ''z''"

section \<open>Classifications\<close>

datatype classification_source =
  DefaultRule | PathPolicy | UserDesignation | SecretDetector | DerivedFromInput
| ExplicitReclassification | ContentHeuristic | SessionFloor | AggregatedPayload

definition classification_policy_version :: u32 where
  "classification_policy_version = 1"

record classification =
  cl_class :: data_class
  cl_sources :: "classification_source list"
  cl_policy_version :: u32
  cl_classified_at :: timestamp

definition classification_new ::
    "data_class \<Rightarrow> classification_source list \<Rightarrow> timestamp \<Rightarrow> classification" where
  "classification_new cls sources now = \<lparr>cl_class = cls, cl_sources = sources,
     cl_policy_version = classification_policy_version, cl_classified_at = now\<rparr>"

definition with_source :: "classification_source \<Rightarrow> classification \<Rightarrow> classification" where
  "with_source source c =
     (if source \<in> set (cl_sources c) then c else c\<lparr>cl_sources := cl_sources c @ [source]\<rparr>)"

text \<open>\<open>Iterator::max_by_key\<close> keeps the last maximum.\<close>

definition combine_data_classes :: "data_class list \<Rightarrow> data_class option" where
  "combine_data_classes cs =
     (case cs of
        [] \<Rightarrow> None
      | c # cs' \<Rightarrow> Some (foldl (\<lambda>acc d. if data_class_sensitivity_rank acc \<le> data_class_sensitivity_rank d
                                       then d else acc) c cs'))"

fun data_class_rank :: "data_class \<Rightarrow> nat" where
  "data_class_rank Secret = 0"
| "data_class_rank SensitiveSource = 1"
| "data_class_rank RepositorySource = 2"
| "data_class_rank Public = 3"

definition restrict_data_class :: "data_class \<Rightarrow> data_class \<Rightarrow> data_class" where
  "restrict_data_class session job =
     (if data_class_rank session \<le> data_class_rank job then session else job)"

definition combine_step :: "timestamp \<Rightarrow> classification \<Rightarrow> classification \<Rightarrow> classification" where
  "combine_step now acc nxt =
     (let cls = restrict_data_class (cl_class acc) (cl_class nxt);
          sources = cl_sources acc @ cl_sources nxt;
          sources' = (if AggregatedPayload \<in> set sources then sources
                      else sources @ [AggregatedPayload])
      in classification_new cls sources' now)"

definition combine_classifications :: "classification list \<Rightarrow> timestamp \<Rightarrow> classification option" where
  "combine_classifications classes now =
     (case classes of [] \<Rightarrow> None | first # rest \<Rightarrow> Some (foldl (combine_step now) first rest))"

definition apply_data_class_floor :: "data_class \<Rightarrow> data_class option \<Rightarrow> data_class" where
  "apply_data_class_floor floor requested =
     (case requested of
        None \<Rightarrow> floor
      | Some r \<Rightarrow> if data_class_rank floor < data_class_rank r then floor else r)"

definition parse_data_class :: "string \<Rightarrow> data_class option" where
  "parse_data_class s =
     (if s = ''public'' then Some Public
      else if s = ''repository_source'' then Some RepositorySource
      else if s = ''sensitive_source'' then Some SensitiveSource
      else if s = ''secret'' then Some Secret
      else if s = ''private'' then Some Secret
      else if s = ''personal'' then Some RepositorySource
      else if s = ''circle_ok'' then Some SensitiveSource
      else None)"

fun data_class_name :: "data_class \<Rightarrow> string" where
  "data_class_name Public = ''public''"
| "data_class_name RepositorySource = ''repository_source''"
| "data_class_name SensitiveSource = ''sensitive_source''"
| "data_class_name Secret = ''secret''"

definition normalize_data_class_name :: "string \<Rightarrow> string option" where
  "normalize_data_class_name s = map_option data_class_name (parse_data_class s)"

section \<open>The secret detector (\<open>classify_text_content\<close>)\<close>

definition secret_found :: "timestamp \<Rightarrow> classification" where
  "secret_found now = classification_new Secret [SecretDetector, ContentHeuristic] now"

definition has_key_header :: "string \<Rightarrow> bool" where
  "has_key_header lower \<longleftrightarrow>
     str_contains lower ''begin private key'' \<or> str_contains lower ''begin rsa private key'' \<or>
     str_contains lower ''begin openssh private key''"

text \<open>The body of the loop over lines: whether it returns.\<close>

definition export_line_is_secret :: "string \<Rightarrow> bool" where
  "export_line_is_secret t \<longleftrightarrow>
     (starts_with t ''export '' \<or> starts_with t ''set '') \<and>
     (let rest = (case split_once t (CHR '' '') of Some (_, v) \<Rightarrow> v | None \<Rightarrow> t) in
      case split_once rest (CHR ''='') of
        None \<Rightarrow> False
      | Some (k, _) \<Rightarrow>
          let key = to_ascii_lowercase (str_trim k)
          in ends_with key ''_key'' \<or> ends_with key ''_token'' \<or> ends_with key ''_secret'' \<or>
             ends_with key ''_password'' \<or> key \<in> {''password'', ''secret'', ''api_key'', ''apikey''})"

definition assignment_is_secret :: "string \<Rightarrow> bool" where
  "assignment_is_secret t \<longleftrightarrow>
     (case split_once t (CHR ''='') of
        None \<Rightarrow> False
      | Some (k, _) \<Rightarrow>
          let key = to_ascii_lowercase (str_trim k)
          in key \<in> {''password'', ''passwd'', ''secret'', ''api_key'', ''apikey'', ''token'',
                    ''access_token'', ''private_key''} \<or>
             ends_with key ''_secret'' \<or> ends_with key ''_token'' \<or> ends_with key ''_key'')"

definition line_is_secret :: "string \<Rightarrow> bool" where
  "line_is_secret line =
     (let t = str_trim line in
      if t = [] \<or> starts_with t ''#'' then False
      else export_line_is_secret t \<or> assignment_is_secret t)"

definition is_token_byte :: "char \<Rightarrow> bool" where
  "is_token_byte b \<longleftrightarrow> is_ascii_alphanumeric b \<or> b = CHR ''-'' \<or> b = CHR ''_''"

definition is_start_boundary :: "string \<Rightarrow> nat \<Rightarrow> bool" where
  "is_start_boundary bytes abs_pos \<longleftrightarrow>
     abs_pos = 0 \<or>
     \<not> is_ascii_alphanumeric (bytes ! (abs_pos - 1)) \<and> bytes ! (abs_pos - 1) \<noteq> CHR ''_''"

definition token_len :: "string \<Rightarrow> nat \<Rightarrow> nat" where
  "token_len bytes abs_pos = length (takeWhile is_token_byte (drop (abs_pos + 3) bytes))"

text \<open>The \<open>while\<close> loop over occurrences of \<open>sk-\<close>, from a cursor.\<close>

lemma str_find_bound: "str_find s pat = Some i \<Longrightarrow> i + length pat \<le> length s"
proof (induction s arbitrary: i)
  case Nil
  then show ?case by (auto split: if_splits)
next
  case (Cons c s)
  show ?case
  proof (cases "starts_with (c # s) pat")
    case True
    with Cons.prems show ?thesis
      by (auto simp: starts_with_def) (metis length_take min.cobounded1 length_Cons)
  next
    case False
    with Cons show ?thesis by auto
  qed
qed

function scan_sk :: "string \<Rightarrow> nat \<Rightarrow> bool" where
  "scan_sk lower cursor =
     (case str_find (drop cursor lower) ''sk-'' of
        None \<Rightarrow> False
      | Some pos \<Rightarrow>
          let abs_pos = cursor + pos
          in if is_start_boundary lower abs_pos \<and> 10 \<le> token_len lower abs_pos then True
             else scan_sk lower (abs_pos + 3))"
  by pat_completeness auto
termination
  by (relation "measure (\<lambda>(lower, cursor). length lower - cursor)")
    (auto dest!: str_find_bound)

declare scan_sk.simps [simp del]

definition classify_text_content :: "string \<Rightarrow> timestamp \<Rightarrow> classification option" where
  "classify_text_content txt now =
     (let lower = to_ascii_lowercase txt in
      if has_key_header lower then Some (secret_found now)
      else if str_contains txt ''AKIA'' \<and> 20 \<le> length txt then Some (secret_found now)
      else if list_ex line_is_secret (str_lines txt) then Some (secret_found now)
      else if scan_sk lower 0 then Some (secret_found now)
      else None)"

text \<open>The loop of \<open>classify_message_payloads\<close> carries the class and the sources.\<close>

definition payload_step ::
    "timestamp \<Rightarrow> data_class option \<times> classification_source list \<Rightarrow> string \<times> string \<Rightarrow>
     data_class option \<times> classification_source list" where
  "payload_step now acc msg =
     (case classify_text_content (snd msg) now of
        None \<Rightarrow> acc
      | Some c \<Rightarrow>
          (combine_data_classes ((case fst acc of None \<Rightarrow> [] | Some m \<Rightarrow> [m]) @ [cl_class c]),
           snd acc @ cl_sources c))"

definition classify_message_payloads :: "(string \<times> string) list \<Rightarrow> timestamp \<Rightarrow> classification option" where
  "classify_message_payloads messages now =
     (case foldl (payload_step now) (None, []) messages of
        (None, sources) \<Rightarrow> None
      | (Some cls, sources) \<Rightarrow> Some (classification_new cls (sources @ [AggregatedPayload]) now))"

section \<open>The policy engine (\<open>engine.rs\<close>, \<open>fabric.rs\<close>, \<open>mode.rs\<close>)\<close>

datatype policy_mode = EstateStub | Full

definition policy_mode_parse :: "string \<Rightarrow> policy_mode option" where
  "policy_mode_parse s =
     (if s = ''estate_stub'' \<or> s = ''EstateStub'' then Some EstateStub
      else if s = ''full'' \<or> s = ''Full'' then Some Full
      else None)"

fun policy_mode_as_str :: "policy_mode \<Rightarrow> string" where
  "policy_mode_as_str EstateStub = ''estate_stub''"
| "policy_mode_as_str Full = ''full''"

datatype disclosure_tier = MetadataOnly | Summary | Auditable | Blind

fun default_disclosure_tier :: "data_class \<Rightarrow> disclosure_tier" where
  "default_disclosure_tier Secret = MetadataOnly"
| "default_disclosure_tier RepositorySource = Auditable"
| "default_disclosure_tier SensitiveSource = Summary"
| "default_disclosure_tier Public = Summary"

datatype destination = DestLocal | EstateWorker string | DestCirclePeer string string

record fabric_job_draft =
  fj_data_class :: data_class
  fj_disclosure_tier :: disclosure_tier
  fj_destination :: destination
  fj_is_circle_job :: bool

record policy_context =
  pc_mode :: policy_mode
  pc_session_data_class :: data_class

datatype policy_decision = Allow | Deny string

record policy_engine =
  pe_mode :: policy_mode
  pe_verify_allowed :: bool
  pe_mutations_allowed :: bool
  pe_placement :: project_placement_policy

definition default_settings :: policy_engine where
  "default_settings = \<lparr>pe_mode = EstateStub, pe_verify_allowed = True, pe_mutations_allowed = True,
     pe_placement = default_project_placement_policy\<rparr>"

definition check_disclosure_tier :: "fabric_job_draft \<Rightarrow> policy_decision" where
  "check_disclosure_tier job =
     (if \<not> fj_is_circle_job job then Allow
      else if fj_disclosure_tier job = MetadataOnly
      then Deny ''circle jobs require disclosure_tier >= summary''
      else Allow)"

fun check_data_class :: "policy_engine \<Rightarrow> data_class \<Rightarrow> destination \<Rightarrow> policy_decision" where
  "check_data_class e Secret DestLocal = Allow"
| "check_data_class e Secret _ = Deny ''secret data class never leaves coordinator''"
| "check_data_class e RepositorySource DestLocal = Allow"
| "check_data_class e RepositorySource (EstateWorker w) = Allow"
| "check_data_class e RepositorySource (DestCirclePeer c p) =
     (if pe_mode e = Full then Allow
      else Deny ''repository_source on circle peers requires PolicyMode::Full'')"
| "check_data_class e SensitiveSource DestLocal = Allow"
| "check_data_class e SensitiveSource (EstateWorker w) = Allow"
| "check_data_class e SensitiveSource (DestCirclePeer c p) =
     (if pe_mode e = Full then Allow
      else Deny ''sensitive_source routing requires PolicyMode::Full'')"
| "check_data_class e Public DestLocal = Allow"
| "check_data_class e Public (EstateWorker w) = Allow"
| "check_data_class e Public (DestCirclePeer c p) =
     (if pe_mode e = Full then Allow
      else Deny ''public routing to circle peers requires PolicyMode::Full'')"

definition check_remote_inference ::
    "policy_engine \<Rightarrow> policy_context \<Rightarrow> fabric_job_draft \<Rightarrow> policy_decision" where
  "check_remote_inference e ctx job =
     (let effective = restrict_data_class (pc_session_data_class ctx) (fj_data_class job);
          effective_job = job\<lparr>fj_data_class := effective\<rparr>
      in case fj_destination effective_job of
           DestLocal \<Rightarrow> Allow
         | DestCirclePeer c p \<Rightarrow>
             if pe_mode e \<noteq> Full \<or> pc_mode ctx \<noteq> Full
             then Deny ''circle peer routing requires PolicyMode::Full''
             else (case check_disclosure_tier effective_job of
                     Deny r \<Rightarrow> Deny r
                   | Allow \<Rightarrow> check_data_class e effective (fj_destination effective_job))
         | EstateWorker w \<Rightarrow>
             if fj_is_circle_job effective_job then
               if pe_mode e \<noteq> Full \<or> pc_mode ctx \<noteq> Full
               then Deny ''circle jobs require PolicyMode::Full''
               else (case check_disclosure_tier effective_job of
                       Deny r \<Rightarrow> Deny r
                     | Allow \<Rightarrow> check_data_class e effective (fj_destination effective_job))
             else check_data_class e effective (fj_destination effective_job))"

section \<open>The dispatch guard (\<open>dispatch.rs\<close>)\<close>

datatype dispatch_decision = DispatchLocalOnly | RemoteAllowed | RemoteAllowedWithRedaction | DispatchDenial

definition dispatch_allows_remote :: "dispatch_decision \<Rightarrow> bool" where
  "dispatch_allows_remote d \<longleftrightarrow> d = RemoteAllowed \<or> d = RemoteAllowedWithRedaction"

record dispatch_denied =
  dd_reason_code :: string
  dd_reason :: string

definition dispatch_denied_new :: "string \<Rightarrow> string \<Rightarrow> dispatch_denied" where
  "dispatch_denied_new code reason = \<lparr>dd_reason_code = code, dd_reason = reason\<rparr>"

datatype dispatch_destination = ToLocal | ToRemoteWorker string | ToCirclePeer string string

record dispatch_request =
  dr_payload :: "classification option"
  dr_session :: "classification option"
  dr_destination :: dispatch_destination
  dr_post_redaction :: bool
  dr_worker_trust :: "worker_trust option"
  dr_project_policy :: project_placement_policy

definition default_dispatch_request :: dispatch_request where
  "default_dispatch_request = \<lparr>dr_payload = None, dr_session = None, dr_destination = ToLocal,
     dr_post_redaction = False, dr_worker_trust = None,
     dr_project_policy = default_project_placement_policy\<rparr>"

definition effective_class :: "dispatch_request \<Rightarrow> data_class option" where
  "effective_class request =
     (case (map_option cl_class (dr_payload request), map_option cl_class (dr_session request)) of
        (None, None) \<Rightarrow> None
      | (Some p, None) \<Rightarrow> Some p
      | (None, Some s) \<Rightarrow> Some s
      | (Some p, Some s) \<Rightarrow> Some (restrict_data_class s p))"

fun map_destination :: "dispatch_destination \<Rightarrow> destination" where
  "map_destination ToLocal = DestLocal"
| "map_destination (ToRemoteWorker w) = EstateWorker w"
| "map_destination (ToCirclePeer c p) = DestCirclePeer c p"

text \<open>The trust stage of \<open>evaluate\<close>, which applies to remote workers: \<open>None\<close> lets the request on.\<close>

definition check_worker_trust ::
    "policy_engine \<Rightarrow> dispatch_request \<Rightarrow> data_class \<Rightarrow> (dispatch_denied + dispatch_decision) option" where
  "check_worker_trust e request cls =
     (case dr_destination request of
        ToRemoteWorker w \<Rightarrow>
          (case dr_worker_trust request of
             None \<Rightarrow> Some (Inl (dispatch_denied_new ''worker_trust_missing''
               (''missing worker trust '' @ [CHR 0xE2, CHR 0x80, CHR 0x94] @ '' remote dispatch denied'')))
           | Some trust \<Rightarrow>
               (case trust_permits_data_class trust cls (pe_placement e) of
                  Inl reason \<Rightarrow>
                    if placement_to_dispatch_local_only reason then Some (Inr DispatchLocalOnly)
                    else Some (Inl (dispatch_denied_new ''worker_trust_insufficient''
                      ''worker trust tier does not permit this data class''))
                | Inr _ \<Rightarrow> None))
      | _ \<Rightarrow> None)"

text \<open>The remote stage: the engine's decision on the job.\<close>

definition check_engine ::
    "policy_engine \<Rightarrow> dispatch_request \<Rightarrow> data_class \<Rightarrow> dispatch_denied + dispatch_decision" where
  "check_engine e request cls =
     (let dest = map_destination (dr_destination request);
          ctx = \<lparr>pc_mode = pe_mode e, pc_session_data_class =
                   (case dr_session request of Some c \<Rightarrow> cl_class c | None \<Rightarrow> cls)\<rparr>;
          draft = \<lparr>fj_data_class = cls, fj_disclosure_tier = Auditable, fj_destination = dest,
                   fj_is_circle_job = (case dest of DestCirclePeer c p \<Rightarrow> True | _ \<Rightarrow> False)\<rparr>
      in case check_remote_inference e ctx draft of
           Deny reason \<Rightarrow>
             if cls = Secret then Inr DispatchLocalOnly
             else Inl (dispatch_denied_new ''policy_denied'' reason)
         | Allow \<Rightarrow>
             if dr_post_redaction request then Inr RemoteAllowedWithRedaction else Inr RemoteAllowed)"

definition guard_evaluate ::
    "policy_engine \<Rightarrow> dispatch_request \<Rightarrow> dispatch_denied + dispatch_decision" where
  "guard_evaluate e request =
     (case effective_class request of
        None \<Rightarrow> Inl (dispatch_denied_new ''missing_classification''
          (''missing or unknown classification '' @ [CHR 0xE2, CHR 0x80, CHR 0x94] @ '' remote dispatch denied''))
      | Some cls \<Rightarrow>
          if cls = Secret then Inr DispatchLocalOnly
          else case check_worker_trust e request cls of
                 Some r \<Rightarrow> r
               | None \<Rightarrow>
                   if map_destination (dr_destination request) = DestLocal then Inr RemoteAllowed
                   else check_engine e request cls)"

section \<open>Hosted inference (\<open>hosted.rs\<close>)\<close>

record hosted_inference_policy =
  hp_ceiling :: "data_class option"

definition hosted_allow_up_to :: "data_class \<Rightarrow> hosted_inference_policy" where
  "hosted_allow_up_to ceiling = \<lparr>hp_ceiling = Some ceiling\<rparr>"

definition hosted_allows :: "hosted_inference_policy \<Rightarrow> data_class \<Rightarrow> bool" where
  "hosted_allows p cls \<longleftrightarrow>
     cls \<noteq> Secret \<and> (case hp_ceiling p of None \<Rightarrow> False | Some ceiling \<Rightarrow> cls \<le> ceiling)"

end
