(* ===== verification/Accounting.thy ===== *)
theory Accounting
  imports Prelude
begin

text \<open>
  Totals over a keyed table: what the budget ledger's usage counters and the admission queue's
  per-run and per-worker counters count. \<open>bt_total f m\<close> sums \<open>f\<close> over the entries of \<open>m\<close>; inserting a
  fresh key adds its share, replacing a value exchanges its share. Also \<open>HashMap::retain\<close> and
  \<open>remove\<close>.
\<close>

definition bt_retain :: "('k \<Rightarrow> 'v \<Rightarrow> bool) \<Rightarrow> ('k, 'v) btree \<Rightarrow> ('k, 'v) btree" where
  "bt_retain P m = filter (\<lambda>(k, v). P k v) m"

definition bt_remove :: "'k \<Rightarrow> ('k, 'v) btree \<Rightarrow> ('k, 'v) btree" where
  "bt_remove k m = bt_retain (\<lambda>k' v. k' \<noteq> k) m"

definition bt_total :: "('k \<Rightarrow> 'v \<Rightarrow> nat) \<Rightarrow> ('k, 'v) btree \<Rightarrow> nat" where
  "bt_total f m = sum_list (map (\<lambda>(k, v). f k v) m)"

lemma bt_keys_Cons [simp]: "bt_keys (p # m) = fst p # bt_keys m"
  by (simp add: bt_keys_def)

lemma bt_invar_Cons: "bt_invar (p # m) \<longleftrightarrow> bt_invar m \<and> (\<forall>k \<in> set (bt_keys m). fst p < k)"
  by (auto simp: bt_invar_def)

lemma bt_get_None_iff: "bt_get m k = None \<longleftrightarrow> k \<notin> set (bt_keys m)"
  by (simp add: set_bt_keys domIff)

lemma bt_get_retain:
  assumes "bt_invar m"
  shows "bt_get (bt_retain P m) k =
    (case bt_get m k of None \<Rightarrow> None | Some v \<Rightarrow> if P k v then Some v else None)"
  using assms
proof (induction m)
  case (Cons p m)
  obtain a b where p: "p = (a, b)" by (cases p)
  with Cons.prems have inv: "bt_invar m" and fresh: "bt_get m a = None"
    by (auto simp: bt_invar_Cons bt_get_None_iff)
  with Cons.IH p show ?case by (cases "k = a") (auto simp: bt_retain_def)
qed (simp add: bt_retain_def)

lemma bt_get_remove [simp]: "bt_get (bt_remove k m) k' = (if k' = k then None else bt_get m k')"
  by (induction m) (auto simp: bt_remove_def bt_retain_def)

lemma bt_invar_retain [simp]: "bt_invar m \<Longrightarrow> bt_invar (bt_retain P m)"
  by (induction m) (auto simp: bt_retain_def bt_invar_Cons bt_keys_def)

lemma bt_invar_remove [simp]: "bt_invar m \<Longrightarrow> bt_invar (bt_remove k m)"
  by (simp add: bt_remove_def)

lemma bt_total_Nil [simp]: "bt_total f [] = 0"
  by (simp add: bt_total_def)

lemma bt_total_Cons [simp]: "bt_total f ((k, v) # m) = f k v + bt_total f m"
  by (simp add: bt_total_def)

lemma bt_total_cong:
  assumes "bt_invar m" and "\<And>k v. bt_get m k = Some v \<Longrightarrow> f k v = g k v"
  shows "bt_total f m = bt_total g m"
  using assms by (auto simp: bt_total_def bt_get_iff_mem intro!: arg_cong [where f = sum_list])

lemma bt_total_insert_fresh:
  assumes "bt_get m k = None"
  shows "bt_total f (bt_insert k v m) = f k v + bt_total f m"
  using assms by (induction m) (auto split: if_splits)

lemma bt_total_modify:
  assumes "bt_invar m" and "bt_get m k = Some v"
  shows "bt_total f (bt_modify k g m) + f k v = bt_total f m + f k (g v)"
  using assms
proof (induction m)
  case (Cons p m)
  obtain a b where p: "p = (a, b)" by (cases p)
  with Cons.prems have inv: "bt_invar m" and fresh: "bt_get m a = None"
    by (auto simp: bt_invar_Cons bt_get_None_iff)
  show ?case
  proof (cases "a = k")
    case True
    then have "bt_modify k g m = m" using fresh inv by (auto intro: bt_modify_ident)
    with True p Cons.prems show ?thesis by (simp add: bt_modify_def bt_update_all_def)
  next
    case False
    with Cons.IH [OF inv] Cons.prems p show ?thesis by (simp add: bt_modify_def bt_update_all_def)
  qed
qed simp

lemma bt_total_ge: "bt_invar m \<Longrightarrow> bt_get m k = Some v \<Longrightarrow> f k v \<le> bt_total f m"
  by (induction m) (auto simp: bt_invar_Cons split: if_splits)

lemma bt_total_zero: "bt_invar m \<Longrightarrow> (\<And>k v. bt_get m k = Some v \<Longrightarrow> f k v = 0) \<Longrightarrow> bt_total f m = 0"
  using bt_total_cong [of m f "\<lambda>_ _. 0"] by (simp add: bt_total_def case_prod_beta)

text \<open>A word counter that has room for an increment holds the sum.\<close>

lemma unat_add_room:
  fixes a b :: "'a::len word"
  shows "unat a + unat b < 2 ^ LENGTH('a) \<Longrightarrow> unat (a + b) = unat a + unat b"
  by (simp add: unat_word_ariths)

end
