(* ===== verification/Budget.thy ===== *)
theory Budget
  imports Run_Model Accounting
begin

text \<open>
  The hierarchical budget ledger of the compute broker (\<open>tetonic-broker/src/budget.rs\<close>): resource
  requests, limits, reservations, and the operations of \<open>HierarchicalBudgetLedger\<close>. Each operation
  holds the ledger's mutex (\<open>release_for_run\<close> and \<open>release_for_worker\<close> take it once for the list of
  reservations and once per release) and is a function on \<open>budget_state\<close>. \<open>HashMap\<close>s are key-sorted tables, counters keep
  their width, times and durations are nanoseconds. The fresh UUID of a reservation and chrono's
  \<open>Duration::from_std\<close> are arguments.
\<close>

section \<open>Requests, limits, reservations\<close>

record gpu_requirement =
  gr_device_index :: "u32 option"
  gr_exclusive :: bool
  gr_min_vram_bytes :: u64

record duration_estimate =
  de_expected_ms :: u64
  de_hard_limit_ms :: u64

text \<open>\<open>ResourceAmount\<close> has the one field \<open>milli_cores\<close>, and stands here as that number.\<close>

record resource_request =
  rq_cpu_cores :: u64
  rq_memory_bytes :: u64
  rq_gpu_devices :: "gpu_requirement list"
  rq_vram_bytes :: u64
  rq_process_slots :: u32
  rq_inference_slots :: u32
  rq_input_tokens :: u64
  rq_maximum_output_tokens :: u64
  rq_total_token_budget :: u64
  rq_input_bytes :: u64
  rq_output_bytes :: u64
  rq_temporary_storage_bytes :: u64
  rq_estimated_duration :: duration_estimate

definition default_resource_request :: resource_request where
  "default_resource_request = \<lparr>rq_cpu_cores = 500, rq_memory_bytes = 512 * 1024 * 1024,
     rq_gpu_devices = [], rq_vram_bytes = 0, rq_process_slots = 0, rq_inference_slots = 1,
     rq_input_tokens = 4096, rq_maximum_output_tokens = 4096, rq_total_token_budget = 8192,
     rq_input_bytes = 256 * 1024, rq_output_bytes = 256 * 1024,
     rq_temporary_storage_bytes = 64 * 1024 * 1024,
     rq_estimated_duration = \<lparr>de_expected_ms = 30000, de_hard_limit_ms = 300000\<rparr>\<rparr>"

definition spawned_agent_default :: resource_request where
  "spawned_agent_default = default_resource_request\<lparr>rq_inference_slots := 1, rq_input_tokens := 2048,
     rq_maximum_output_tokens := 2048, rq_total_token_budget := 4096,
     rq_memory_bytes := 256 * 1024 * 1024, rq_vram_bytes := 0, rq_process_slots := 0\<rparr>"

record budget_limits =
  max_active_tasks_per_run :: u32
  max_attempts_per_task :: u32
  max_local_processes :: u32
  max_processes_per_worker :: u32
  max_processes_per_attempt :: u32
  max_concurrent_inference :: u32
  max_inference_slots_per_attempt :: u32
  max_memory_bytes_global :: u64
  max_memory_bytes_per_run :: u64
  max_memory_bytes_per_attempt :: u64
  max_vram_bytes_global :: u64
  max_vram_bytes_per_worker :: u64
  max_vram_bytes_per_attempt :: u64
  max_tokens_per_task :: u64
  max_tokens_per_run :: u64
  max_temp_storage_bytes :: u64
  max_speculation_slots :: u32
  reservation_ttl :: int

definition default_budget_limits :: budget_limits where
  "default_budget_limits = \<lparr>max_active_tasks_per_run = 32, max_attempts_per_task = 8,
     max_local_processes = 16, max_processes_per_worker = 8, max_processes_per_attempt = 2,
     max_concurrent_inference = 8, max_inference_slots_per_attempt = 2,
     max_memory_bytes_global = 16 * 1024 * 1024 * 1024,
     max_memory_bytes_per_run = 4 * 1024 * 1024 * 1024,
     max_memory_bytes_per_attempt = 2 * 1024 * 1024 * 1024,
     max_vram_bytes_global = 24 * 1024 * 1024 * 1024,
     max_vram_bytes_per_worker = 24 * 1024 * 1024 * 1024,
     max_vram_bytes_per_attempt = 24 * 1024 * 1024 * 1024, max_tokens_per_task = 200000,
     max_tokens_per_run = 2000000, max_temp_storage_bytes = 8 * 1024 * 1024 * 1024,
     max_speculation_slots = 4, reservation_ttl = 300 * 1000000000\<rparr>"

definition exceeds_hard_limits :: "resource_request \<Rightarrow> budget_limits \<Rightarrow> bool" where
  "exceeds_hard_limits r limits \<longleftrightarrow>
     max_memory_bytes_per_attempt limits < rq_memory_bytes r \<or>
     max_vram_bytes_per_attempt limits < rq_vram_bytes r \<or>
     max_tokens_per_task limits < rq_total_token_budget r \<or>
     max_processes_per_attempt limits < rq_process_slots r \<or>
     max_inference_slots_per_attempt limits < rq_inference_slots r \<or>
     max_temp_storage_bytes limits < rq_temporary_storage_bytes r"

datatype reservation_target = TargetLocal | TargetWorker worker_id

record reserved_resources =
  rd_memory_bytes :: u64
  rd_vram_bytes :: u64
  rd_process_slots :: u32
  rd_inference_slots :: u32
  rd_token_budget :: u64
  rd_temporary_storage_bytes :: u64
  rd_exclusive_gpu_indices :: "u32 list"

datatype reservation_state =
  ResProposed | ResReserved | ResDispatched | ResRunning | ResReleased | ResExpired | ResCanceled
| ResOverBudget

record resource_reservation =
  rv_reservation_id :: string
  rv_run_id :: run_id
  rv_task_id :: task_id
  rv_attempt_id :: attempt_id
  rv_target_scope :: reservation_target
  rv_resources :: reserved_resources
  rv_issued_at :: timestamp
  rv_expires_at :: timestamp
  rv_reservation_epoch :: u64
  rv_state :: reservation_state
  rv_speculative :: bool

record scope_usage =
  su_memory_bytes :: u64
  su_vram_bytes :: u64
  su_process_slots :: u32
  su_inference_slots :: u32
  su_token_budget :: u64
  su_active_tasks :: u32
  su_speculation_slots :: u32
  su_exclusive_gpus :: "(u32, attempt_id) btree"

definition default_scope_usage :: scope_usage where
  "default_scope_usage = \<lparr>su_memory_bytes = 0, su_vram_bytes = 0, su_process_slots = 0,
     su_inference_slots = 0, su_token_budget = 0, su_active_tasks = 0, su_speculation_slots = 0,
     su_exclusive_gpus = []\<rparr>"

record reservation_binding =
  rb_project_id :: "string option"
  rb_request :: resource_request

record budget_state =
  bs_limits :: budget_limits
  bs_global :: scope_usage
  bs_projects :: "(string, scope_usage) btree"
  bs_runs :: "(string, scope_usage) btree"
  bs_tasks :: "(string, scope_usage) btree"
  bs_workers :: "(string, scope_usage) btree"
  bs_reservations :: "(string, resource_reservation) btree"
  bs_by_attempt :: "(string, string) btree"
  bs_reservation_bindings :: "(string, reservation_binding) btree"
  bs_epoch :: u64

definition ledger_new :: "budget_limits \<Rightarrow> budget_state" where
  "ledger_new limits = \<lparr>bs_limits = limits, bs_global = default_scope_usage, bs_projects = [],
     bs_runs = [], bs_tasks = [], bs_workers = [], bs_reservations = [], bs_by_attempt = [],
     bs_reservation_bindings = [], bs_epoch = 1\<rparr>"

datatype budget_reject =
  ReservationConflict | ResourceRequestTooLarge | RunConcurrencyLimit | WorkerConcurrencyLimit
| MemoryBudgetExceeded | VramBudgetExceeded | ProcessLimitExceeded | TokenBudgetExceeded
| SpeculationBudgetExceeded | UnknownReservation | OverBudget

section \<open>Usage\<close>

definition apply_usage ::
    "reserved_resources \<Rightarrow> bool \<Rightarrow> bool \<Rightarrow> attempt_id \<Rightarrow> scope_usage \<Rightarrow> scope_usage" where
  "apply_usage resources speculative count_task attempt_id usage = usage\<lparr>
     su_memory_bytes := su_memory_bytes usage + rd_memory_bytes resources,
     su_vram_bytes := su_vram_bytes usage + rd_vram_bytes resources,
     su_process_slots := su_process_slots usage + rd_process_slots resources,
     su_inference_slots := su_inference_slots usage + rd_inference_slots resources,
     su_token_budget := su_token_budget usage + rd_token_budget resources,
     su_active_tasks := (if count_task then su_active_tasks usage + 1 else su_active_tasks usage),
     su_speculation_slots :=
       (if speculative then su_speculation_slots usage + 1 else su_speculation_slots usage),
     su_exclusive_gpus :=
       fold (\<lambda>idx m. bt_insert idx attempt_id m) (rd_exclusive_gpu_indices resources)
         (su_exclusive_gpus usage)\<rparr>"

definition reverse_usage ::
    "reserved_resources \<Rightarrow> bool \<Rightarrow> attempt_id \<Rightarrow> scope_usage \<Rightarrow> scope_usage" where
  "reverse_usage resources speculative attempt_id usage = usage\<lparr>
     su_memory_bytes := saturating_sub (su_memory_bytes usage) (rd_memory_bytes resources),
     su_vram_bytes := saturating_sub (su_vram_bytes usage) (rd_vram_bytes resources),
     su_process_slots := saturating_sub (su_process_slots usage) (rd_process_slots resources),
     su_inference_slots := saturating_sub (su_inference_slots usage) (rd_inference_slots resources),
     su_token_budget := saturating_sub (su_token_budget usage) (rd_token_budget resources),
     su_active_tasks := saturating_sub (su_active_tasks usage) 1,
     su_speculation_slots :=
       (if speculative then saturating_sub (su_speculation_slots usage) 1
        else su_speculation_slots usage),
     su_exclusive_gpus := bt_retain (\<lambda>_ holder. holder \<noteq> attempt_id) (su_exclusive_gpus usage)\<rparr>"

text \<open>\<open>entry(k).or_default()\<close>: the usage of a scope, and the entry it creates.\<close>

definition usage_at :: "(string, scope_usage) btree \<Rightarrow> string \<Rightarrow> scope_usage" where
  "usage_at m k = (case bt_get m k of None \<Rightarrow> default_scope_usage | Some u \<Rightarrow> u)"

definition touch_usage :: "string \<Rightarrow> (string, scope_usage) btree \<Rightarrow> (string, scope_usage) btree" where
  "touch_usage k m = (if bt_contains m k then m else bt_insert k default_scope_usage m)"

section \<open>Releasing\<close>

definition res_terminal :: "reservation_state \<Rightarrow> bool" where
  "res_terminal st \<longleftrightarrow> st \<in> {ResReleased, ResExpired, ResCanceled, ResOverBudget}"

definition worker_key :: "reservation_target \<Rightarrow> string" where
  "worker_key target = (case target of TargetLocal \<Rightarrow> ''local'' | TargetWorker w \<Rightarrow> w)"

definition drop_reservation_locked ::
    "string \<Rightarrow> reservation_state \<Rightarrow> budget_state \<Rightarrow> budget_state" where
  "drop_reservation_locked rid terminal g =
     (case bt_get (bs_reservations g) rid of
        None \<Rightarrow> g
      | Some rec \<Rightarrow>
          if res_terminal (rv_state rec) then g
          else
            let rev = reverse_usage (rv_resources rec) (rv_speculative rec) (rv_attempt_id rec);
                project = (case bt_get (bs_reservation_bindings g) rid of
                             None \<Rightarrow> None | Some b \<Rightarrow> rb_project_id b)
            in g\<lparr>bs_global := rev (bs_global g),
                 bs_runs := bt_modify (rv_run_id rec) rev (bs_runs g),
                 bs_tasks := bt_modify (rv_task_id rec) rev (bs_tasks g),
                 bs_workers := bt_modify (worker_key (rv_target_scope rec)) rev (bs_workers g),
                 bs_reservation_bindings := bt_remove rid (bs_reservation_bindings g),
                 bs_projects := (case project of None \<Rightarrow> bs_projects g
                                 | Some p \<Rightarrow> bt_modify p rev (bs_projects g)),
                 bs_reservations := bt_modify rid (\<lambda>r. r\<lparr>rv_state := terminal\<rparr>) (bs_reservations g),
                 bs_by_attempt := bt_remove (rv_attempt_id rec) (bs_by_attempt g)\<rparr>)"

definition drop_all :: "reservation_state \<Rightarrow> string list \<Rightarrow> budget_state \<Rightarrow> budget_state" where
  "drop_all terminal ids g = fold (\<lambda>rid. drop_reservation_locked rid terminal) ids g"

text \<open>The ids of the reservations that satisfy a condition, in table order.\<close>

definition ids_where :: "(resource_reservation \<Rightarrow> bool) \<Rightarrow> budget_state \<Rightarrow> string list" where
  "ids_where P g = map rv_reservation_id (filter P (bt_values (bs_reservations g)))"

definition expire_in :: "timestamp \<Rightarrow> budget_state \<Rightarrow> budget_state" where
  "expire_in now g = drop_all ResExpired
     (ids_where (\<lambda>r. rv_state r \<in> {ResReserved, ResProposed} \<and> rv_expires_at r \<le> now) g) g"

section \<open>Reserving\<close>

text \<open>The arguments of \<open>reserve\<close>.\<close>

record reserve_args =
  rsv_run_id :: run_id
  rsv_task_id :: task_id
  rsv_attempt_id :: attempt_id
  rsv_project_id :: "string option"
  rsv_target :: reservation_target
  rsv_request :: resource_request
  rsv_speculative :: bool
  rsv_now :: timestamp

definition check_run_scope :: "budget_limits \<Rightarrow> resource_request \<Rightarrow> scope_usage \<Rightarrow> budget_reject option" where
  "check_run_scope limits request u =
     (if max_active_tasks_per_run limits \<le> su_active_tasks u then Some RunConcurrencyLimit
      else if max_tokens_per_run limits < su_token_budget u + rq_total_token_budget request
      then Some TokenBudgetExceeded
      else if max_memory_bytes_per_run limits < su_memory_bytes u + rq_memory_bytes request
      then Some MemoryBudgetExceeded
      else None)"

definition check_task_scope :: "budget_limits \<Rightarrow> resource_request \<Rightarrow> scope_usage \<Rightarrow> budget_reject option" where
  "check_task_scope limits request u =
     (if max_attempts_per_task limits \<le> su_active_tasks u then Some RunConcurrencyLimit
      else if max_tokens_per_task limits < su_token_budget u + rq_total_token_budget request
      then Some TokenBudgetExceeded
      else None)"

definition check_global_scope :: "budget_limits \<Rightarrow> resource_request \<Rightarrow> scope_usage \<Rightarrow> budget_reject option" where
  "check_global_scope limits request u =
     (if max_concurrent_inference limits < su_inference_slots u + rq_inference_slots request
      then Some WorkerConcurrencyLimit
      else if max_memory_bytes_global limits < su_memory_bytes u + rq_memory_bytes request
      then Some MemoryBudgetExceeded
      else if max_vram_bytes_global limits < su_vram_bytes u + rq_vram_bytes request
      then Some VramBudgetExceeded
      else if max_local_processes limits < su_process_slots u + rq_process_slots request
      then Some ProcessLimitExceeded
      else None)"

definition gpu_taken :: "attempt_id \<Rightarrow> scope_usage \<Rightarrow> gpu_requirement \<Rightarrow> bool" where
  "gpu_taken attempt_id u gpu =
     (case gr_device_index gpu of
        None \<Rightarrow> False
      | Some idx \<Rightarrow> gr_exclusive gpu \<and>
          (case bt_get (su_exclusive_gpus u) idx of None \<Rightarrow> False | Some holder \<Rightarrow> holder \<noteq> attempt_id))"

definition check_worker_scope ::
    "budget_limits \<Rightarrow> resource_request \<Rightarrow> attempt_id \<Rightarrow> scope_usage \<Rightarrow> budget_reject option" where
  "check_worker_scope limits request attempt_id u =
     (if max_processes_per_worker limits < su_process_slots u + rq_process_slots request
      then Some ProcessLimitExceeded
      else if max_vram_bytes_per_worker limits < su_vram_bytes u + rq_vram_bytes request
      then Some VramBudgetExceeded
      else if max_concurrent_inference limits < su_inference_slots u + rq_inference_slots request
      then Some WorkerConcurrencyLimit
      else if list_ex (gpu_taken attempt_id u) (rq_gpu_devices request) then Some VramBudgetExceeded
      else None)"

definition check_project_scope :: "budget_limits \<Rightarrow> resource_request \<Rightarrow> scope_usage \<Rightarrow> budget_reject option" where
  "check_project_scope limits request u =
     (if max_memory_bytes_global limits < su_memory_bytes u + rq_memory_bytes request
      then Some MemoryBudgetExceeded else None)"

definition reserved_of :: "resource_request \<Rightarrow> reserved_resources" where
  "reserved_of request = \<lparr>rd_memory_bytes = rq_memory_bytes request,
     rd_vram_bytes = rq_vram_bytes request, rd_process_slots = rq_process_slots request,
     rd_inference_slots = rq_inference_slots request,
     rd_token_budget = rq_total_token_budget request,
     rd_temporary_storage_bytes = rq_temporary_storage_bytes request,
     rd_exclusive_gpu_indices =
       List.map_filter gr_device_index (filter gr_exclusive (rq_gpu_devices request))\<rparr>"

text \<open>The end of \<open>reserve\<close>, after every check: usage is applied and the reservation recorded.\<close>

definition new_reservation ::
    "(int \<Rightarrow> int option) \<Rightarrow> string \<Rightarrow> reserve_args \<Rightarrow> budget_state \<Rightarrow> resource_reservation" where
  "new_reservation from_std uuid a g = \<lparr>rv_reservation_id = ''res_'' @ uuid, rv_run_id = rsv_run_id a,
     rv_task_id = rsv_task_id a, rv_attempt_id = rsv_attempt_id a, rv_target_scope = rsv_target a,
     rv_resources = reserved_of (rsv_request a), rv_issued_at = rsv_now a,
     rv_expires_at = rsv_now a + (case from_std (reservation_ttl (bs_limits g)) of
       Some d \<Rightarrow> d | None \<Rightarrow> 300 * 1000000000),
     rv_reservation_epoch = bs_epoch g + 1, rv_state = ResReserved,
     rv_speculative = rsv_speculative a\<rparr>"

definition commit_reservation ::
    "(int \<Rightarrow> int option) \<Rightarrow> string \<Rightarrow> reserve_args \<Rightarrow> budget_state \<Rightarrow> budget_state \<times> resource_reservation" where
  "commit_reservation from_std uuid a g =
     (let app = apply_usage (reserved_of (rsv_request a)) (rsv_speculative a) True (rsv_attempt_id a);
          rid = ''res_'' @ uuid;
          res = new_reservation from_std uuid a g;
          wk = worker_key (rsv_target a)
      in (g\<lparr>bs_global := app (bs_global g),
            bs_runs := bt_insert (rsv_run_id a) (app (usage_at (bs_runs g) (rsv_run_id a))) (bs_runs g),
            bs_tasks := bt_insert (rsv_task_id a) (app (usage_at (bs_tasks g) (rsv_task_id a))) (bs_tasks g),
            bs_workers := bt_insert wk (app (usage_at (bs_workers g) wk)) (bs_workers g),
            bs_projects := (case rsv_project_id a of None \<Rightarrow> bs_projects g
              | Some p \<Rightarrow> bt_insert p (app (usage_at (bs_projects g) p)) (bs_projects g)),
            bs_epoch := bs_epoch g + 1,
            bs_reservation_bindings := bt_insert rid
              \<lparr>rb_project_id = rsv_project_id a, rb_request = rsv_request a\<rparr> (bs_reservation_bindings g),
            bs_by_attempt := bt_insert (rsv_attempt_id a) rid (bs_by_attempt g),
            bs_reservations := bt_insert rid res (bs_reservations g)\<rparr>, res))"

text \<open>The checks, in order; each stage first creates the entry it looks at.\<close>

definition reserve_new ::
    "(int \<Rightarrow> int option) \<Rightarrow> string \<Rightarrow> reserve_args \<Rightarrow> budget_state \<Rightarrow>
     budget_state \<times> (budget_reject + resource_reservation)" where
  "reserve_new from_std uuid a g =
     (let limits = bs_limits g; request = rsv_request a; wk = worker_key (rsv_target a) in
      if exceeds_hard_limits request limits then (g, Inl ResourceRequestTooLarge)
      else if rsv_speculative a \<and> max_speculation_slots limits \<le> su_speculation_slots (bs_global g)
      then (g, Inl SpeculationBudgetExceeded)
      else
        let g1 = g\<lparr>bs_runs := touch_usage (rsv_run_id a) (bs_runs g)\<rparr> in
        case check_run_scope limits request (usage_at (bs_runs g1) (rsv_run_id a)) of
          Some e \<Rightarrow> (g1, Inl e)
        | None \<Rightarrow>
        let g2 = g1\<lparr>bs_tasks := touch_usage (rsv_task_id a) (bs_tasks g1)\<rparr> in
        case check_task_scope limits request (usage_at (bs_tasks g2) (rsv_task_id a)) of
          Some e \<Rightarrow> (g2, Inl e)
        | None \<Rightarrow>
        case check_global_scope limits request (bs_global g2) of
          Some e \<Rightarrow> (g2, Inl e)
        | None \<Rightarrow>
        let g3 = g2\<lparr>bs_workers := touch_usage wk (bs_workers g2)\<rparr> in
        case check_worker_scope limits request (rsv_attempt_id a) (usage_at (bs_workers g3) wk) of
          Some e \<Rightarrow> (g3, Inl e)
        | None \<Rightarrow>
        let g4 = (case rsv_project_id a of None \<Rightarrow> g3
                  | Some p \<Rightarrow> g3\<lparr>bs_projects := touch_usage p (bs_projects g3)\<rparr>) in
        case (case rsv_project_id a of None \<Rightarrow> None
              | Some p \<Rightarrow> check_project_scope limits request (usage_at (bs_projects g4) p)) of
          Some e \<Rightarrow> (g4, Inl e)
        | None \<Rightarrow> (case commit_reservation from_std uuid a g4 of (g5, res) \<Rightarrow> (g5, Inr res)))"

definition active_reservation :: "budget_state \<Rightarrow> attempt_id \<Rightarrow> (string \<times> resource_reservation) option" where
  "active_reservation g attempt_id =
     (case bt_get (bs_by_attempt g) attempt_id of
        None \<Rightarrow> None
      | Some rid \<Rightarrow>
          (case bt_get (bs_reservations g) rid of
             None \<Rightarrow> None
           | Some existing \<Rightarrow>
               if rv_state existing \<in> {ResReserved, ResDispatched, ResRunning}
               then Some (rid, existing) else None))"

definition reserve ::
    "(int \<Rightarrow> int option) \<Rightarrow> string \<Rightarrow> reserve_args \<Rightarrow> budget_state \<Rightarrow>
     budget_state \<times> (budget_reject + resource_reservation)" where
  "reserve from_std uuid a g0 =
     (let g = expire_in (rsv_now a) g0 in
      case active_reservation g (rsv_attempt_id a) of
        Some (rid, existing) \<Rightarrow>
          (case bt_get (bs_reservation_bindings g) rid of
             None \<Rightarrow> (g, Inl UnknownReservation)
           | Some binding \<Rightarrow>
               if rv_run_id existing \<noteq> rsv_run_id a \<or> rv_task_id existing \<noteq> rsv_task_id a \<or>
                  rv_target_scope existing \<noteq> rsv_target a \<or> rv_speculative existing \<noteq> rsv_speculative a \<or>
                  rb_project_id binding \<noteq> rsv_project_id a \<or> rb_request binding \<noteq> rsv_request a
               then (g, Inl ReservationConflict)
               else (g, Inr existing))
      | None \<Rightarrow> reserve_new from_std uuid a g)"

section \<open>The other operations\<close>

definition get_by_attempt :: "budget_state \<Rightarrow> attempt_id \<Rightarrow> resource_reservation option" where
  "get_by_attempt g attempt_id =
     (case bt_get (bs_by_attempt g) attempt_id of
        None \<Rightarrow> None | Some rid \<Rightarrow> bt_get (bs_reservations g) rid)"

definition check_run_spawn_limit :: "budget_state \<Rightarrow> run_id \<Rightarrow> budget_reject + unit" where
  "check_run_spawn_limit g run_id =
     (case bt_get (bs_runs g) run_id of
        Some run_u \<Rightarrow>
          if max_active_tasks_per_run (bs_limits g) \<le> su_active_tasks run_u
          then Inl RunConcurrencyLimit else Inr ()
      | None \<Rightarrow> Inr ())"

definition res_transition ::
    "string \<Rightarrow> reservation_state \<Rightarrow> budget_state \<Rightarrow> budget_state \<times> (budget_reject + unit)" where
  "res_transition rid st g =
     (case bt_get (bs_reservations g) rid of
        None \<Rightarrow> (g, Inl UnknownReservation)
      | Some rec \<Rightarrow>
          if res_terminal st then (drop_reservation_locked rid st g, Inr ())
          else if res_terminal (rv_state rec) then (g, Inr ())
          else (g\<lparr>bs_reservations := bt_modify rid (\<lambda>r. r\<lparr>rv_state := st\<rparr>) (bs_reservations g)\<rparr>, Inr ()))"

definition release :: "string \<Rightarrow> reservation_state \<Rightarrow> budget_state \<Rightarrow> budget_state" where
  "release rid terminal g = drop_reservation_locked rid terminal g"

definition release_attempt :: "attempt_id \<Rightarrow> reservation_state \<Rightarrow> budget_state \<Rightarrow> budget_state" where
  "release_attempt attempt_id terminal g =
     (case bt_get (bs_by_attempt g) attempt_id of
        None \<Rightarrow> g | Some rid \<Rightarrow> release rid terminal g)"

definition release_for_run ::
    "run_id \<Rightarrow> reservation_state \<Rightarrow> budget_state \<Rightarrow> budget_state \<times> nat" where
  "release_for_run run_id terminal g =
     (let ids = ids_where (\<lambda>r. rv_run_id r = run_id \<and>
                  rv_state r \<in> {ResReserved, ResDispatched, ResRunning, ResProposed}) g
      in (fold (\<lambda>rid. release rid terminal) ids g, length ids))"

definition release_for_worker ::
    "worker_id \<Rightarrow> reservation_state \<Rightarrow> budget_state \<Rightarrow> budget_state \<times> nat" where
  "release_for_worker worker_id terminal g =
     (let ids = ids_where (\<lambda>r. rv_target_scope r = TargetWorker worker_id \<and>
                  rv_state r \<in> {ResReserved, ResDispatched, ResRunning}) g
      in (fold (\<lambda>rid. release rid terminal) ids g, length ids))"

definition enforce_actual_usage ::
    "attempt_id \<Rightarrow> reserved_resources \<Rightarrow> budget_state \<Rightarrow> budget_state \<times> (budget_reject + unit)" where
  "enforce_actual_usage attempt_id actual g =
     (case get_by_attempt g attempt_id of
        None \<Rightarrow> (g, Inl UnknownReservation)
      | Some res \<Rightarrow>
          let r = rv_resources res in
          if rd_memory_bytes r < rd_memory_bytes actual \<or> rd_vram_bytes r < rd_vram_bytes actual \<or>
             rd_process_slots r < rd_process_slots actual \<or>
             rd_inference_slots r < rd_inference_slots actual \<or>
             rd_token_budget r < rd_token_budget actual \<or>
             rd_temporary_storage_bytes r < rd_temporary_storage_bytes actual
          then (release (rv_reservation_id res) ResOverBudget g, Inl OverBudget)
          else (g, Inr ()))"

definition reconcile_uncertain :: "timestamp \<Rightarrow> budget_state \<Rightarrow> budget_state \<times> nat" where
  "reconcile_uncertain now g0 =
     (let g = expire_in now g0;
          uncertain = ids_where (\<lambda>r. rv_state r \<in> {ResDispatched, ResRunning}) g
      in (drop_all ResCanceled uncertain g, length uncertain))"

definition active_count :: "budget_state \<Rightarrow> nat" where
  "active_count g = length (filter (\<lambda>r. rv_state r \<in> {ResReserved, ResDispatched, ResRunning})
     (bt_values (bs_reservations g)))"

end
