(* ===== verification/Ledger.thy ===== *)
theory Ledger
  imports Budget
begin

text \<open>
  The accounting invariant of the budget ledger. A scope is the whole ledger, a project, a run, a
  task or a worker; a dimension is one of the counters a scope keeps. \<open>load\<close> is what the live
  reservations of a scope hold in a dimension, computed from the reservations themselves; \<open>cap\<close> is
  the limit \<open>reserve\<close> enforces there. The invariant says that every enforced counter equals the
  load and stays within the cap, that an attempt has at most one live reservation, and that an
  exclusively reserved device is held by its reservation's attempt.
\<close>

section \<open>Scopes and dimensions\<close>

datatype scope =
  GlobalScope | ProjectScope string | RunScope run_id | TaskScope task_id | WorkerScope string

datatype dimension = Memory | Vram | Processes | Inference | Tokens | Tasks | Speculation

fun used :: "dimension \<Rightarrow> scope_usage \<Rightarrow> nat" where
  "used Memory u = unat (su_memory_bytes u)"
| "used Vram u = unat (su_vram_bytes u)"
| "used Processes u = unat (su_process_slots u)"
| "used Inference u = unat (su_inference_slots u)"
| "used Tokens u = unat (su_token_budget u)"
| "used Tasks u = unat (su_active_tasks u)"
| "used Speculation u = unat (su_speculation_slots u)"

fun charge :: "dimension \<Rightarrow> reserved_resources \<Rightarrow> bool \<Rightarrow> nat" where
  "charge Memory r sp = unat (rd_memory_bytes r)"
| "charge Vram r sp = unat (rd_vram_bytes r)"
| "charge Processes r sp = unat (rd_process_slots r)"
| "charge Inference r sp = unat (rd_inference_slots r)"
| "charge Tokens r sp = unat (rd_token_budget r)"
| "charge Tasks r sp = 1"
| "charge Speculation r sp = (if sp then 1 else 0)"

definition charged :: "dimension \<Rightarrow> resource_reservation \<Rightarrow> nat" where
  "charged d r = charge d (rv_resources r) (rv_speculative r)"

fun counter_width :: "dimension \<Rightarrow> nat" where
  "counter_width Memory = 64"
| "counter_width Vram = 64"
| "counter_width Processes = 32"
| "counter_width Inference = 32"
| "counter_width Tokens = 64"
| "counter_width Tasks = 32"
| "counter_width Speculation = 32"

fun usage_of :: "budget_state \<Rightarrow> scope \<Rightarrow> scope_usage" where
  "usage_of g GlobalScope = bs_global g"
| "usage_of g (ProjectScope p) = usage_at (bs_projects g) p"
| "usage_of g (RunScope r) = usage_at (bs_runs g) r"
| "usage_of g (TaskScope t) = usage_at (bs_tasks g) t"
| "usage_of g (WorkerScope w) = usage_at (bs_workers g) w"

definition live :: "resource_reservation \<Rightarrow> bool" where
  "live r \<longleftrightarrow> \<not> res_terminal (rv_state r)"

definition project_of :: "budget_state \<Rightarrow> string \<Rightarrow> string option" where
  "project_of g rid =
     (case bt_get (bs_reservation_bindings g) rid of None \<Rightarrow> None | Some b \<Rightarrow> rb_project_id b)"

fun member_of :: "string option \<Rightarrow> resource_reservation \<Rightarrow> scope \<Rightarrow> bool" where
  "member_of project r GlobalScope \<longleftrightarrow> True"
| "member_of project r (ProjectScope p) \<longleftrightarrow> project = Some p"
| "member_of project r (RunScope n) \<longleftrightarrow> rv_run_id r = n"
| "member_of project r (TaskScope t) \<longleftrightarrow> rv_task_id r = t"
| "member_of project r (WorkerScope w) \<longleftrightarrow> worker_key (rv_target_scope r) = w"

definition share :: "budget_state \<Rightarrow> scope \<Rightarrow> dimension \<Rightarrow> string \<Rightarrow> resource_reservation \<Rightarrow> nat" where
  "share g sc d rid r = (if live r \<and> member_of (project_of g rid) r sc then charged d r else 0)"

definition load :: "budget_state \<Rightarrow> scope \<Rightarrow> dimension \<Rightarrow> nat" where
  "load g sc d = bt_total (share g sc d) (bs_reservations g)"

fun cap :: "budget_limits \<Rightarrow> scope \<Rightarrow> dimension \<Rightarrow> nat option" where
  "cap L GlobalScope Memory = Some (unat (max_memory_bytes_global L))"
| "cap L GlobalScope Vram = Some (unat (max_vram_bytes_global L))"
| "cap L GlobalScope Processes = Some (unat (max_local_processes L))"
| "cap L GlobalScope Inference = Some (unat (max_concurrent_inference L))"
| "cap L GlobalScope Speculation = Some (unat (max_speculation_slots L))"
| "cap L (ProjectScope p) Memory = Some (unat (max_memory_bytes_global L))"
| "cap L (RunScope r) Memory = Some (unat (max_memory_bytes_per_run L))"
| "cap L (RunScope r) Tokens = Some (unat (max_tokens_per_run L))"
| "cap L (RunScope r) Tasks = Some (unat (max_active_tasks_per_run L))"
| "cap L (TaskScope t) Tokens = Some (unat (max_tokens_per_task L))"
| "cap L (TaskScope t) Tasks = Some (unat (max_attempts_per_task L))"
| "cap L (WorkerScope w) Vram = Some (unat (max_vram_bytes_per_worker L))"
| "cap L (WorkerScope w) Processes = Some (unat (max_processes_per_worker L))"
| "cap L (WorkerScope w) Inference = Some (unat (max_concurrent_inference L))"
| "cap L _ _ = None"

text \<open>What one attempt may ask for, by the hard limits (tasks and speculation count reservations).\<close>

fun attempt_cap :: "budget_limits \<Rightarrow> dimension \<Rightarrow> nat" where
  "attempt_cap L Memory = unat (max_memory_bytes_per_attempt L)"
| "attempt_cap L Vram = unat (max_vram_bytes_per_attempt L)"
| "attempt_cap L Processes = unat (max_processes_per_attempt L)"
| "attempt_cap L Inference = unat (max_inference_slots_per_attempt L)"
| "attempt_cap L Tokens = unat (max_tokens_per_task L)"
| "attempt_cap L Tasks = 1"
| "attempt_cap L Speculation = 1"

text \<open>Limits under which no enforced counter can wrap around in a check: a full scope plus one attempt
  still fits the counter. The default limits are far below this.\<close>

definition limits_sane :: "budget_limits \<Rightarrow> bool" where
  "limits_sane L \<longleftrightarrow>
     unat (max_memory_bytes_global L) + unat (max_memory_bytes_per_attempt L) < 2 ^ 64 \<and>
     unat (max_memory_bytes_per_run L) + unat (max_memory_bytes_per_attempt L) < 2 ^ 64 \<and>
     unat (max_vram_bytes_global L) + unat (max_vram_bytes_per_attempt L) < 2 ^ 64 \<and>
     unat (max_vram_bytes_per_worker L) + unat (max_vram_bytes_per_attempt L) < 2 ^ 64 \<and>
     unat (max_tokens_per_run L) + unat (max_tokens_per_task L) < 2 ^ 64 \<and>
     unat (max_tokens_per_task L) + unat (max_tokens_per_task L) < 2 ^ 64 \<and>
     unat (max_local_processes L) + unat (max_processes_per_attempt L) < 2 ^ 32 \<and>
     unat (max_processes_per_worker L) + unat (max_processes_per_attempt L) < 2 ^ 32 \<and>
     unat (max_concurrent_inference L) + unat (max_inference_slots_per_attempt L) < 2 ^ 32"

section \<open>The invariant\<close>

definition accounts_ok :: "budget_state \<Rightarrow> bool" where
  "accounts_ok g \<longleftrightarrow> (\<forall>sc d c. cap (bs_limits g) sc d = Some c \<longrightarrow>
     used d (usage_of g sc) = load g sc d \<and> load g sc d \<le> c)"

definition tables_ok :: "budget_state \<Rightarrow> bool" where
  "tables_ok g \<longleftrightarrow>
     bt_invar (bs_reservations g) \<and>
     (\<forall>rid r. bt_get (bs_reservations g) rid = Some r \<longrightarrow> rv_reservation_id r = rid \<and>
        rv_state r \<noteq> ResProposed \<and>
        (live r \<longrightarrow> bt_get (bs_by_attempt g) (rv_attempt_id r) = Some rid \<and>
                  bt_get (bs_reservation_bindings g) rid \<noteq> None)) \<and>
     (\<forall>att rid. bt_get (bs_by_attempt g) att = Some rid \<longrightarrow>
        (\<exists>r. bt_get (bs_reservations g) rid = Some r \<and> live r \<and> rv_attempt_id r = att))"

definition holds_gpu :: "resource_reservation \<Rightarrow> string \<Rightarrow> u32 \<Rightarrow> bool" where
  "holds_gpu r w idx \<longleftrightarrow> live r \<and> worker_key (rv_target_scope r) = w \<and>
     idx \<in> set (rd_exclusive_gpu_indices (rv_resources r))"

definition gpus_ok :: "budget_state \<Rightarrow> bool" where
  "gpus_ok g \<longleftrightarrow>
     (\<forall>w. bt_invar (su_exclusive_gpus (usage_at (bs_workers g) w))) \<and>
     (\<forall>w idx att. bt_get (su_exclusive_gpus (usage_at (bs_workers g) w)) idx = Some att \<longleftrightarrow>
        (\<exists>rid r. bt_get (bs_reservations g) rid = Some r \<and> holds_gpu r w idx \<and> rv_attempt_id r = att))"

definition ledger_inv :: "budget_state \<Rightarrow> bool" where
  "ledger_inv g \<longleftrightarrow> limits_sane (bs_limits g) \<and> tables_ok g \<and> accounts_ok g \<and> gpus_ok g"

section \<open>Usage arithmetic\<close>

lemma used_default [simp]: "used d default_scope_usage = 0"
  by (cases d) (simp_all add: default_scope_usage_def)

lemma used_apply:
  assumes "used d u + charge d r sp < 2 ^ counter_width d"
  shows "used d (apply_usage r sp True att u) = used d u + charge d r sp"
  using assms by (cases d) (auto simp: apply_usage_def unat_add_room unat_word_ariths)

lemma used_reverse: "used d (reverse_usage r sp att u) = used d u - charge d r sp"
  by (cases d) (auto simp: reverse_usage_def unat_saturating_sub)

lemma reverse_default [simp]: "reverse_usage r sp att default_scope_usage = default_scope_usage"
  by (simp add: reverse_usage_def default_scope_usage_def saturating_sub_def bt_retain_def)

lemma usage_at_touch [simp]: "usage_at (touch_usage k m) k' = usage_at m k'"
  by (auto simp: usage_at_def touch_usage_def bt_contains_iff split: option.splits)

lemma usage_at_insert [simp]: "usage_at (bt_insert k u m) k' = (if k' = k then u else usage_at m k')"
  by (simp add: usage_at_def)

lemma usage_at_modify:
  "f default_scope_usage = default_scope_usage \<Longrightarrow>
   usage_at (bt_modify k f m) k' = (if k' = k then f (usage_at m k') else usage_at m k')"
  by (auto simp: usage_at_def split: option.splits)

lemma live_cases: "live r \<longleftrightarrow> rv_state r \<in> {ResProposed, ResReserved, ResDispatched, ResRunning}"
  by (cases "rv_state r") (auto simp: live_def res_terminal_def)

lemma charged_le_load:
  assumes "bt_invar (bs_reservations g)" "bt_get (bs_reservations g) rid = Some r" "live r"
    "member_of (project_of g rid) r sc"
  shows "charged d r \<le> load g sc d"
  using bt_total_ge [OF assms(1,2), of "share g sc d"] assms(3,4) by (simp add: load_def share_def)

section \<open>Dropping a reservation\<close>

lemma tables_okD:
  assumes "tables_ok g" "bt_get (bs_reservations g) rid = Some r"
  shows "rv_reservation_id r = rid" "rv_state r \<noteq> ResProposed"
    "live r \<Longrightarrow> bt_get (bs_by_attempt g) (rv_attempt_id r) = Some rid"
    "live r \<Longrightarrow> bt_get (bs_reservation_bindings g) rid \<noteq> None"
  using assms by (auto simp: tables_ok_def)

lemma drop_noop:
  "bt_get (bs_reservations g) rid = None \<Longrightarrow> drop_reservation_locked rid t g = g"
  "bt_get (bs_reservations g) rid = Some r \<Longrightarrow> \<not> live r \<Longrightarrow> drop_reservation_locked rid t g = g"
  by (simp_all add: drop_reservation_locked_def live_def)

lemma drop_limits [simp]: "bs_limits (drop_reservation_locked rid t g) = bs_limits g"
  by (simp add: drop_reservation_locked_def Let_def split: option.splits)

lemma drop_reservations:
  "bt_get (bs_reservations (drop_reservation_locked rid t g)) k =
     map_option (\<lambda>r. if k = rid \<and> live r then r\<lparr>rv_state := t\<rparr> else r) (bt_get (bs_reservations g) k)"
  by (auto simp: drop_reservation_locked_def live_def Let_def option.map_ident split: option.splits)

lemma drop_usage_of:
  assumes "bt_get (bs_reservations g) rid = Some r" "live r"
  shows "usage_of (drop_reservation_locked rid t g) sc =
    (if member_of (project_of g rid) r sc
     then reverse_usage (rv_resources r) (rv_speculative r) (rv_attempt_id r) (usage_of g sc)
     else usage_of g sc)"
  using assms
  by (cases sc)
    (auto simp: drop_reservation_locked_def live_def project_of_def Let_def usage_at_modify
      split: option.splits)

lemma drop_load:
  assumes "bt_invar (bs_reservations g)" "bt_get (bs_reservations g) rid = Some r" "live r" "res_terminal t"
  shows "load (drop_reservation_locked rid t g) sc d =
    load g sc d - (if member_of (project_of g rid) r sc then charged d r else 0)"
proof -
  let ?g' = "drop_reservation_locked rid t g"
  have res: "bs_reservations ?g' = bt_modify rid (\<lambda>r. r\<lparr>rv_state := t\<rparr>) (bs_reservations g)"
    using assms by (simp add: drop_reservation_locked_def live_def Let_def)
  have share: "share ?g' sc d k v = share g sc d k v"
    if "bt_get (bs_reservations ?g') k = Some v" for k v
  proof (cases "k = rid")
    case True
    with that assms have "\<not> live v" by (auto simp: res live_def)
    then show ?thesis by (simp add: share_def)
  next
    case False
    then have "project_of ?g' k = project_of g k"
      using assms by (simp add: project_of_def drop_reservation_locked_def live_def Let_def)
    then show ?thesis by (simp add: share_def)
  qed
  have "load ?g' sc d = bt_total (share g sc d) (bs_reservations ?g')"
    unfolding load_def using share assms(1) by (intro bt_total_cong) (simp_all add: res)
  moreover have "\<dots> + share g sc d rid r = load g sc d"
    unfolding res load_def using bt_total_modify [OF assms(1,2), of "share g sc d"] assms(4)
    by (simp add: share_def live_def)
  ultimately show ?thesis using assms(3) by (simp add: share_def)
qed

lemma drop_accounts:
  assumes inv: "ledger_inv g" and "res_terminal t"
  shows "accounts_ok (drop_reservation_locked rid t g)"
proof (cases "\<exists>r. bt_get (bs_reservations g) rid = Some r \<and> live r")
  case False
  then have "drop_reservation_locked rid t g = g" by (cases "bt_get (bs_reservations g) rid") (auto simp: drop_noop)
  with inv show ?thesis by (simp add: ledger_inv_def)
next
  case True
  then obtain r where r: "bt_get (bs_reservations g) rid = Some r" "live r" by blast
  have bt: "bt_invar (bs_reservations g)" using inv by (simp add: ledger_inv_def tables_ok_def)
  show ?thesis
    unfolding accounts_ok_def
  proof (intro allI impI)
    fix sc d c
    assume "cap (bs_limits (drop_reservation_locked rid t g)) sc d = Some c"
    then have "used d (usage_of g sc) = load g sc d \<and> load g sc d \<le> c"
      using inv by (simp add: ledger_inv_def accounts_ok_def)
    then show "used d (usage_of (drop_reservation_locked rid t g) sc) = load (drop_reservation_locked rid t g) sc d
        \<and> load (drop_reservation_locked rid t g) sc d \<le> c"
      by (auto simp: drop_usage_of [OF r] drop_load [OF bt r assms(2)] used_reverse charged_def)
  qed
qed

lemma drop_tables:
  assumes "tables_ok g" "res_terminal t"
  shows "tables_ok (drop_reservation_locked rid t g)"
proof (cases "\<exists>r. bt_get (bs_reservations g) rid = Some r \<and> live r")
  case False
  then have "drop_reservation_locked rid t g = g" by (cases "bt_get (bs_reservations g) rid") (auto simp: drop_noop)
  with assms show ?thesis by simp
next
  case True
  then obtain r where r: "bt_get (bs_reservations g) rid = Some r" "live r" by blast
  let ?g' = "drop_reservation_locked rid t g"
  have eqs: "bs_reservations ?g' = bt_modify rid (\<lambda>r. r\<lparr>rv_state := t\<rparr>) (bs_reservations g)"
    "bs_by_attempt ?g' = bt_remove (rv_attempt_id r) (bs_by_attempt g)"
    "bs_reservation_bindings ?g' = bt_remove rid (bs_reservation_bindings g)"
    using r by (simp_all add: drop_reservation_locked_def live_def Let_def)
  have att: "rv_attempt_id r' \<noteq> rv_attempt_id r" "bt_get (bs_reservation_bindings g) k \<noteq> None"
    if "bt_get (bs_reservations g) k = Some r'" "live r'" "k \<noteq> rid" for k r'
    using tables_okD [OF assms(1) that(1)] tables_okD [OF assms(1) r(1)] that r by auto
  have nprop: "t \<noteq> ResProposed" using assms(2) by (auto simp: res_terminal_def)
  have dead: "\<not> live (r\<lparr>rv_state := t\<rparr>)" using assms(2) by (simp add: live_def)
  show ?thesis
    unfolding tables_ok_def
  proof (intro conjI allI impI)
    show "bt_invar (bs_reservations ?g')" using assms(1) by (simp add: eqs tables_ok_def)
  next
    fix k r' assume k: "bt_get (bs_reservations ?g') k = Some r'"
    show "rv_reservation_id r' = k" "rv_state r' \<noteq> ResProposed"
      using k r tables_okD [OF assms(1)] nprop by (auto simp: eqs split: if_splits)
    assume "live r'"
    with k r dead have "bt_get (bs_reservations g) k = Some r'" "k \<noteq> rid"
      by (auto simp: eqs split: if_splits)
    with att [OF this(1) \<open>live r'\<close> this(2)] tables_okD [OF assms(1) this(1)] \<open>live r'\<close>
    show "bt_get (bs_by_attempt ?g') (rv_attempt_id r') = Some k"
      "bt_get (bs_reservation_bindings ?g') k \<noteq> None"
      by (auto simp: eqs)
  next
    fix a k assume "bt_get (bs_by_attempt ?g') a = Some k"
    then have a: "a \<noteq> rv_attempt_id r" "bt_get (bs_by_attempt g) a = Some k" by (auto simp: eqs split: if_splits)
    then obtain r' where "bt_get (bs_reservations g) k = Some r'" "live r'" "rv_attempt_id r' = a"
      using assms(1) unfolding tables_ok_def by blast
    with a r show "\<exists>r. bt_get (bs_reservations ?g') k = Some r \<and> live r \<and> rv_attempt_id r = a"
      by (auto simp: eqs)
  qed
qed

lemma drop_gpus:
  assumes "gpus_ok g" "tables_ok g" "res_terminal t"
  shows "gpus_ok (drop_reservation_locked rid t g)"
proof (cases "\<exists>r. bt_get (bs_reservations g) rid = Some r \<and> live r")
  case False
  then have "drop_reservation_locked rid t g = g" by (cases "bt_get (bs_reservations g) rid") (auto simp: drop_noop)
  with assms show ?thesis by simp
next
  case True
  then obtain r where r: "bt_get (bs_reservations g) rid = Some r" "live r" by blast
  let ?g' = "drop_reservation_locked rid t g"
  let ?gpus = "\<lambda>g w. su_exclusive_gpus (usage_at (bs_workers g) w)"
  have w: "?gpus ?g' w = (if worker_key (rv_target_scope r) = w
      then bt_retain (\<lambda>_ h. h \<noteq> rv_attempt_id r) (?gpus g w) else ?gpus g w)" for w
    using drop_usage_of [OF r, of t "WorkerScope w"] by (simp add: reverse_usage_def)
  have inv: "bt_invar (?gpus g w)" for w using assms(1) by (simp add: gpus_ok_def)
  have holder: "bt_get (?gpus g w) idx = Some att \<longleftrightarrow>
      (\<exists>k r'. bt_get (bs_reservations g) k = Some r' \<and> holds_gpu r' w idx \<and> rv_attempt_id r' = att)" for w idx att
    using assms(1) unfolding gpus_ok_def by blast
  have unique: "k = rid" if "bt_get (bs_reservations g) k = Some r'" "live r'" "rv_attempt_id r' = rv_attempt_id r" for k r'
    using tables_okD(3) [OF assms(2) that(1,2)] tables_okD(3) [OF assms(2) r] that(3) by simp
  have res: "(bt_get (bs_reservations ?g') k = Some r' \<and> live r') \<longleftrightarrow>
      (bt_get (bs_reservations g) k = Some r' \<and> live r' \<and> rv_attempt_id r' \<noteq> rv_attempt_id r)" for k r'
  proof (cases "k = rid")
    case True
    have "\<not> live (r\<lparr>rv_state := t\<rparr>)" using assms(3) by (simp add: live_def)
    moreover have "bt_get (bs_reservations ?g') k = Some (r\<lparr>rv_state := t\<rparr>)" using True r by (simp add: drop_reservations)
    ultimately show ?thesis using True r(1) by (metis option.inject)
  next
    case False
    then have "bt_get (bs_reservations ?g') k = bt_get (bs_reservations g) k"
      by (simp add: drop_reservations option.map_ident)
    with False unique [of k r'] show ?thesis by metis
  qed
  have same_worker: "rv_attempt_id r' \<noteq> rv_attempt_id r"
    if "bt_get (bs_reservations g) k = Some r'" "holds_gpu r' w idx" "worker_key (rv_target_scope r) \<noteq> w" for k r' w idx
    using unique [OF that(1)] that r by (auto simp: holds_gpu_def)
  show ?thesis
    unfolding gpus_ok_def
  proof (intro conjI allI)
    show "bt_invar (?gpus ?g' w)" for w using inv by (simp add: w)
  next
    fix w idx att
    have "bt_get (?gpus ?g' w) idx = Some att \<longleftrightarrow> bt_get (?gpus g w) idx = Some att \<and> att \<noteq> rv_attempt_id r"
    proof (cases "worker_key (rv_target_scope r) = w")
      case True
      then show ?thesis by (auto simp: w bt_get_retain inv split: option.splits)
    next
      case False
      then have "?gpus ?g' w = ?gpus g w" by (simp add: w)
      with False show ?thesis using same_worker holder [of w idx att] by metis
    qed
    also have "\<dots> \<longleftrightarrow> (\<exists>k r'. (bt_get (bs_reservations g) k = Some r' \<and> live r' \<and>
        rv_attempt_id r' \<noteq> rv_attempt_id r) \<and> holds_gpu r' w idx \<and> rv_attempt_id r' = att)"
      unfolding holder by (auto simp: holds_gpu_def)
    also have "\<dots> \<longleftrightarrow> (\<exists>k r'. (bt_get (bs_reservations ?g') k = Some r' \<and> live r') \<and>
        holds_gpu r' w idx \<and> rv_attempt_id r' = att)"
      unfolding res ..
    finally show "bt_get (?gpus ?g' w) idx = Some att \<longleftrightarrow>
      (\<exists>k r'. bt_get (bs_reservations ?g') k = Some r' \<and> holds_gpu r' w idx \<and> rv_attempt_id r' = att)"
      by (auto simp: holds_gpu_def)
  qed
qed

lemma drop_inv: "ledger_inv g \<Longrightarrow> res_terminal t \<Longrightarrow> ledger_inv (drop_reservation_locked rid t g)"
  using drop_accounts drop_tables drop_gpus by (simp add: ledger_inv_def)

lemma drop_all_inv: "ledger_inv g \<Longrightarrow> res_terminal t \<Longrightarrow> ledger_inv (drop_all t ids g)"
  unfolding drop_all_def by (induction ids arbitrary: g) (simp_all add: drop_inv)

end
