(* ===== verification/Reserve.thy ===== *)
theory Reserve
  imports Ledger
begin

text \<open>
  \<open>reserve\<close> and the ledger as a state machine. The staged checks of \<open>reserve_new\<close> are shown to be
  exactly the condition that the request fits every scope it is charged to and that no other
  attempt holds a device it wants exclusively; a granted reservation keeps the accounting invariant.
\<close>

section \<open>Reserving\<close>

text \<open>States that differ only in default entries of their usage tables.\<close>

definition same_accounts :: "budget_state \<Rightarrow> budget_state \<Rightarrow> bool" where
  "same_accounts g g' \<longleftrightarrow> bs_limits g' = bs_limits g \<and> bs_reservations g' = bs_reservations g \<and>
     bs_by_attempt g' = bs_by_attempt g \<and> bs_reservation_bindings g' = bs_reservation_bindings g \<and>
     bs_epoch g' = bs_epoch g \<and> (\<forall>sc. usage_of g' sc = usage_of g sc)"

lemma same_accounts_refl [simp]: "same_accounts g g"
  by (simp add: same_accounts_def)

lemma same_accounts_load: "same_accounts g g' \<Longrightarrow> load g' sc d = load g sc d"
  unfolding load_def same_accounts_def
  by (auto simp: share_def project_of_def fun_eq_iff intro!: arg_cong2 [where f = bt_total])

lemma same_accounts_inv:
  assumes "same_accounts g g'" "ledger_inv g"
  shows "ledger_inv g'"
proof -
  have "usage_at (bs_workers g') w = usage_at (bs_workers g) w" for w
    using assms(1) by (metis same_accounts_def usage_of.simps(5))
  then have "gpus_ok g'" using assms by (simp add: ledger_inv_def gpus_ok_def same_accounts_def)
  moreover have "tables_ok g'" using assms by (simp add: ledger_inv_def tables_ok_def same_accounts_def)
  moreover have "accounts_ok g'"
    using assms same_accounts_load [OF assms(1)] by (simp add: ledger_inv_def accounts_ok_def same_accounts_def)
  ultimately show ?thesis using assms by (simp add: ledger_inv_def same_accounts_def)
qed

text \<open>The scopes a request is charged to, and the condition that it fits each of them.\<close>

definition scopes_of :: "reserve_args \<Rightarrow> scope list" where
  "scopes_of a = [GlobalScope, RunScope (rsv_run_id a), TaskScope (rsv_task_id a),
     WorkerScope (worker_key (rsv_target a))] @
     (case rsv_project_id a of None \<Rightarrow> [] | Some p \<Rightarrow> [ProjectScope p])"

definition gpus_free :: "reserve_args \<Rightarrow> budget_state \<Rightarrow> bool" where
  "gpus_free a g \<longleftrightarrow> (\<forall>idx \<in> set (rd_exclusive_gpu_indices (reserved_of (rsv_request a))).
     \<forall>(rid, r) \<in> set (bs_reservations g). \<not> holds_gpu r (worker_key (rsv_target a)) idx)"

definition fits_scope :: "reserve_args \<Rightarrow> budget_state \<Rightarrow> scope \<Rightarrow> bool" where
  "fits_scope a g sc \<longleftrightarrow> (\<forall>d c. cap (bs_limits g) sc d = Some c \<longrightarrow>
     load g sc d + charge d (reserved_of (rsv_request a)) (rsv_speculative a) \<le> c)"

definition fits :: "reserve_args \<Rightarrow> budget_state \<Rightarrow> bool" where
  "fits a g \<longleftrightarrow> \<not> exceeds_hard_limits (rsv_request a) (bs_limits g) \<and>
     list_all (fits_scope a g) (scopes_of a) \<and> gpus_free a g"

definition checks_pass :: "reserve_args \<Rightarrow> budget_state \<Rightarrow> bool" where
  "checks_pass a g \<longleftrightarrow>
     \<not> exceeds_hard_limits (rsv_request a) (bs_limits g) \<and>
     \<not> (rsv_speculative a \<and> max_speculation_slots (bs_limits g) \<le> su_speculation_slots (bs_global g)) \<and>
     check_run_scope (bs_limits g) (rsv_request a) (usage_of g (RunScope (rsv_run_id a))) = None \<and>
     check_task_scope (bs_limits g) (rsv_request a) (usage_of g (TaskScope (rsv_task_id a))) = None \<and>
     check_global_scope (bs_limits g) (rsv_request a) (usage_of g GlobalScope) = None \<and>
     check_worker_scope (bs_limits g) (rsv_request a) (rsv_attempt_id a)
       (usage_of g (WorkerScope (worker_key (rsv_target a)))) = None \<and>
     (\<forall>p. rsv_project_id a = Some p \<longrightarrow>
        check_project_scope (bs_limits g) (rsv_request a) (usage_of g (ProjectScope p)) = None)"

lemma usage_of_touch [simp]:
  "usage_of (g\<lparr>bs_runs := touch_usage k (bs_runs g)\<rparr>) sc = usage_of g sc"
  "usage_of (g\<lparr>bs_tasks := touch_usage k (bs_tasks g)\<rparr>) sc = usage_of g sc"
  "usage_of (g\<lparr>bs_workers := touch_usage k (bs_workers g)\<rparr>) sc = usage_of g sc"
  "usage_of (g\<lparr>bs_projects := touch_usage k (bs_projects g)\<rparr>) sc = usage_of g sc"
  by (cases sc; simp)+

lemma same_accounts_touch:
  "same_accounts g g' \<Longrightarrow> same_accounts g (g'\<lparr>bs_runs := touch_usage k (bs_runs g')\<rparr>)"
  "same_accounts g g' \<Longrightarrow> same_accounts g (g'\<lparr>bs_tasks := touch_usage k (bs_tasks g')\<rparr>)"
  "same_accounts g g' \<Longrightarrow> same_accounts g (g'\<lparr>bs_workers := touch_usage k (bs_workers g')\<rparr>)"
  "same_accounts g g' \<Longrightarrow> same_accounts g (g'\<lparr>bs_projects := touch_usage k (bs_projects g')\<rparr>)"
  by (simp_all add: same_accounts_def)

lemma reserve_new_spec:
  "\<exists>g'. same_accounts g g' \<and>
     (if checks_pass a g
      then reserve_new from_std uuid a g = map_prod id Inr (commit_reservation from_std uuid a g')
      else \<exists>e. reserve_new from_std uuid a g = (g', Inl e))"
proof -
  let ?g1 = "g\<lparr>bs_runs := touch_usage (rsv_run_id a) (bs_runs g)\<rparr>"
  let ?g2 = "?g1\<lparr>bs_tasks := touch_usage (rsv_task_id a) (bs_tasks ?g1)\<rparr>"
  let ?g3 = "?g2\<lparr>bs_workers := touch_usage (worker_key (rsv_target a)) (bs_workers ?g2)\<rparr>"
  let ?g4 = "case rsv_project_id a of None \<Rightarrow> ?g3 | Some p \<Rightarrow> ?g3\<lparr>bs_projects := touch_usage p (bs_projects ?g3)\<rparr>"
  have same: "same_accounts g ?g1" "same_accounts g ?g2" "same_accounts g ?g3" "same_accounts g ?g4"
    by (simp_all only: same_accounts_touch same_accounts_refl split: option.split) auto
  show ?thesis
  proof (cases "checks_pass a g")
    case True
    then have "reserve_new from_std uuid a g = map_prod id Inr (commit_reservation from_std uuid a ?g4)"
      by (cases "rsv_project_id a") (simp_all add: reserve_new_def checks_pass_def Let_def split: prod.split)
    with True same(4) show ?thesis by auto
  next
    case False
    then have "case reserve_new from_std uuid a g of (g', Inl e) \<Rightarrow> same_accounts g g' | _ \<Rightarrow> False"
      using same
      by (cases "rsv_project_id a")
        (simp_all add: reserve_new_def checks_pass_def Let_def split: if_split option.split, auto)
    with False show ?thesis by (auto split: prod.splits sum.splits)
  qed
qed

section \<open>The checks are the condition of fitting\<close>

lemma word_less_plus:
  fixes m u r :: "'a::len word"
  shows "unat u + unat r < 2 ^ LENGTH('a) \<Longrightarrow> m < u + r \<longleftrightarrow> unat m < unat u + unat r"
  by (simp add: word_less_nat_alt unat_add_room)

lemma all_dimension:
  "(\<forall>d. P d) \<longleftrightarrow> P Memory \<and> P Vram \<and> P Processes \<and> P Inference \<and> P Tokens \<and> P Tasks \<and> P Speculation"
  by (metis dimension.exhaust)

lemma hard_limit_charge:
  assumes "\<not> exceeds_hard_limits rq L"
  shows "charge d (reserved_of rq) sp \<le> attempt_cap L d"
  using assms by (cases d) (auto simp: exceeds_hard_limits_def reserved_of_def word_less_nat_alt)

lemma u64_bound: "unat (x :: u64) < 2 ^ 64" and u32_bound: "unat (y :: u32) < 2 ^ 32"
  using unsigned_less [of x, where 'a = nat] unsigned_less [of y, where 'a = nat] by simp_all

lemma cap_bound: "cap L sc d = Some c \<Longrightarrow> c < 2 ^ counter_width d"
  by (cases sc; cases d) (auto simp del: power_numeral intro: u64_bound u32_bound)

lemma sane_room:
  assumes "limits_sane L" "cap L sc d = Some c" "d \<noteq> Tasks" "d \<noteq> Speculation"
  shows "c + attempt_cap L d < 2 ^ counter_width d"
  using assms by (cases sc; cases d) (simp_all add: limits_sane_def)

text \<open>A request within the hard limits, on a scope within its caps: no check overflows.\<close>

lemma room:
  assumes "limits_sane L" "\<not> exceeds_hard_limits rq L" "\<And>d c. cap L sc d = Some c \<Longrightarrow> used d u \<le> c"
    "cap L sc d = Some c" "d \<noteq> Tasks" "d \<noteq> Speculation"
  shows "used d u + charge d (reserved_of rq) sp < 2 ^ counter_width d"
  using assms(3) [OF assms(4)] hard_limit_charge [OF assms(2), of d sp] sane_room [OF assms(1,4,5,6)]
  by linarith

lemma check_run_scope_iff:
  assumes "limits_sane L" "\<not> exceeds_hard_limits rq L" "\<And>d c. cap L (RunScope n) d = Some c \<Longrightarrow> used d u \<le> c"
  shows "check_run_scope L rq u = None \<longleftrightarrow>
    (\<forall>d c. cap L (RunScope n) d = Some c \<longrightarrow> used d u + charge d (reserved_of rq) sp \<le> c)"
  using room [OF assms, where d = Tokens] room [OF assms, where d = Memory]
  by (auto simp: check_run_scope_def all_dimension word_less_plus reserved_of_def word_le_nat_alt)

lemma check_task_scope_iff:
  assumes "limits_sane L" "\<not> exceeds_hard_limits rq L" "\<And>d c. cap L (TaskScope n) d = Some c \<Longrightarrow> used d u \<le> c"
  shows "check_task_scope L rq u = None \<longleftrightarrow>
    (\<forall>d c. cap L (TaskScope n) d = Some c \<longrightarrow> used d u + charge d (reserved_of rq) sp \<le> c)"
  using room [OF assms, where d = Tokens]
  by (auto simp: check_task_scope_def all_dimension word_less_plus reserved_of_def word_le_nat_alt)

lemma check_global_scope_iff:
  assumes "limits_sane L" "\<not> exceeds_hard_limits rq L" "\<And>d c. cap L GlobalScope d = Some c \<Longrightarrow> used d u \<le> c"
  shows "check_global_scope L rq u = None \<and> \<not> (sp \<and> max_speculation_slots L \<le> su_speculation_slots u) \<longleftrightarrow>
    (\<forall>d c. cap L GlobalScope d = Some c \<longrightarrow> used d u + charge d (reserved_of rq) sp \<le> c)"
  using room [OF assms, where d = Inference] room [OF assms, where d = Memory]
    room [OF assms, where d = Vram] room [OF assms, where d = Processes]
    assms(3) [of Speculation "unat (max_speculation_slots L)"]
  by (auto simp: check_global_scope_def all_dimension word_less_plus reserved_of_def word_le_nat_alt)

lemma check_worker_scope_iff:
  assumes "limits_sane L" "\<not> exceeds_hard_limits rq L" "\<And>d c. cap L (WorkerScope n) d = Some c \<Longrightarrow> used d u \<le> c"
  shows "check_worker_scope L rq att u = None \<longleftrightarrow>
    (\<forall>d c. cap L (WorkerScope n) d = Some c \<longrightarrow> used d u + charge d (reserved_of rq) sp \<le> c) \<and>
    \<not> list_ex (gpu_taken att u) (rq_gpu_devices rq)"
  using room [OF assms, where d = Inference] room [OF assms, where d = Vram]
    room [OF assms, where d = Processes]
  by (auto simp: check_worker_scope_def all_dimension word_less_plus reserved_of_def word_le_nat_alt)

lemma check_project_scope_iff:
  assumes "limits_sane L" "\<not> exceeds_hard_limits rq L" "\<And>d c. cap L (ProjectScope n) d = Some c \<Longrightarrow> used d u \<le> c"
  shows "check_project_scope L rq u = None \<longleftrightarrow>
    (\<forall>d c. cap L (ProjectScope n) d = Some c \<longrightarrow> used d u + charge d (reserved_of rq) sp \<le> c)"
  using room [OF assms, where d = Memory]
  by (auto simp: check_project_scope_def all_dimension word_less_plus reserved_of_def word_le_nat_alt)

lemma exclusive_indices_iff:
  "idx \<in> set (rd_exclusive_gpu_indices (reserved_of rq)) \<longleftrightarrow>
     (\<exists>gpu \<in> set (rq_gpu_devices rq). gr_exclusive gpu \<and> gr_device_index gpu = Some idx)"
  by (force simp: reserved_of_def map_filter_def image_iff)

lemma gpu_taken_alt:
  "gpu_taken att u gpu \<longleftrightarrow> (\<exists>idx h. gr_device_index gpu = Some idx \<and> gr_exclusive gpu \<and>
     bt_get (su_exclusive_gpus u) idx = Some h \<and> h \<noteq> att)"
  by (simp add: gpu_taken_def split: option.split)

lemma gpu_taken_iff:
  assumes "gpus_ok g" "bt_get (bs_by_attempt g) att = None" "tables_ok g"
  shows "list_ex (gpu_taken att (usage_at (bs_workers g) w)) (rq_gpu_devices rq) \<longleftrightarrow>
    (\<exists>idx \<in> set (rd_exclusive_gpu_indices (reserved_of rq)). \<exists>(rid, r) \<in> set (bs_reservations g). holds_gpu r w idx)"
proof -
  have bt: "bt_invar (bs_reservations g)" using assms(3) by (simp add: tables_ok_def)
  have holder: "bt_get (su_exclusive_gpus (usage_at (bs_workers g) w)) idx = Some h \<longleftrightarrow>
      (\<exists>rid r. (rid, r) \<in> set (bs_reservations g) \<and> holds_gpu r w idx \<and> rv_attempt_id r = h)" for idx h
    using assms(1) unfolding gpus_ok_def bt_get_iff_mem [OF bt] by blast
  have "rv_attempt_id r \<noteq> att" if "(rid, r) \<in> set (bs_reservations g)" "holds_gpu r w idx" for rid r idx
    using tables_okD(3) [OF assms(3), of rid r] assms(2) that by (auto simp: holds_gpu_def bt_get_iff_mem [OF bt])
  then have taken: "(\<exists>h. bt_get (su_exclusive_gpus (usage_at (bs_workers g) w)) idx = Some h \<and> h \<noteq> att) \<longleftrightarrow>
      (\<exists>(rid, r) \<in> set (bs_reservations g). holds_gpu r w idx)" for idx
    unfolding holder by blast
  have "list_ex (gpu_taken att (usage_at (bs_workers g) w)) (rq_gpu_devices rq) \<longleftrightarrow>
      (\<exists>idx. idx \<in> set (rd_exclusive_gpu_indices (reserved_of rq)) \<and> (\<exists>h. bt_get (su_exclusive_gpus (usage_at (bs_workers g) w)) idx = Some h \<and> h \<noteq> att))"
    unfolding list_ex_iff gpu_taken_alt exclusive_indices_iff by blast
  then show ?thesis unfolding taken by blast
qed

lemma checks_pass_iff_fits:
  assumes inv: "ledger_inv g" and free: "bt_get (bs_by_attempt g) (rsv_attempt_id a) = None"
  shows "checks_pass a g \<longleftrightarrow> fits a g"
proof (cases "exceeds_hard_limits (rsv_request a) (bs_limits g)")
  case True
  then show ?thesis by (simp add: checks_pass_def fits_def)
next
  case False
  have sane: "limits_sane (bs_limits g)" and parts: "gpus_ok g" "tables_ok g" using inv by (simp_all add: ledger_inv_def)
  have acc: "used d (usage_of g sc) = load g sc d" "used d (usage_of g sc) \<le> c"
    if "cap (bs_limits g) sc d = Some c" for sc d c
    using inv that by (auto simp: ledger_inv_def accounts_ok_def)
  have fit: "fits_scope a g sc \<longleftrightarrow> (\<forall>d c. cap (bs_limits g) sc d = Some c \<longrightarrow>
      used d (usage_of g sc) + charge d (reserved_of (rsv_request a)) (rsv_speculative a) \<le> c)" for sc
    unfolding fits_scope_def using acc(1) by metis
  have run: "check_run_scope (bs_limits g) (rsv_request a) (usage_of g (RunScope n)) = None \<longleftrightarrow>
      fits_scope a g (RunScope n)" for n
    unfolding fit by (rule check_run_scope_iff [OF sane False]) (rule acc(2))
  have task: "check_task_scope (bs_limits g) (rsv_request a) (usage_of g (TaskScope n)) = None \<longleftrightarrow>
      fits_scope a g (TaskScope n)" for n
    unfolding fit by (rule check_task_scope_iff [OF sane False]) (rule acc(2))
  have project: "check_project_scope (bs_limits g) (rsv_request a) (usage_of g (ProjectScope n)) = None \<longleftrightarrow>
      fits_scope a g (ProjectScope n)" for n
    unfolding fit by (rule check_project_scope_iff [OF sane False]) (rule acc(2))
  have global: "check_global_scope (bs_limits g) (rsv_request a) (usage_of g GlobalScope) = None \<and>
      \<not> (rsv_speculative a \<and> max_speculation_slots (bs_limits g) \<le> su_speculation_slots (usage_of g GlobalScope)) \<longleftrightarrow>
      fits_scope a g GlobalScope"
    unfolding fit by (rule check_global_scope_iff [OF sane False]) (rule acc(2))
  have worker: "check_worker_scope (bs_limits g) (rsv_request a) (rsv_attempt_id a)
      (usage_of g (WorkerScope (worker_key (rsv_target a)))) = None \<longleftrightarrow>
      fits_scope a g (WorkerScope (worker_key (rsv_target a))) \<and> gpus_free a g"
  proof -
    have "gpus_free a g \<longleftrightarrow> \<not> list_ex (gpu_taken (rsv_attempt_id a)
        (usage_of g (WorkerScope (worker_key (rsv_target a))))) (rq_gpu_devices (rsv_request a))"
      unfolding usage_of.simps gpu_taken_iff [OF parts(1) free parts(2)] gpus_free_def by blast
    then show ?thesis
      unfolding fit by (simp only:) (rule check_worker_scope_iff [OF sane False], rule acc(2))
  qed
  show ?thesis
    using False global [unfolded usage_of.simps]
    unfolding checks_pass_def fits_def scopes_of_def run task project worker
    unfolding usage_of.simps by (cases "rsv_project_id a") auto
qed

section \<open>Granting a reservation\<close>

lemma commit_fields:
  shows "bs_limits (fst (commit_reservation from_std uuid a g)) = bs_limits g"
    "bs_reservations (fst (commit_reservation from_std uuid a g)) = bt_insert (''res_'' @ uuid) (new_reservation from_std uuid a g) (bs_reservations g)"
    "bs_by_attempt (fst (commit_reservation from_std uuid a g)) = bt_insert (rsv_attempt_id a) (''res_'' @ uuid) (bs_by_attempt g)"
    "bs_reservation_bindings (fst (commit_reservation from_std uuid a g)) = bt_insert (''res_'' @ uuid)
       \<lparr>rb_project_id = rsv_project_id a, rb_request = rsv_request a\<rparr> (bs_reservation_bindings g)"
    "snd (commit_reservation from_std uuid a g) = new_reservation from_std uuid a g"
  by (simp_all add: commit_reservation_def Let_def)

lemma new_reservation_simps [simp]:
  "rv_reservation_id (new_reservation from_std uuid a g) = ''res_'' @ uuid"
  "rv_run_id (new_reservation from_std uuid a g) = rsv_run_id a"
  "rv_task_id (new_reservation from_std uuid a g) = rsv_task_id a"
  "rv_attempt_id (new_reservation from_std uuid a g) = rsv_attempt_id a"
  "rv_target_scope (new_reservation from_std uuid a g) = rsv_target a"
  "rv_resources (new_reservation from_std uuid a g) = reserved_of (rsv_request a)"
  "rv_speculative (new_reservation from_std uuid a g) = rsv_speculative a"
  "rv_state (new_reservation from_std uuid a g) = ResReserved"
  "live (new_reservation from_std uuid a g)"
  by (simp_all add: new_reservation_def live_def res_terminal_def)

lemma member_of_new:
  "member_of (rsv_project_id a) (new_reservation from_std uuid a g) sc \<longleftrightarrow> sc \<in> set (scopes_of a)"
  by (cases sc) (auto simp: scopes_of_def split: option.splits)

lemma commit_usage_of:
  "usage_of (fst (commit_reservation from_std uuid a g)) sc =
    (if sc \<in> set (scopes_of a)
     then apply_usage (reserved_of (rsv_request a)) (rsv_speculative a) True (rsv_attempt_id a) (usage_of g sc)
     else usage_of g sc)"
  by (cases sc) (auto simp: commit_reservation_def scopes_of_def Let_def split: option.splits)

lemma commit_load:
  assumes "bt_invar (bs_reservations g)" "bt_get (bs_reservations g) (''res_'' @ uuid) = None"
  shows "load (fst (commit_reservation from_std uuid a g)) sc d = load g sc d +
    (if sc \<in> set (scopes_of a) then charge d (reserved_of (rsv_request a)) (rsv_speculative a) else 0)"
proof -
  let ?g' = "fst (commit_reservation from_std uuid a g)" and ?rid = "''res_'' @ uuid"
    and ?res = "new_reservation from_std uuid a g"
  have proj: "project_of ?g' rid = (if rid = ?rid then rsv_project_id a else project_of g rid)" for rid
    by (simp add: project_of_def commit_fields)
  have "load ?g' sc d = share ?g' sc d ?rid ?res + bt_total (share ?g' sc d) (bs_reservations g)"
    unfolding load_def commit_fields using bt_total_insert_fresh [OF assms(2)] by blast
  moreover have "share ?g' sc d ?rid ?res =
      (if sc \<in> set (scopes_of a) then charge d (reserved_of (rsv_request a)) (rsv_speculative a) else 0)"
    by (simp add: share_def proj member_of_new charged_def)
  moreover have "bt_total (share ?g' sc d) (bs_reservations g) = load g sc d"
    unfolding load_def using assms by (intro bt_total_cong) (auto simp: share_def proj)
  ultimately show ?thesis by simp
qed

lemma commit_accounts:
  assumes "ledger_inv g" "fits a g" "bt_get (bs_reservations g) (''res_'' @ uuid) = None"
  shows "accounts_ok (fst (commit_reservation from_std uuid a g))"
  unfolding accounts_ok_def commit_fields
proof (intro allI impI)
  fix sc d c
  assume c: "cap (bs_limits g) sc d = Some c"
  let ?g' = "fst (commit_reservation from_std uuid a g)"
  have bt: "bt_invar (bs_reservations g)" using assms(1) by (simp add: ledger_inv_def tables_ok_def)
  have acc: "used d (usage_of g sc) = load g sc d" "load g sc d \<le> c"
    using assms(1) c by (auto simp: ledger_inv_def accounts_ok_def)
  show "used d (usage_of ?g' sc) = load ?g' sc d \<and> load ?g' sc d \<le> c"
  proof (cases "sc \<in> set (scopes_of a)")
    case True
    then have "load g sc d + charge d (reserved_of (rsv_request a)) (rsv_speculative a) \<le> c"
      using assms(2) c by (auto simp: fits_def list_all_iff fits_scope_def)
    moreover from this have "used d (usage_of g sc) + charge d (reserved_of (rsv_request a)) (rsv_speculative a)
        < 2 ^ counter_width d"
      using cap_bound [OF c] acc by linarith
    ultimately show ?thesis
      using True acc by (simp add: commit_usage_of commit_load [OF bt assms(3)] used_apply)
  next
    case False
    with acc show ?thesis by (simp add: commit_usage_of commit_load [OF bt assms(3)])
  qed
qed

lemma by_attemptE:
  assumes "tables_ok g" "bt_get (bs_by_attempt g) att = Some rid"
  obtains r where "bt_get (bs_reservations g) rid = Some r" "live r" "rv_attempt_id r = att"
  using assms unfolding tables_ok_def by blast

lemma ex_insert_fresh:
  assumes "bt_get m k0 = None"
  shows "(\<exists>k v. bt_get (bt_insert k0 v0 m) k = Some v \<and> P v) \<longleftrightarrow> P v0 \<or> (\<exists>k v. bt_get m k = Some v \<and> P v)"
proof
  assume "\<exists>k v. bt_get (bt_insert k0 v0 m) k = Some v \<and> P v"
  then show "P v0 \<or> (\<exists>k v. bt_get m k = Some v \<and> P v)" by (auto split: if_splits)
next
  assume "P v0 \<or> (\<exists>k v. bt_get m k = Some v \<and> P v)"
  then obtain k v where "k = k0 \<and> v = v0 \<or> k \<noteq> k0 \<and> bt_get m k = Some v" "P v"
    using assms by (metis option.distinct(1))
  then show "\<exists>k v. bt_get (bt_insert k0 v0 m) k = Some v \<and> P v" by (intro exI [of _ k] exI [of _ v]) auto
qed

lemma commit_tables:
  assumes "tables_ok g" "bt_get (bs_reservations g) (''res_'' @ uuid) = None"
    "bt_get (bs_by_attempt g) (rsv_attempt_id a) = None"
  shows "tables_ok (fst (commit_reservation from_std uuid a g))"
  unfolding tables_ok_def commit_fields
proof (intro conjI allI impI)
  show "bt_invar (bt_insert (''res_'' @ uuid) (new_reservation from_std uuid a g) (bs_reservations g))"
    using assms(1) by (simp add: tables_ok_def)
next
  fix rid r
  assume r: "bt_get (bt_insert (''res_'' @ uuid) (new_reservation from_std uuid a g) (bs_reservations g)) rid = Some r"
  note old = tables_okD [OF assms(1), of rid r]
  show "rv_reservation_id r = rid" "rv_state r \<noteq> ResProposed" using r old by (auto split: if_splits)
  assume "live r"
  then show "bt_get (bt_insert (rsv_attempt_id a) (''res_'' @ uuid) (bs_by_attempt g)) (rv_attempt_id r) = Some rid"
    "bt_get (bt_insert (''res_'' @ uuid) \<lparr>rb_project_id = rsv_project_id a, rb_request = rsv_request a\<rparr>
      (bs_reservation_bindings g)) rid \<noteq> None"
    using r old assms(3) by (auto split: if_splits)
next
  fix att rid
  assume att: "bt_get (bt_insert (rsv_attempt_id a) (''res_'' @ uuid) (bs_by_attempt g)) att = Some rid"
  show "\<exists>r. bt_get (bt_insert (''res_'' @ uuid) (new_reservation from_std uuid a g) (bs_reservations g)) rid = Some r
      \<and> live r \<and> rv_attempt_id r = att"
  proof (cases "att = rsv_attempt_id a")
    case True
    with att show ?thesis by auto
  next
    case False
    with att have "bt_get (bs_by_attempt g) att = Some rid" by simp
    then obtain r where "bt_get (bs_reservations g) rid = Some r" "live r" "rv_attempt_id r = att"
      by (rule by_attemptE [OF assms(1)])
    with assms(2) show ?thesis by (auto split: if_splits)
  qed
qed

lemma fold_insert_get:
  "bt_get (fold (\<lambda>i m. bt_insert i v m) is m) k = (if k \<in> set is then Some v else bt_get m k)"
  by (induction "is" arbitrary: m) auto

lemma fold_insert_invar: "bt_invar m \<Longrightarrow> bt_invar (fold (\<lambda>i m. bt_insert i v m) is m)"
  by (induction "is" arbitrary: m) auto

lemma commit_gpus:
  assumes "gpus_ok g" "tables_ok g" "gpus_free a g" "bt_get (bs_reservations g) (''res_'' @ uuid) = None"
  shows "gpus_ok (fst (commit_reservation from_std uuid a g))"
proof -
  let ?g' = "fst (commit_reservation from_std uuid a g)" and ?rid = "''res_'' @ uuid"
    and ?res = "new_reservation from_std uuid a g"
    and ?ids = "rd_exclusive_gpu_indices (reserved_of (rsv_request a))" and ?wk = "worker_key (rsv_target a)"
  let ?gpus = "\<lambda>g w. su_exclusive_gpus (usage_at (bs_workers g) w)"
  have bt: "bt_invar (bs_reservations g)" using assms(2) by (simp add: tables_ok_def)
  have w: "?gpus ?g' w = (if w = ?wk then fold (\<lambda>i m. bt_insert i (rsv_attempt_id a) m) ?ids (?gpus g w)
      else ?gpus g w)" for w
    using commit_usage_of [of from_std uuid a g "WorkerScope w"]
    by (auto simp: apply_usage_def scopes_of_def split: option.splits)
  have holder: "bt_get (?gpus g w) idx = Some att \<longleftrightarrow>
      (\<exists>k r'. bt_get (bs_reservations g) k = Some r' \<and> holds_gpu r' w idx \<and> rv_attempt_id r' = att)" for w idx att
    using assms(1) unfolding gpus_ok_def by blast
  have free: "\<not> holds_gpu r ?wk idx" if "idx \<in> set ?ids" "bt_get (bs_reservations g) k = Some r" for idx k r
    using assms(3) that unfolding gpus_free_def bt_get_iff_mem [OF bt] by blast
  have new: "holds_gpu ?res w idx \<longleftrightarrow> w = ?wk \<and> idx \<in> set ?ids" for w idx
    by (auto simp: holds_gpu_def)
  have "(\<exists>k r'. bt_get (bs_reservations ?g') k = Some r' \<and> holds_gpu r' w idx \<and> rv_attempt_id r' = att) \<longleftrightarrow>
      holds_gpu ?res w idx \<and> att = rsv_attempt_id a \<or> bt_get (?gpus g w) idx = Some att" for w idx att
    unfolding holder commit_fields ex_insert_fresh [OF assms(4)] by auto
  moreover have "bt_get (?gpus ?g' w) idx = Some att \<longleftrightarrow>
      holds_gpu ?res w idx \<and> att = rsv_attempt_id a \<or> bt_get (?gpus g w) idx = Some att" for w idx att
  proof (cases "w = ?wk \<and> idx \<in> set ?ids")
    case True
    then have "bt_get (?gpus g w) idx \<noteq> Some att" using free unfolding holder by blast
    with True show ?thesis by (auto simp: w new fold_insert_get)
  next
    case False
    then show ?thesis by (auto simp: w new fold_insert_get)
  qed
  moreover have "bt_invar (?gpus ?g' w)" for w
    using assms(1) by (simp add: w gpus_ok_def fold_insert_invar)
  ultimately show ?thesis unfolding gpus_ok_def by blast
qed

lemma commit_inv:
  assumes "ledger_inv g" "fits a g" "bt_get (bs_reservations g) (''res_'' @ uuid) = None"
    "bt_get (bs_by_attempt g) (rsv_attempt_id a) = None"
  shows "ledger_inv (fst (commit_reservation from_std uuid a g))"
  using assms commit_accounts [OF assms(1-3)] commit_tables [OF _ assms(3,4)] commit_gpus [OF _ _ _ assms(3)]
  by (simp add: ledger_inv_def commit_fields fits_def)

end
