(* ===== verification/Ledger_Machine.thy ===== *)
theory Ledger_Machine
  imports Reserve
begin

text \<open>
  Every operation of the budget ledger keeps the accounting invariant, and the ledger is an instance
  of \<open>command_machine\<close>. An operation is legal when it is called as the broker calls it: a fresh UUID is
  not the suffix of a recorded reservation id, a release ends in a terminal state, and no
  reservation is moved back to \<open>Proposed\<close>.
\<close>

section \<open>\<open>reserve\<close>\<close>

lemma active_reservation_None:
  assumes "tables_ok g"
  shows "active_reservation g att = None \<longleftrightarrow> bt_get (bs_by_attempt g) att = None"
proof (cases "bt_get (bs_by_attempt g) att")
  case (Some rid)
  then obtain r where "bt_get (bs_reservations g) rid = Some r" "live r" by (rule by_attemptE [OF assms])
  with Some tables_okD(2) [OF assms this(1)] show ?thesis
    by (simp add: active_reservation_def live_cases)
qed (simp add: active_reservation_def)

lemma active_reservationD:
  assumes "tables_ok g" "active_reservation g att = Some (rid, r)"
  shows "bt_get (bs_reservations g) rid = Some r" "live r" "rv_attempt_id r = att"
    "bt_get (bs_reservation_bindings g) rid \<noteq> None"
proof -
  from assms(2) have b: "bt_get (bs_by_attempt g) att = Some rid" and r: "bt_get (bs_reservations g) rid = Some r"
    by (auto simp: active_reservation_def split: option.splits if_splits)
  from by_attemptE [OF assms(1) b] r have "live r \<and> rv_attempt_id r = att" by (metis option.inject)
  with r tables_okD(4) [OF assms(1) r] show "bt_get (bs_reservations g) rid = Some r" "live r"
    "rv_attempt_id r = att" "bt_get (bs_reservation_bindings g) rid \<noteq> None" by auto
qed

lemma same_accounts_fits: "same_accounts g g' \<Longrightarrow> fits a g' = fits a g"
  using same_accounts_load [of g g']
  by (simp add: fits_def gpus_free_def fits_scope_def same_accounts_def cong: list.pred_cong)

lemma reserve_new_cases:
  assumes "ledger_inv g" "bt_get (bs_by_attempt g) (rsv_attempt_id a) = None"
  obtains (granted) g' where "same_accounts g g'" "ledger_inv g'" "fits a g" "fits a g'"
      "reserve_new from_std uuid a g = (fst (commit_reservation from_std uuid a g'),
         Inr (new_reservation from_std uuid a g'))"
  | (refused) g' e where "same_accounts g g'" "ledger_inv g'" "\<not> fits a g"
      "reserve_new from_std uuid a g = (g', Inl e)"
proof -
  obtain g' where g': "same_accounts g g'"
    and r: "if checks_pass a g
      then reserve_new from_std uuid a g = map_prod id Inr (commit_reservation from_std uuid a g')
      else \<exists>e. reserve_new from_std uuid a g = (g', Inl e)"
    using reserve_new_spec [of g a from_std uuid] by blast
  note inv = same_accounts_inv [OF g' assms(1)]
  show thesis
  proof (cases "fits a g")
    case True
    with r have "reserve_new from_std uuid a g = map_prod id Inr (commit_reservation from_std uuid a g')"
      by (simp add: checks_pass_iff_fits [OF assms])
    also have "\<dots> = (fst (commit_reservation from_std uuid a g'), Inr (new_reservation from_std uuid a g'))"
      by (cases "commit_reservation from_std uuid a g'") (use commit_fields(5) [of from_std uuid a g'] in simp)
    finally show thesis using g' inv True by (intro granted) (simp_all add: same_accounts_fits [OF g'])
  next
    case False
    with r g' inv show thesis by (auto simp: checks_pass_iff_fits [OF assms] intro: refused)
  qed
qed

lemma reserve_new_inv:
  assumes "ledger_inv g" "bt_get (bs_by_attempt g) (rsv_attempt_id a) = None"
    "bt_get (bs_reservations g) (''res_'' @ uuid) = None"
  shows "ledger_inv (fst (reserve_new from_std uuid a g))"
  by (rule reserve_new_cases [OF assms(1,2), of from_std uuid])
    (use assms(2,3) in \<open>simp_all add: commit_inv same_accounts_def\<close>)

lemma drop_all_Nil [simp]: "drop_all t [] g = g"
  by (simp add: drop_all_def)

lemma drop_all_Cons [simp]: "drop_all t (rid # ids) g = drop_all t ids (drop_reservation_locked rid t g)"
  by (simp add: drop_all_def)

lemma drop_all_reservations:
  assumes "res_terminal t"
  shows "bt_get (bs_reservations (drop_all t ids g)) k =
     map_option (\<lambda>r. if k \<in> set ids \<and> live r then r\<lparr>rv_state := t\<rparr> else r) (bt_get (bs_reservations g) k)"
proof (induction ids arbitrary: g)
  case Nil
  show ?case by (simp add: option.map_ident)
next
  case (Cons rid ids)
  have "\<not> live (r\<lparr>rv_state := t\<rparr>)" for r using assms by (simp add: live_def)
  then show ?case by (simp add: Cons.IH drop_reservations option.map_comp comp_def cong: option.map_cong_simp)
      (cases "bt_get (bs_reservations g) k"; auto)
qed

lemma drop_all_limits [simp]: "bs_limits (drop_all t ids g) = bs_limits g"
  by (induction ids arbitrary: g) simp_all

lemma expire_inv: "ledger_inv g \<Longrightarrow> ledger_inv (expire_in now g)"
  by (simp add: expire_in_def drop_all_inv res_terminal_def)

lemma expire_fresh: "bt_get (bs_reservations (expire_in now g)) k = None \<longleftrightarrow> bt_get (bs_reservations g) k = None"
  by (simp add: expire_in_def drop_all_reservations res_terminal_def)

lemma reserve_inv:
  assumes "ledger_inv g" "bt_get (bs_reservations g) (''res_'' @ uuid) = None"
  shows "ledger_inv (fst (reserve from_std uuid a g))"
proof -
  let ?g = "expire_in (rsv_now a) g"
  have inv: "ledger_inv ?g" using assms(1) by (rule expire_inv)
  show ?thesis
  proof (cases "active_reservation ?g (rsv_attempt_id a)")
    case None
    with inv have "bt_get (bs_by_attempt ?g) (rsv_attempt_id a) = None"
      by (simp add: active_reservation_None ledger_inv_def)
    with inv assms(2) None show ?thesis by (simp add: reserve_def Let_def reserve_new_inv expire_fresh)
  next
    case (Some p)
    with inv show ?thesis by (auto simp: reserve_def Let_def split: option.split prod.split)
  qed
qed

section \<open>Moving a live reservation on\<close>

definition restated :: "string \<Rightarrow> reservation_state \<Rightarrow> budget_state \<Rightarrow> budget_state" where
  "restated rid st g =
     g\<lparr>bs_reservations := bt_modify rid (\<lambda>r. r\<lparr>rv_state := st\<rparr>) (bs_reservations g)\<rparr>"

lemma restated_simps [simp]:
  "bs_limits (restated rid st g) = bs_limits g"
  "bs_by_attempt (restated rid st g) = bs_by_attempt g"
  "bs_reservation_bindings (restated rid st g) = bs_reservation_bindings g"
  "bs_workers (restated rid st g) = bs_workers g"
  "usage_of (restated rid st g) sc = usage_of g sc"
  by (simp_all add: restated_def) (cases sc; simp)

lemma restated_get:
  "bt_get (bs_reservations (restated rid st g)) k =
     (case bt_get (bs_reservations g) k of None \<Rightarrow> None
      | Some r \<Rightarrow> Some (if k = rid then r\<lparr>rv_state := st\<rparr> else r))"
  by (simp add: restated_def split: option.split)

lemma restated_load:
  assumes "tables_ok g" "bt_get (bs_reservations g) rid = Some r" "live r" "\<not> res_terminal st"
  shows "load (restated rid st g) sc d = load g sc d"
proof -
  have bt: "bt_invar (bs_reservations g)" using assms(1) by (simp add: tables_ok_def)
  have m: "member_of p (r\<lparr>rv_state := st\<rparr>) sc = member_of p r sc" for p by (cases sc) simp_all
  have "share (restated rid st g) sc d = share g sc d" by (simp add: share_def project_of_def fun_eq_iff)
  moreover have "share g sc d rid (r\<lparr>rv_state := st\<rparr>) = share g sc d rid r"
    using assms(3,4) m by (simp add: share_def charged_def live_def)
  ultimately show ?thesis
    using bt_total_modify [OF bt assms(2), of "share g sc d" "\<lambda>r. r\<lparr>rv_state := st\<rparr>"]
    by (simp add: load_def restated_def)
qed

text \<open>A live reservation stays live, and keeps its attempt, target and resources.\<close>

lemma restated_live_iff:
  assumes "bt_get (bs_reservations g) rid = Some r" "live r" "\<not> res_terminal st"
    and P: "\<And>r. P (r\<lparr>rv_state := st\<rparr>) \<longleftrightarrow> P r"
  shows "(\<exists>r'. bt_get (bs_reservations (restated rid st g)) k = Some r' \<and> live r' \<and> P r') \<longleftrightarrow>
    (\<exists>r'. bt_get (bs_reservations g) k = Some r' \<and> live r' \<and> P r')"
proof (cases "k = rid")
  case True
  have "live (r\<lparr>rv_state := st\<rparr>)" using assms(3) by (simp add: live_def)
  with True assms(1,2) show ?thesis by (simp add: restated_get P)
next
  case False
  then show ?thesis by (simp add: restated_get split: option.split)
qed

lemma restated_tables:
  assumes "tables_ok g" "bt_get (bs_reservations g) rid = Some r" "live r" "\<not> res_terminal st" "st \<noteq> ResProposed"
  shows "tables_ok (restated rid st g)"
  unfolding tables_ok_def restated_simps
proof (intro conjI allI impI)
  show "bt_invar (bs_reservations (restated rid st g))"
    using assms(1) by (simp add: tables_ok_def restated_def)
next
  fix k r'
  assume "bt_get (bs_reservations (restated rid st g)) k = Some r'"
  then obtain r0 where r0: "bt_get (bs_reservations g) k = Some r0"
    and r': "r' = (if k = rid then r0\<lparr>rv_state := st\<rparr> else r0)"
    by (auto simp: restated_get split: option.splits)
  show "rv_reservation_id r' = k" "rv_state r' \<noteq> ResProposed"
    using tables_okD(1,2) [OF assms(1) r0] assms(5) by (simp_all add: r')
  assume "live r'"
  then have "live r0" using r0 assms(2,3) by (cases "k = rid") (simp_all add: r')
  then show "bt_get (bs_by_attempt g) (rv_attempt_id r') = Some k" "bt_get (bs_reservation_bindings g) k \<noteq> None"
    using tables_okD(3,4) [OF assms(1) r0] by (simp_all add: r')
next
  fix att k
  assume "bt_get (bs_by_attempt g) att = Some k"
  then show "\<exists>r. bt_get (bs_reservations (restated rid st g)) k = Some r \<and> live r \<and> rv_attempt_id r = att"
    by (subst restated_live_iff [OF assms(2-4)]) (auto elim: by_attemptE [OF assms(1)])
qed

lemma restated_inv:
  assumes "ledger_inv g" "bt_get (bs_reservations g) rid = Some r" "live r" "\<not> res_terminal st" "st \<noteq> ResProposed"
  shows "ledger_inv (restated rid st g)"
proof -
  have t: "tables_ok g" using assms(1) by (simp add: ledger_inv_def)
  have "(\<exists>k r'. bt_get (bs_reservations (restated rid st g)) k = Some r' \<and> holds_gpu r' w idx \<and> rv_attempt_id r' = att) \<longleftrightarrow>
      (\<exists>k r'. bt_get (bs_reservations g) k = Some r' \<and> holds_gpu r' w idx \<and> rv_attempt_id r' = att)" for w idx att
    using restated_live_iff [OF assms(2-4), of "\<lambda>r. worker_key (rv_target_scope r) = w \<and>
      idx \<in> set (rd_exclusive_gpu_indices (rv_resources r)) \<and> rv_attempt_id r = att"]
    by (simp add: holds_gpu_def)
  then have "gpus_ok (restated rid st g)" using assms(1) by (simp add: ledger_inv_def gpus_ok_def)
  moreover have "accounts_ok (restated rid st g)"
    using assms(1) by (simp add: ledger_inv_def accounts_ok_def restated_load [OF t assms(2-4)])
  ultimately show ?thesis
    using assms(1) restated_tables [OF t assms(2-5)] by (simp add: ledger_inv_def)
qed

lemma res_transition_inv:
  assumes "ledger_inv g" "st \<noteq> ResProposed"
  shows "ledger_inv (fst (res_transition rid st g))"
proof (cases "bt_get (bs_reservations g) rid")
  case (Some r)
  with assms show ?thesis
    using restated_inv [OF assms(1) Some] by (auto simp: res_transition_def drop_inv live_def restated_def)
qed (use assms in \<open>simp add: res_transition_def\<close>)

section \<open>The machine\<close>

datatype ledger_op =
  OpReserve string reserve_args
| OpTransition string reservation_state
| OpRelease string reservation_state
| OpReleaseAttempt attempt_id reservation_state
| OpReleaseForRun run_id reservation_state
| OpReleaseForWorker worker_id reservation_state
| OpEnforceActualUsage attempt_id reserved_resources
| OpReconcileUncertain timestamp

fun ledger_apply :: "(int \<Rightarrow> int option) \<Rightarrow> budget_state \<Rightarrow> ledger_op \<Rightarrow> budget_state" where
  "ledger_apply from_std g (OpReserve uuid a) = fst (reserve from_std uuid a g)"
| "ledger_apply from_std g (OpTransition rid st) = fst (res_transition rid st g)"
| "ledger_apply from_std g (OpRelease rid t) = release rid t g"
| "ledger_apply from_std g (OpReleaseAttempt att t) = release_attempt att t g"
| "ledger_apply from_std g (OpReleaseForRun r t) = fst (release_for_run r t g)"
| "ledger_apply from_std g (OpReleaseForWorker w t) = fst (release_for_worker w t g)"
| "ledger_apply from_std g (OpEnforceActualUsage att actual) = fst (enforce_actual_usage att actual g)"
| "ledger_apply from_std g (OpReconcileUncertain now) = fst (reconcile_uncertain now g)"

fun op_legal :: "budget_state \<Rightarrow> ledger_op \<Rightarrow> bool" where
  "op_legal g (OpReserve uuid a) \<longleftrightarrow> bt_get (bs_reservations g) (''res_'' @ uuid) = None"
| "op_legal g (OpTransition rid st) \<longleftrightarrow> st \<noteq> ResProposed"
| "op_legal g (OpRelease rid t) \<longleftrightarrow> res_terminal t"
| "op_legal g (OpReleaseAttempt att t) \<longleftrightarrow> res_terminal t"
| "op_legal g (OpReleaseForRun r t) \<longleftrightarrow> res_terminal t"
| "op_legal g (OpReleaseForWorker w t) \<longleftrightarrow> res_terminal t"
| "op_legal g (OpEnforceActualUsage att actual) \<longleftrightarrow> True"
| "op_legal g (OpReconcileUncertain now) \<longleftrightarrow> True"

definition ledger_step :: "(int \<Rightarrow> int option) \<Rightarrow> budget_state \<Rightarrow> ledger_op \<Rightarrow> (budget_reject, budget_state) result" where
  "ledger_step from_std g c = Ok (ledger_apply from_std g c)"

lemma fold_release: "fold (\<lambda>rid. release rid t) ids g = drop_all t ids g"
  by (simp add: drop_all_def release_def [abs_def])

lemma ledger_apply_inv:
  assumes "ledger_inv g" "op_legal g c"
  shows "ledger_inv (ledger_apply from_std g c)"
proof (cases c)
  case (OpReserve uuid a)
  with assms show ?thesis by (simp add: reserve_inv)
next
  case (OpReleaseAttempt att t)
  with assms show ?thesis by (simp add: release_attempt_def release_def drop_inv split: option.split)
next
  case (OpEnforceActualUsage att actual)
  with assms show ?thesis
    by (simp add: enforce_actual_usage_def release_def drop_inv res_terminal_def Let_def split: option.split)
next
  case (OpReconcileUncertain now)
  with assms show ?thesis
    by (simp add: reconcile_uncertain_def Let_def drop_all_inv expire_inv res_terminal_def)
qed (use assms in \<open>simp_all add: res_transition_inv release_def drop_inv release_for_run_def
  release_for_worker_def fold_release drop_all_inv Let_def\<close>)

interpretation ledger: command_machine "ledger_step from_std" op_legal ledger_inv for from_std
  by unfold_locales (auto simp: ledger_step_def ledger_apply_inv)

lemma ledger_new_inv:
  assumes "limits_sane L"
  shows "ledger_inv (ledger_new L)"
proof -
  have "usage_of (ledger_new L) sc = default_scope_usage" for sc
    by (cases sc) (simp_all add: ledger_new_def usage_at_def)
  then have "accounts_ok (ledger_new L)" by (simp add: accounts_ok_def load_def ledger_new_def)
  moreover have "gpus_ok (ledger_new L)" by (simp add: gpus_ok_def ledger_new_def usage_at_def default_scope_usage_def)
  ultimately show ?thesis using assms by (simp add: ledger_inv_def tables_ok_def ledger_new_def)
qed

end
