(* ===== verification/Ledger_Properties.thy ===== *)
theory Ledger_Properties
  imports Ledger_Machine
begin

text \<open>
  What the budget ledger guarantees in every state its operations can reach, with a small ledger on
  the default limits as the concrete instance: two attempts of one run, the second one holding a
  device of a worker exclusively.
\<close>

section \<open>A concrete ledger\<close>

definition demo_request :: resource_request where
  "demo_request = default_resource_request\<lparr>rq_gpu_devices :=
     [\<lparr>gr_device_index = Some 0, gr_exclusive = True, gr_min_vram_bytes = 0\<rparr>], rq_vram_bytes := 1024\<rparr>"

definition demo_reserve_local :: reserve_args where
  "demo_reserve_local = \<lparr>rsv_run_id = ''r'', rsv_task_id = ''t'', rsv_attempt_id = ''a1'',
     rsv_project_id = Some ''p'', rsv_target = TargetLocal, rsv_request = default_resource_request,
     rsv_speculative = False, rsv_now = 100\<rparr>"

definition demo_reserve_worker :: reserve_args where
  "demo_reserve_worker = \<lparr>rsv_run_id = ''r'', rsv_task_id = ''t'', rsv_attempt_id = ''a2'',
     rsv_project_id = None, rsv_target = TargetWorker ''w'', rsv_request = demo_request,
     rsv_speculative = True, rsv_now = 200\<rparr>"

definition demo_ledger :: budget_state where
  "demo_ledger = ledger_apply Some (ledger_apply Some (ledger_new default_budget_limits)
     (OpReserve ''1'' demo_reserve_local)) (OpReserve ''2'' demo_reserve_worker)"

lemma default_limits_sane: "limits_sane default_budget_limits"
  by (simp add: limits_sane_def default_budget_limits_def)

lemma ledger_reaches_step:
  "ledger.reaches f g g' \<Longrightarrow> op_legal g' c \<Longrightarrow> ledger.reaches f g (ledger_apply f g' c)"
  by (rule ledger.step [where c = c]) (simp_all add: ledger_step_def)

lemma demo_ledger_reaches: "ledger.reaches Some (ledger_new default_budget_limits) demo_ledger"
proof -
  have "op_legal (ledger_new default_budget_limits) (OpReserve ''1'' demo_reserve_local)"
    "op_legal (ledger_apply Some (ledger_new default_budget_limits) (OpReserve ''1'' demo_reserve_local))
      (OpReserve ''2'' demo_reserve_worker)"
    by code_simp+
  then show ?thesis unfolding demo_ledger_def by (intro ledger_reaches_step ledger.refl)
qed

section \<open>Reachable ledgers\<close>

lemma reserve_limits: "bs_limits (fst (reserve from_std uuid a g)) = bs_limits g"
  if "ledger_inv g"
proof -
  let ?g = "expire_in (rsv_now a) g"
  have lim: "bs_limits ?g = bs_limits g" by (simp add: expire_in_def)
  have inv: "ledger_inv ?g" using that by (rule expire_inv)
  show ?thesis
  proof (cases "active_reservation ?g (rsv_attempt_id a)")
    case None
    with inv have "bt_get (bs_by_attempt ?g) (rsv_attempt_id a) = None"
      by (simp add: active_reservation_None ledger_inv_def)
    then have "bs_limits (fst (reserve_new from_std uuid a ?g)) = bs_limits ?g"
      by (rule reserve_new_cases [OF inv, of a from_std uuid]) (simp_all add: commit_fields same_accounts_def)
    with None lim show ?thesis by (simp add: reserve_def Let_def)
  next
    case (Some p)
    with lim show ?thesis by (auto simp: reserve_def Let_def split: option.split prod.split)
  qed
qed

lemma ledger_apply_limits: "ledger_inv g \<Longrightarrow> bs_limits (ledger_apply from_std g c) = bs_limits g"
  by (cases c)
    (simp_all add: reserve_limits res_transition_def release_def release_attempt_def
      release_for_run_def release_for_worker_def fold_release enforce_actual_usage_def
      reconcile_uncertain_def expire_in_def Let_def split: option.split)

lemma ledger_reaches_inv:
  assumes "ledger.reaches from_std (ledger_new L) g" "limits_sane L"
  shows "ledger_inv g" and "bs_limits g = L"
proof -
  note init = ledger_new_inv [OF assms(2)]
  show "ledger_inv g" using assms(1) init by (rule ledger.reaches_inv)
  have "bs_limits g = bs_limits (ledger_new L)"
    using assms(1) init
    by (rule ledger.reaches_respects) (auto simp: ledger_step_def ledger_apply_limits)
  then show "bs_limits g = L" by (simp add: ledger_new_def)
qed

section \<open>Properties\<close>

text \<open>C7: budgets are never oversubscribed: in every reachable ledger, for every scope and every resource
  the ledger limits there, what the live reservations hold together is within the limit, and the
  scope's counter is exactly that amount.\<close>

theorem ledger_never_oversubscribed:
  assumes "ledger.reaches from_std (ledger_new L) g" and "limits_sane L" and "cap L sc d = Some c"
  shows "load g sc d \<le> c \<and> used d (usage_of g sc) = load g sc d"
  using ledger_reaches_inv [OF assms(1,2)] assms(3) by (auto simp: ledger_inv_def accounts_ok_def)

theorem ledger_never_oversubscribed_witness:
  "load demo_ledger (RunScope ''r'') Tokens = 2 * 8192 \<and> used Tokens (usage_of demo_ledger (RunScope ''r'')) = 2 * 8192"
proof -
  have "unat (su_token_budget (usage_of demo_ledger (RunScope ''r''))) = 2 * 8192"
  proof -
    have "su_token_budget (usage_of demo_ledger (RunScope ''r'')) = 2 * 8192" by code_simp
    then show ?thesis by simp
  qed
  then show ?thesis
    using ledger_never_oversubscribed [OF demo_ledger_reaches default_limits_sane, of "RunScope ''r''" Tokens] by simp
qed

text \<open>C8: admission to the budget is exact: for an attempt without an active reservation, once expired
  reservations are returned, \<open>reserve\<close> grants the request if and only if it is within the
  per-attempt limits, fits every scope it is charged to, and wants no device another reservation
  holds exclusively.\<close>

theorem reserve_grants_iff_fits:
  assumes "ledger.reaches from_std (ledger_new L) g" and "limits_sane L"
    and "active_reservation (expire_in (rsv_now a) g) (rsv_attempt_id a) = None"
  shows "(\<exists>r. snd (reserve from_std uuid a g) = Inr r) \<longleftrightarrow> fits a (expire_in (rsv_now a) g)"
proof -
  let ?g = "expire_in (rsv_now a) g"
  have inv: "ledger_inv ?g" using ledger_reaches_inv [OF assms(1,2)] by (simp add: expire_inv)
  with assms(3) have "bt_get (bs_by_attempt ?g) (rsv_attempt_id a) = None"
    by (simp add: active_reservation_None ledger_inv_def)
  then have "(\<exists>r. snd (reserve_new from_std uuid a ?g) = Inr r) \<longleftrightarrow> fits a ?g"
    by (rule reserve_new_cases [OF inv, of a from_std uuid]) simp_all
  with assms(3) show ?thesis by (simp add: reserve_def Let_def)
qed

theorem reserve_grants_iff_fits_witness:
  "fits (demo_reserve_local\<lparr>rsv_attempt_id := ''a3''\<rparr>) (expire_in 100 demo_ledger) \<and>
   \<not> fits (demo_reserve_worker\<lparr>rsv_attempt_id := ''a3''\<rparr>) (expire_in 200 demo_ledger)"
proof -
  let ?a = "demo_reserve_local\<lparr>rsv_attempt_id := ''a3''\<rparr>" and ?b = "demo_reserve_worker\<lparr>rsv_attempt_id := ''a3''\<rparr>"
  have now: "rsv_now ?a = 100" "rsv_now ?b = 200" by (simp_all add: demo_reserve_local_def demo_reserve_worker_def)
  have "active_reservation (expire_in (rsv_now ?a) demo_ledger) (rsv_attempt_id ?a) = None"
    "active_reservation (expire_in (rsv_now ?b) demo_ledger) (rsv_attempt_id ?b) = None"
    "\<not> isl (snd (reserve Some ''3'' ?a demo_ledger))" "isl (snd (reserve Some ''3'' ?b demo_ledger))"
    by code_simp+
  with reserve_grants_iff_fits [OF demo_ledger_reaches default_limits_sane, of ?a "''3''"]
    reserve_grants_iff_fits [OF demo_ledger_reaches default_limits_sane, of ?b "''3''"] now
  show ?thesis by (metis isl_def sum.collapse(2) Inl_Inr_False)
qed

text \<open>Reservations are exclusive: in every reachable ledger an attempt has at most one live
  reservation, and an exclusively reserved device of a worker belongs to at most one.\<close>

lemma live_reservation_unique:
  assumes "ledger.reaches from_std (ledger_new L) g" and "limits_sane L"
    and "bt_get (bs_reservations g) rid1 = Some r1" and "live r1"
    and "bt_get (bs_reservations g) rid2 = Some r2" and "live r2"
    and "rv_attempt_id r1 = rv_attempt_id r2 \<or> (\<exists>w idx. holds_gpu r1 w idx \<and> holds_gpu r2 w idx)"
  shows "rid1 = rid2"
proof -
  have t: "tables_ok g" and gp: "gpus_ok g" using ledger_reaches_inv(1) [OF assms(1,2)] by (simp_all add: ledger_inv_def)
  have "rv_attempt_id r1 = rv_attempt_id r2"
    using assms(7)
  proof
    assume "\<exists>w idx. holds_gpu r1 w idx \<and> holds_gpu r2 w idx"
    then obtain w idx where h: "holds_gpu r1 w idx" "holds_gpu r2 w idx" by blast
    have holder: "bt_get (su_exclusive_gpus (usage_at (bs_workers g) w)) idx = Some (rv_attempt_id r)"
      if "bt_get (bs_reservations g) rid = Some r" "holds_gpu r w idx" for rid r
      using gp that unfolding gpus_ok_def by blast
    from holder [OF assms(3) h(1)] holder [OF assms(5) h(2)] show ?thesis by simp
  qed
  then show ?thesis using tables_okD(3) [OF t assms(3,4)] tables_okD(3) [OF t assms(5,6)] by simp
qed

section \<open>Repeated requests\<close>

lemma drop_all_bindings:
  "rid \<notin> set ids \<Longrightarrow> bt_get (bs_reservation_bindings (drop_all t ids g)) rid = bt_get (bs_reservation_bindings g) rid"
  by (induction ids arbitrary: g)
    (auto simp: drop_reservation_locked_def Let_def split: option.splits)

lemma mem_ids_where:
  assumes "tables_ok g"
  shows "rid \<in> set (ids_where P g) \<longleftrightarrow> (\<exists>r. bt_get (bs_reservations g) rid = Some r \<and> P r)"
proof -
  have "bt_invar (bs_reservations g)" using assms by (simp add: tables_ok_def)
  then show ?thesis
    using tables_okD(1) [OF assms] by (fastforce simp: ids_where_def bt_values_iff)
qed

lemma expire_keeps:
  assumes inv: "ledger_inv g" and r: "bt_get (bs_reservations g) rid = Some r" "live r"
    and now: "\<not> (rv_state r = ResReserved \<and> rv_expires_at r \<le> now)"
  shows "active_reservation (expire_in now g) (rv_attempt_id r) = Some (rid, r)"
    and "bt_get (bs_reservation_bindings (expire_in now g)) rid = bt_get (bs_reservation_bindings g) rid"
proof -
  let ?ids = "ids_where (\<lambda>r. rv_state r \<in> {ResReserved, ResProposed} \<and> rv_expires_at r \<le> now) g"
  have t: "tables_ok g" using inv by (simp add: ledger_inv_def)
  have out: "rid \<notin> set ?ids" using r now tables_okD(2) [OF t r(1)] by (auto simp: mem_ids_where [OF t])
  then show "bt_get (bs_reservation_bindings (expire_in now g)) rid = bt_get (bs_reservation_bindings g) rid"
    by (simp add: expire_in_def drop_all_bindings)
  have r': "bt_get (bs_reservations (expire_in now g)) rid = Some r"
    using out r by (simp add: expire_in_def drop_all_reservations res_terminal_def)
  moreover have t': "tables_ok (expire_in now g)" using expire_inv [OF inv] by (simp add: ledger_inv_def)
  ultimately show "active_reservation (expire_in now g) (rv_attempt_id r) = Some (rid, r)"
    using tables_okD(2,3) [OF t' r'] r(2) by (simp add: active_reservation_def live_cases)
qed

lemma reserve_granted:
  assumes inv: "ledger_inv g" and "snd (reserve from_std uuid a g) = Inr r"
    and "bt_get (bs_reservations g) (''res_'' @ uuid) = None"
  obtains rid where "bt_get (bs_reservations (fst (reserve from_std uuid a g))) rid = Some r" "live r"
    "rv_attempt_id r = rsv_attempt_id a" "rv_run_id r = rsv_run_id a" "rv_task_id r = rsv_task_id a"
    "rv_target_scope r = rsv_target a" "rv_speculative r = rsv_speculative a"
    "bt_get (bs_reservation_bindings (fst (reserve from_std uuid a g))) rid =
       Some \<lparr>rb_project_id = rsv_project_id a, rb_request = rsv_request a\<rparr>"
proof -
  let ?g = "expire_in (rsv_now a) g"
  have inv': "ledger_inv ?g" using inv by (rule expire_inv)
  then have t: "tables_ok ?g" by (simp add: ledger_inv_def)
  show thesis
  proof (cases "active_reservation ?g (rsv_attempt_id a)")
    case None
    then have "bt_get (bs_by_attempt ?g) (rsv_attempt_id a) = None" by (simp add: active_reservation_None [OF t])
    then show thesis
      by (rule reserve_new_cases [OF inv', of a from_std uuid])
        (use None assms(2) in \<open>auto simp: reserve_def Let_def commit_fields intro!: that [of "''res_'' @ uuid"]\<close>)
  next
    case (Some p)
    obtain rid ex where p: "p = (rid, ex)" by (cases p)
    with Some have d: "bt_get (bs_reservations ?g) rid = Some ex" "live ex" "rv_attempt_id ex = rsv_attempt_id a"
      "bt_get (bs_reservation_bindings ?g) rid \<noteq> None"
      using active_reservationD [OF t] by blast+
    then obtain b where b: "bt_get (bs_reservation_bindings ?g) rid = Some b" by blast
    with Some p assms(2) have "reserve from_std uuid a g = (?g, Inr ex)" "r = ex"
      "rv_run_id ex = rsv_run_id a \<and> rv_task_id ex = rsv_task_id a \<and> rv_target_scope ex = rsv_target a \<and>
       rv_speculative ex = rsv_speculative a \<and> b = \<lparr>rb_project_id = rsv_project_id a, rb_request = rsv_request a\<rparr>"
      by (auto simp: reserve_def Let_def split: if_splits)
    with d b show thesis by (intro that [of rid]) simp_all
  qed
qed

text \<open>Reserving is idempotent: once an attempt's reservation has been granted and while it has not
  expired, the same request returns that same reservation without charging anything again, and a
  different request for the attempt is a conflict.\<close>

lemma reserve_idempotent:
  assumes "ledger.reaches from_std (ledger_new L) g" and "limits_sane L"
    and "reserve from_std uuid a g = (g', Inr r)" and "bt_get (bs_reservations g) (''res_'' @ uuid) = None"
    and "rsv_attempt_id b = rsv_attempt_id a"
    and "\<not> (rv_state r = ResReserved \<and> rv_expires_at r \<le> rsv_now b)"
  shows "reserve from_std uuid' b g' = (expire_in (rsv_now b) g',
    if b = a\<lparr>rsv_now := rsv_now b\<rparr> then Inr r else Inl ReservationConflict)"
proof -
  have inv: "ledger_inv g" using ledger_reaches_inv [OF assms(1,2)] by simp
  have inv': "ledger_inv g'" using reserve_inv [OF inv assms(4), of from_std a] assms(3) by simp
  obtain rid where rid: "bt_get (bs_reservations g') rid = Some r" "live r" "rv_attempt_id r = rsv_attempt_id a"
    and same: "rv_run_id r = rsv_run_id a" "rv_task_id r = rsv_task_id a" "rv_target_scope r = rsv_target a"
      "rv_speculative r = rsv_speculative a"
    and b: "bt_get (bs_reservation_bindings g') rid = Some \<lparr>rb_project_id = rsv_project_id a, rb_request = rsv_request a\<rparr>"
    by (rule reserve_granted [OF inv, of from_std uuid a r]) (use assms(3,4) in auto)
  have "(b = a\<lparr>rsv_now := rsv_now b\<rparr>) \<longleftrightarrow> rsv_run_id a = rsv_run_id b \<and> rsv_task_id a = rsv_task_id b \<and>
      rsv_target a = rsv_target b \<and> rsv_speculative a = rsv_speculative b \<and>
      rsv_project_id a = rsv_project_id b \<and> rsv_request a = rsv_request b"
    using assms(5) by (cases a; cases b) auto
  then show ?thesis
    using expire_keeps [OF inv' rid(1,2) assms(6)] rid(3) same b assms(5)
    by (simp add: reserve_def Let_def)
qed

section \<open>Releasing a run\<close>

text \<open>Canceling a run returns everything it holds: after \<open>release_for_run\<close> no reservation of the run
  is live, the run's counters are zero wherever they are limited, every reservation of another run
  is untouched, and the returned number is the number of reservations released.\<close>

theorem release_for_run_returns_all:
  assumes "ledger.reaches from_std (ledger_new L) g" and "limits_sane L" and "res_terminal t"
    and "release_for_run run t g = (g', n)"
  shows "(\<forall>rid r. bt_get (bs_reservations g') rid = Some r \<and> rv_run_id r = run \<longrightarrow> \<not> live r) \<and>
    (\<forall>d c. cap L (RunScope run) d = Some c \<longrightarrow> used d (usage_of g' (RunScope run)) = 0) \<and>
    (\<forall>rid r. bt_get (bs_reservations g) rid = Some r \<and> rv_run_id r \<noteq> run \<longrightarrow> bt_get (bs_reservations g') rid = Some r) \<and>
    n = length (filter (\<lambda>r. rv_run_id r = run \<and> live r) (bt_values (bs_reservations g)))"
proof -
  let ?P = "\<lambda>r. rv_run_id r = run \<and> rv_state r \<in> {ResReserved, ResDispatched, ResRunning, ResProposed}"
  have P: "?P r \<longleftrightarrow> rv_run_id r = run \<and> live r" for r by (auto simp: live_cases)
  have inv: "ledger_inv g" and lim: "bs_limits g = L" using ledger_reaches_inv [OF assms(1,2)] by simp_all
  then have t: "tables_ok g" by (simp add: ledger_inv_def)
  have g': "g' = drop_all t (ids_where ?P g) g" and n: "n = length (ids_where ?P g)"
    using assms(4) by (simp_all add: release_for_run_def Let_def fold_release)
  have get: "bt_get (bs_reservations g') k =
      map_option (\<lambda>r. if rv_run_id r = run \<and> live r then r\<lparr>rv_state := t\<rparr> else r) (bt_get (bs_reservations g) k)" for k
    unfolding g' drop_all_reservations [OF assms(3)] mem_ids_where [OF t] P
    by (cases "bt_get (bs_reservations g) k") simp_all
  have dead: "\<not> live r" if "bt_get (bs_reservations g') k = Some r" "rv_run_id r = run" for k r
  proof -
    from that(1) obtain r0 where "r = (if rv_run_id r0 = run \<and> live r0 then r0\<lparr>rv_state := t\<rparr> else r0)"
      unfolding get by blast
    then show ?thesis using that(2) assms(3) by (cases "rv_run_id r0 = run \<and> live r0") (auto simp: live_def)
  qed
  have inv': "ledger_inv g'" unfolding g' using inv assms(3) by (rule drop_all_inv)
  have "load g' (RunScope run) d = 0" for d
    unfolding load_def using inv' dead
    by (intro bt_total_zero) (auto simp: ledger_inv_def tables_ok_def share_def)
  moreover have "bs_limits g' = L" using lim by (simp add: g')
  ultimately have "used d (usage_of g' (RunScope run)) = 0" if "cap L (RunScope run) d = Some c" for d c
    using inv' that by (metis ledger_inv_def accounts_ok_def)
  moreover have "n = length (filter (\<lambda>r. rv_run_id r = run \<and> live r) (bt_values (bs_reservations g)))"
    unfolding n ids_where_def P by simp
  moreover have "bt_get (bs_reservations g') rid = Some r"
    if "bt_get (bs_reservations g) rid = Some r" "rv_run_id r \<noteq> run" for rid r
    using that by (simp add: get)
  ultimately show ?thesis using dead by blast
qed

end
