(* ===== verification/Admission_Queue.thy ===== *)
theory Admission_Queue
  imports Placement Budget
begin

text \<open>
  The bounded admission queue of the compute broker: \<open>tetonic-broker/src/queue.rs\<close>, with the
  priorities of \<open>priority.rs\<close> and the compute request of \<open>types.rs\<close>. The \<open>VecDeque\<close> of entries is
  a list, the \<open>HashSet\<close> of members a set, \<open>usize\<close> counters are natural numbers (they count list
  entries), times are integers. The queue's mutex makes each operation one step.
\<close>

section \<open>Priorities (\<open>priority.rs\<close>)\<close>

datatype compute_priority =
  Interactive | VerificationCritical | NormalPriority | Background | Maintenance

fun priority_as_str :: "compute_priority \<Rightarrow> string" where
  "priority_as_str Interactive = ''interactive''"
| "priority_as_str VerificationCritical = ''verification_critical''"
| "priority_as_str NormalPriority = ''normal''"
| "priority_as_str Background = ''background''"
| "priority_as_str Maintenance = ''maintenance''"

fun priority_rank :: "compute_priority \<Rightarrow> nat" where
  "priority_rank Interactive = 0"
| "priority_rank VerificationCritical = 1"
| "priority_rank NormalPriority = 2"
| "priority_rank Background = 3"
| "priority_rank Maintenance = 4"

lemma priority_rank_inj: "priority_rank a = priority_rank b \<Longrightarrow> a = b"
  by (cases a; cases b) auto

text \<open>\<open>derive(PartialOrd, Ord)\<close>: the order of declaration.\<close>

instantiation compute_priority :: linorder
begin

definition less_eq_compute_priority :: "compute_priority \<Rightarrow> compute_priority \<Rightarrow> bool" where
  "a \<le> b \<longleftrightarrow> priority_rank a \<le> priority_rank b"

definition less_compute_priority :: "compute_priority \<Rightarrow> compute_priority \<Rightarrow> bool" where
  "a < b \<longleftrightarrow> priority_rank a < priority_rank b"

instance
  by standard (auto simp: less_eq_compute_priority_def less_compute_priority_def intro: priority_rank_inj)

end

record fairness_policy =
  fp_max_consecutive_background :: u32
  fp_interactive_reserved_slots :: u32
  fp_age_boost_after_ms :: u64

definition default_fairness_policy :: fairness_policy where
  "default_fairness_policy = \<lparr>fp_max_consecutive_background = 4, fp_interactive_reserved_slots = 2,
     fp_age_boost_after_ms = 2000\<rparr>"

section \<open>The compute request (\<open>types.rs\<close>)\<close>

record placement_decision_reference =
  pdr_decision_id :: string
  pdr_issued_at :: timestamp
  pdr_expires_at :: timestamp
  pdr_policy_epoch :: u64
  pdr_decision :: placement_decision

record deadline_policy =
  dp_queue_deadline :: timestamp
  dp_execution_deadline :: timestamp

record retry_policy_reference =
  rpr_policy_id :: string
  rpr_max_attempts :: u32

datatype job_kind = Infer | Embed | AnalyzeCode | IndexShard | TestShard | ReviewArtifact

record compute_request =
  cr_run_id :: run_id
  cr_task_id :: task_id
  cr_task_version :: u64
  cr_attempt_id :: attempt_id
  cr_job_kind :: job_kind
  cr_input_artifacts :: "artifact_ref list"
  cr_input_digest :: string
  cr_workspace_version :: "workspace_version option"
  cr_data_class :: data_class
  cr_placement_decision :: placement_decision_reference
  cr_resource_request :: resource_request
  cr_deadline :: deadline_policy
  cr_retry_policy :: retry_policy_reference
  cr_verification_policy :: string
  cr_priority :: compute_priority
  cr_trace_context :: trace_context
  cr_speculative :: bool
  cr_project_id :: "string option"
  cr_target_worker_id :: "worker_id option"
  cr_fallback_order :: "string list"
  cr_scheduler_decision_id :: "string option"

section \<open>The queue (\<open>queue.rs\<close>)\<close>

record queue_admission =
  qa_attempt_id :: attempt_id
  qa_position :: nat
  qa_queued_at :: timestamp
  qa_queue_deadline :: timestamp

record queue_limits =
  ql_global_max :: nat
  ql_per_run_max :: nat
  ql_per_worker_max :: nat

definition default_queue_limits :: queue_limits where
  "default_queue_limits = \<lparr>ql_global_max = 256, ql_per_run_max = 64, ql_per_worker_max = 64\<rparr>"

record queue_entry =
  qe_attempt_id :: attempt_id
  qe_run_id :: run_id
  qe_task_id :: task_id
  qe_priority :: compute_priority
  qe_queued_at :: timestamp
  qe_queue_deadline :: timestamp
  qe_worker_key :: string

record queue_state =
  qs_limits :: queue_limits
  qs_fairness :: fairness_policy
  qs_entries :: "queue_entry list"
  qs_members :: "string set"
  qs_per_run :: "(string, nat) btree"
  qs_per_worker :: "(string, nat) btree"
  qs_consecutive_background :: u32

definition queue_new :: "queue_limits \<Rightarrow> fairness_policy \<Rightarrow> queue_state" where
  "queue_new limits fairness = \<lparr>qs_limits = limits, qs_fairness = fairness, qs_entries = [],
     qs_members = {}, qs_per_run = [], qs_per_worker = [], qs_consecutive_background = 0\<rparr>"

definition queue_depth :: "queue_state \<Rightarrow> nat" where
  "queue_depth g = card (qs_members g)"

definition queue_contains :: "queue_state \<Rightarrow> attempt_id \<Rightarrow> bool" where
  "queue_contains g attempt_id \<longleftrightarrow> attempt_id \<in> qs_members g"

text \<open>\<open>get(k).copied().unwrap_or(0)\<close>; \<open>*entry(k).or_insert(0) += 1\<close>; and the guarded saturating
  decrement of a counter.\<close>

definition count_of :: "(string, nat) btree \<Rightarrow> string \<Rightarrow> nat" where
  "count_of m k = (case bt_get m k of None \<Rightarrow> 0 | Some n \<Rightarrow> n)"

definition count_inc :: "string \<Rightarrow> (string, nat) btree \<Rightarrow> (string, nat) btree" where
  "count_inc k m = bt_insert k (count_of m k + 1) m"

definition count_dec :: "string \<Rightarrow> (string, nat) btree \<Rightarrow> (string, nat) btree" where
  "count_dec k m = bt_modify k (\<lambda>c. c - 1) m"

definition release_counts :: "queue_entry \<Rightarrow> queue_state \<Rightarrow> queue_state" where
  "release_counts e g = g\<lparr>qs_per_run := count_dec (qe_run_id e) (qs_per_run g),
     qs_per_worker := count_dec (qe_worker_key e) (qs_per_worker g)\<rparr>"

text \<open>\<open>VecDeque::remove\<close> at a valid index.\<close>

definition remove_at :: "nat \<Rightarrow> 'a list \<Rightarrow> 'a list" where
  "remove_at i xs = take i xs @ drop (Suc i) xs"

text \<open>\<open>Iterator::max_by_key\<close> returns the last maximum.\<close>

fun max_rank_index :: "queue_entry list \<Rightarrow> nat option" where
  "max_rank_index [] = None"
| "max_rank_index (e # es) =
     (case max_rank_index es of
        None \<Rightarrow> Some 0
      | Some i \<Rightarrow> if priority_rank (qe_priority e) \<le> priority_rank (qe_priority (es ! i))
                  then Some (Suc i) else Some 0)"

definition evict_lowest :: "queue_state \<Rightarrow> queue_state option" where
  "evict_lowest g =
     (case max_rank_index (qs_entries g) of
        None \<Rightarrow> None
      | Some i \<Rightarrow>
          let e = qs_entries g ! i
          in Some (release_counts e (g\<lparr>qs_entries := remove_at i (qs_entries g),
               qs_members := qs_members g - {qe_attempt_id e}\<rparr>)))"

definition worker_key_of :: "compute_request \<Rightarrow> string" where
  "worker_key_of req = (case cr_target_worker_id req of Some w \<Rightarrow> w | None \<Rightarrow> ''local'')"

text \<open>The part of \<open>enqueue\<close> after room has been made.\<close>

definition enqueue_entry ::
    "compute_request \<Rightarrow> timestamp \<Rightarrow> queue_state \<Rightarrow> queue_state \<times> queue_admission option" where
  "enqueue_entry req now g =
     (let worker_key = worker_key_of req in
      if ql_per_run_max (qs_limits g) \<le> count_of (qs_per_run g) (cr_run_id req) then (g, None)
      else if ql_per_worker_max (qs_limits g) \<le> count_of (qs_per_worker g) worker_key then (g, None)
      else if Background \<le> cr_priority req \<and>
              ql_global_max (qs_limits g) - card (qs_members g) \<le>
                unat (fp_interactive_reserved_slots (qs_fairness g))
      then (g, None)
      else
        let g' = g\<lparr>
              qs_entries := qs_entries g @ [\<lparr>qe_attempt_id = cr_attempt_id req, qe_run_id = cr_run_id req,
                qe_task_id = cr_task_id req, qe_priority = cr_priority req, qe_queued_at = now,
                qe_queue_deadline = dp_queue_deadline (cr_deadline req), qe_worker_key = worker_key\<rparr>],
              qs_members := insert (cr_attempt_id req) (qs_members g),
              qs_per_run := count_inc (cr_run_id req) (qs_per_run g),
              qs_per_worker := count_inc worker_key (qs_per_worker g)\<rparr>
        in (g', Some \<lparr>qa_attempt_id = cr_attempt_id req, qa_position = card (qs_members g') - 1,
              qa_queued_at = now, qa_queue_deadline = dp_queue_deadline (cr_deadline req)\<rparr>))"

definition enqueue ::
    "compute_request \<Rightarrow> timestamp \<Rightarrow> queue_state \<Rightarrow> queue_state \<times> queue_admission option" where
  "enqueue req now g =
     (if cr_attempt_id req \<in> qs_members g
      then (g, Some \<lparr>qa_attempt_id = cr_attempt_id req,
             qa_position = length (filter (\<lambda>e. priority_rank (qe_priority e) <
               priority_rank (cr_priority req)) (qs_entries g)),
             qa_queued_at = now, qa_queue_deadline = dp_queue_deadline (cr_deadline req)\<rparr>)
      else if ql_global_max (qs_limits g) \<le> card (qs_members g) then
        if priority_rank Interactive < priority_rank (cr_priority req) then (g, None)
        else (case evict_lowest g of
                None \<Rightarrow> (g, None)
              | Some g' \<Rightarrow> enqueue_entry req now g')
      else enqueue_entry req now g)"

definition queue_remove :: "attempt_id \<Rightarrow> queue_state \<Rightarrow> queue_state \<times> bool" where
  "queue_remove attempt_id g =
     (if attempt_id \<notin> qs_members g then (g, False)
      else
        let g1 = g\<lparr>qs_members := qs_members g - {attempt_id}\<rparr> in
        (case List.find (\<lambda>i. qe_attempt_id (qs_entries g ! i) = attempt_id) [0..<length (qs_entries g)] of
           None \<Rightarrow> (g1, True)
         | Some pos \<Rightarrow>
             (release_counts (qs_entries g ! pos) (g1\<lparr>qs_entries := remove_at pos (qs_entries g)\<rparr>), True)))"

text \<open>The body of the loop that drops expired entries.\<close>

definition drop_expired :: "queue_entry \<Rightarrow> queue_state \<Rightarrow> queue_state" where
  "drop_expired e g = release_counts e (g\<lparr>
     qs_entries := filter (\<lambda>x. qe_attempt_id x \<noteq> qe_attempt_id e) (qs_entries g),
     qs_members := qs_members g - {qe_attempt_id e}\<rparr>)"

text \<open>The comparator of \<open>pop_next\<close>: whether \<open>a\<close> is strictly before \<open>b\<close>.\<close>

definition rank_before :: "queue_entry \<Rightarrow> queue_entry \<Rightarrow> bool" where
  "rank_before a b \<longleftrightarrow>
     priority_rank (qe_priority a) < priority_rank (qe_priority b) \<or>
     priority_rank (qe_priority a) = priority_rank (qe_priority b) \<and> qe_queued_at a < qe_queued_at b"

definition pop_before :: "bool \<Rightarrow> queue_entry \<Rightarrow> queue_entry \<Rightarrow> bool" where
  "pop_before prefer_interactive a b =
     (if prefer_interactive then
        (case (qe_priority a \<le> Interactive, qe_priority b \<le> Interactive) of
           (True, False) \<Rightarrow> True
         | (False, True) \<Rightarrow> False
         | _ \<Rightarrow> rank_before a b)
      else rank_before a b)"

text \<open>\<open>Iterator::min_by\<close> returns the first minimum.\<close>

fun min_index :: "(queue_entry \<Rightarrow> queue_entry \<Rightarrow> bool) \<Rightarrow> queue_entry list \<Rightarrow> nat option" where
  "min_index lt [] = None"
| "min_index lt (e # es) =
     (case min_index lt es of
        None \<Rightarrow> Some 0
      | Some i \<Rightarrow> if lt (es ! i) e then Some (Suc i) else Some 0)"

definition pop_next ::
    "timestamp \<Rightarrow> queue_state \<Rightarrow> queue_state \<times> (attempt_id \<times> run_id \<times> task_id \<times> compute_priority) option" where
  "pop_next now g0 =
     (let expired = filter (\<lambda>e. qe_queue_deadline e \<le> now) (qs_entries g0);
          g = fold drop_expired expired g0
      in if qs_entries g = [] then (g, None)
         else
           let prefer_interactive =
                 (fp_max_consecutive_background (qs_fairness g) \<le> qs_consecutive_background g \<and>
                  list_ex (\<lambda>e. qe_priority e \<le> Interactive) (qs_entries g))
           in (case min_index (pop_before prefer_interactive) (qs_entries g) of
                 None \<Rightarrow> (g, None)
               | Some idx \<Rightarrow>
                   let e = qs_entries g ! idx;
                       g' = release_counts e (g\<lparr>qs_entries := remove_at idx (qs_entries g),
                              qs_members := qs_members g - {qe_attempt_id e}\<rparr>)
                   in (g'\<lparr>qs_consecutive_background :=
                         (if Background \<le> qe_priority e then qs_consecutive_background g' + 1 else 0)\<rparr>,
                       Some (qe_attempt_id e, qe_run_id e, qe_task_id e, qe_priority e))))"

section \<open>The invariant\<close>

text \<open>The member set and the two counter tables are caches of the list of entries.\<close>

definition run_count :: "string \<Rightarrow> queue_entry list \<Rightarrow> nat" where
  "run_count k xs = length (filter (\<lambda>e. qe_run_id e = k) xs)"

definition worker_count :: "string \<Rightarrow> queue_entry list \<Rightarrow> nat" where
  "worker_count k xs = length (filter (\<lambda>e. qe_worker_key e = k) xs)"

definition caches_ok :: "queue_state \<Rightarrow> bool" where
  "caches_ok g \<longleftrightarrow> distinct (map qe_attempt_id (qs_entries g)) \<and>
     qs_members g = qe_attempt_id ` set (qs_entries g) \<and>
     (\<forall>k. count_of (qs_per_run g) k = run_count k (qs_entries g)) \<and>
     (\<forall>k. count_of (qs_per_worker g) k = worker_count k (qs_entries g))"

definition queue_inv :: "queue_state \<Rightarrow> bool" where
  "queue_inv g \<longleftrightarrow> caches_ok g \<and> length (qs_entries g) \<le> ql_global_max (qs_limits g) \<and>
     (\<forall>k. run_count k (qs_entries g) \<le> ql_per_run_max (qs_limits g)) \<and>
     (\<forall>k. worker_count k (qs_entries g) \<le> ql_per_worker_max (qs_limits g))"

lemma caches_card: "caches_ok g \<Longrightarrow> card (qs_members g) = length (qs_entries g)"
  by (simp add: caches_ok_def distinct_card flip: set_map)

lemma count_of_inc: "count_of (count_inc k m) k' = count_of m k' + (if k' = k then 1 else 0)"
  by (simp add: count_of_def count_inc_def)

lemma count_of_dec: "count_of (count_dec k m) k' = count_of m k' - (if k' = k then 1 else 0)"
  by (auto simp: count_of_def count_dec_def split: option.split)

lemma remove_at_split: "i < length xs \<Longrightarrow> xs = take i xs @ xs ! i # drop (Suc i) xs"
  by (rule id_take_nth_drop)

lemma set_remove_at: "set (remove_at i xs) \<subseteq> set xs"
  by (auto simp: remove_at_def dest: in_set_takeD in_set_dropD)

lemma length_filter_remove_at:
  assumes "i < length xs"
  shows "length (filter P xs) = length (filter P (remove_at i xs)) + (if P (xs ! i) then 1 else 0)"
  by (subst remove_at_split [OF assms]) (simp add: remove_at_def)

lemma length_remove_at: "i < length xs \<Longrightarrow> length (remove_at i xs) = length xs - 1"
  by (simp add: remove_at_def)

lemma distinct_remove_at:
  assumes "distinct (map f xs)" "i < length xs"
  shows "distinct (map f (remove_at i xs))" "f ` set (remove_at i xs) = f ` set xs - {f (xs ! i)}"
proof -
  have "distinct (map f (take i xs @ xs ! i # drop (Suc i) xs))"
    using assms(1) remove_at_split [OF assms(2)] by metis
  moreover have "f ` set xs = f ` set (take i xs @ xs ! i # drop (Suc i) xs)"
    using remove_at_split [OF assms(2)] by metis
  ultimately show "distinct (map f (remove_at i xs))" "f ` set (remove_at i xs) = f ` set xs - {f (xs ! i)}"
    by (auto simp: remove_at_def) (metis image_eqI)+
qed

text \<open>Taking one entry out, in every operation that does: the list, the set and both counters.\<close>

definition take_out :: "nat \<Rightarrow> queue_state \<Rightarrow> queue_state" where
  "take_out i g = release_counts (qs_entries g ! i) (g\<lparr>qs_entries := remove_at i (qs_entries g),
     qs_members := qs_members g - {qe_attempt_id (qs_entries g ! i)}\<rparr>)"

lemma take_out_simps [simp]:
  "qs_entries (take_out i g) = remove_at i (qs_entries g)"
  "qs_limits (take_out i g) = qs_limits g"
  "qs_fairness (take_out i g) = qs_fairness g"
  by (simp_all add: take_out_def release_counts_def)

lemma take_out_caches:
  assumes "caches_ok g" "i < length (qs_entries g)"
  shows "caches_ok (take_out i g)"
  using assms distinct_remove_at [of qe_attempt_id "qs_entries g" i]
    length_filter_remove_at [OF assms(2), of "\<lambda>e. qe_run_id e = k" for k]
    length_filter_remove_at [OF assms(2), of "\<lambda>e. qe_worker_key e = k" for k]
  by (auto simp: caches_ok_def take_out_def release_counts_def count_of_dec run_count_def worker_count_def)

lemma take_out_inv:
  assumes "queue_inv g" "i < length (qs_entries g)"
  shows "queue_inv (take_out i g)"
proof -
  have le: "length (filter P (remove_at i (qs_entries g))) \<le> length (filter P (qs_entries g))" for P
    using length_filter_remove_at [OF assms(2), of P] by simp
  have "run_count k (remove_at i (qs_entries g)) \<le> run_count k (qs_entries g)"
    "worker_count k (remove_at i (qs_entries g)) \<le> worker_count k (qs_entries g)" for k
    using le by (simp_all add: run_count_def worker_count_def)
  then show ?thesis
    using assms take_out_caches [OF _ assms(2)]
    by (simp add: queue_inv_def length_remove_at) (meson order_trans diff_le_self)
qed

section \<open>Each operation on the caches\<close>

lemma max_rank_index_bound: "max_rank_index xs = Some i \<Longrightarrow> i < length xs"
  by (induction xs arbitrary: i) (auto split: option.splits if_splits)

lemma max_rank_index_None: "max_rank_index xs = None \<longleftrightarrow> xs = []"
  by (cases xs) (auto split: option.splits)

lemma evict_lowest_take_out:
  "evict_lowest g = map_option (\<lambda>i. take_out i g) (max_rank_index (qs_entries g))"
  by (simp add: evict_lowest_def take_out_def Let_def split: option.split)

lemma min_index_bound: "min_index lt xs = Some i \<Longrightarrow> i < length xs"
  by (induction xs arbitrary: i) (auto split: option.splits if_splits)

lemma min_index_None: "min_index lt xs = None \<longleftrightarrow> xs = []"
  by (cases xs) (auto split: option.splits)

lemma find_index_entry:
  assumes "distinct (map qe_attempt_id xs)" "i < length xs"
  shows "List.find (\<lambda>j. qe_attempt_id (xs ! j) = qe_attempt_id (xs ! i)) [0..<length xs] = Some i"
  using assms by (auto simp: find_Some_iff distinct_conv_nth intro!: exI [of _ i])

lemma queue_remove_take_out:
  assumes "caches_ok g"
  shows "queue_remove att g =
    (case List.find (\<lambda>i. qe_attempt_id (qs_entries g ! i) = att) [0..<length (qs_entries g)] of
       None \<Rightarrow> (g, False) | Some i \<Rightarrow> (take_out i g, True))"
proof (cases "att \<in> qs_members g")
  case True
  then obtain i where i: "i < length (qs_entries g)" "att = qe_attempt_id (qs_entries g ! i)"
    using assms by (auto simp: caches_ok_def in_set_conv_nth)
  then have "List.find (\<lambda>i. qe_attempt_id (qs_entries g ! i) = att) [0..<length (qs_entries g)] = Some i"
    using assms find_index_entry [OF _ i(1)] by (simp add: caches_ok_def)
  with True i show ?thesis by (simp add: queue_remove_def take_out_def release_counts_def)
next
  case False
  then have "List.find (\<lambda>i. qe_attempt_id (qs_entries g ! i) = att) [0..<length (qs_entries g)] = None"
    using assms by (auto simp: caches_ok_def find_None_iff)
  with False show ?thesis by (simp add: queue_remove_def)
qed

lemma remove_at_filter:
  assumes "distinct (map f xs)" "i < length xs"
  shows "remove_at i xs = filter (\<lambda>x. f x \<noteq> f (xs ! i)) xs"
proof -
  let ?ys = "take i xs" and ?zs = "drop (Suc i) xs"
  note split = remove_at_split [OF assms(2)]
  have "distinct (map f (?ys @ xs ! i # ?zs))" using assms(1) split by metis
  then have "filter (\<lambda>x. f x \<noteq> f (xs ! i)) ?ys = ?ys" "filter (\<lambda>x. f x \<noteq> f (xs ! i)) ?zs = ?zs"
    by (auto simp: image_iff intro!: filter_True)
  then have "filter (\<lambda>x. f x \<noteq> f (xs ! i)) (?ys @ xs ! i # ?zs) = ?ys @ ?zs" by simp
  then show ?thesis using split by (metis remove_at_def)
qed

lemma drop_expired_take_out:
  assumes "caches_ok g" "i < length (qs_entries g)"
  shows "drop_expired (qs_entries g ! i) g = take_out i g"
  using remove_at_filter [of qe_attempt_id "qs_entries g" i] assms
  by (simp add: drop_expired_def take_out_def caches_ok_def)

lemma drop_expired_caches:
  assumes "caches_ok g" "e \<in> set (qs_entries g)"
  shows "caches_ok (drop_expired e g)"
    and "qs_entries (drop_expired e g) = filter (\<lambda>x. qe_attempt_id x \<noteq> qe_attempt_id e) (qs_entries g)"
proof -
  obtain i where i: "i < length (qs_entries g)" "e = qs_entries g ! i" using assms(2) by (auto simp: in_set_conv_nth)
  with take_out_caches [OF assms(1) i(1)] drop_expired_take_out [OF assms(1) i(1)]
  show "caches_ok (drop_expired e g)" by simp
  show "qs_entries (drop_expired e g) = filter (\<lambda>x. qe_attempt_id x \<noteq> qe_attempt_id e) (qs_entries g)"
    by (simp add: drop_expired_def release_counts_def)
qed

end
