(* ===== verification/Fabric.thy ===== *)
theory Fabric
  imports Guard Admission_Queue
begin

text \<open>
  The fabric protocol between coordinator and workers (\<open>atmos/tetonic-fabric-protocol/src\<close>): errors,
  message limits (\<open>bounds.rs\<close>), envelopes and jobs (\<open>envelope.rs\<close>, \<open>job.rs\<close>, \<open>lease.rs\<close>,
  \<open>lifecycle.rs\<close>), their validation (\<open>validate.rs\<close>), bounded decoding (\<open>decode.rs\<close>) and version
  negotiation (\<open>negotiation.rs\<close>). A length is a natural number where the source has \<open>usize\<close>; a cast
  \<open>as u32\<close> is \<open>of_nat\<close>, which wraps as the cast does. Parsing and printing of JSON are arguments.
\<close>

section \<open>Errors\<close>

datatype fabric_error_code =
  FeUnsupportedProtocolVersion | FeUnsupportedJobKind | FeInvalidEnvelope | FeInvalidSignature
| FeIdentityMismatch | FeRevokedIdentity | FeStaleRevocationEpoch | FeDuplicateConflict
| FeInvalidLease | FeStaleLeaseEpoch | FeDeadlineExceeded | FeInputTooLarge | FeOutputTooLarge
| FeCapabilityUnavailable | FePolicyDenied | FeWorkerBusy | FeWorkerDraining | FeInternalFailure

record fabric_error =
  fe_code :: fabric_error_code
  fe_message :: string
  fe_details :: "json option"

type_synonym 'a fabric_result = "(fabric_error, 'a) result"

definition fabric_err :: "fabric_error_code \<Rightarrow> string \<Rightarrow> fabric_error" where
  "fabric_err code message = \<lparr>fe_code = code, fe_message = message, fe_details = None\<rparr>"

text \<open>\<open>Result::map_err\<close>.\<close>

fun map_err :: "('e \<Rightarrow> 'f) \<Rightarrow> ('e, 'a) result \<Rightarrow> ('f, 'a) result" where
  "map_err f (Ok x) = Ok x"
| "map_err f (Err e) = Err (f e)"
| "map_err f Panic = Panic"

definition missing_field :: "string \<Rightarrow> fabric_error" where
  "missing_field field = fabric_err FeInvalidEnvelope (''missing mandatory security field '' @ field)"

section \<open>Message limits\<close>

record message_size_limits =
  ml_max_envelope_bytes :: u32
  ml_max_payload_bytes :: u32
  ml_max_error_message_bytes :: u32

definition min_supported_version :: u32 where
  "min_supported_version = 1"

definition max_supported_version :: u32 where
  "max_supported_version = 1"

definition immutable_security_features :: "string list" where
  "immutable_security_features = [''task_identity'', ''lease_epoch'', ''input_digest'', ''revocation_epoch'']"

definition default_message_limits :: message_size_limits where
  "default_message_limits = \<lparr>ml_max_envelope_bytes = 4 * 1024 * 1024,
     ml_max_payload_bytes = 2 * 1024 * 1024, ml_max_error_message_bytes = 4096\<rparr>"

definition check_envelope_size :: "nat \<Rightarrow> message_size_limits \<Rightarrow> unit fabric_result" where
  "check_envelope_size len limits =
     (if ml_max_envelope_bytes limits < of_nat len
      then Err (fabric_err FeInputTooLarge (''envelope '' @ show_nat len @ '' bytes exceeds max '' @
             show_word (ml_max_envelope_bytes limits)))
      else Ok ())"

definition check_payload_size :: "nat \<Rightarrow> message_size_limits \<Rightarrow> unit fabric_result" where
  "check_payload_size len limits =
     (if ml_max_payload_bytes limits < of_nat len
      then Err (fabric_err FeInputTooLarge (''payload '' @ show_nat len @ '' bytes exceeds max '' @
             show_word (ml_max_payload_bytes limits)))
      else Ok ())"

text \<open>\<open>chars().take(n)\<close>: a character begins at every byte that is not a continuation byte.\<close>

definition is_continuation_byte :: "char \<Rightarrow> bool" where
  "is_continuation_byte c \<longleftrightarrow> CHR 0x80 \<le> c \<and> c \<le> CHR 0xBF"

fun take_chars :: "nat \<Rightarrow> string \<Rightarrow> string" where
  "take_chars n [] = []"
| "take_chars n (c # s) =
     (if is_continuation_byte c then c # take_chars n s
      else case n of 0 \<Rightarrow> [] | Suc m \<Rightarrow> c # take_chars m s)"

definition bound_error_message :: "string \<Rightarrow> message_size_limits \<Rightarrow> string" where
  "bound_error_message msg limits =
     (let max = unat (ml_max_error_message_bytes limits)
      in if length msg \<le> max then msg else take_chars max msg)"

section \<open>Envelopes\<close>

datatype fabric_message_type =
  MtJobOffer | MtJobAccepted | MtJobRejected | MtJobStarted | MtHeartbeat | MtLeaseRenewalRequest
| MtLeaseRenewalResponse | MtProgressUpdate | MtCancellationRequest | MtCancellationAcknowledged
| MtJobCompleted | MtJobFailed | MtResultRejected | MtWorkerDraining | MtWorkerUnavailable | MtNegotiate

record fabric_trace_context =
  ft_trace_id :: string
  ft_span_id :: string
  ft_scheduler_decision_id :: "string option"

record 'a fabric_envelope =
  fv_protocol_version :: u32
  fv_message_id :: string
  fv_message_type :: fabric_message_type
  fv_coordinator_id :: string
  fv_worker_id :: worker_id
  fv_sent_at :: timestamp
  fv_revocation_epoch :: u64
  fv_trace_context :: fabric_trace_context
  fv_payload :: 'a

definition validate_protocol_version :: "u32 \<Rightarrow> unit fabric_result" where
  "validate_protocol_version version =
     (if version < min_supported_version \<or> max_supported_version < version
      then Err (fabric_err FeUnsupportedProtocolVersion
             (''unsupported protocol version '' @ show_word version))
      else Ok ())"

definition validate_mandatory_envelope_fields :: "'a fabric_envelope \<Rightarrow> unit fabric_result" where
  "validate_mandatory_envelope_fields envelope =
     and_then (validate_protocol_version (fv_protocol_version envelope)) (\<lambda>_.
       if trim_is_empty (fv_message_id envelope) then Err (missing_field ''message_id'')
       else if trim_is_empty (fv_coordinator_id envelope) then Err (missing_field ''coordinator_id'')
       else if trim_is_empty (fv_worker_id envelope) then Err (missing_field ''worker_id'')
       else if trim_is_empty (ft_trace_id (fv_trace_context envelope))
       then Err (missing_field ''trace_context.trace_id'')
       else Ok ())"

definition validate_channel_identity :: "worker_id \<Rightarrow> worker_id \<Rightarrow> unit fabric_result" where
  "validate_channel_identity channel_worker_id envelope_worker_id =
     (if channel_worker_id \<noteq> envelope_worker_id
      then Err (fabric_err FeIdentityMismatch (''channel worker '' @ channel_worker_id @
             '' != envelope worker '' @ envelope_worker_id))
      else Ok ())"

definition validate_revocation_epoch :: "u64 \<Rightarrow> u64 \<Rightarrow> unit fabric_result" where
  "validate_revocation_epoch sender_epoch known_minimum_epoch =
     (if sender_epoch < known_minimum_epoch
      then Err (fabric_err FeStaleRevocationEpoch (''revocation epoch '' @ show_word sender_epoch @
             '' stale (minimum '' @ show_word known_minimum_epoch @ '')''))
      else Ok ())"

definition validate_revoked :: "bool \<Rightarrow> unit fabric_result" where
  "validate_revoked identity_revoked =
     (if identity_revoked then Err (fabric_err FeRevokedIdentity ''identity is revoked'') else Ok ())"

text \<open>Times are nanoseconds; \<open>num_seconds\<close> truncates towards zero.\<close>

definition show_int :: "int \<Rightarrow> string" where
  "show_int i = (if i < 0 then ''-'' @ show_nat (nat (- i)) else show_nat (nat i))"

definition validate_clock_skew :: "timestamp \<Rightarrow> timestamp \<Rightarrow> int \<Rightarrow> unit fabric_result" where
  "validate_clock_skew sent_at now max_skew_secs =
     (let skew = \<bar>sent_at - now\<bar> div 1000000000
      in if max_skew_secs < skew
         then Err (fabric_err FeInvalidEnvelope (''clock skew '' @ show_int skew @ ''s exceeds max '' @
                show_int max_skew_secs @ ''s''))
         else Ok ())"

section \<open>Jobs\<close>

record artifact_reference =
  aref_artifact_id :: string
  aref_digest :: string

record job_requirements =
  jr_tools :: "string list"
  jr_environment :: "string list"

record resource_limits =
  rl_max_cpu_millis :: "u64 option"
  rl_max_memory_bytes :: "u64 option"

record output_limits =
  ol_max_bytes :: u64
  ol_max_artifacts :: u32
  ol_max_artifact_size :: u64

record job_verification_policy =
  jv_require_verification :: bool
  jv_policy_id :: "string option"

datatype versioned_job_payload =
  V1Infer json | V1Embed json | V1AnalyzeCode json | V1IndexShard json | V1TestShard json
| V1ReviewArtifact json

record job_deadlines =
  jd_queue_deadline :: timestamp
  jd_start_deadline :: timestamp
  jd_execution_deadline :: timestamp
  jd_lease_duration_secs :: u64

definition deadlines_from_execution :: "timestamp \<Rightarrow> u64 \<Rightarrow> job_deadlines" where
  "deadlines_from_execution execution lease_duration_secs =
     \<lparr>jd_queue_deadline = execution, jd_start_deadline = execution,
      jd_execution_deadline = execution, jd_lease_duration_secs = lease_duration_secs\<rparr>"

record job_envelope =
  je_job_id :: string
  je_run_id :: run_id
  je_task_id :: task_id
  je_task_version :: u64
  je_attempt_id :: attempt_id
  je_idempotency_key :: string
  je_lease_id :: lease_id
  je_lease_epoch :: u64
  je_job_kind :: job_kind
  je_input_digest :: string
  je_workspace_version :: "workspace_version option"
  je_input_artifacts :: "artifact_reference list"
  je_data_class :: data_class
  je_required_capabilities :: job_requirements
  je_resource_limits :: resource_limits
  je_deadlines :: job_deadlines
  je_output_limits :: output_limits
  je_verification_policy :: job_verification_policy
  je_payload :: versioned_job_payload

fun validate_job_kind :: "job_kind \<Rightarrow> unit fabric_result" where
  "validate_job_kind Infer = Ok ()"
| "validate_job_kind Embed = Ok ()"
| "validate_job_kind AnalyzeCode = Ok ()"
| "validate_job_kind IndexShard = Ok ()"
| "validate_job_kind TestShard = Ok ()"
| "validate_job_kind ReviewArtifact = Ok ()"

fun validate_artifact_references :: "artifact_reference list \<Rightarrow> unit fabric_result" where
  "validate_artifact_references [] = Ok ()"
| "validate_artifact_references (a # as) =
     (if trim_is_empty (aref_artifact_id a) then Err (missing_field ''input_artifacts[].artifact_id'')
      else if trim_is_empty (aref_digest a) then Err (missing_field ''input_artifacts[].digest'')
      else validate_artifact_references as)"

definition validate_job_envelope :: "job_envelope \<Rightarrow> unit fabric_result" where
  "validate_job_envelope job =
     (if trim_is_empty (je_input_digest job) then Err (missing_field ''input_digest'')
      else if trim_is_empty (je_idempotency_key job) then Err (missing_field ''idempotency_key'')
      else if trim_is_empty (je_lease_id job) then Err (missing_field ''lease_id'')
      else and_then (validate_artifact_references (je_input_artifacts job)) (\<lambda>_.
             validate_job_kind (je_job_kind job)))"

definition parse_job_kind_str :: "string \<Rightarrow> job_kind fabric_result" where
  "parse_job_kind_str raw =
     (if raw \<in> {''infer'', ''Infer''} then Ok Infer
      else if raw \<in> {''embed'', ''Embed''} then Ok Embed
      else if raw \<in> {''analyze_code'', ''AnalyzeCode''} then Ok AnalyzeCode
      else if raw \<in> {''index_shard'', ''IndexShard''} then Ok IndexShard
      else if raw \<in> {''test_shard'', ''TestShard''} then Ok TestShard
      else if raw \<in> {''review_artifact'', ''ReviewArtifact''} then Ok ReviewArtifact
      else Err (fabric_err FeUnsupportedJobKind (''unknown job kind '' @ raw)))"

section \<open>Leases and lifecycle messages\<close>

record lease_message =
  lm_lease_id :: lease_id
  lm_lease_epoch :: u64
  lm_holder_identity :: worker_id
  lm_issued_at :: timestamp
  lm_expires_at :: timestamp
  lm_heartbeat_interval_secs :: u32
  lm_renewal_limit :: "u32 option"

record lifecycle_context =
  lc_job_id :: string
  lc_task_id :: task_id
  lc_attempt_id :: attempt_id
  lc_lease_id :: lease_id
  lc_lease_epoch :: u64
  lc_worker_id :: worker_id
  lc_sequence_number :: u64
  lc_protocol_version :: u32
  lc_idempotency_key :: string

record heartbeat =
  fhb_context :: lifecycle_context
  fhb_attempt_state :: string
  fhb_heartbeat_sequence :: u64
  fhb_resource_usage_summary :: "json option"
  fhb_progress_marker :: "string option"
  fhb_current_output_size_bytes :: u64
  fhb_lease_renewal_request :: bool
  fhb_worker_health_status :: string

record cancellation_request =
  cq_run_id :: run_id
  cq_task_id :: task_id
  cq_attempt_id :: attempt_id
  cq_lease_id :: lease_id
  cq_lease_epoch :: u64
  cq_reason :: string
  cq_deadline :: timestamp

record cancellation_acknowledged =
  ck_context :: lifecycle_context

definition validate_lease_epoch :: "u64 \<Rightarrow> u64 \<Rightarrow> unit fabric_result" where
  "validate_lease_epoch current_epoch proof_epoch =
     (if proof_epoch \<noteq> current_epoch
      then Err (fabric_err FeStaleLeaseEpoch (''stale lease epoch '' @ show_word proof_epoch @
             '' (current '' @ show_word current_epoch @ '')''))
      else Ok ())"

definition validate_lease_current :: "lease_message \<Rightarrow> timestamp \<Rightarrow> unit fabric_result" where
  "validate_lease_current lease now =
     (if lm_expires_at lease < now then Err (fabric_err FeInvalidLease ''lease expired'') else Ok ())"

definition validate_lifecycle_context :: "lifecycle_context \<Rightarrow> worker_id \<Rightarrow> unit fabric_result" where
  "validate_lifecycle_context ctx channel_worker =
     and_then (validate_protocol_version (lc_protocol_version ctx)) (\<lambda>_.
     and_then (validate_channel_identity channel_worker (lc_worker_id ctx)) (\<lambda>_.
       if trim_is_empty (lc_idempotency_key ctx) then Err (missing_field ''idempotency_key'')
       else if trim_is_empty (lc_lease_id ctx) then Err (missing_field ''lease_id'')
       else Ok ()))"

definition validate_result_context ::
    "lifecycle_context \<Rightarrow> worker_id \<Rightarrow> u64 \<Rightarrow> bool \<Rightarrow> unit fabric_result" where
  "validate_result_context ctx channel_worker current_lease_epoch canceled =
     and_then (validate_lifecycle_context ctx channel_worker) (\<lambda>_.
     and_then (validate_lease_epoch current_lease_epoch (lc_lease_epoch ctx)) (\<lambda>_.
       if canceled then Err (fabric_err FeInvalidLease ''attempt canceled'') else Ok ()))"

definition validate_result_context_audit ::
    "lifecycle_context \<Rightarrow> worker_id \<Rightarrow> u64 \<Rightarrow> unit fabric_result" where
  "validate_result_context_audit ctx channel_worker current_lease_epoch =
     and_then (validate_lifecycle_context ctx channel_worker) (\<lambda>_.
       if current_lease_epoch < lc_lease_epoch ctx
       then Err (fabric_err FeInvalidEnvelope ''future lease epoch'') else Ok ())"

text \<open>\<open>json_len\<close> is the length of \<open>serde_json::to_vec\<close>, \<open>None\<close> when it fails.\<close>

definition validate_heartbeat ::
    "(json \<Rightarrow> nat option) \<Rightarrow> heartbeat \<Rightarrow> worker_id \<Rightarrow> message_size_limits \<Rightarrow> unit fabric_result" where
  "validate_heartbeat json_len hb channel_worker limits =
     and_then (validate_lifecycle_context (fhb_context hb) channel_worker) (\<lambda>_.
       if 256 < length (fhb_attempt_state hb)
       then Err (fabric_err FeInputTooLarge ''heartbeat attempt_state too large'')
       else if (case fhb_progress_marker hb of None \<Rightarrow> False | Some m \<Rightarrow> 4096 < length m)
       then Err (fabric_err FeInputTooLarge ''heartbeat progress_marker too large'')
       else if 256 < length (fhb_worker_health_status hb)
       then Err (fabric_err FeInputTooLarge ''heartbeat worker_health_status too large'')
       else
         let summary_len = (case fhb_resource_usage_summary hb of None \<Rightarrow> 0
                            | Some v \<Rightarrow> (case json_len v of None \<Rightarrow> 0 | Some n \<Rightarrow> n))
         in if ml_max_payload_bytes limits div 4 < of_nat summary_len
            then Err (fabric_err FeInputTooLarge ''heartbeat resource summary too large'')
            else Ok ())"

definition validate_cancellation :: "cancellation_request \<Rightarrow> unit fabric_result" where
  "validate_cancellation cancel =
     (if 4096 < length (cq_reason cancel)
      then Err (fabric_err FeInputTooLarge ''cancellation reason too large'') else Ok ())"

fun require_features :: "string \<Rightarrow> string list \<Rightarrow> string list \<Rightarrow> unit fabric_result" where
  "require_features what features [] = Ok ()"
| "require_features what features (required # rest) =
     (if required \<in> set features then require_features what features rest
      else Err (fabric_err FeInvalidEnvelope (what @ required)))"

definition validate_security_features :: "string list \<Rightarrow> unit fabric_result" where
  "validate_security_features features =
     require_features ''missing mandatory security feature '' features immutable_security_features"

section \<open>Version negotiation\<close>

record version_negotiation_request =
  vq_min_supported_version :: u32
  vq_max_supported_version :: u32
  vq_required_features :: "string list"
  vq_optional_features :: "string list"
  vq_software_version :: string
  vq_message_size_limits :: message_size_limits

record version_negotiation_response =
  vs_negotiated_version :: u32
  vs_active_features :: "string list"
  vs_message_size_limits :: message_size_limits

definition negotiate_versions ::
    "version_negotiation_request \<Rightarrow> u32 \<Rightarrow> u32 \<Rightarrow> version_negotiation_response fabric_result" where
  "negotiate_versions request local_min local_max =
     (if vq_max_supported_version request < local_min \<or> local_max < vq_min_supported_version request
      then Err (fabric_err FeUnsupportedProtocolVersion ''no compatible protocol version'')
      else
        let negotiated = min (max (vq_min_supported_version request) local_min) local_max;
            active = remdups_adj (sort (vq_required_features request @ vq_optional_features request))
        in and_then (require_features ''negotiation cannot omit security feature '' active
                       immutable_security_features) (\<lambda>_.
             Ok \<lparr>vs_negotiated_version = negotiated, vs_active_features = active,
                 vs_message_size_limits = vq_message_size_limits request\<rparr>))"

section \<open>Bounded decoding\<close>

text \<open>\<open>Value::get\<close> and \<open>Value::as_u64\<close>.\<close>

fun json_get :: "json \<Rightarrow> string \<Rightarrow> json option" where
  "json_get (JObject kvs) k = map_of kvs k"
| "json_get _ k = None"

fun json_as_u64 :: "json \<Rightarrow> u64 option" where
  "json_as_u64 (JNumber (PosInt n)) = Some n"
| "json_as_u64 _ = None"

fun json_as_bool :: "json \<Rightarrow> bool option" where
  "json_as_bool (JBool b) = Some b"
| "json_as_bool _ = None"

definition check_version_field :: "json \<Rightarrow> unit fabric_result" where
  "check_version_field v =
     (case Option.bind (json_get v ''protocol_version'') json_as_u64 of
        Some version \<Rightarrow> validate_protocol_version (ucast version)
      | None \<Rightarrow> Err (fabric_err FeInvalidEnvelope ''missing protocol_version''))"

definition decode_envelope_json ::
    "(string \<Rightarrow> (string, json) result) \<Rightarrow> (json \<Rightarrow> nat option) \<Rightarrow> (json \<Rightarrow> (string, 'a fabric_envelope) result) \<Rightarrow>
     string \<Rightarrow> message_size_limits \<Rightarrow> 'a fabric_envelope fabric_result" where
  "decode_envelope_json from_slice json_len from_value bytes limits =
     and_then (check_envelope_size (length bytes) limits) (\<lambda>_.
     and_then (map_err (\<lambda>e. fabric_err FeInvalidEnvelope (''decode failed: '' @ e)) (from_slice bytes)) (\<lambda>v.
     and_then (check_version_field v) (\<lambda>_.
     and_then (case json_get v ''payload'' of
         None \<Rightarrow> Ok ()
       | Some payload \<Rightarrow>
           check_payload_size (case json_len payload of None \<Rightarrow> 2 ^ 64 - 1 | Some n \<Rightarrow> n) limits) (\<lambda>_.
     and_then (map_err (\<lambda>e. fabric_err FeInvalidEnvelope (''decode failed: '' @ e)) (from_value v)) (\<lambda>envelope.
     and_then (validate_mandatory_envelope_fields envelope) (\<lambda>_. Ok envelope))))))"

definition decode_envelope_json_lossy ::
    "(string \<Rightarrow> (string, json) result) \<Rightarrow> string \<Rightarrow> message_size_limits option \<Rightarrow> json fabric_result" where
  "decode_envelope_json_lossy from_slice bytes limits_opt =
     (let limits = (case limits_opt of None \<Rightarrow> default_message_limits | Some l \<Rightarrow> l) in
      and_then (check_envelope_size (length bytes) limits) (\<lambda>_.
      and_then (map_err (\<lambda>_. fabric_err FeInvalidEnvelope ''invalid json envelope'') (from_slice bytes)) (\<lambda>v.
      and_then (check_version_field v) (\<lambda>_. Ok v))))"

end
