(* ===== verification/Capability.thy ===== *)
theory Capability
  imports Fabric "HOL-Library.Log_Nat"
begin

text \<open>
  Worker capabilities (\<open>atmos/tetonic-fabric-protocol/src\<close>): the advertised document
  (\<open>capabilities.rs\<close>, \<open>capability_document.rs\<close>), its validation (\<open>capability_validate.rs\<close>), the
  coordinator's probes (\<open>capability_probes.rs\<close>, \<open>capability_metrics.rs\<close>) and model matching
  (\<open>capability_model_match.rs\<close>). Times are nanoseconds, \<open>Utc::now()\<close> is an argument, unchecked \<open>+\<close>
  and \<open>sum\<close> on machine integers wrap as in the release profile. An \<open>f64\<close> that is only carried is its
  bits; the \<open>f32\<close> load score is its bits too, rounded to nearest, ties to even.
\<close>

type_synonym f32_bits = "32 word"

section \<open>Single-precision quotients\<close>

text \<open>\<open>a as f32 / b as f32\<close> for \<open>u32\<close> values: both operands and the quotient are rounded to 24
  significant bits. Quotients of 32-bit integers lie between \<open>2 ^ -32\<close> and \<open>2 ^ 32\<close>, within the
  normal range, so the exponent field never saturates.\<close>

definition ratio_log :: "nat \<Rightarrow> nat \<Rightarrow> int" where
  "ratio_log p q =
     (let k = int (floorlog 2 p) - int (floorlog 2 q)
      in if (if 0 \<le> k then q * 2 ^ nat k \<le> p else q \<le> p * 2 ^ nat (- k)) then k else k - 1)"

definition div_half_even :: "nat \<Rightarrow> nat \<Rightarrow> nat" where
  "div_half_even n d =
     (let t = n div d; r = n mod d in if 2 * r < d \<or> 2 * r = d \<and> even t then t else t + 1)"

definition ratio_significand :: "nat \<Rightarrow> nat \<Rightarrow> nat" where
  "ratio_significand p q =
     (let s = 23 - ratio_log p q
      in if 0 \<le> s then div_half_even (p * 2 ^ nat s) q else div_half_even p (q * 2 ^ nat (- s)))"

definition u32_as_f32 :: "u32 \<Rightarrow> nat" where
  "u32_as_f32 a = (if unat a < 2 ^ 24 then unat a
                   else ratio_significand (unat a) 1 * 2 ^ nat (ratio_log (unat a) 1 - 23))"

definition f32_quotient :: "u32 \<Rightarrow> u32 \<Rightarrow> f32_bits" where
  "f32_quotient a b =
     (let p = u32_as_f32 a; q = u32_as_f32 b
      in if p = 0 then 0
         else word_of_int ((ratio_log p q + 127) * 2 ^ 23 + int (ratio_significand p q) - 2 ^ 23))"

section \<open>The capability document\<close>

record worker_capability_advertisement =
  adv_min_protocol_version :: u32
  adv_max_protocol_version :: u32
  adv_job_kinds :: "job_kind list"
  adv_supports_leases :: bool
  adv_supports_cancellation :: bool
  adv_supports_artifact_semantics :: bool
  adv_legacy_v1_chat_only :: bool

definition fabric_v1_full :: "job_kind list \<Rightarrow> worker_capability_advertisement" where
  "fabric_v1_full kinds = \<lparr>adv_min_protocol_version = 1, adv_max_protocol_version = 1,
     adv_job_kinds = kinds, adv_supports_leases = True, adv_supports_cancellation = True,
     adv_supports_artifact_semantics = True, adv_legacy_v1_chat_only = False\<rparr>"

definition legacy_v1_chat_infer_only :: worker_capability_advertisement where
  "legacy_v1_chat_infer_only = \<lparr>adv_min_protocol_version = 0, adv_max_protocol_version = 0,
     adv_job_kinds = [Infer], adv_supports_leases = False, adv_supports_cancellation = False,
     adv_supports_artifact_semantics = False, adv_legacy_v1_chat_only = True\<rparr>"

definition max_capability_document_bytes :: u32 where
  "max_capability_document_bytes = 256 * 1024"

definition default_static_capability_ttl :: int where
  "default_static_capability_ttl = 3600 * 1000000000"

definition default_dynamic_capacity_ttl :: int where
  "default_dynamic_capacity_ttl = 30 * 1000000000"

record software_version =
  sver_version :: string
  sver_build :: "string option"

record protocol_range =
  prange_min :: u32
  prange_max :: u32

record version_range =
  vrange_min :: u32
  vrange_max :: u32

datatype control_support = CsEnforced | CsPartial | CsUnsupported | CsUnknown

datatype capability_evidence_kind =
  SelfReported | WorkerLocallyProbed | CoordinatorObserved | CoordinatorVerified | Attested

record capability_evidence =
  cev_kind :: capability_evidence_kind
  cev_claim :: string

record job_capability =
  jcap_job_kind :: job_kind
  jcap_schema_versions :: version_range
  jcap_maximum_input_bytes :: u64
  jcap_maximum_output_bytes :: u64
  jcap_maximum_artifacts :: u32
  jcap_supports_cancellation :: bool
  jcap_supports_heartbeats :: bool
  jcap_supports_leases :: bool
  jcap_supports_streaming :: bool

datatype model_load_state = Warm | Cold | LoadUnknown

record model_capability =
  mcap_local_name :: string
  mcap_model_digest :: "string option"
  mcap_quantization :: "string option"
  mcap_parameter_size_b :: "f64_bits option"
  mcap_max_context_length :: u32
  mcap_tool_call_support :: bool
  mcap_structured_output_support :: bool
  mcap_estimated_vram_bytes :: "u64 option"
  mcap_load_state :: model_load_state

record gpu_device =
  gpud_name :: string
  gpud_vram_bytes :: u64
  gpud_vram_free_bytes :: "u64 option"

record hardware_capabilities =
  hw_cpu_arch :: "string option"
  hw_logical_cores :: u32
  hw_total_ram_bytes :: "u64 option"
  hw_available_ram_bytes :: "u64 option"
  hw_gpus :: "gpu_device list"

record runtime_capacity =
  rcap_active_jobs :: u32
  rcap_queued_jobs :: u32
  rcap_maximum_concurrent_jobs :: u32
  rcap_available_ram_bytes :: "u64 option"
  rcap_available_vram_bytes :: "u64 option"
  rcap_estimated_queue_delay_secs :: u64
  rcap_load_score :: f32_bits
  rcap_draining :: bool

record sandbox_capabilities =
  sbx_process_tree :: control_support
  sbx_runtime_limits :: control_support
  sbx_memory_limits :: control_support
  sbx_filesystem_read_scope :: control_support
  sbx_filesystem_write_scope :: control_support
  sbx_network_denial :: control_support
  sbx_network_allowlist :: control_support
  sbx_environment_filtering :: control_support

definition default_sandbox_capabilities :: sandbox_capabilities where
  "default_sandbox_capabilities = \<lparr>sbx_process_tree = CsUnsupported, sbx_runtime_limits = CsUnsupported,
     sbx_memory_limits = CsUnsupported, sbx_filesystem_read_scope = CsUnsupported,
     sbx_filesystem_write_scope = CsUnsupported, sbx_network_denial = CsUnsupported,
     sbx_network_allowlist = CsUnsupported, sbx_environment_filtering = CsUnsupported\<rparr>"

record worker_limits =
  wlim_max_concurrent_jobs :: u32
  wlim_max_input_bytes :: u64
  wlim_max_output_bytes :: u64

record worker_capabilities =
  wcap_worker_id :: worker_id
  wcap_capability_revision :: u64
  wcap_generated_at :: timestamp
  wcap_valid_until :: timestamp
  wcap_boot_id :: string
  wcap_software_version :: software_version
  wcap_protocol_range :: protocol_range
  wcap_supported_features :: "string list"
  wcap_supported_job_types :: "job_capability list"
  wcap_model_inventory :: "model_capability list"
  wcap_hardware :: hardware_capabilities
  wcap_runtime_capacity :: runtime_capacity
  wcap_sandbox :: sandbox_capabilities
  wcap_limits :: worker_limits
  wcap_revocation_epoch :: u64
  wcap_evidence :: "capability_evidence list"
  wcap_legacy_advertisement :: "worker_capability_advertisement option"

definition supports_job_kind :: "worker_capabilities \<Rightarrow> job_kind \<Rightarrow> bool" where
  "supports_job_kind caps kind \<longleftrightarrow> list_ex (\<lambda>j. jcap_job_kind j = kind) (wcap_supported_job_types caps)"

definition caps_expired :: "worker_capabilities \<Rightarrow> timestamp \<Rightarrow> bool" where
  "caps_expired caps now \<longleftrightarrow> wcap_valid_until caps \<le> now"

definition dynamic_capacity_expired :: "worker_capabilities \<Rightarrow> timestamp \<Rightarrow> bool" where
  "dynamic_capacity_expired caps now \<longleftrightarrow> wcap_generated_at caps + default_dynamic_capacity_ttl \<le> now"

section \<open>The two infer profiles\<close>

text \<open>The parts that both profiles build in the same way from the same arguments.\<close>

definition profile_model :: "string list \<Rightarrow> string \<Rightarrow> model_capability" where
  "profile_model resident name = \<lparr>mcap_local_name = name, mcap_model_digest = None,
     mcap_quantization = None, mcap_parameter_size_b = None, mcap_max_context_length = 0,
     mcap_tool_call_support = False, mcap_structured_output_support = False,
     mcap_estimated_vram_bytes = None,
     mcap_load_state = (if List.member resident name then Warm else Cold)\<rparr>"

definition megabytes :: "u32 \<Rightarrow> u64" where
  "megabytes mb = ucast mb * 1024 * 1024"

definition profile_hardware :: "u32 \<Rightarrow> u32 \<Rightarrow> hardware_capabilities" where
  "profile_hardware vram_total_mb vram_free_mb = \<lparr>hw_cpu_arch = None, hw_logical_cores = 0,
     hw_total_ram_bytes = None, hw_available_ram_bytes = None,
     hw_gpus = (if 0 < vram_total_mb
                then [\<lparr>gpud_name = ''gpu0'', gpud_vram_bytes = megabytes vram_total_mb,
                       gpud_vram_free_bytes = Some (megabytes vram_free_mb)\<rparr>]
                else [])\<rparr>"

definition profile_runtime :: "u32 \<Rightarrow> u32 \<Rightarrow> u32 \<Rightarrow> u32 \<Rightarrow> runtime_capacity" where
  "profile_runtime vram_free_mb active_jobs queued_jobs max_concurrent =
     \<lparr>rcap_active_jobs = active_jobs, rcap_queued_jobs = queued_jobs,
      rcap_maximum_concurrent_jobs = max max_concurrent 1, rcap_available_ram_bytes = None,
      rcap_available_vram_bytes = (if 0 < vram_free_mb then Some (megabytes vram_free_mb) else None),
      rcap_estimated_queue_delay_secs = 0,
      rcap_load_score = (if 0 < max_concurrent then f32_quotient (active_jobs + queued_jobs) max_concurrent else 0),
      rcap_draining = False\<rparr>"

definition profile_limits :: "u32 \<Rightarrow> worker_limits" where
  "profile_limits max_concurrent = \<lparr>wlim_max_concurrent_jobs = max max_concurrent 1,
     wlim_max_input_bytes = 2 * 1024 * 1024, wlim_max_output_bytes = 8 * 1024 * 1024\<rparr>"

definition infer_capability :: "bool \<Rightarrow> job_capability" where
  "infer_capability leased = \<lparr>jcap_job_kind = Infer, jcap_schema_versions = \<lparr>vrange_min = 1, vrange_max = 1\<rparr>,
     jcap_maximum_input_bytes = 2 * 1024 * 1024, jcap_maximum_output_bytes = 8 * 1024 * 1024,
     jcap_maximum_artifacts = 0, jcap_supports_cancellation = leased, jcap_supports_heartbeats = leased,
     jcap_supports_leases = leased, jcap_supports_streaming = True\<rparr>"

definition legacy_infer_profile ::
    "timestamp \<Rightarrow> worker_id \<Rightarrow> string \<Rightarrow> u64 \<Rightarrow> u64 \<Rightarrow> string list \<Rightarrow> string list \<Rightarrow> u32 \<Rightarrow> u32 \<Rightarrow>
     u32 \<Rightarrow> u32 \<Rightarrow> u32 \<Rightarrow> worker_capabilities" where
  "legacy_infer_profile now worker_id boot_id capability_revision revocation_epoch models resident_models
      vram_total_mb vram_free_mb active_jobs queued_jobs max_concurrent =
     (let legacy = legacy_v1_chat_infer_only
      in \<lparr>wcap_worker_id = worker_id, wcap_capability_revision = capability_revision,
          wcap_generated_at = now, wcap_valid_until = now + default_static_capability_ttl,
          wcap_boot_id = boot_id,
          wcap_software_version = \<lparr>sver_version = ''lokai-node'', sver_build = None\<rparr>,
          wcap_protocol_range = \<lparr>prange_min = adv_min_protocol_version legacy,
            prange_max = adv_max_protocol_version legacy\<rparr>,
          wcap_supported_features = [''legacy_v1_chat''],
          wcap_supported_job_types = [infer_capability False],
          wcap_model_inventory = map (profile_model resident_models) models,
          wcap_hardware = profile_hardware vram_total_mb vram_free_mb,
          wcap_runtime_capacity = profile_runtime vram_free_mb active_jobs queued_jobs max_concurrent,
          wcap_sandbox = default_sandbox_capabilities, wcap_limits = profile_limits max_concurrent,
          wcap_revocation_epoch = revocation_epoch,
          wcap_evidence = [\<lparr>cev_kind = WorkerLocallyProbed, cev_claim = ''legacy_v1_chat_capabilities''\<rparr>],
          wcap_legacy_advertisement = Some legacy\<rparr>)"

definition typed_infer_profile ::
    "timestamp \<Rightarrow> worker_id \<Rightarrow> string \<Rightarrow> u64 \<Rightarrow> u64 \<Rightarrow> string list \<Rightarrow> string list \<Rightarrow> u32 \<Rightarrow> u32 \<Rightarrow>
     u32 \<Rightarrow> u32 \<Rightarrow> u32 \<Rightarrow> worker_capabilities" where
  "typed_infer_profile now worker_id boot_id capability_revision revocation_epoch models resident_models
      vram_total_mb vram_free_mb active_jobs queued_jobs max_concurrent =
     (let typed = fabric_v1_full [Infer]
      in \<lparr>wcap_worker_id = worker_id, wcap_capability_revision = capability_revision,
          wcap_generated_at = now, wcap_valid_until = now + default_static_capability_ttl,
          wcap_boot_id = boot_id,
          wcap_software_version = \<lparr>sver_version = ''lokai-node'', sver_build = None\<rparr>,
          wcap_protocol_range = \<lparr>prange_min = adv_min_protocol_version typed,
            prange_max = adv_max_protocol_version typed\<rparr>,
          wcap_supported_features = [''fabric_v1'', ''legacy_v1_chat''],
          wcap_supported_job_types = [infer_capability True],
          wcap_model_inventory = map (profile_model resident_models) models,
          wcap_hardware = profile_hardware vram_total_mb vram_free_mb,
          wcap_runtime_capacity = profile_runtime vram_free_mb active_jobs queued_jobs max_concurrent,
          wcap_sandbox = default_sandbox_capabilities, wcap_limits = profile_limits max_concurrent,
          wcap_revocation_epoch = revocation_epoch,
          wcap_evidence = [\<lparr>cev_kind = WorkerLocallyProbed, cev_claim = ''fabric_v1_infer_capabilities''\<rparr>],
          wcap_legacy_advertisement = Some typed\<rparr>)"

section \<open>Validation\<close>

definition validate_capability_document_bytes :: "string \<Rightarrow> unit fabric_result" where
  "validate_capability_document_bytes bytes =
     (if max_capability_document_bytes < of_nat (length bytes)
      then Err (fabric_err FeInputTooLarge (''capability document '' @ show_nat (length bytes) @
             '' bytes exceeds max '' @ show_word max_capability_document_bytes))
      else Ok ())"

definition forbidden_secret_markers :: "string list" where
  "forbidden_secret_markers =
     [''-----begin'', ''api_key'', ''apikey'', ''secret='', ''password='', ''bearer '', ''sk-'']"

definition forbidden_path_markers :: "string list" where
  "forbidden_path_markers =
     [[CHR 0x5C] @ ''users'' @ [CHR 0x5C], ''/home/'', ''/etc/'', ''c:'' @ [CHR 0x5C], ''file://'',
      [CHR 0x5C, CHR 0x5C]]"

definition scan_field :: "string \<Rightarrow> string \<Rightarrow> unit fabric_result" where
  "scan_field field value =
     (if list_ex (str_contains (to_ascii_lowercase value)) forbidden_secret_markers
      then Err (fabric_err FeInvalidEnvelope (''capability field '' @ field @ '' contains forbidden secret marker''))
      else if list_ex (str_contains value) forbidden_path_markers
      then Err (fabric_err FeInvalidEnvelope (''capability field '' @ field @ '' contains local path''))
      else Ok ())"

fun scan_fields :: "(string \<times> string) list \<Rightarrow> unit fabric_result" where
  "scan_fields [] = Ok ()"
| "scan_fields ((field, value) # rest) = and_then (scan_field field value) (\<lambda>_. scan_fields rest)"

text \<open>The fields in the order in which the source scans them.\<close>

definition optional_field :: "string \<Rightarrow> string option \<Rightarrow> (string \<times> string) list" where
  "optional_field field v = (case v of None \<Rightarrow> [] | Some s \<Rightarrow> [(field, s)])"

definition scanned_fields :: "worker_capabilities \<Rightarrow> (string \<times> string) list" where
  "scanned_fields caps =
     [(''boot_id'', wcap_boot_id caps), (''software_version'', sver_version (wcap_software_version caps))] @
     optional_field ''software_build'' (sver_build (wcap_software_version caps)) @
     concat (map (\<lambda>model. (''model.local_name'', mcap_local_name model) #
        optional_field ''model.model_digest'' (mcap_model_digest model) @
        optional_field ''model.quantization'' (mcap_quantization model)) (wcap_model_inventory caps)) @
     map (\<lambda>gpu. (''gpu.name'', gpud_name gpu)) (hw_gpus (wcap_hardware caps)) @
     map (\<lambda>ev. (''evidence.claim'', cev_claim ev)) (wcap_evidence caps)"

definition validate_capability_document_content :: "worker_capabilities \<Rightarrow> unit fabric_result" where
  "validate_capability_document_content caps = scan_fields (scanned_fields caps)"

definition validate_capability_document_fields ::
    "worker_capabilities \<Rightarrow> worker_id \<Rightarrow> u64 \<Rightarrow> timestamp \<Rightarrow> unit fabric_result" where
  "validate_capability_document_fields caps channel_worker_id known_revocation_epoch now =
     (if wcap_worker_id caps \<noteq> channel_worker_id
      then Err (fabric_err FeIdentityMismatch ''capability worker_id does not match authenticated channel'')
      else if wcap_boot_id caps = []
      then Err (fabric_err FeInvalidEnvelope ''capability boot_id is required'')
      else if wcap_capability_revision caps = 0
      then Err (fabric_err FeInvalidEnvelope ''capability_revision must be positive'')
      else if wcap_valid_until caps \<le> wcap_generated_at caps
      then Err (fabric_err FeInvalidEnvelope ''valid_until must be after generated_at'')
      else if caps_expired caps now
      then Err (fabric_err FeInvalidEnvelope ''capability advertisement expired'')
      else if wcap_revocation_epoch caps < known_revocation_epoch
      then Err (fabric_err FeStaleRevocationEpoch ''capability revocation_epoch is stale'')
      else if list_ex (\<lambda>model. mcap_local_name model = []) (wcap_model_inventory caps)
      then Err (fabric_err FeInvalidEnvelope ''model local_name must not be empty'')
      else validate_capability_document_content caps)"

definition validate_worker_capabilities ::
    "worker_capabilities \<Rightarrow> worker_id \<Rightarrow> u64 \<Rightarrow> timestamp \<Rightarrow> unit fabric_result" where
  "validate_worker_capabilities caps channel_worker_id known_revocation_epoch now =
     validate_capability_document_fields caps channel_worker_id known_revocation_epoch now"

definition scheduling_eligible :: "worker_capabilities \<Rightarrow> timestamp \<Rightarrow> bool \<Rightarrow> bool" where
  "scheduling_eligible caps now require_fresh_dynamic =
     (if caps_expired caps now \<or> rcap_draining (wcap_runtime_capacity caps) then False
      else if require_fresh_dynamic \<and> dynamic_capacity_expired caps now then False
      else True)"

section \<open>Probes\<close>

definition max_plausible_context_length :: u32 where
  "max_plausible_context_length = 10000000"

datatype probe_severity = SevInfo | SevDegraded | SevQuarantine

record capability_probe_result =
  cpr_name :: string
  cpr_passed :: bool
  cpr_message :: string
  cpr_severity :: probe_severity

definition probe_passed :: "string \<Rightarrow> capability_probe_result" where
  "probe_passed name = \<lparr>cpr_name = name, cpr_passed = True, cpr_message = [], cpr_severity = SevInfo\<rparr>"

definition probe_failed :: "string \<Rightarrow> string \<Rightarrow> probe_severity \<Rightarrow> capability_probe_result" where
  "probe_failed name message severity =
     \<lparr>cpr_name = name, cpr_passed = False, cpr_message = message, cpr_severity = severity\<rparr>"

definition is_legacy_profile :: "worker_capabilities \<Rightarrow> bool" where
  "is_legacy_profile caps \<longleftrightarrow>
     (case wcap_legacy_advertisement caps of None \<Rightarrow> False | Some l \<Rightarrow> adv_legacy_v1_chat_only l)"

definition probe_cancellation_claim :: "worker_capabilities \<Rightarrow> capability_probe_result" where
  "probe_cancellation_claim caps =
     (if \<not> is_legacy_profile caps then probe_passed ''cancellation_conformance''
      else if list_ex jcap_supports_cancellation (wcap_supported_job_types caps)
      then probe_failed ''cancellation_conformance'' ''legacy worker must not claim cancellation support'' SevQuarantine
      else probe_passed ''cancellation_conformance'')"

definition probe_context_length_claim :: "worker_capabilities \<Rightarrow> capability_probe_result" where
  "probe_context_length_claim caps =
     (case find (\<lambda>model. max_plausible_context_length < mcap_max_context_length model) (wcap_model_inventory caps) of
        Some model \<Rightarrow> probe_failed ''context_length_claim''
          (''model '' @ mcap_local_name model @ '' claims implausible max_context_length '' @
           show_word (mcap_max_context_length model)) SevQuarantine
      | None \<Rightarrow> probe_passed ''context_length_claim'')"

fun sandbox_advertised_enforced :: "control_support \<Rightarrow> bool" where
  "sandbox_advertised_enforced CsEnforced = True"
| "sandbox_advertised_enforced CsPartial = True"
| "sandbox_advertised_enforced CsUnsupported = False"
| "sandbox_advertised_enforced CsUnknown = False"

definition probe_sandbox_enforcement_claim :: "worker_capabilities \<Rightarrow> capability_probe_result" where
  "probe_sandbox_enforcement_claim caps =
     (if \<not> is_legacy_profile caps then probe_passed ''sandbox_control_claim''
      else let sb = wcap_sandbox caps
        in if sandbox_advertised_enforced (sbx_process_tree sb) \<or>
              sandbox_advertised_enforced (sbx_runtime_limits sb) \<or>
              sandbox_advertised_enforced (sbx_memory_limits sb) \<or>
              sandbox_advertised_enforced (sbx_network_denial sb) \<or>
              sandbox_advertised_enforced (sbx_network_allowlist sb)
           then probe_failed ''sandbox_control_claim''
                  ''legacy worker advertises sandbox controls that are not enforced'' SevQuarantine
           else probe_passed ''sandbox_control_claim'')"

definition total_vram :: "worker_capabilities \<Rightarrow> u64" where
  "total_vram caps = sum_list (map gpud_vram_bytes (hw_gpus (wcap_hardware caps)))"

definition gpu_overcommitted :: "gpu_device \<Rightarrow> bool" where
  "gpu_overcommitted gpu \<longleftrightarrow>
     (case gpud_vram_free_bytes gpu of None \<Rightarrow> False | Some free \<Rightarrow> gpud_vram_bytes gpu < free)"

definition probe_resource_consistency :: "worker_capabilities \<Rightarrow> capability_probe_result" where
  "probe_resource_consistency caps =
     (let total = total_vram caps
      in if 0 < total
         then if (case rcap_available_vram_bytes (wcap_runtime_capacity caps) of
                    None \<Rightarrow> False | Some avail \<Rightarrow> total < avail)
              then probe_failed ''resource_consistency'' ''available_vram_bytes exceeds total GPU VRAM'' SevQuarantine
              else case find gpu_overcommitted (hw_gpus (wcap_hardware caps)) of
                     Some gpu \<Rightarrow> probe_failed ''resource_consistency''
                       (''GPU '' @ gpud_name gpu @ '' free VRAM exceeds total'') SevQuarantine
                   | None \<Rightarrow> probe_passed ''resource_consistency''
         else probe_passed ''resource_consistency'')"

fun evidence_kind_debug :: "capability_evidence_kind \<Rightarrow> string" where
  "evidence_kind_debug SelfReported = ''SelfReported''"
| "evidence_kind_debug WorkerLocallyProbed = ''WorkerLocallyProbed''"
| "evidence_kind_debug CoordinatorObserved = ''CoordinatorObserved''"
| "evidence_kind_debug CoordinatorVerified = ''CoordinatorVerified''"
| "evidence_kind_debug Attested = ''Attested''"

definition probe_self_assigned_trust :: "worker_capabilities \<Rightarrow> capability_probe_result" where
  "probe_self_assigned_trust caps =
     (case find (\<lambda>ev. cev_kind ev = CoordinatorVerified \<or> cev_kind ev = Attested) (wcap_evidence caps) of
        Some ev \<Rightarrow> probe_failed ''self_assigned_trust''
          (''worker must not self-assign evidence kind '' @ evidence_kind_debug (cev_kind ev)) SevQuarantine
      | None \<Rightarrow> probe_passed ''self_assigned_trust'')"

definition run_capability_probes :: "worker_capabilities \<Rightarrow> capability_probe_result list" where
  "run_capability_probes caps =
     [probe_cancellation_claim caps, probe_context_length_claim caps, probe_sandbox_enforcement_claim caps,
      probe_resource_consistency caps, probe_self_assigned_trust caps]"

definition probes_quarantine :: "capability_probe_result list \<Rightarrow> bool" where
  "probes_quarantine results \<longleftrightarrow> list_ex (\<lambda>r. \<not> cpr_passed r \<and> cpr_severity r = SevQuarantine) results"

definition probes_degraded :: "capability_probe_result list \<Rightarrow> bool" where
  "probes_degraded results \<longleftrightarrow> list_ex (\<lambda>r. \<not> cpr_passed r \<and> cpr_severity r = SevDegraded) results"

definition merge_probe_results ::
    "capability_probe_result list \<Rightarrow> capability_probe_result list \<Rightarrow> capability_probe_result list" where
  "merge_probe_results static_probes extra = static_probes @ extra"

definition probe_gpu_disappeared :: "worker_capabilities \<Rightarrow> worker_capabilities \<Rightarrow> capability_probe_result" where
  "probe_gpu_disappeared previous current =
     (let had_gpu = hw_gpus (wcap_hardware previous) \<noteq> []; has_gpu = hw_gpus (wcap_hardware current) \<noteq> []
      in if had_gpu \<and> \<not> has_gpu
         then probe_failed ''gpu_disappeared''
                ''hardware GPUs present in prior advertisement but missing now'' SevDegraded
         else probe_passed ''gpu_disappeared'')"

definition digest_drifted :: "model_capability list \<Rightarrow> model_capability \<Rightarrow> bool" where
  "digest_drifted previous model \<longleftrightarrow>
     (case find (\<lambda>m. mcap_local_name m = mcap_local_name model) previous of
        None \<Rightarrow> False
      | Some prev \<Rightarrow> mcap_model_digest prev \<noteq> None \<and> mcap_model_digest model \<noteq> None \<and>
          mcap_model_digest prev \<noteq> mcap_model_digest model)"

definition probe_model_digest_drift :: "worker_capabilities \<Rightarrow> worker_capabilities \<Rightarrow> capability_probe_result" where
  "probe_model_digest_drift previous current =
     (case find (digest_drifted (wcap_model_inventory previous)) (wcap_model_inventory current) of
        Some model \<Rightarrow> probe_failed ''model_digest_drift''
          (''model '' @ mcap_local_name model @ '' digest changed under tag '' @ mcap_local_name model) SevDegraded
      | None \<Rightarrow> probe_passed ''model_digest_drift'')"

definition run_capability_drift_probes ::
    "worker_capabilities \<Rightarrow> worker_capabilities \<Rightarrow> capability_probe_result list" where
  "run_capability_drift_probes previous current =
     [probe_gpu_disappeared previous current, probe_model_digest_drift previous current]"

definition probe_model_health_observed :: "worker_capabilities \<Rightarrow> bool \<Rightarrow> capability_probe_result" where
  "probe_model_health_observed caps health_ok =
     (if health_ok \<or> wcap_model_inventory caps = [] then probe_passed ''model_health_observed''
      else probe_failed ''model_health_observed''
             ''worker health probe failed while models are advertised'' SevDegraded)"

definition probe_model_inventory_verified :: "worker_capabilities \<Rightarrow> bool \<Rightarrow> capability_probe_result" where
  "probe_model_inventory_verified caps models_verified =
     (if models_verified \<or> wcap_model_inventory caps = [] then probe_passed ''model_inventory_verified''
      else probe_failed ''model_inventory_verified''
             ''model inventory could not be verified via capabilities fetch'' SevDegraded)"

fun lease_heartbeat_claim :: "bool \<Rightarrow> job_capability list \<Rightarrow> capability_probe_result" where
  "lease_heartbeat_claim legacy [] = probe_passed ''lease_heartbeat_conformance''"
| "lease_heartbeat_claim legacy (job # jobs) =
     (if legacy \<and> jcap_supports_leases job
      then probe_failed ''lease_heartbeat_conformance'' ''legacy worker must not claim lease support'' SevQuarantine
      else if legacy \<and> jcap_supports_heartbeats job
      then probe_failed ''lease_heartbeat_conformance'' ''legacy worker must not claim heartbeat support'' SevQuarantine
      else lease_heartbeat_claim legacy jobs)"

definition probe_lease_heartbeat_claim :: "worker_capabilities \<Rightarrow> capability_probe_result" where
  "probe_lease_heartbeat_claim caps =
     lease_heartbeat_claim (is_legacy_profile caps) (wcap_supported_job_types caps)"

definition run_coordinator_observed_probes ::
    "worker_capabilities \<Rightarrow> bool \<Rightarrow> bool \<Rightarrow> capability_probe_result list" where
  "run_coordinator_observed_probes caps health_ok models_verified =
     [probe_model_health_observed caps health_ok, probe_model_inventory_verified caps models_verified,
      probe_lease_heartbeat_claim caps]"

definition probe_inventory_matches_verified :: "model_capability list \<Rightarrow> string list \<Rightarrow> capability_probe_result" where
  "probe_inventory_matches_verified inventory verified_names =
     (case find (\<lambda>model. \<not> list_ex (\<lambda>name. name = mcap_local_name model) verified_names) inventory of
        Some model \<Rightarrow> probe_failed ''inventory_matches_verified''
          (''advertised model '' @ mcap_local_name model @ '' missing from verified Ollama inventory'') SevQuarantine
      | None \<Rightarrow> probe_passed ''inventory_matches_verified'')"

definition observed_evidence_from_probes :: "capability_probe_result list \<Rightarrow> capability_evidence list" where
  "observed_evidence_from_probes results =
     map (\<lambda>r. \<lparr>cev_kind = CoordinatorObserved, cev_claim = cpr_name r\<rparr>) (filter cpr_passed results)"

definition verified_evidence_from_session ::
    "capability_probe_result list \<Rightarrow> bool \<Rightarrow> bool \<Rightarrow> capability_evidence list" where
  "verified_evidence_from_session probe_results health_ok models_verified =
     (if \<not> health_ok \<or> \<not> models_verified then []
      else if list_ex (\<lambda>r. \<not> cpr_passed r) probe_results then []
      else [\<lparr>cev_kind = CoordinatorVerified, cev_claim = ''capability_probe_session''\<rparr>])"

section \<open>Probe metrics\<close>

record capability_probe_metrics =
  cpm_probes_passed :: u64
  cpm_probes_failed :: u64
  cpm_workers_quarantined :: u64
  cpm_workers_degraded :: u64
  cpm_cache_inserts :: u64
  cpm_cache_updates :: u64

definition default_probe_metrics :: capability_probe_metrics where
  "default_probe_metrics = \<lparr>cpm_probes_passed = 0, cpm_probes_failed = 0, cpm_workers_quarantined = 0,
     cpm_workers_degraded = 0, cpm_cache_inserts = 0, cpm_cache_updates = 0\<rparr>"

fun count_probe :: "capability_probe_result \<Rightarrow> capability_probe_metrics \<Rightarrow> capability_probe_metrics" where
  "count_probe r m = (if cpr_passed r then m\<lparr>cpm_probes_passed := cpm_probes_passed m + 1\<rparr>
                      else m\<lparr>cpm_probes_failed := cpm_probes_failed m + 1\<rparr>)"

definition record_probe_results ::
    "capability_probe_result list \<Rightarrow> bool \<Rightarrow> bool \<Rightarrow> capability_probe_metrics \<Rightarrow> capability_probe_metrics" where
  "record_probe_results results quarantined degraded m =
     (let m1 = fold count_probe results m;
          m2 = (if quarantined then m1\<lparr>cpm_workers_quarantined := cpm_workers_quarantined m1 + 1\<rparr> else m1)
      in if degraded then m2\<lparr>cpm_workers_degraded := cpm_workers_degraded m2 + 1\<rparr> else m2)"

section \<open>Model matching\<close>

record model_selection =
  msel_local_name :: string
  msel_digest :: "string option"

definition selection_from_request :: "string \<Rightarrow> string option \<Rightarrow> model_selection" where
  "selection_from_request model digest = \<lparr>msel_local_name = model, msel_digest = digest\<rparr>"

definition is_mutable_tag :: "string \<Rightarrow> bool" where
  "is_mutable_tag model \<longleftrightarrow>
     ends_with model '':latest'' \<or> ends_with model '':main'' \<or> model = ''latest'' \<or> model = ''main''"

definition tag_matches :: "string \<Rightarrow> string \<Rightarrow> bool" where
  "tag_matches inventory_name requested \<longleftrightarrow>
     inventory_name = requested \<or> starts_with inventory_name (requested @ '':'')"

definition model_inventory_matches :: "model_capability list \<Rightarrow> model_selection \<Rightarrow> bool" where
  "model_inventory_matches inventory selection =
     (let candidates = filter (\<lambda>m. tag_matches (mcap_local_name m) (msel_local_name selection)) inventory
      in if candidates = [] then False
         else case msel_digest selection of
                Some req_digest \<Rightarrow> list_ex (\<lambda>m. mcap_model_digest m = Some req_digest) candidates
              | None \<Rightarrow>
                  if is_mutable_tag (msel_local_name selection) \<and> list_ex (\<lambda>m. mcap_model_digest m \<noteq> None) candidates
                  then False else True)"

section \<open>What the checks establish\<close>

lemma scan_field_no_panic [simp]: "scan_field field value \<noteq> Panic"
  by (simp add: scan_field_def)

lemma scan_fields_no_panic [simp]: "scan_fields fs \<noteq> Panic"
  by (induction fs rule: scan_fields.induct) (auto simp: result_simps)

lemma validate_worker_capabilities_no_panic [simp]: "validate_worker_capabilities caps w e now \<noteq> Panic"
  by (simp add: validate_worker_capabilities_def validate_capability_document_fields_def
      validate_capability_document_content_def)

lemma scan_fields_Ok: "scan_fields fs = Ok () \<longleftrightarrow> (\<forall>(field, value) \<in> set fs. scan_field field value = Ok ())"
  by (induction fs rule: scan_fields.induct) (auto simp: result_simps)

lemma validated_fields:
  assumes "validate_worker_capabilities caps w e now = Ok ()"
  shows "wcap_worker_id caps = w" and "wcap_boot_id caps \<noteq> []" and "wcap_capability_revision caps \<noteq> 0"
    and "\<not> caps_expired caps now" and "e \<le> wcap_revocation_epoch caps"
    and "\<forall>(field, value) \<in> set (scanned_fields caps). scan_field field value = Ok ()"
  using assms by (auto simp: validate_worker_capabilities_def validate_capability_document_fields_def
      validate_capability_document_content_def scan_fields_Ok split: if_splits)

text \<open>A document that no probe quarantines assigns itself no trust and keeps its resource claims.\<close>

lemma not_quarantined_probe:
  "\<not> probes_quarantine rs \<Longrightarrow> r \<in> set rs \<Longrightarrow> cpr_severity r = SevQuarantine \<longrightarrow> cpr_passed r"
  by (auto simp: probes_quarantine_def list_ex_iff)

lemma probe_self_assigned_trust_clean:
  assumes "\<not> probes_quarantine rs" "probe_self_assigned_trust caps \<in> set rs" "ev \<in> set (wcap_evidence caps)"
  shows "cev_kind ev \<noteq> CoordinatorVerified \<and> cev_kind ev \<noteq> Attested"
proof -
  have "find (\<lambda>ev. cev_kind ev = CoordinatorVerified \<or> cev_kind ev = Attested) (wcap_evidence caps) = None"
    using not_quarantined_probe [OF assms(1,2)]
    by (auto simp: probe_self_assigned_trust_def probe_failed_def split: option.splits)
  with assms(3) show ?thesis by (auto simp: find_None_iff)
qed

lemma probe_resource_consistency_clean:
  assumes "\<not> probes_quarantine rs" "probe_resource_consistency caps \<in> set rs" "0 < total_vram caps"
    and "rcap_available_vram_bytes (wcap_runtime_capacity caps) = Some avail"
  shows "avail \<le> total_vram caps"
  using not_quarantined_probe [OF assms(1,2)] assms(3,4)
  by (auto simp: probe_resource_consistency_def probe_failed_def Let_def split: if_splits)

text \<open>The profiles the workers themselves build never trip a probe, as long as the free video memory they
  report does not exceed the total.\<close>

lemma unat_megabytes: "unat (megabytes mb) = unat mb * 1048576"
proof -
  have "unat mb < 2 ^ 32" using unsigned_less [of mb] by simp
  then show ?thesis by (simp add: megabytes_def unat_word_ariths unsigned_ucast_eq take_bit_nat_eq_self)
qed

lemma megabytes_mono: "a \<le> b \<Longrightarrow> megabytes a \<le> megabytes b"
  by (simp add: word_le_nat_alt unat_megabytes)

lemma profile_models_plausible:
  "find (\<lambda>model. max_plausible_context_length < mcap_max_context_length model) (map (profile_model resident) models) = None"
  by (auto simp: find_None_iff profile_model_def)

lemma profile_resources:
  assumes "vram_free_mb \<le> vram_total_mb" "wcap_hardware caps = profile_hardware vram_total_mb vram_free_mb"
    and "wcap_runtime_capacity caps = profile_runtime vram_free_mb active queued max_concurrent"
  shows "probe_resource_consistency caps = probe_passed ''resource_consistency''"
  using assms megabytes_mono [OF assms(1)]
  by (auto simp: probe_resource_consistency_def total_vram_def profile_hardware_def profile_runtime_def
      gpu_overcommitted_def Let_def)

lemma infer_profile_probes:
  assumes "vram_free_mb \<le> vram_total_mb"
    and "profile \<in> {legacy_infer_profile, typed_infer_profile}"
    and "caps = profile now w boot revision epoch models resident vram_total_mb vram_free_mb active queued max_concurrent"
  shows "list_all cpr_passed (run_capability_probes caps @ run_coordinator_observed_probes caps True True)"
proof -
  have "probe_resource_consistency caps = probe_passed ''resource_consistency''"
    using assms by (intro profile_resources) (auto simp: legacy_infer_profile_def typed_infer_profile_def Let_def)
  moreover have "probe_context_length_claim caps = probe_passed ''context_length_claim''"
    using assms(2,3) profile_models_plausible
    by (auto simp: probe_context_length_claim_def legacy_infer_profile_def typed_infer_profile_def Let_def)
  ultimately show ?thesis using assms(2,3)
    by (auto simp: run_capability_probes_def run_coordinator_observed_probes_def probe_passed_def
        probe_cancellation_claim_def probe_sandbox_enforcement_claim_def probe_self_assigned_trust_def
        probe_model_health_observed_def probe_model_inventory_verified_def probe_lease_heartbeat_claim_def
        is_legacy_profile_def legacy_infer_profile_def typed_infer_profile_def infer_capability_def
        legacy_v1_chat_infer_only_def fabric_v1_full_def default_sandbox_capabilities_def Let_def)
qed

text \<open>Model matching: a requested digest is matched exactly, whatever the tag.\<close>

lemma model_match_digest:
  assumes "model_inventory_matches inventory (selection_from_request model (Some d))"
  shows "\<exists>m \<in> set inventory. mcap_model_digest m = Some d \<and> tag_matches (mcap_local_name m) model"
  using assms by (auto simp: model_inventory_matches_def selection_from_request_def Let_def list_ex_iff split: if_splits)

text \<open>A typed profile with clean names and a fresh time stamp is a valid document.\<close>

lemma scan_field_name: "scan_field f v = Ok () \<longleftrightarrow> scan_field g v = Ok ()"
  by (simp add: scan_field_def)

lemma profile_texts_clean:
  "scan_field f ''lokai-node'' = Ok ()" "scan_field f ''gpu0'' = Ok ()"
  "scan_field f ''fabric_v1_infer_capabilities'' = Ok ()"
proof -
  have "scan_field [] ''lokai-node'' = Ok ()" "scan_field [] ''gpu0'' = Ok ()"
      "scan_field [] ''fabric_v1_infer_capabilities'' = Ok ()" by code_simp+
  then show "scan_field f ''lokai-node'' = Ok ()" "scan_field f ''gpu0'' = Ok ()"
      "scan_field f ''fabric_v1_infer_capabilities'' = Ok ()" using scan_field_name by blast+
qed

lemma typed_profile_valid:
  assumes "boot \<noteq> []" "scan_field ''boot_id'' boot = Ok ()" "0 < revision"
    and "list_all (\<lambda>m. m \<noteq> [] \<and> scan_field ''model.local_name'' m = Ok ()) models"
    and "now < sent + default_dynamic_capacity_ttl"
    and "caps = typed_infer_profile sent w boot revision epoch models resident vram_total_mb vram_free_mb active queued maxc"
  shows "validate_worker_capabilities caps w epoch now = Ok ()"
proof -
  have "scan_fields (scanned_fields caps) = Ok ()"
    using assms profile_texts_clean
    by (auto simp: scan_fields_Ok scanned_fields_def optional_field_def typed_infer_profile_def profile_model_def
        profile_hardware_def list_all_iff Let_def)
  with assms show ?thesis
    by (auto simp: validate_worker_capabilities_def validate_capability_document_fields_def
        validate_capability_document_content_def typed_infer_profile_def Let_def caps_expired_def list_ex_iff
        list_all_iff profile_model_def default_static_capability_ttl_def default_dynamic_capacity_ttl_def)
qed

end
