(* ===== verification/Registry.thy ===== *)
theory Registry
  imports Capability
begin

text \<open>
  The coordinator's capability cache (\<open>capability_registry.rs\<close>) and the broker's last check before
  dispatch (\<open>mantle/tetonic-broker/src/dispatch.rs\<close>, \<open>types.rs\<close>). The hash map of entries is an
  ordered map, since its iteration order is never observed; \<open>Instant::now()\<close> is an argument.
\<close>

section \<open>The registry\<close>

record cached_entry =
  cent_caps :: worker_capabilities
  cent_fetched_at :: timestamp
  cent_quarantined :: bool
  cent_degraded :: bool
  cent_probe_results :: "capability_probe_result list"
  cent_observed_evidence :: "capability_evidence list"
  cent_verified_evidence :: "capability_evidence list"

record capability_registry =
  creg_entries :: "(string, cached_entry) btree"
  creg_metrics :: capability_probe_metrics
  creg_snapshot_invalidate_pending :: bool

definition registry_new :: capability_registry where
  "registry_new = \<lparr>creg_entries = [], creg_metrics = default_probe_metrics,
     creg_snapshot_invalidate_pending = False\<rparr>"

datatype capability_refresh_outcome = RefreshInserted | RefreshUpdated | RefreshUnchanged

datatype worker_scheduling_state =
  SchedEligible | SchedDegraded | SchedQuarantined | SchedExpired | SchedDraining | SchedNotCached

record probe_session_input =
  psi_caps :: worker_capabilities
  psi_channel_worker_id :: worker_id
  psi_known_revocation_epoch :: u64
  psi_now :: timestamp
  psi_previous :: "worker_capabilities option"
  psi_health_ok :: bool
  psi_models_verified :: bool
  psi_verified_model_names :: "string list option"

definition take_snapshot_invalidation :: "capability_registry \<Rightarrow> bool \<times> capability_registry" where
  "take_snapshot_invalidation reg =
     (creg_snapshot_invalidate_pending reg, reg\<lparr>creg_snapshot_invalidate_pending := False\<rparr>)"

definition gpu_inventory_changed :: "worker_capabilities \<Rightarrow> worker_capabilities \<Rightarrow> bool" where
  "gpu_inventory_changed previous current \<longleftrightarrow>
     length (hw_gpus (wcap_hardware previous)) \<noteq> length (hw_gpus (wcap_hardware current))"

definition model_inventory_changed :: "worker_capabilities \<Rightarrow> worker_capabilities \<Rightarrow> bool" where
  "model_inventory_changed previous current =
     (if length (wcap_model_inventory previous) \<noteq> length (wcap_model_inventory current) then True
      else list_ex (\<lambda>(a, b). mcap_local_name a \<noteq> mcap_local_name b \<or> mcap_model_digest a \<noteq> mcap_model_digest b \<or>
                       mcap_quantization a \<noteq> mcap_quantization b)
             (zip (wcap_model_inventory previous) (wcap_model_inventory current)))"

definition refresh_outcome :: "cached_entry option \<Rightarrow> worker_capabilities \<Rightarrow> capability_refresh_outcome" where
  "refresh_outcome existing caps =
     (case existing of
        None \<Rightarrow> RefreshInserted
      | Some e \<Rightarrow>
          if wcap_capability_revision (cent_caps e) \<noteq> wcap_capability_revision caps \<or>
             wcap_boot_id (cent_caps e) \<noteq> wcap_boot_id caps \<or>
             wcap_revocation_epoch (cent_caps e) \<noteq> wcap_revocation_epoch caps then RefreshUpdated
          else if wcap_generated_at (cent_caps e) \<noteq> wcap_generated_at caps then RefreshUpdated
          else if sver_version (wcap_software_version (cent_caps e)) \<noteq> sver_version (wcap_software_version caps)
          then RefreshUpdated
          else if gpu_inventory_changed (cent_caps e) caps then RefreshUpdated
          else if model_inventory_changed (cent_caps e) caps then RefreshUpdated
          else RefreshUnchanged)"

definition session_probes :: "probe_session_input \<Rightarrow> capability_probe_result list" where
  "session_probes input =
     (let caps = psi_caps input;
          drift = (case psi_previous input of
                     None \<Rightarrow> []
                   | Some prev \<Rightarrow> if wcap_boot_id prev = wcap_boot_id caps then run_capability_drift_probes prev caps else []);
          observed = run_coordinator_observed_probes caps (psi_health_ok input) (psi_models_verified input);
          inventory_match = (case psi_verified_model_names input of
                               None \<Rightarrow> []
                             | Some names \<Rightarrow> [probe_inventory_matches_verified (wcap_model_inventory caps) names])
      in merge_probe_results (run_capability_probes caps) (drift @ observed @ inventory_match))"

text \<open>A worker that restarted (another boot id) must have raised its revision.\<close>

definition restart_without_bump :: "capability_registry \<Rightarrow> worker_capabilities \<Rightarrow> bool" where
  "restart_without_bump reg caps \<longleftrightarrow>
     (case bt_get (creg_entries reg) (wcap_worker_id caps) of
        None \<Rightarrow> False
      | Some existing \<Rightarrow> wcap_boot_id (cent_caps existing) \<noteq> wcap_boot_id caps \<and>
          wcap_capability_revision caps \<le> wcap_capability_revision (cent_caps existing))"

definition count_refresh :: "capability_refresh_outcome \<Rightarrow> capability_probe_metrics \<Rightarrow> capability_probe_metrics" where
  "count_refresh outcome m =
     (case outcome of
        RefreshInserted \<Rightarrow> m\<lparr>cpm_cache_inserts := cpm_cache_inserts m + 1\<rparr>
      | RefreshUpdated \<Rightarrow> m\<lparr>cpm_cache_updates := cpm_cache_updates m + 1\<rparr>
      | RefreshUnchanged \<Rightarrow> m)"

definition session_entry :: "timestamp \<Rightarrow> probe_session_input \<Rightarrow> cached_entry" where
  "session_entry instant input =
     (let probe_results = session_probes input;
          quarantined = probes_quarantine probe_results
      in \<lparr>cent_caps = psi_caps input, cent_fetched_at = instant, cent_quarantined = quarantined,
          cent_degraded = (\<not> quarantined \<and> probes_degraded probe_results),
          cent_probe_results = probe_results,
          cent_observed_evidence = observed_evidence_from_probes probe_results,
          cent_verified_evidence =
            verified_evidence_from_session probe_results (psi_health_ok input) (psi_models_verified input)\<rparr>)"

definition upsert_probe_session ::
    "timestamp \<Rightarrow> probe_session_input \<Rightarrow> capability_registry \<Rightarrow>
     (capability_registry \<times> capability_refresh_outcome) fabric_result" where
  "upsert_probe_session instant input reg =
     (let caps = psi_caps input in
      and_then (validate_worker_capabilities caps (psi_channel_worker_id input) (psi_known_revocation_epoch input)
                  (psi_now input)) (\<lambda>_.
      if restart_without_bump reg caps
      then Err (fabric_err FeInvalidEnvelope ''worker restart must bump capability_revision'')
      else let entry = session_entry instant input;
               metrics = record_probe_results (cent_probe_results entry) (cent_quarantined entry)
                           (cent_degraded entry) (creg_metrics reg);
               key = wcap_worker_id caps;
               outcome = refresh_outcome (bt_get (creg_entries reg) key) caps
           in Ok (\<lparr>creg_entries = bt_insert key entry (creg_entries reg),
                   creg_metrics = count_refresh outcome metrics,
                   creg_snapshot_invalidate_pending =
                     (if outcome = RefreshInserted \<or> outcome = RefreshUpdated then True
                      else creg_snapshot_invalidate_pending reg)\<rparr>, outcome)))"

definition upsert_validated ::
    "timestamp \<Rightarrow> worker_capabilities \<Rightarrow> worker_id \<Rightarrow> u64 \<Rightarrow> timestamp \<Rightarrow> capability_registry \<Rightarrow>
     (capability_registry \<times> capability_refresh_outcome) fabric_result" where
  "upsert_validated instant caps channel_worker_id known_revocation_epoch now =
     upsert_probe_session instant \<lparr>psi_caps = caps, psi_channel_worker_id = channel_worker_id,
       psi_known_revocation_epoch = known_revocation_epoch, psi_now = now, psi_previous = None,
       psi_health_ok = True, psi_models_verified = True, psi_verified_model_names = None\<rparr>"

definition registry_get :: "capability_registry \<Rightarrow> string \<Rightarrow> worker_capabilities option" where
  "registry_get reg worker_id = map_option cent_caps (bt_get (creg_entries reg) worker_id)"

definition is_quarantined :: "capability_registry \<Rightarrow> string \<Rightarrow> bool" where
  "is_quarantined reg worker_id \<longleftrightarrow>
     (case bt_get (creg_entries reg) worker_id of None \<Rightarrow> False | Some e \<Rightarrow> cent_quarantined e)"

definition is_degraded :: "capability_registry \<Rightarrow> string \<Rightarrow> bool" where
  "is_degraded reg worker_id \<longleftrightarrow>
     (case bt_get (creg_entries reg) worker_id of None \<Rightarrow> False | Some e \<Rightarrow> cent_degraded e)"

definition force_quarantine :: "string \<Rightarrow> capability_registry \<Rightarrow> bool \<times> capability_registry" where
  "force_quarantine worker_id reg =
     (if bt_contains (creg_entries reg) worker_id
      then (True, reg\<lparr>creg_entries := bt_modify worker_id
              (\<lambda>e. e\<lparr>cent_quarantined := True, cent_degraded := False\<rparr>) (creg_entries reg)\<rparr>)
      else (False, reg))"

definition force_degraded :: "string \<Rightarrow> capability_registry \<Rightarrow> bool \<times> capability_registry" where
  "force_degraded worker_id reg =
     (if bt_contains (creg_entries reg) worker_id
      then (True, reg\<lparr>creg_entries := bt_modify worker_id
              (\<lambda>e. if \<not> cent_quarantined e then e\<lparr>cent_degraded := True\<rparr> else e) (creg_entries reg)\<rparr>)
      else (False, reg))"

definition scheduling_state :: "capability_registry \<Rightarrow> string \<Rightarrow> timestamp \<Rightarrow> worker_scheduling_state" where
  "scheduling_state reg worker_id now =
     (case bt_get (creg_entries reg) worker_id of
        None \<Rightarrow> SchedNotCached
      | Some entry \<Rightarrow>
          if cent_quarantined entry then SchedQuarantined
          else if caps_expired (cent_caps entry) now then SchedExpired
          else if rcap_draining (wcap_runtime_capacity (cent_caps entry)) then SchedDraining
          else if cent_degraded entry \<or> dynamic_capacity_expired (cent_caps entry) now then SchedDegraded
          else SchedEligible)"

definition schedulable :: "capability_registry \<Rightarrow> string \<Rightarrow> timestamp \<Rightarrow> bool \<Rightarrow> worker_capabilities option" where
  "schedulable reg worker_id now require_fresh_dynamic =
     (case bt_get (creg_entries reg) worker_id of
        None \<Rightarrow> None
      | Some entry \<Rightarrow>
          if cent_quarantined entry then None
          else if scheduling_eligible (cent_caps entry) now require_fresh_dynamic then Some (cent_caps entry)
          else None)"

definition invalidate_worker :: "string \<Rightarrow> capability_registry \<Rightarrow> capability_registry" where
  "invalidate_worker worker_id reg =
     reg\<lparr>creg_entries := filter (\<lambda>(k, _). k \<noteq> worker_id) (creg_entries reg)\<rparr>"

definition invalidate_all :: "capability_registry \<Rightarrow> capability_registry" where
  "invalidate_all reg = reg\<lparr>creg_entries := [], creg_snapshot_invalidate_pending := True\<rparr>"

section \<open>The check before dispatch\<close>

datatype compute_broker_error =
  AdmissionRejected string | StaleTaskVersion | AttemptNotActive | PlacementDecisionExpired
| CapabilityStale string string | WorkerTargetRefused string string | BrokerOverBudget string
| WorkspaceMismatch | ArtifactsUnavailable | DataClassChanged | BrokerCanceled | SupervisorRequired
| ResourceTooLarge | UnknownAttempt | BrokerDispatch string | BrokerPersist string | BrokerOther string

type_synonym 'a broker_result = "(compute_broker_error, 'a) result"

fun job_kind_debug :: "job_kind \<Rightarrow> string" where
  "job_kind_debug Infer = ''Infer''"
| "job_kind_debug Embed = ''Embed''"
| "job_kind_debug AnalyzeCode = ''AnalyzeCode''"
| "job_kind_debug IndexShard = ''IndexShard''"
| "job_kind_debug TestShard = ''TestShard''"
| "job_kind_debug ReviewArtifact = ''ReviewArtifact''"

definition local_node_id :: string where
  "local_node_id = ''node_local''"

definition is_local_worker_id :: "string \<Rightarrow> bool" where
  "is_local_worker_id wid \<longleftrightarrow> wid = local_node_id \<or> to_ascii_lowercase wid = ''local''"

fun is_process_class :: "job_kind \<Rightarrow> bool" where
  "is_process_class IndexShard = True"
| "is_process_class TestShard = True"
| "is_process_class Infer = False"
| "is_process_class Embed = False"
| "is_process_class AnalyzeCode = False"
| "is_process_class ReviewArtifact = False"

definition refuse_process_on_worker_target :: "compute_request \<Rightarrow> worker_id \<Rightarrow> unit broker_result" where
  "refuse_process_on_worker_target request worker_id =
     (if is_process_class (cr_job_kind request)
      then Err (WorkerTargetRefused (job_kind_debug (cr_job_kind request)) worker_id) else Ok ())"

fun first_target :: "placement_decision \<Rightarrow> worker_id option" where
  "first_target (Eligible targets _) = (case targets of [] \<Rightarrow> None | t # _ \<Rightarrow> Some (et_worker_id t))"
| "first_target (EligibleAfterRedaction targets _ _) = (case targets of [] \<Rightarrow> None | t # _ \<Rightarrow> Some (et_worker_id t))"
| "first_target (PlaceLocalOnly _) = None"
| "first_target (PlaceDenied _) = None"

definition requested_target :: "compute_request \<Rightarrow> worker_id option" where
  "requested_target request =
     (case cr_target_worker_id request of
        Some wid \<Rightarrow> Some wid
      | None \<Rightarrow> first_target (pdr_decision (cr_placement_decision request)))"

definition remote_target :: "compute_request \<Rightarrow> worker_id option" where
  "remote_target request =
     (case cr_target_worker_id request of
        Some wid \<Rightarrow> if is_local_worker_id wid then None else Some wid
      | None \<Rightarrow> (case first_target (pdr_decision (cr_placement_decision request)) of
                   None \<Rightarrow> None
                 | Some wid \<Rightarrow> if is_local_worker_id wid then None else Some wid))"

definition revalidate_before_dispatch ::
    "compute_request \<Rightarrow> capability_registry option \<Rightarrow> timestamp \<Rightarrow> unit broker_result" where
  "revalidate_before_dispatch request caps now =
     (if pdr_expires_at (cr_placement_decision request) \<le> now then Err PlacementDecisionExpired
      else if (case pdr_decision (cr_placement_decision request) of PlaceDenied _ \<Rightarrow> True | _ \<Rightarrow> False)
      then Err PlacementDecisionExpired
      else and_then (case requested_target request of
                       Some named \<Rightarrow> refuse_process_on_worker_target request named
                     | None \<Rightarrow> Ok ()) (\<lambda>_.
        case remote_target request of
          None \<Rightarrow> Ok ()
        | Some worker_id \<Rightarrow>
           (case caps of
              None \<Rightarrow> Err (CapabilityStale worker_id ''no capability registry for remote dispatch'')
            | Some registry \<Rightarrow>
               (case scheduling_state registry worker_id now of
                  SchedEligible \<Rightarrow>
                    (case registry_get registry worker_id of
                       None \<Rightarrow> Err (CapabilityStale worker_id ''worker capabilities not cached'')
                     | Some c \<Rightarrow>
                         if \<not> supports_job_kind c (cr_job_kind request)
                         then Err (WorkerTargetRefused (job_kind_debug (cr_job_kind request)) worker_id)
                         else Ok ())
                | SchedExpired \<Rightarrow> Err (CapabilityStale worker_id ''capability advertisement expired'')
                | SchedDegraded \<Rightarrow> Err (CapabilityStale worker_id ''dynamic capacity expired or worker degraded'')
                | SchedQuarantined \<Rightarrow> Err (CapabilityStale worker_id ''worker quarantined'')
                | SchedDraining \<Rightarrow> Err (CapabilityStale worker_id ''worker draining'')
                | SchedNotCached \<Rightarrow> Err (CapabilityStale worker_id ''worker capabilities not cached'')))))"

section \<open>The registry as a machine\<close>

datatype registry_op =
  UpsertProbeSession timestamp probe_session_input | ForceQuarantine string | ForceDegraded string
| InvalidateWorker string | InvalidateAll | TakeSnapshotInvalidation

fun registry_step :: "capability_registry \<Rightarrow> registry_op \<Rightarrow> capability_registry fabric_result" where
  "registry_step reg (UpsertProbeSession instant input) =
     and_then (upsert_probe_session instant input reg) (\<lambda>(reg', _). Ok reg')"
| "registry_step reg (ForceQuarantine w) = Ok (snd (force_quarantine w reg))"
| "registry_step reg (ForceDegraded w) = Ok (snd (force_degraded w reg))"
| "registry_step reg (InvalidateWorker w) = Ok (invalidate_worker w reg)"
| "registry_step reg InvalidateAll = Ok (invalidate_all reg)"
| "registry_step reg TakeSnapshotInvalidation = Ok (snd (take_snapshot_invalidation reg))"

text \<open>What holds of every cached entry: it is filed under the worker it describes, its text fields carry no
  marker of a secret or of a local path, no worker is both quarantined and degraded, and unless the worker
  is quarantined all probes that would quarantine it passed.\<close>

definition entry_ok :: "string \<Rightarrow> cached_entry \<Rightarrow> bool" where
  "entry_ok k e \<longleftrightarrow>
     wcap_worker_id (cent_caps e) = k \<and> wcap_boot_id (cent_caps e) \<noteq> [] \<and>
     wcap_capability_revision (cent_caps e) \<noteq> 0 \<and>
     list_all (\<lambda>(field, value). scan_field field value = Ok ()) (scanned_fields (cent_caps e)) \<and>
     \<not> (cent_quarantined e \<and> cent_degraded e) \<and>
     (\<not> cent_quarantined e \<longrightarrow> \<not> probes_quarantine (cent_probe_results e)) \<and>
     set (run_capability_probes (cent_caps e)) \<subseteq> set (cent_probe_results e) \<and>
     (cent_verified_evidence e \<noteq> [] \<longrightarrow> list_all cpr_passed (cent_probe_results e))"

definition registry_inv :: "capability_registry \<Rightarrow> bool" where
  "registry_inv reg \<longleftrightarrow> bt_invar (creg_entries reg) \<and>
     (\<forall>k e. bt_get (creg_entries reg) k = Some e \<longrightarrow> entry_ok k e)"

lemma registry_new_inv: "registry_inv registry_new"
  by (simp add: registry_inv_def registry_new_def)

lemma bt_get_filter_keys:
  "bt_get (filter (\<lambda>(k, _). k \<noteq> w) m) k = (if k = w then None else bt_get m k)"
  by (induction m) auto

lemma bt_invar_filter: "bt_invar m \<Longrightarrow> bt_invar (filter P m)"
proof (induction m)
  case (Cons x m)
  have "set (map fst (filter P m)) \<subseteq> set (map fst m)" by auto
  with Cons show ?case by (auto simp: bt_invar_def bt_keys_def)
qed simp

lemma session_entry_ok:
  assumes "validate_worker_capabilities (psi_caps input) w epoch now = Ok ()"
  shows "entry_ok w (session_entry instant input)"
  using validated_fields [OF assms]
  by (auto simp: entry_ok_def session_entry_def session_probes_def merge_probe_results_def Let_def list_all_iff
      list_ex_iff verified_evidence_from_session_def split: if_splits)

lemma upsert_cases:
  assumes "upsert_probe_session instant input reg = Ok (reg', outcome)"
  shows "validate_worker_capabilities (psi_caps input) (psi_channel_worker_id input)
           (psi_known_revocation_epoch input) (psi_now input) = Ok ()"
    and "\<not> restart_without_bump reg (psi_caps input)"
    and "creg_entries reg' = bt_insert (wcap_worker_id (psi_caps input)) (session_entry instant input) (creg_entries reg)"
    and "outcome = refresh_outcome (bt_get (creg_entries reg) (wcap_worker_id (psi_caps input))) (psi_caps input)"
    and "creg_snapshot_invalidate_pending reg' \<longleftrightarrow> outcome \<noteq> RefreshUnchanged \<or> creg_snapshot_invalidate_pending reg"
  using assms by (auto simp: upsert_probe_session_def result_simps Let_def refresh_outcome_def split: if_splits option.splits)

lemma upsert_succeeds:
  assumes "validate_worker_capabilities (psi_caps input) (psi_channel_worker_id input)
      (psi_known_revocation_epoch input) (psi_now input) = Ok ()"
    and "\<not> restart_without_bump reg (psi_caps input)"
  shows "\<exists>reg'. upsert_probe_session instant input reg =
     Ok (reg', refresh_outcome (bt_get (creg_entries reg) (wcap_worker_id (psi_caps input))) (psi_caps input))"
  using assms by (simp add: upsert_probe_session_def Let_def)

lemma upsert_inv:
  assumes "registry_inv reg" "upsert_probe_session instant input reg = Ok (reg', outcome)"
  shows "registry_inv reg'"
proof -
  note u = upsert_cases [OF assms(2)]
  have "wcap_worker_id (psi_caps input) = psi_channel_worker_id input" by (rule validated_fields(1) [OF u(1)])
  then have "entry_ok (wcap_worker_id (psi_caps input)) (session_entry instant input)"
    using session_entry_ok [OF u(1)] by simp
  with assms(1) show ?thesis by (auto simp: registry_inv_def u(3))
qed

lemma entry_ok_quarantine: "entry_ok k e \<Longrightarrow> entry_ok k (e\<lparr>cent_quarantined := True, cent_degraded := False\<rparr>)"
  by (simp add: entry_ok_def)

lemma entry_ok_degrade: "entry_ok k e \<Longrightarrow> \<not> cent_quarantined e \<Longrightarrow> entry_ok k (e\<lparr>cent_degraded := True\<rparr>)"
  by (simp add: entry_ok_def)

interpretation registry: command_machine registry_step "\<lambda>_ _. True" registry_inv
proof unfold_locales
  show "registry_inv s'" if "registry_inv s" "True" "registry_step s c = Ok s'" for s c s'
    using that
  proof (cases c)
    case (UpsertProbeSession instant input)
    with that show ?thesis by (auto simp: result_simps intro: upsert_inv)
  qed (auto simp: registry_inv_def force_quarantine_def force_degraded_def invalidate_worker_def invalidate_all_def
      take_snapshot_invalidation_def bt_get_filter_keys bt_invar_filter entry_ok_quarantine entry_ok_degrade
      split: if_splits)
  show "registry_step s c \<noteq> Panic" if "registry_inv s" "True" for s c
    by (cases c) (auto simp: result_simps upsert_probe_session_def Let_def)
qed

section \<open>What may be dispatched\<close>

text \<open>The scheduling state is \<open>Eligible\<close> exactly for a cached worker with nothing against it.\<close>

definition entry_eligible :: "cached_entry \<Rightarrow> timestamp \<Rightarrow> bool" where
  "entry_eligible e now \<longleftrightarrow> \<not> cent_quarantined e \<and> \<not> cent_degraded e \<and> \<not> caps_expired (cent_caps e) now \<and>
     \<not> dynamic_capacity_expired (cent_caps e) now \<and> \<not> rcap_draining (wcap_runtime_capacity (cent_caps e))"

lemma scheduling_state_eligible:
  "scheduling_state reg w now = SchedEligible \<longleftrightarrow>
     (\<exists>e. bt_get (creg_entries reg) w = Some e \<and> entry_eligible e now)"
  by (auto simp: scheduling_state_def entry_eligible_def split: option.splits)

lemma eligible_schedulable:
  assumes "scheduling_state reg w now = SchedEligible"
  shows "schedulable reg w now True = registry_get reg w \<and> registry_get reg w \<noteq> None"
  using assms by (auto simp: scheduling_state_eligible schedulable_def registry_get_def scheduling_eligible_def
      entry_eligible_def)

definition dispatchable :: "compute_request \<Rightarrow> capability_registry option \<Rightarrow> timestamp \<Rightarrow> bool" where
  "dispatchable request caps now \<longleftrightarrow>
     now < pdr_expires_at (cr_placement_decision request) \<and>
     \<not> (\<exists>r. pdr_decision (cr_placement_decision request) = PlaceDenied r) \<and>
     (requested_target request \<noteq> None \<longrightarrow> \<not> is_process_class (cr_job_kind request)) \<and>
     (\<forall>w. remote_target request = Some w \<longrightarrow>
        (\<exists>reg e. caps = Some reg \<and> bt_get (creg_entries reg) w = Some e \<and> entry_eligible e now \<and>
           supports_job_kind (cent_caps e) (cr_job_kind request)))"

lemma target_requested: "remote_target request = Some w \<Longrightarrow> requested_target request = Some w"
  by (auto simp: remote_target_def requested_target_def split: option.splits if_splits)

lemma revalidate_no_panic: "revalidate_before_dispatch request caps now \<noteq> Panic"
  by (auto simp: revalidate_before_dispatch_def refuse_process_on_worker_target_def result_simps
      split: option.split worker_scheduling_state.split)

lemma revalidate_iff: "revalidate_before_dispatch request caps now = Ok () \<longleftrightarrow> dispatchable request caps now"
proof (cases "remote_target request")
  case None
  then show ?thesis
    by (auto simp: revalidate_before_dispatch_def dispatchable_def refuse_process_on_worker_target_def result_simps
        not_le split: option.splits placement_decision.splits)
next
  case (Some w)
  then have r: "requested_target request = Some w" by (rule target_requested)
  have reg: "(case scheduling_state reg w now of
                SchedEligible \<Rightarrow> (case registry_get reg w of None \<Rightarrow> Err a
                  | Some c \<Rightarrow> if \<not> supports_job_kind c k then Err b else Ok ())
              | SchedExpired \<Rightarrow> Err c1 | SchedDegraded \<Rightarrow> Err c2 | SchedQuarantined \<Rightarrow> Err c3
              | SchedDraining \<Rightarrow> Err c4 | SchedNotCached \<Rightarrow> Err c5) = Ok () \<longleftrightarrow>
      (\<exists>e. bt_get (creg_entries reg) w = Some e \<and> entry_eligible e now \<and> supports_job_kind (cent_caps e) k)"
    for reg :: capability_registry and a b c1 c2 c3 c4 c5 :: compute_broker_error and k
    using scheduling_state_eligible [of reg w now]
    by (auto simp: registry_get_def split: worker_scheduling_state.splits option.splits)
  show ?thesis
    unfolding revalidate_before_dispatch_def dispatchable_def Some r
    by (cases caps) (auto simp: refuse_process_on_worker_target_def result_simps reg not_le split: placement_decision.splits)
qed

text \<open>A worker named by a request that may be dispatched, in a registry the coordinator can have reached.\<close>

lemma dispatched_worker_vetted:
  assumes "registry_inv reg" "dispatchable request (Some reg) now" "remote_target request = Some w"
  obtains e where "bt_get (creg_entries reg) w = Some e" "wcap_worker_id (cent_caps e) = w"
    "entry_eligible e now" "supports_job_kind (cent_caps e) (cr_job_kind request)"
    "\<not> is_process_class (cr_job_kind request)"
    "\<forall>ev \<in> set (wcap_evidence (cent_caps e)). cev_kind ev \<noteq> CoordinatorVerified \<and> cev_kind ev \<noteq> Attested"
proof -
  from assms(2,3) obtain e where e: "bt_get (creg_entries reg) w = Some e" "entry_eligible e now"
      "supports_job_kind (cent_caps e) (cr_job_kind request)"
    by (auto simp: dispatchable_def)
  from assms(1) e(1) have ok: "entry_ok w e" by (auto simp: registry_inv_def)
  with e(2) have "\<not> probes_quarantine (cent_probe_results e)"
      "probe_self_assigned_trust (cent_caps e) \<in> set (cent_probe_results e)"
    by (auto simp: entry_ok_def entry_eligible_def run_capability_probes_def)
  from probe_self_assigned_trust_clean [OF this]
  have "\<forall>ev \<in> set (wcap_evidence (cent_caps e)). cev_kind ev \<noteq> CoordinatorVerified \<and> cev_kind ev \<noteq> Attested"
    by blast
  moreover have "\<not> is_process_class (cr_job_kind request)"
    using assms(2) target_requested [OF assms(3)] by (auto simp: dispatchable_def)
  ultimately show thesis using e ok by (intro that) (auto simp: entry_ok_def)
qed

text \<open>Whether the worker is quarantined after a probe session depends on the session's probes alone.\<close>

lemma upsert_quarantined:
  assumes "upsert_probe_session instant input reg = Ok (reg', outcome)"
  shows "is_quarantined reg' (wcap_worker_id (psi_caps input)) \<longleftrightarrow> probes_quarantine (session_probes input)"
  by (simp add: is_quarantined_def upsert_cases(3) [OF assms] session_entry_def Let_def)

end
