(* ===== verification/Floats.thy ===== *)
theory Floats
  imports Complex_Main "HOL-Library.Log_Nat" "HOL-Library.Word"
begin

text \<open>
  The little floating point that the modelled code computes. A finite float is the rational number it
  stands for; an operation is the exact operation followed by rounding to \<open>p\<close> significant bits, to
  nearest with ties to even (\<open>p = 24\<close> for \<open>f32\<close>, \<open>p = 53\<close> for \<open>f64\<close>). All values that occur are
  quotients and products of 64-bit integers and configured constants of moderate size, far from
  overflow and from the subnormal range, so that the exponent needs no bound.
\<close>

type_synonym f32 = rat
type_synonym f64 = rat

definition pow2 :: "int \<Rightarrow> rat" where
  "pow2 k = (if 0 \<le> k then 2 ^ nat k else 1 / 2 ^ nat (- k))"

text \<open>The binary logarithm, rounded down, of a positive rational.\<close>

definition rat_log2 :: "rat \<Rightarrow> int" where
  "rat_log2 x =
     (let (n, d) = quotient_of x; k = int (floorlog 2 (nat n)) - int (floorlog 2 (nat d))
      in if pow2 k \<le> x then k else k - 1)"

definition round_half_even :: "rat \<Rightarrow> int" where
  "round_half_even x =
     (let f = \<lfloor>x\<rfloor>; r = x - of_int f in if r < 1 / 2 \<or> r = 1 / 2 \<and> even f then f else f + 1)"

definition float_round :: "nat \<Rightarrow> rat \<Rightarrow> rat" where
  "float_round p x =
     (if x = 0 then 0
      else let unit = pow2 (rat_log2 \<bar>x\<bar> - int p + 1) in of_int (round_half_even (x / unit)) * unit)"

abbreviation to_f32 :: "rat \<Rightarrow> f32" where
  "to_f32 \<equiv> float_round 24"

abbreviation to_f64 :: "rat \<Rightarrow> f64" where
  "to_f64 \<equiv> float_round 53"

text \<open>\<open>a as f32 / b as f32\<close> and \<open>x as f64\<close> for unsigned integers.\<close>

definition f32_ratio :: "nat \<Rightarrow> nat \<Rightarrow> f32" where
  "f32_ratio a b = to_f32 (to_f32 (of_nat a) / to_f32 (of_nat b))"

lemma pow2_pos [simp]: "0 < pow2 k"
  by (simp add: pow2_def)

lemma round_half_even_mono: "x \<le> y \<Longrightarrow> round_half_even x \<le> round_half_even y"
proof -
  assume le: "x \<le> y"
  then have f: "\<lfloor>x\<rfloor> \<le> \<lfloor>y\<rfloor>" by (rule floor_mono)
  show ?thesis
  proof (cases "\<lfloor>x\<rfloor> = \<lfloor>y\<rfloor>")
    case True
    with le show ?thesis by (auto simp: round_half_even_def Let_def)
  next
    case False
    with f show ?thesis by (auto simp: round_half_even_def Let_def)
  qed
qed

lemma round_half_even_int [simp]: "round_half_even (of_int n) = n"
  by (simp add: round_half_even_def)

lemma float_round_0 [simp]: "float_round p 0 = 0"
  by (simp add: float_round_def)

lemma float_round_nonneg: "0 \<le> x \<Longrightarrow> 0 \<le> float_round p x"
proof -
  assume "0 \<le> x"
  then have "round_half_even (of_int 0) \<le> round_half_even (x / pow2 k)" for k
    by (intro round_half_even_mono) (simp add: less_imp_le)
  then have "0 \<le> round_half_even (x / pow2 k)" for k by (simp only: round_half_even_int)
  then show ?thesis by (simp add: float_round_def Let_def less_imp_le)
qed

text \<open>Powers of two are exact.\<close>

lemma pow2_powi: "pow2 k = 2 powi k"
  by (simp add: pow2_def power_int_def field_simps)

lemma rat_log2_power: "rat_log2 (2 ^ k) = int k"
proof -
  have "quotient_of (2 ^ k) = (2 ^ k, 1)" using quotient_of_int [of "2 ^ k"] by (simp add: Rat.of_int_def)
  moreover have "floorlog 2 (nat (2 ^ k)) = floorlog 2 1 + k" using floorlog_power [of 1 2 k] by (simp add: nat_power_eq)
  ultimately show ?thesis by (simp add: rat_log2_def pow2_powi)
qed

lemma float_round_power: "0 < p \<Longrightarrow> float_round p (2 ^ k) = 2 ^ k"
proof -
  assume p: "0 < p"
  let ?u = "pow2 (int k - int p + 1)"
  have "(2::rat) ^ k / ?u = 2 powi int k / 2 powi (int k - int p + 1)" by (simp add: pow2_powi)
  also have "\<dots> = 2 powi (int k - (int k - int p + 1))" by (rule power_int_diff [symmetric]) simp
  also have "\<dots> = 2 powi int (p - 1)" using p by (simp add: of_nat_diff)
  also have "\<dots> = of_int (2 ^ (p - 1))" by simp
  finally have q: "(2::rat) ^ k / ?u = of_int (2 ^ (p - 1))" .
  then have "of_int (round_half_even (2 ^ k / ?u)) * ?u = 2 ^ k / ?u * ?u" by (simp only: round_half_even_int)
  also have "\<dots> = 2 ^ k" using pow2_pos [of "int k - int p + 1"] by (simp add: less_imp_neq [symmetric])
  finally show ?thesis by (simp add: float_round_def Let_def rat_log2_power)
qed

lemma f32_ratio_power: "b \<le> a \<Longrightarrow> f32_ratio (2 ^ a) (2 ^ b) = 2 ^ (a - b)"
  by (simp add: f32_ratio_def float_round_power flip: power_diff)

end
