(* ===== verification/Scheduler.thy ===== *)
theory Scheduler
  imports Registry Floats
begin

text \<open>
  The broker's scheduler (\<open>mantle/tetonic-broker/src/scheduler\<close>): the per-worker circuit breaker
  (\<open>circuit.rs\<close>), completion estimates (\<open>estimate.rs\<close>) and their calibration (\<open>calibration.rs\<close>), the
  choice of a target (\<open>score.rs\<close>, \<open>types.rs\<close>), fallback (\<open>fallback.rs\<close>), speculation
  (\<open>speculate.rs\<close>), the profiles of the job kinds (\<open>job_profile.rs\<close>) and the stamping of a decision onto
  a request (\<open>stamp.rs\<close>). A mutexed table is an ordered map; one reading of the clocks, the arguments
  \<open>now\<close> (wall clock) and \<open>instant\<close> (monotonic clock), serves one call. Durations are nanoseconds,
  estimates milliseconds at their width; \<open>f32\<close> and \<open>f64\<close> are as in \<open>Floats\<close>.
\<close>

section \<open>The circuit breaker\<close>

datatype circuit_state = CircuitClosed | CircuitOpen | CircuitHalfOpen

record worker_circuit =
  wc_state :: circuit_state
  wc_failures :: u32
  wc_opened_at :: "timestamp option"
  wc_half_open_successes :: u32

record circuit_breaker_registry =
  cb_inner :: "(string, worker_circuit) btree"
  cb_failure_threshold :: u32
  cb_open_cooldown :: int
  cb_half_open_success_threshold :: u32

definition circuit_new :: "u32 \<Rightarrow> int \<Rightarrow> u32 \<Rightarrow> circuit_breaker_registry" where
  "circuit_new failure_threshold open_cooldown half_open_success_threshold =
     \<lparr>cb_inner = [], cb_failure_threshold = failure_threshold, cb_open_cooldown = open_cooldown,
      cb_half_open_success_threshold = half_open_success_threshold\<rparr>"

definition circuit_default :: circuit_breaker_registry where
  "circuit_default = circuit_new 3 (30 * 1000000000) 1"

text \<open>\<open>entry(worker_id).or_insert(..)\<close>.\<close>

definition circuit_entry :: "circuit_breaker_registry \<Rightarrow> string \<Rightarrow> worker_circuit" where
  "circuit_entry reg worker_id =
     (case bt_get (cb_inner reg) worker_id of
        Some c \<Rightarrow> c
      | None \<Rightarrow> \<lparr>wc_state = CircuitClosed, wc_failures = 0, wc_opened_at = None, wc_half_open_successes = 0\<rparr>)"

definition store_circuit :: "string \<Rightarrow> worker_circuit \<Rightarrow> circuit_breaker_registry \<Rightarrow> circuit_breaker_registry" where
  "store_circuit worker_id c reg = reg\<lparr>cb_inner := bt_insert worker_id c (cb_inner reg)\<rparr>"

definition cooled_down :: "circuit_breaker_registry \<Rightarrow> timestamp \<Rightarrow> worker_circuit \<Rightarrow> bool" where
  "cooled_down reg instant c \<longleftrightarrow>
     (case wc_opened_at c of None \<Rightarrow> False | Some at_ \<Rightarrow> cb_open_cooldown reg \<le> max 0 (instant - at_))"

definition circuit_state_of ::
    "timestamp \<Rightarrow> string \<Rightarrow> circuit_breaker_registry \<Rightarrow> circuit_state \<times> circuit_breaker_registry" where
  "circuit_state_of instant worker_id reg =
     (let entry = circuit_entry reg worker_id;
          entry' = (if wc_state entry = CircuitOpen \<and> cooled_down reg instant entry
                    then entry\<lparr>wc_state := CircuitHalfOpen, wc_half_open_successes := 0\<rparr> else entry)
      in (wc_state entry', store_circuit worker_id entry' reg))"

definition allows_dispatch ::
    "timestamp \<Rightarrow> string \<Rightarrow> circuit_breaker_registry \<Rightarrow> bool \<times> circuit_breaker_registry" where
  "allows_dispatch instant worker_id reg =
     (let (s, reg') = circuit_state_of instant worker_id reg in (s \<noteq> CircuitOpen, reg'))"

definition closed_circuit :: "worker_circuit \<Rightarrow> worker_circuit" where
  "closed_circuit c = c\<lparr>wc_state := CircuitClosed, wc_failures := 0, wc_opened_at := None\<rparr>"

definition record_success :: "string \<Rightarrow> circuit_breaker_registry \<Rightarrow> circuit_breaker_registry" where
  "record_success worker_id reg =
     (let entry = circuit_entry reg worker_id
      in store_circuit worker_id
           (case wc_state entry of
              CircuitHalfOpen \<Rightarrow>
                let entry' = entry\<lparr>wc_half_open_successes := wc_half_open_successes entry + 1\<rparr>
                in if cb_half_open_success_threshold reg \<le> wc_half_open_successes entry'
                   then closed_circuit entry' else entry'
            | _ \<Rightarrow> closed_circuit entry) reg)"

definition record_failure :: "timestamp \<Rightarrow> string \<Rightarrow> circuit_breaker_registry \<Rightarrow> circuit_breaker_registry" where
  "record_failure instant worker_id reg =
     (let entry = circuit_entry reg worker_id;
          entry' = entry\<lparr>wc_failures := saturating_add (wc_failures entry) 1\<rparr>
      in store_circuit worker_id
           (if cb_failure_threshold reg \<le> wc_failures entry' \<or> wc_state entry' = CircuitHalfOpen
            then entry'\<lparr>wc_state := CircuitOpen, wc_opened_at := Some instant, wc_half_open_successes := 0\<rparr>
            else entry') reg)"

section \<open>Estimates\<close>

record uncertainty_model =
  um_cold_floor_ms :: u64
  um_cold_model_extra_ms :: u64
  um_rolling_mae_ms :: u64
  um_samples :: u32

definition default_uncertainty_model :: uncertainty_model where
  "default_uncertainty_model = \<lparr>um_cold_floor_ms = 250, um_cold_model_extra_ms = 500,
     um_rolling_mae_ms = 0, um_samples = 0\<rparr>"

definition margin_ms :: "uncertainty_model \<Rightarrow> bool \<Rightarrow> u64" where
  "margin_ms u cold_start =
     (let m = (if um_samples u < 5 then max (um_cold_floor_ms u) (um_rolling_mae_ms u)
               else (um_rolling_mae_ms u * 120) div 100);
          m' = (if cold_start then saturating_add m (um_cold_model_extra_ms u) else m)
      in max m' 25)"

record candidate_inputs =
  ci_target :: execution_target_id
  ci_admission_delay_ms :: u64
  ci_queue_delay_ms :: u64
  ci_connection_setup_ms :: u64
  ci_input_transfer_ms :: u64
  ci_cold_start_ms :: u64
  ci_execution_ms :: u64
  ci_result_transfer_ms :: u64
  ci_verification_ms :: u64
  ci_queue_depth :: u32
  ci_transfer_bytes :: u64
  ci_cold_start :: bool
  ci_uncertainty :: uncertainty_model

record completion_estimate =
  cx_finish_ms :: u64
  cx_uncertainty_margin_ms :: u64
  cx_scored_ms :: u64

definition estimate_finish_ms :: "candidate_inputs \<Rightarrow> completion_estimate" where
  "estimate_finish_ms c =
     (let finish = foldl saturating_add (ci_admission_delay_ms c)
            [ci_queue_delay_ms c, ci_connection_setup_ms c, ci_input_transfer_ms c, ci_cold_start_ms c,
             ci_execution_ms c, ci_result_transfer_ms c, ci_verification_ms c];
          margin = margin_ms (ci_uncertainty c) (ci_cold_start c)
      in \<lparr>cx_finish_ms = finish, cx_uncertainty_margin_ms = margin, cx_scored_ms = saturating_add finish margin\<rparr>)"

section \<open>Calibration\<close>

definition saturating_mul :: "'a::len word \<Rightarrow> 'a word \<Rightarrow> 'a word" where
  "saturating_mul a b = (if unat a * unat b < 2 ^ LENGTH('a) then a * b else - 1)"

record worker_mae =
  mae_samples :: u32
  mae_rolling_mae_ms :: u64

type_synonym prediction_calibration = "(string, worker_mae) btree"

definition record_error :: "string \<Rightarrow> u64 \<Rightarrow> prediction_calibration \<Rightarrow> prediction_calibration" where
  "record_error key abs_error_ms cal =
     (let entry = (case bt_get cal key of
                     Some e \<Rightarrow> e | None \<Rightarrow> \<lparr>mae_samples = 0, mae_rolling_mae_ms = 0\<rparr>);
          n = ucast (mae_samples entry) :: u64;
          next_n = saturating_add n 1;
          rolling = (if next_n = 0 then abs_error_ms
                     else saturating_add (saturating_mul (mae_rolling_mae_ms entry) n) abs_error_ms div next_n)
      in bt_insert key
           \<lparr>mae_samples = saturating_add (mae_samples entry) 1, mae_rolling_mae_ms = rolling\<rparr> cal)"

definition record_attempt :: "execution_target_id \<Rightarrow> bool \<Rightarrow> u64 \<Rightarrow> prediction_calibration \<Rightarrow> prediction_calibration" where
  "record_attempt target cold_start abs_error_ms cal =
     record_error (if cold_start then ''dim:cold'' else ''dim:warm'') abs_error_ms
       (record_error (if target = Local then ''dim:local'' else ''dim:remote'') abs_error_ms
         (record_error (as_label target) abs_error_ms cal))"

definition uncertainty_for :: "prediction_calibration \<Rightarrow> string \<Rightarrow> bool \<Rightarrow> uncertainty_model" where
  "uncertainty_for cal key cold_start =
     (let fallback = (if key = ''local'' \<or> to_ascii_lowercase key = ''node_local''
                      then default_uncertainty_model\<lparr>um_samples := 20, um_rolling_mae_ms := 40\<rparr>
                      else \<lparr>um_cold_floor_ms = 300, um_cold_model_extra_ms = 500, um_rolling_mae_ms = 0, um_samples = 0\<rparr>)
      in case bt_get cal key of
           None \<Rightarrow> fallback
         | Some w \<Rightarrow>
             if 0 < mae_samples w
             then \<lparr>um_cold_floor_ms = 250, um_cold_model_extra_ms = (if cold_start then 500 else 0),
                   um_rolling_mae_ms = max (mae_rolling_mae_ms w) 1, um_samples = mae_samples w\<rparr>
             else fallback)"

section \<open>The decision\<close>

datatype scheduler_reason =
  LocalFirstPolicy | RemoteFaster | LocalFaster | EqualWithUncertainty | MinSpeedupNotMet
| TransferTooLarge | ReasonCircuitOpen | ReasonQuarantined | ReasonSecretLocalOnly | NoEligibleRemote
| DeadlineForcedLocal | QueueThreshold | FeatureFlagLocalFirst

fun scheduler_reason_as_str :: "scheduler_reason \<Rightarrow> string" where
  "scheduler_reason_as_str LocalFirstPolicy = ''local_first_policy''"
| "scheduler_reason_as_str RemoteFaster = ''remote_faster''"
| "scheduler_reason_as_str LocalFaster = ''local_faster''"
| "scheduler_reason_as_str EqualWithUncertainty = ''equal_with_uncertainty''"
| "scheduler_reason_as_str MinSpeedupNotMet = ''min_speedup_not_met''"
| "scheduler_reason_as_str TransferTooLarge = ''transfer_too_large''"
| "scheduler_reason_as_str ReasonCircuitOpen = ''circuit_open''"
| "scheduler_reason_as_str ReasonQuarantined = ''quarantined''"
| "scheduler_reason_as_str ReasonSecretLocalOnly = ''secret_local_only''"
| "scheduler_reason_as_str NoEligibleRemote = ''no_eligible_remote''"
| "scheduler_reason_as_str DeadlineForcedLocal = ''deadline_forced_local''"
| "scheduler_reason_as_str QueueThreshold = ''queue_threshold''"
| "scheduler_reason_as_str FeatureFlagLocalFirst = ''feature_flag_local_first''"

record candidate_estimate =
  cest_target :: execution_target_id
  cest_estimated_finish_ms :: u64
  cest_uncertainty_margin_ms :: u64
  cest_queue_depth :: u32
  cest_cold_start :: bool
  cest_transfer_bytes :: u64
  cest_score :: u64

record scheduler_decision =
  sdec_decision_id :: string
  sdec_run_id :: run_id
  sdec_task_id :: task_id
  sdec_attempt_id :: attempt_id
  sdec_candidates :: "candidate_estimate list"
  sdec_selected_target :: "execution_target_id option"
  sdec_fallback_order :: "execution_target_id list"
  sdec_uncertainty_margin_ms :: u64
  sdec_expected_speedup :: "f32 option"
  sdec_reason :: scheduler_reason
  sdec_model_version :: string
  sdec_decided_at :: timestamp
  sdec_pending :: bool

datatype scheduler_mode = LocalFirst | Weighted

text \<open>\<open>std::env::var("LOKAI_SCHEDULER")\<close> is the argument.\<close>

definition scheduler_mode_from_env :: "string option \<Rightarrow> scheduler_mode" where
  "scheduler_mode_from_env var =
     (if to_ascii_lowercase (case var of None \<Rightarrow> ''weighted'' | Some v \<Rightarrow> v) \<in>
         {''local_first'', ''local-first'', ''local''}
      then LocalFirst else Weighted)"

record scheduler_config =
  scfg_mode :: scheduler_mode
  scfg_min_remote_speedup :: f32
  scfg_min_remote_speedup_small :: f32
  scfg_small_task_transfer_bytes :: u64
  scfg_max_transfer_ratio :: f32
  scfg_max_queue_depth :: u32
  scfg_policy_penalty_ms :: u64

definition default_scheduler_config :: "string option \<Rightarrow> scheduler_config" where
  "default_scheduler_config var = \<lparr>scfg_mode = scheduler_mode_from_env var,
     scfg_min_remote_speedup = 5 / 4, scfg_min_remote_speedup_small = 3 / 2,
     scfg_small_task_transfer_bytes = 64 * 1024, scfg_max_transfer_ratio = to_f32 (35 / 100),
     scfg_max_queue_depth = 32, scfg_policy_penalty_ms = 50\<rparr>"

record decide_input =
  di_run_id :: run_id
  di_task_id :: task_id
  di_attempt_id :: attempt_id
  di_data_class :: data_class
  di_local_only :: bool
  di_candidates :: "candidate_inputs list"
  di_circuits :: "circuit_breaker_registry option"
  di_config :: scheduler_config

definition scheduler_model_version :: string where
  "scheduler_model_version = ''weighted_v1''"

definition local_only_decision ::
    "string \<Rightarrow> decide_input \<Rightarrow> timestamp \<Rightarrow> scheduler_reason \<Rightarrow> scheduler_decision" where
  "local_only_decision decision_id input decided_at reason =
     (let local_est = map_option (\<lambda>c. let e = estimate_finish_ms c in
            \<lparr>cest_target = Local, cest_estimated_finish_ms = cx_finish_ms e,
             cest_uncertainty_margin_ms = cx_uncertainty_margin_ms e, cest_queue_depth = ci_queue_depth c,
             cest_cold_start = ci_cold_start c, cest_transfer_bytes = 0, cest_score = cx_scored_ms e\<rparr>)
            (find (\<lambda>c. ci_target c = Local) (di_candidates input))
      in \<lparr>sdec_decision_id = decision_id, sdec_run_id = di_run_id input, sdec_task_id = di_task_id input,
          sdec_attempt_id = di_attempt_id input,
          sdec_candidates = (case local_est of None \<Rightarrow> [] | Some e \<Rightarrow> [e]),
          sdec_selected_target = Some Local, sdec_fallback_order = [Local],
          sdec_uncertainty_margin_ms =
            (case local_est of None \<Rightarrow> 0 | Some e \<Rightarrow> cest_uncertainty_margin_ms e),
          sdec_expected_speedup = None, sdec_reason = reason,
          sdec_model_version = scheduler_model_version, sdec_decided_at = decided_at, sdec_pending = True\<rparr>)"

definition estimate_candidate :: "candidate_inputs \<Rightarrow> candidate_estimate" where
  "estimate_candidate c = (let est = estimate_finish_ms c in
     \<lparr>cest_target = ci_target c, cest_estimated_finish_ms = cx_finish_ms est,
      cest_uncertainty_margin_ms = cx_uncertainty_margin_ms est, cest_queue_depth = ci_queue_depth c,
      cest_cold_start = ci_cold_start c, cest_transfer_bytes = ci_transfer_bytes c,
      cest_score = cx_scored_ms est\<rparr>)"

text \<open>The loop over the candidates; asking the circuit breaker may move a circuit to half open.\<close>

fun collect_estimates ::
    "scheduler_config \<Rightarrow> timestamp \<Rightarrow> candidate_inputs list \<Rightarrow> circuit_breaker_registry option \<Rightarrow>
     candidate_estimate list \<times> circuit_breaker_registry option" where
  "collect_estimates config instant [] circuits = ([], circuits)"
| "collect_estimates config instant (c # cs) circuits =
     (if scfg_max_queue_depth config < ci_queue_depth c then collect_estimates config instant cs circuits
      else
        let (allowed, circuits') =
              (case (ci_target c, circuits) of
                 (Worker w, Some reg) \<Rightarrow> (let (ok, reg') = allows_dispatch instant w reg in (ok, Some reg'))
               | _ \<Rightarrow> (True, circuits));
            (rest, circuits'') = collect_estimates config instant cs circuits'
        in ((if allowed then estimate_candidate c # rest else rest), circuits''))"

definition is_worker_target :: "execution_target_id \<Rightarrow> bool" where
  "is_worker_target t \<longleftrightarrow> t \<noteq> Local"

definition remote_with_margin :: "scheduler_config \<Rightarrow> candidate_estimate \<Rightarrow> u64" where
  "remote_with_margin config rem =
     saturating_add (saturating_add (cest_estimated_finish_ms rem) (cest_uncertainty_margin_ms rem))
       (scfg_policy_penalty_ms config)"

definition speedup_over :: "scheduler_config \<Rightarrow> candidate_estimate \<Rightarrow> candidate_estimate \<Rightarrow> f32" where
  "speedup_over config loc rem =
     f32_ratio (unat (max (cest_estimated_finish_ms loc) 1)) (unat (max (remote_with_margin config rem) 1))"

definition min_speedup_for :: "scheduler_config \<Rightarrow> candidate_estimate \<Rightarrow> candidate_estimate \<Rightarrow> f32" where
  "min_speedup_for config loc rem =
     (if cest_transfer_bytes rem \<le> scfg_small_task_transfer_bytes config \<and> cest_estimated_finish_ms loc < 2000
      then scfg_min_remote_speedup_small config else scfg_min_remote_speedup config)"

definition transfer_too_large :: "scheduler_config \<Rightarrow> candidate_estimate \<Rightarrow> candidate_estimate \<Rightarrow> bool" where
  "transfer_too_large config loc rem \<longleftrightarrow>
     0 < cest_transfer_bytes rem \<and>
     to_f64 (to_f64 (scfg_max_transfer_ratio config *
         to_f64 (of_nat (unat (max (cest_estimated_finish_ms loc) 1)))) * 1024) <
       to_f64 (of_nat (unat (cest_transfer_bytes rem)))"

text \<open>\<open>(a as i64 - b as i64).abs() <= m as i64\<close>; the subtraction and the negation wrap.\<close>

definition within_i64 :: "u64 \<Rightarrow> u64 \<Rightarrow> u64 \<Rightarrow> bool" where
  "within_i64 a b m \<longleftrightarrow>
     (let d = a - b in sint (if sint d < 0 then - d else d) \<le> sint m)"

definition choose_target ::
    "scheduler_config \<Rightarrow> candidate_estimate \<Rightarrow> candidate_estimate \<Rightarrow>
     execution_target_id \<times> scheduler_reason \<times> f32 option \<times> u64" where
  "choose_target config loc rem =
     (let min_speedup = min_speedup_for config loc rem;
          with_margin = remote_with_margin config rem;
          local_finish = max (cest_estimated_finish_ms loc) 1;
          speedup = speedup_over config loc rem;
          margin = max (cest_uncertainty_margin_ms loc) (cest_uncertainty_margin_ms rem)
      in if transfer_too_large config loc rem
         then (cest_target loc, TransferTooLarge, None, cest_uncertainty_margin_ms loc)
         else if with_margin < local_finish \<and> min_speedup \<le> speedup
         then (cest_target rem, RemoteFaster, Some speedup, cest_uncertainty_margin_ms rem)
         else if within_i64 (cest_score rem) (cest_score loc) margin
         then (cest_target loc, EqualWithUncertainty, None, margin)
         else if speedup < min_speedup \<and> with_margin < local_finish
         then (cest_target loc, MinSpeedupNotMet, Some speedup, cest_uncertainty_margin_ms loc)
         else (cest_target loc, LocalFaster, None, cest_uncertainty_margin_ms loc))"

definition select_target ::
    "scheduler_config \<Rightarrow> candidate_estimate list \<Rightarrow>
     execution_target_id \<times> scheduler_reason \<times> f32 option \<times> u64" where
  "select_target config estimates =
     (case (find (\<lambda>e. cest_target e = Local) estimates, find (\<lambda>e. is_worker_target (cest_target e)) estimates) of
        (Some loc, Some rem) \<Rightarrow> choose_target config loc rem
      | (Some loc, None) \<Rightarrow> (cest_target loc, NoEligibleRemote, None, cest_uncertainty_margin_ms loc)
      | (None, Some rem) \<Rightarrow> (cest_target rem, RemoteFaster, None, cest_uncertainty_margin_ms rem)
      | (None, None) \<Rightarrow> (Local, NoEligibleRemote, None, 0))"

definition fallback_targets :: "execution_target_id \<Rightarrow> candidate_estimate list \<Rightarrow> execution_target_id list" where
  "fallback_targets sel estimates = sel # filter (\<lambda>t. t \<noteq> sel) (map cest_target estimates)"

text \<open>\<open>uuid\<close> is the fresh identifier. The registry of circuits comes back as the call leaves it.\<close>

definition decide ::
    "string \<Rightarrow> timestamp \<Rightarrow> timestamp \<Rightarrow> decide_input \<Rightarrow> scheduler_decision \<times> circuit_breaker_registry option" where
  "decide uuid now instant input =
     (let decision_id = ''sched_'' @ uuid in
      if di_local_only input \<or> di_data_class input = Secret
      then (local_only_decision decision_id input now
              (if di_data_class input = Secret then ReasonSecretLocalOnly else NoEligibleRemote), di_circuits input)
      else if scfg_mode (di_config input) = LocalFirst
      then (local_only_decision decision_id input now FeatureFlagLocalFirst, di_circuits input)
      else
        let (collected, circuits) =
              collect_estimates (di_config input) instant (di_candidates input) (di_circuits input);
            estimates = sort_key cest_score collected;
            (selected, reason, speedup, margin) = select_target (di_config input) estimates
        in (\<lparr>sdec_decision_id = decision_id, sdec_run_id = di_run_id input, sdec_task_id = di_task_id input,
             sdec_attempt_id = di_attempt_id input, sdec_candidates = estimates,
             sdec_selected_target = Some selected, sdec_fallback_order = fallback_targets selected estimates,
             sdec_uncertainty_margin_ms = margin, sdec_expected_speedup = speedup, sdec_reason = reason,
             sdec_model_version = scheduler_model_version, sdec_decided_at = now, sdec_pending = True\<rparr>,
            circuits))"

section \<open>Fallback\<close>

text \<open>\<open>InferenceError\<close>; what an egress error carries does not matter here and is a type parameter.\<close>

datatype 'e inference_error =
  IeEgress 'e | IeDecode string | IeProvider string | IeModelResidencyUnavailable | IePreempted string
| IeWorkerBusy string | IeGpuSpillDetected f32 f32 | IeSecretScanFailed string | IeRemoteSecretDenied string
| IeIncompleteStream bool | IeStreamTimeout string u64

datatype fallback_failure_class =
  RemoteRejectBeforeStart | TransientTransport | WorkerLoss | PermanentPolicy | LocalExhaustion
| CapabilityExpired | TrustDowngraded

definition classify_provider_message :: "string \<Rightarrow> fallback_failure_class" where
  "classify_provider_message msg =
     (let m = to_ascii_lowercase msg
      in if list_ex (str_contains m) [''secret'', ''denied'', ''policy'', ''placement denied''] then PermanentPolicy
         else if list_ex (str_contains m) [''trust'', ''revok''] then TrustDowngraded
         else if list_ex (str_contains m) [''failover hop ineligible'', ''expired'', ''capability''] then CapabilityExpired
         else if list_ex (str_contains m) [''busy'', ''queue full'', ''draining'', ''reject''] then RemoteRejectBeforeStart
         else if list_ex (str_contains m) [''worker lost'', ''worker_lost'', ''connection reset''] then WorkerLoss
         else TransientTransport)"

fun classify_inference_error :: "'e inference_error \<Rightarrow> fallback_failure_class" where
  "classify_inference_error (IeWorkerBusy _) = RemoteRejectBeforeStart"
| "classify_inference_error (IePreempted _) = WorkerLoss"
| "classify_inference_error (IeEgress _) = TransientTransport"
| "classify_inference_error (IeIncompleteStream _) = TransientTransport"
| "classify_inference_error (IeStreamTimeout _ _) = TransientTransport"
| "classify_inference_error IeModelResidencyUnavailable = TransientTransport"
| "classify_inference_error (IeGpuSpillDetected _ _) = LocalExhaustion"
| "classify_inference_error (IeSecretScanFailed _) = PermanentPolicy"
| "classify_inference_error (IeRemoteSecretDenied _) = PermanentPolicy"
| "classify_inference_error (IeDecode _) = PermanentPolicy"
| "classify_inference_error (IeProvider msg) = classify_provider_message msg"

definition parse_target_label :: "string \<Rightarrow> execution_target_id" where
  "parse_target_label label =
     (if label = local_node_id \<or> to_ascii_lowercase label = ''local'' then Local else Worker label)"

definition labels_to_targets :: "string list \<Rightarrow> execution_target_id list" where
  "labels_to_targets labels = map parse_target_label labels"

datatype fallback_action =
  NextEligibleOrLocal | RetryThenNextThenLocal u32 | NewAttemptAfterLeaseExpire | FailExplicit
| QueueLocalOrRemoteOrReject

fun fallback_action_for :: "fallback_failure_class \<Rightarrow> fallback_action" where
  "fallback_action_for RemoteRejectBeforeStart = NextEligibleOrLocal"
| "fallback_action_for CapabilityExpired = NextEligibleOrLocal"
| "fallback_action_for TrustDowngraded = NextEligibleOrLocal"
| "fallback_action_for TransientTransport = RetryThenNextThenLocal 1"
| "fallback_action_for WorkerLoss = NewAttemptAfterLeaseExpire"
| "fallback_action_for PermanentPolicy = FailExplicit"
| "fallback_action_for LocalExhaustion = QueueLocalOrRemoteOrReject"

fun next_fallback_from ::
    "bool \<Rightarrow> execution_target_id list \<Rightarrow> execution_target_id \<Rightarrow> execution_target_id option" where
  "next_fallback_from seen [] failed = None"
| "next_fallback_from seen (t # ts) failed =
     (if seen then Some t else next_fallback_from (t = failed) ts failed)"

definition next_fallback :: "execution_target_id list \<Rightarrow> execution_target_id \<Rightarrow> execution_target_id option" where
  "next_fallback order failed = next_fallback_from False order failed"

section \<open>Job profiles and speculation\<close>

record job_kind_profile =
  jkp_side_effect_free :: bool
  jkp_deterministic :: bool
  jkp_supports_speculation :: bool
  jkp_requires_sandbox :: bool
  jkp_default_resources :: resource_request

fun profile_for :: "job_kind \<Rightarrow> job_kind_profile" where
  "profile_for Infer = \<lparr>jkp_side_effect_free = True, jkp_deterministic = False, jkp_supports_speculation = True,
     jkp_requires_sandbox = False, jkp_default_resources = default_resource_request\<rparr>"
| "profile_for Embed = \<lparr>jkp_side_effect_free = True, jkp_deterministic = True, jkp_supports_speculation = True,
     jkp_requires_sandbox = False, jkp_default_resources = default_resource_request\<lparr>rq_inference_slots := 1,
       rq_vram_bytes := 256 * 1024 * 1024, rq_total_token_budget := 16384,
       rq_estimated_duration := \<lparr>de_expected_ms = 5000, de_hard_limit_ms = 60000\<rparr>\<rparr>\<rparr>"
| "profile_for AnalyzeCode = \<lparr>jkp_side_effect_free = True, jkp_deterministic = False, jkp_supports_speculation = True,
     jkp_requires_sandbox = False, jkp_default_resources = default_resource_request\<lparr>rq_cpu_cores := 1000,
       rq_memory_bytes := 1024 * 1024 * 1024, rq_inference_slots := 1\<rparr>\<rparr>"
| "profile_for IndexShard = \<lparr>jkp_side_effect_free = False, jkp_deterministic = True, jkp_supports_speculation = False,
     jkp_requires_sandbox = True, jkp_default_resources = default_resource_request\<lparr>rq_process_slots := 1,
       rq_inference_slots := 0, rq_temporary_storage_bytes := 512 * 1024 * 1024,
       rq_estimated_duration := \<lparr>de_expected_ms = 60000, de_hard_limit_ms = 600000\<rparr>\<rparr>\<rparr>"
| "profile_for TestShard = \<lparr>jkp_side_effect_free = False, jkp_deterministic = False, jkp_supports_speculation = False,
     jkp_requires_sandbox = True, jkp_default_resources = default_resource_request\<lparr>rq_process_slots := 1,
       rq_inference_slots := 0, rq_cpu_cores := 2000, rq_memory_bytes := 2 * 1024 * 1024 * 1024,
       rq_estimated_duration := \<lparr>de_expected_ms = 120000, de_hard_limit_ms = 900000\<rparr>\<rparr>\<rparr>"
| "profile_for ReviewArtifact = \<lparr>jkp_side_effect_free = True, jkp_deterministic = False, jkp_supports_speculation = True,
     jkp_requires_sandbox = False, jkp_default_resources = default_resource_request\<rparr>"

datatype speculation_deny_reason = ConfigDisabled | JobProfileDisallows | SideEffectful | NonIdempotentKind

fun speculation_deny_as_str :: "speculation_deny_reason \<Rightarrow> string" where
  "speculation_deny_as_str ConfigDisabled = ''config_disabled''"
| "speculation_deny_as_str JobProfileDisallows = ''job_profile_disallows''"
| "speculation_deny_as_str SideEffectful = ''side_effectful''"
| "speculation_deny_as_str NonIdempotentKind = ''non_idempotent_kind''"

definition speculation_allowed :: "job_kind \<Rightarrow> speculation_config \<Rightarrow> speculation_deny_reason + unit" where
  "speculation_allowed kind config =
     (if \<not> sc_allowed config then Inl ConfigDisabled
      else if kind = IndexShard \<or> kind = TestShard then Inl NonIdempotentKind
      else if \<not> jkp_supports_speculation (profile_for kind) then Inl JobProfileDisallows
      else if \<not> jkp_side_effect_free (profile_for kind) then Inl SideEffectful
      else Inr ())"

definition speculative_race_sessions :: "string \<Rightarrow> string \<times> string" where
  "speculative_race_sessions base_session = (base_session @ '':primary'', base_session @ '':spec'')"

definition should_speculate_for_tail :: "scheduler_decision \<Rightarrow> bool" where
  "should_speculate_for_tail decision =
     (case sdec_selected_target decision of
        None \<Rightarrow> False
      | Some Local \<Rightarrow> False
      | Some (Worker w) \<Rightarrow>
          let local_finish = (case find (\<lambda>c. cest_target c = Local) (sdec_candidates decision) of
                                None \<Rightarrow> 0 | Some c \<Rightarrow> cest_estimated_finish_ms c)
          in case find (\<lambda>c. cest_target c = Worker w) (sdec_candidates decision) of
               None \<Rightarrow> False
             | Some remote \<Rightarrow>
                 if 200 \<le> cest_uncertainty_margin_ms remote \<and>
                    cest_estimated_finish_ms remote \<le> cest_uncertainty_margin_ms remote * 2 then True
                 else if 0 < local_finish \<and>
                    f32_ratio (unat local_finish) (unat (max (cest_estimated_finish_ms remote) 1)) < 3 / 2 then True
                 else 150 \<le> sdec_uncertainty_margin_ms decision)"

section \<open>Stamping\<close>

definition placement_for_selection :: "execution_target_id option \<Rightarrow> data_class \<Rightarrow> placement_decision" where
  "placement_for_selection selected cls =
     (case selected of
        Some (Worker w) \<Rightarrow> Eligible [\<lparr>et_worker_id = w, et_trust = OwnerControlledEstate\<rparr>] VerificationNone
      | _ \<Rightarrow> PlaceLocalOnly (if cls = Secret then SecretLocalOnly else CapabilityUnavailable))"

fun target_label_of :: "execution_target_id \<Rightarrow> worker_id" where
  "target_label_of Local = local_node_id"
| "target_label_of (Worker w) = w"

definition stamped_placement ::
    "timestamp \<Rightarrow> placement_decision \<Rightarrow> placement_decision_reference \<Rightarrow> placement_decision_reference" where
  "stamped_placement now decision ref =
     ref\<lparr>pdr_decision := decision, pdr_issued_at := now, pdr_expires_at := now + 5 * 60 * 1000000000\<rparr>"

definition apply_scheduler_decision :: "timestamp \<Rightarrow> scheduler_decision \<Rightarrow> compute_request \<Rightarrow> compute_request" where
  "apply_scheduler_decision now decision req =
     req\<lparr>cr_scheduler_decision_id := Some (sdec_decision_id decision),
         cr_trace_context := (cr_trace_context req)\<lparr>tc_scheduler_decision_id := Some (sdec_decision_id decision)\<rparr>,
         cr_fallback_order := map as_label (sdec_fallback_order decision),
         cr_target_worker_id := map_option target_label_of (sdec_selected_target decision),
         cr_placement_decision := stamped_placement now
           (placement_for_selection (sdec_selected_target decision) (cr_data_class req)) (cr_placement_decision req)\<rparr>"

definition apply_execution_target :: "timestamp \<Rightarrow> execution_target_id \<Rightarrow> compute_request \<Rightarrow> compute_request" where
  "apply_execution_target now target req =
     req\<lparr>cr_target_worker_id := Some (target_label_of target),
         cr_placement_decision := stamped_placement now
           (placement_for_selection (Some target) (cr_data_class req)) (cr_placement_decision req)\<rparr>"

section \<open>The circuit breaker opens and recovers\<close>

lemma circuit_entry_store [simp]:
  "circuit_entry (store_circuit v c reg) w = (if w = v then c else circuit_entry reg w)"
  by (simp add: circuit_entry_def store_circuit_def)

lemma store_circuit_params [simp]:
  "cb_open_cooldown (store_circuit v c reg) = cb_open_cooldown reg"
  "cb_failure_threshold (store_circuit v c reg) = cb_failure_threshold reg"
  "cb_half_open_success_threshold (store_circuit v c reg) = cb_half_open_success_threshold reg"
  by (simp_all add: store_circuit_def)

lemma cooled_down_store [simp]: "cooled_down (store_circuit v c reg) instant e = cooled_down reg instant e"
  by (simp add: cooled_down_def split: option.split)

text \<open>What one question does to the answers at the same instant: nothing.\<close>

lemma allows_dispatch_iff:
  "fst (allows_dispatch instant w reg) \<longleftrightarrow>
     wc_state (circuit_entry reg w) \<noteq> CircuitOpen \<or> cooled_down reg instant (circuit_entry reg w)"
  by (auto simp: allows_dispatch_def circuit_state_of_def Let_def)

lemma allows_dispatch_stable:
  "fst (allows_dispatch instant w (snd (allows_dispatch instant v reg))) = fst (allows_dispatch instant w reg)"
  by (auto simp: allows_dispatch_iff) (auto simp: allows_dispatch_def circuit_state_of_def Let_def split: if_splits)

lemma record_failure_entry:
  "circuit_entry (record_failure t w reg) w =
     (let e = (circuit_entry reg w)\<lparr>wc_failures := saturating_add (wc_failures (circuit_entry reg w)) 1\<rparr>
      in if cb_failure_threshold reg \<le> wc_failures e \<or> wc_state e = CircuitHalfOpen
         then e\<lparr>wc_state := CircuitOpen, wc_opened_at := Some t, wc_half_open_successes := 0\<rparr> else e)"
  by (simp add: record_failure_def Let_def)

lemma record_failure_params [simp]:
  "cb_open_cooldown (record_failure t w reg) = cb_open_cooldown reg"
  "cb_failure_threshold (record_failure t w reg) = cb_failure_threshold reg"
  by (simp_all add: record_failure_def Let_def)

lemma record_failure_other [simp]:
  "v \<noteq> w \<Longrightarrow> circuit_entry (record_failure t v reg) w = circuit_entry reg w"
  by (simp add: record_failure_def Let_def)

abbreviation record_failures :: "timestamp list \<Rightarrow> string \<Rightarrow> circuit_breaker_registry \<Rightarrow> circuit_breaker_registry" where
  "record_failures ts w reg \<equiv> fold (\<lambda>t. record_failure t w) ts reg"

lemma record_failures_other: "v \<noteq> w \<Longrightarrow>
    circuit_entry (record_failures ts w reg) v = circuit_entry reg v \<and>
    cb_open_cooldown (record_failures ts w reg) = cb_open_cooldown reg"
  by (induction ts arbitrary: reg) simp_all

lemma record_failures_count:
  "cb_failure_threshold (record_failures ts w reg) = cb_failure_threshold reg \<and>
   cb_open_cooldown (record_failures ts w reg) = cb_open_cooldown reg \<and>
   min (length ts) (2 ^ 32 - 1) \<le> unat (wc_failures (circuit_entry (record_failures ts w reg) w))"
proof (induction ts rule: rev_induct)
  case (snoc t ts)
  then show ?case
    by (auto simp: record_failure_entry Let_def unat_saturating_add)
qed simp

lemma failures_open:
  assumes "ts \<noteq> []" "unat (cb_failure_threshold reg) \<le> length ts"
  shows "wc_state (circuit_entry (record_failures ts w reg) w) = CircuitOpen \<and>
         wc_opened_at (circuit_entry (record_failures ts w reg) w) = Some (last ts)"
proof -
  obtain us t where ts: "ts = us @ [t]" using assms(1) by (metis append_butlast_last_id)
  let ?r = "record_failures us w reg"
  have "unat (cb_failure_threshold reg) < 2 ^ 32" using unsigned_less [of "cb_failure_threshold reg"] by simp
  then have "unat (cb_failure_threshold reg) \<le> min (unat (wc_failures (circuit_entry ?r w)) + 1) (2 ^ 32 - 1)"
    using assms(2) record_failures_count [where ts = us and w = w and reg = reg] by (auto simp: ts)
  then have "cb_failure_threshold reg \<le> saturating_add (wc_failures (circuit_entry ?r w)) 1"
    by (simp add: word_le_nat_alt unat_saturating_add)
  then show ?thesis
    using record_failures_count [where ts = us and w = w and reg = reg]
    by (simp add: ts record_failure_entry Let_def)
qed

lemma record_success_entry:
  "wc_state (circuit_entry reg w) \<noteq> CircuitHalfOpen \<Longrightarrow>
     circuit_entry (record_success w reg) w = closed_circuit (circuit_entry reg w)"
  by (cases "wc_state (circuit_entry reg w)") (simp_all add: record_success_def Let_def)

section \<open>Calibration is bounded by what was recorded\<close>

lemma unat_saturating_mul_le: "unat (saturating_mul a b) \<le> unat a * unat b"
  by (auto simp: saturating_mul_def unat_word_ariths unsigned_minus_1_eq_mask mask_eq_exp_minus_1)

lemma weighted_mean_le:
  fixes m e b n :: nat
  assumes "m \<le> b" "e \<le> b"
  shows "(m * n + e) div (n + 1) \<le> b"
proof -
  have "m * n + e \<le> b * n + b" using assms by (intro add_mono mult_right_mono) auto
  then have "m * n + e \<le> b * (n + 1)" by (simp add: algebra_simps)
  then have "(m * n + e) div (n + 1) \<le> b * (n + 1) div (n + 1)" by (rule div_le_mono)
  also have "\<dots> = b" by (rule nonzero_mult_div_cancel_right) simp
  finally show ?thesis .
qed

definition rolling_mae :: "prediction_calibration \<Rightarrow> string \<Rightarrow> u64" where
  "rolling_mae cal key = (case bt_get cal key of None \<Rightarrow> 0 | Some e \<Rightarrow> mae_rolling_mae_ms e)"

lemma record_error_bound:
  assumes "rolling_mae cal key \<le> b" "e \<le> b"
  shows "rolling_mae (record_error key' e cal) key \<le> b"
proof (cases "key = key'")
  case True
  define entry where "entry = (case bt_get cal key of Some e \<Rightarrow> e | None \<Rightarrow> \<lparr>mae_samples = 0, mae_rolling_mae_ms = 0\<rparr>)"
  let ?n = "ucast (mae_samples entry) :: u64"
  have s: "unat (mae_samples entry) < 2 ^ 32" using unsigned_less [of "mae_samples entry"] by simp
  then have n: "unat ?n < 2 ^ 32" by (simp add: unsigned_ucast_eq take_bit_nat_eq_self)
  then have next_n: "unat (saturating_add ?n 1) = unat ?n + 1" by (simp add: unat_saturating_add)
  then have nz: "saturating_add ?n 1 \<noteq> 0" by (metis Suc_eq_plus1 nat.distinct(1) unat_0)
  have m: "mae_rolling_mae_ms entry \<le> b" using assms(1) by (simp add: entry_def rolling_mae_def split: option.splits)
  let ?s = "saturating_add (saturating_mul (mae_rolling_mae_ms entry) ?n) e"
  have "unat ?s \<le> unat (mae_rolling_mae_ms entry) * unat ?n + unat e"
    using unat_saturating_mul_le [of "mae_rolling_mae_ms entry" ?n] by (simp add: unat_saturating_add)
  then have "unat ?s div (unat ?n + 1) \<le> (unat (mae_rolling_mae_ms entry) * unat ?n + unat e) div (unat ?n + 1)"
    by (rule div_le_mono)
  also have "\<dots> \<le> unat b" using m assms(2) by (intro weighted_mean_le) (simp_all add: word_le_nat_alt)
  finally have "?s div saturating_add ?n 1 \<le> b" by (simp add: word_le_nat_alt unat_div next_n)
  then show ?thesis using True nz by (simp add: rolling_mae_def record_error_def Let_def entry_def)
next
  case False
  then show ?thesis using assms(1) by (simp add: rolling_mae_def record_error_def Let_def)
qed

lemma record_attempt_bound:
  "rolling_mae cal key \<le> b \<Longrightarrow> e \<le> b \<Longrightarrow> rolling_mae (record_attempt target cold e cal) key \<le> b"
  unfolding record_attempt_def by (intro record_error_bound)

section \<open>The candidates of a decision\<close>

text \<open>The candidates the loop keeps: short queues, and workers whose circuit lets them be used.\<close>

definition candidate_admitted ::
    "scheduler_config \<Rightarrow> timestamp \<Rightarrow> circuit_breaker_registry option \<Rightarrow> candidate_inputs \<Rightarrow> bool" where
  "candidate_admitted config instant circuits c \<longleftrightarrow>
     ci_queue_depth c \<le> scfg_max_queue_depth config \<and>
     (\<forall>w reg. ci_target c = Worker w \<and> circuits = Some reg \<longrightarrow> fst (allows_dispatch instant w reg))"

lemma candidate_admitted_code [code]:
  "candidate_admitted config instant circuits c \<longleftrightarrow>
     ci_queue_depth c \<le> scfg_max_queue_depth config \<and>
     (case (ci_target c, circuits) of (Worker w, Some reg) \<Rightarrow> fst (allows_dispatch instant w reg) | _ \<Rightarrow> True)"
  by (cases "ci_target c"; cases circuits) (simp_all add: candidate_admitted_def)

lemma candidate_admitted_stable:
  "candidate_admitted config instant (Some (snd (allows_dispatch instant v reg))) c =
     candidate_admitted config instant (Some reg) c"
  by (simp add: candidate_admitted_def allows_dispatch_stable)

lemma collect_skip:
  "scfg_max_queue_depth config < ci_queue_depth c \<Longrightarrow>
     collect_estimates config instant (c # cs) circuits = collect_estimates config instant cs circuits"
  by simp

lemma collect_worker:
  assumes "ci_queue_depth c \<le> scfg_max_queue_depth config" "ci_target c = Worker w"
  shows "fst (collect_estimates config instant (c # cs) (Some reg)) =
    (let rest = fst (collect_estimates config instant cs (Some (snd (allows_dispatch instant w reg))))
     in if fst (allows_dispatch instant w reg) then estimate_candidate c # rest else rest)"
  using assms by (simp add: Let_def leD split: prod.split)

lemma collect_unguarded:
  assumes "ci_queue_depth c \<le> scfg_max_queue_depth config" "ci_target c = Local \<or> circuits = None"
  shows "fst (collect_estimates config instant (c # cs) circuits) =
    estimate_candidate c # fst (collect_estimates config instant cs circuits)"
  using assms by (cases "ci_target c") (auto simp: Let_def leD split: prod.split)

lemma collect_estimates_filter:
  "fst (collect_estimates config instant cs circuits) =
     map estimate_candidate (filter (candidate_admitted config instant circuits) cs)"
proof (induction cs arbitrary: circuits)
  case (Cons c cs)
  consider (deep) "scfg_max_queue_depth config < ci_queue_depth c"
    | (guarded) w reg where "ci_queue_depth c \<le> scfg_max_queue_depth config" "ci_target c = Worker w" "circuits = Some reg"
    | (free) "ci_queue_depth c \<le> scfg_max_queue_depth config" "ci_target c = Local \<or> circuits = None"
    by (cases "ci_target c"; cases circuits) (auto simp: not_le [symmetric])
  then show ?case
  proof cases
    case deep
    then have "\<not> candidate_admitted config instant circuits c" by (auto simp: candidate_admitted_def)
    then show ?thesis unfolding collect_skip [OF deep] Cons.IH by simp
  next
    case guarded
    have "filter (candidate_admitted config instant (Some (snd (allows_dispatch instant w reg)))) cs =
        filter (candidate_admitted config instant (Some reg)) cs"
      by (intro filter_cong) (simp_all add: candidate_admitted_stable)
    moreover have "candidate_admitted config instant (Some reg) c = fst (allows_dispatch instant w reg)"
      using guarded by (simp add: candidate_admitted_def)
    ultimately show ?thesis
      unfolding guarded(3) collect_worker [OF guarded(1,2)] Cons.IH Let_def by simp
  next
    case free
    then have "candidate_admitted config instant circuits c" by (auto simp: candidate_admitted_def)
    then show ?thesis unfolding collect_unguarded [OF free] Cons.IH by simp
  qed
qed simp

definition admitted_estimates :: "timestamp \<Rightarrow> decide_input \<Rightarrow> candidate_estimate list" where
  "admitted_estimates instant input =
     sort_key cest_score (map estimate_candidate
       (filter (candidate_admitted (di_config input) instant (di_circuits input)) (di_candidates input)))"

lemma admitted_estimates_targets:
  "cest_target ` set (admitted_estimates instant input) =
     ci_target ` {c \<in> set (di_candidates input). candidate_admitted (di_config input) instant (di_circuits input) c}"
  by (force simp: admitted_estimates_def estimate_candidate_def Let_def)

definition kept_local :: "decide_input \<Rightarrow> bool" where
  "kept_local input \<longleftrightarrow> di_local_only input \<or> di_data_class input = Secret \<or> scfg_mode (di_config input) = LocalFirst"

lemma decide_kept_local:
  "kept_local input \<Longrightarrow> sdec_selected_target (fst (decide uuid now instant input)) = Some Local \<and>
     sdec_fallback_order (fst (decide uuid now instant input)) = [Local]"
  by (auto simp: kept_local_def decide_def local_only_decision_def Let_def)

lemma decide_weighted:
  assumes "\<not> kept_local input"
  shows "sdec_selected_target (fst (decide uuid now instant input)) =
           Some (fst (select_target (di_config input) (admitted_estimates instant input)))"
    and "sdec_fallback_order (fst (decide uuid now instant input)) =
           fallback_targets (fst (select_target (di_config input) (admitted_estimates instant input)))
             (admitted_estimates instant input)"
    and "sdec_candidates (fst (decide uuid now instant input)) = admitted_estimates instant input"
  using assms collect_estimates_filter [of "di_config input" instant "di_candidates input" "di_circuits input"]
  by (auto simp: kept_local_def decide_def admitted_estimates_def Let_def split: prod.splits)

section \<open>The choice\<close>

lemma find_sort_key_least:
  assumes "find P (sort_key f xs) = Some x"
  shows "x \<in> set xs \<and> P x \<and> (\<forall>y\<in>set xs. P y \<longrightarrow> f x \<le> f y)"
proof -
  obtain i where i: "i < length (sort_key f xs)" "P (sort_key f xs ! i)" "x = sort_key f xs ! i"
      "\<forall>j<i. \<not> P (sort_key f xs ! j)"
    using assms by (auto simp: find_Some_iff)
  have "f x \<le> f y" if "y \<in> set xs" "P y" for y
  proof -
    obtain j where j: "j < length (sort_key f xs)" "y = sort_key f xs ! j"
      using \<open>y \<in> set xs\<close> by (metis in_set_conv_nth set_sort)
    then have "i \<le> j" using i(4) \<open>P y\<close> by (metis not_le)
    then have "map f (sort_key f xs) ! i \<le> map f (sort_key f xs) ! j"
      using j(1) by (intro sorted_nth_mono) auto
    then show ?thesis using i j \<open>i \<le> j\<close> by simp
  qed
  then show ?thesis using i nth_mem [OF i(1)] by auto
qed

definition remote_preferred :: "scheduler_config \<Rightarrow> candidate_estimate \<Rightarrow> candidate_estimate \<Rightarrow> bool" where
  "remote_preferred config loc rem \<longleftrightarrow>
     \<not> transfer_too_large config loc rem \<and>
     remote_with_margin config rem < max (cest_estimated_finish_ms loc) 1 \<and>
     min_speedup_for config loc rem \<le> speedup_over config loc rem"

lemma choose_target_fst:
  "fst (choose_target config loc rem) = (if remote_preferred config loc rem then cest_target rem else cest_target loc)"
  by (auto simp: choose_target_def remote_preferred_def Let_def)

lemma select_remote:
  assumes "fst (select_target config es) = Worker w"
  obtains rem where "find (\<lambda>e. is_worker_target (cest_target e)) es = Some rem" "cest_target rem = Worker w"
    "\<And>loc. find (\<lambda>e. cest_target e = Local) es = Some loc \<Longrightarrow> remote_preferred config loc rem"
proof (cases "find (\<lambda>e. is_worker_target (cest_target e)) es")
  case None
  then have "fst (select_target config es) = Local"
    by (auto simp: select_target_def find_Some_iff split: option.split)
  then show thesis using assms by simp
next
  case (Some rem)
  then show thesis
  proof (cases "find (\<lambda>e. cest_target e = Local) es")
    case None
    then show thesis using assms Some that [of rem] by (simp add: select_target_def)
  next
    case (Some loc)
    then have "cest_target loc = Local" by (auto simp: find_Some_iff)
    moreover have "fst (choose_target config loc rem) = Worker w"
      using assms Some \<open>find _ es = Some rem\<close> by (simp add: select_target_def)
    ultimately have "cest_target rem = Worker w \<and> remote_preferred config loc rem"
      by (simp add: choose_target_fst split: if_splits)
    then show thesis using that [of rem] Some \<open>find _ es = Some rem\<close> by simp
  qed
qed

lemma select_target_member:
  "fst (select_target config es) = Local \<or> fst (select_target config es) \<in> cest_target ` set es"
  by (auto simp: select_target_def choose_target_fst find_Some_iff split: option.splits)

lemma find_admitted:
  assumes "find (\<lambda>e. P (cest_target e)) (admitted_estimates instant input) = Some e"
  obtains c where "c \<in> set (di_candidates input)" "candidate_admitted (di_config input) instant (di_circuits input) c"
    "P (ci_target c)" "e = estimate_candidate c"
    "\<And>c'. c' \<in> set (di_candidates input) \<Longrightarrow> candidate_admitted (di_config input) instant (di_circuits input) c' \<Longrightarrow>
       P (ci_target c') \<Longrightarrow> cx_scored_ms (estimate_finish_ms c) \<le> cx_scored_ms (estimate_finish_ms c')"
  using find_sort_key_least [OF assms [unfolded admitted_estimates_def]] that
  by (fastforce simp: estimate_candidate_def Let_def)

lemma find_admitted_local:
  assumes "l \<in> set (di_candidates input)" "candidate_admitted (di_config input) instant (di_circuits input) l"
    and "ci_target l = Local"
  obtains best where "best \<in> set (di_candidates input)" "ci_target best = Local"
    "cx_scored_ms (estimate_finish_ms best) \<le> cx_scored_ms (estimate_finish_ms l)"
    "find (\<lambda>e. cest_target e = Local) (admitted_estimates instant input) = Some (estimate_candidate best)"
proof -
  have "Local \<in> cest_target ` set (admitted_estimates instant input)"
    using assms unfolding admitted_estimates_targets by force
  then obtain loc where loc: "find (\<lambda>e. cest_target e = Local) (admitted_estimates instant input) = Some loc"
    by (cases "find (\<lambda>e. cest_target e = Local) (admitted_estimates instant input)") (auto simp: find_None_iff)
  from find_admitted [of "\<lambda>t. t = Local", OF loc] obtain best where
    "best \<in> set (di_candidates input)" "ci_target best = Local" "loc = estimate_candidate best"
    "cx_scored_ms (estimate_finish_ms best) \<le> cx_scored_ms (estimate_finish_ms l)"
    using assms by metis
  then show thesis using that loc by blast
qed

section \<open>Walking the fallback order\<close>

lemma next_fallback_from_nth:
  "distinct order \<Longrightarrow> i < length order \<Longrightarrow>
     next_fallback_from False order (order ! i) = (if Suc i < length order then Some (order ! Suc i) else None)"
proof (induction order arbitrary: i)
  case (Cons t ts)
  have seen: "next_fallback_from True us x = (case us of [] \<Rightarrow> None | u # _ \<Rightarrow> Some u)" for us x
    by (cases us) simp_all
  show ?case
  proof (cases i)
    case 0
    then show ?thesis by (cases ts) (simp_all add: seen)
  next
    case (Suc k)
    then have "t \<noteq> ts ! k" using Cons.prems by (metis distinct.simps(2) length_Cons not_less_eq nth_mem)
    then show ?thesis using Cons Suc by simp
  qed
qed simp

lemma fallback_targets_distinct:
  "distinct (map cest_target es) \<Longrightarrow> distinct (fallback_targets sel es)"
  by (simp add: fallback_targets_def)

lemma distinct_map_sort_key: "distinct (map g (sort_key f xs)) = distinct (map g xs)"
  by (simp add: distinct_map inj_on_def)

lemma admitted_estimates_distinct:
  "distinct (map ci_target (di_candidates input)) \<Longrightarrow> distinct (map cest_target (admitted_estimates instant input))"
  by (simp add: admitted_estimates_def distinct_map_sort_key estimate_candidate_def Let_def comp_def
      distinct_map_filter)

section \<open>Labels and stamps\<close>

lemma parse_as_label: "(\<And>w. t = Worker w \<Longrightarrow> \<not> is_local_worker_id w) \<Longrightarrow> parse_target_label (as_label t) = t"
  by (cases t) (auto simp: parse_target_label_def is_local_worker_id_def to_ascii_lowercase_def)

lemma labels_roundtrip:
  "(\<And>w. Worker w \<in> set ts \<Longrightarrow> \<not> is_local_worker_id w) \<Longrightarrow> labels_to_targets (map as_label ts) = ts"
  by (induction ts) (auto simp: labels_to_targets_def intro: parse_as_label)

lemma stamped_targets:
  "requested_target (apply_scheduler_decision now d req) =
     (case sdec_selected_target d of
        None \<Rightarrow> None | Some Local \<Rightarrow> Some local_node_id | Some (Worker w) \<Rightarrow> Some w)"
  "remote_target (apply_scheduler_decision now d req) =
     (case sdec_selected_target d of
        Some (Worker w) \<Rightarrow> if is_local_worker_id w then None else Some w | _ \<Rightarrow> None)"
  by (auto simp: requested_target_def remote_target_def apply_scheduler_decision_def stamped_placement_def
      placement_for_selection_def is_local_worker_id_def local_node_id_def
      split: option.split execution_target_id.split)

lemma stamped_placement_facts:
  "pdr_expires_at (cr_placement_decision (apply_scheduler_decision now d req)) = now + 5 * 60 * 1000000000"
  "pdr_decision (cr_placement_decision (apply_scheduler_decision now d req)) \<noteq> PlaceDenied r"
  "cr_job_kind (apply_scheduler_decision now d req) = cr_job_kind req"
  by (simp_all add: apply_scheduler_decision_def stamped_placement_def placement_for_selection_def
      split: option.split execution_target_id.split)

end
