(* ===== verification/Eligibility.thy ===== *)
theory Eligibility
  imports Registry
begin

text \<open>
  Where a job may run: \<open>tetonic-inference/src/worker_eligibility.rs\<close> and
  \<open>tetonic-inference/src/placement_engine.rs\<close>, with the request types of
  \<open>tetonic-domain/src/placement.rs\<close>. The trust matrix of \<open>Placement\<close> and the capability registry of
  \<open>Registry\<close> are both asked. The request built from a chat is not modelled. The length of
  \<open>serde_json::to_vec\<close> of a payload is the argument \<open>payload_len\<close>, \<open>None\<close> when it fails.
\<close>

section \<open>Requests\<close>

datatype placement_job_kind = PjInfer | PjEmbed | PjCompute

record sandbox_requirements =
  sbr_process_tree_enforced :: bool
  sbr_network_denial_enforced :: bool

definition default_sandbox_requirements :: sandbox_requirements where
  "default_sandbox_requirements = \<lparr>sbr_process_tree_enforced = False, sbr_network_denial_enforced = False\<rparr>"

text \<open>\<open>VerificationPolicyReference\<close> has the one field \<open>policy_id\<close>, and stands here as that string.\<close>

record placement_request =
  plr_run_id :: "run_id option"
  plr_task_id :: "task_id option"
  plr_attempt_id :: "attempt_id option"
  plr_job_kind :: placement_job_kind
  plr_data_class :: data_class
  plr_input_artifacts :: "artifact_ref list"
  plr_workspace_version :: "workspace_version option"
  plr_required_capabilities :: "string list"
  plr_candidate_worker :: "worker_id option"
  plr_project_policy :: project_placement_policy
  plr_policy_epoch :: u64
  plr_required_sandbox :: "sandbox_requirements option"
  plr_verification_policy :: "string option"
  plr_trace_context :: trace_context

definition reason_to_decision :: "placement_reason \<Rightarrow> placement_decision" where
  "reason_to_decision reason =
     (if placement_to_dispatch_local_only reason then PlaceLocalOnly reason else PlaceDenied reason)"

definition network_deny_all_capability :: string where
  "network_deny_all_capability = ''network_deny_all''"

fun placement_job_kind_of :: "job_kind \<Rightarrow> placement_job_kind" where
  "placement_job_kind_of Infer = PjInfer"
| "placement_job_kind_of Embed = PjEmbed"
| "placement_job_kind_of AnalyzeCode = PjCompute"
| "placement_job_kind_of IndexShard = PjCompute"
| "placement_job_kind_of TestShard = PjCompute"
| "placement_job_kind_of ReviewArtifact = PjCompute"

definition placement_request_from_job ::
    "job_envelope \<Rightarrow> string \<Rightarrow> u64 \<Rightarrow> project_placement_policy \<Rightarrow> fabric_trace_context \<Rightarrow>
     sandbox_requirements option \<Rightarrow> placement_request" where
  "placement_request_from_job job worker_id policy_epoch project_policy trace required_sandbox =
     \<lparr>plr_run_id = Some (je_run_id job), plr_task_id = Some (je_task_id job),
      plr_attempt_id = Some (je_attempt_id job), plr_job_kind = placement_job_kind_of (je_job_kind job),
      plr_data_class = je_data_class job,
      plr_input_artifacts = map (\<lambda>a. \<lparr>art_artifact_id = aref_artifact_id a, art_digest = aref_digest a\<rparr>)
        (je_input_artifacts job),
      plr_workspace_version = je_workspace_version job,
      plr_required_capabilities = jr_tools (je_required_capabilities job) @
        filter (\<lambda>c. c \<noteq> network_deny_all_capability) (jr_environment (je_required_capabilities job)),
      plr_candidate_worker = Some worker_id, plr_project_policy = project_policy,
      plr_policy_epoch = policy_epoch, plr_required_sandbox = required_sandbox,
      plr_verification_policy =
        (if jv_require_verification (je_verification_policy job)
         then Some (case jv_policy_id (je_verification_policy job) of None \<Rightarrow> ''required'' | Some p \<Rightarrow> p) else None),
      plr_trace_context = \<lparr>tc_trace_id = ft_trace_id trace, tc_span_id = ft_span_id trace,
        tc_run_id = Some (je_run_id job), tc_task_id = Some (je_task_id job),
        tc_attempt_id = Some (je_attempt_id job), tc_scheduler_decision_id = ft_scheduler_decision_id trace\<rparr>\<rparr>"

section \<open>Worker eligibility\<close>

record worker_eligibility_input =
  wel_worker_id :: string
  wel_trust :: worker_trust
  wel_data_class :: data_class
  wel_project_policy :: project_placement_policy
  wel_model :: model_selection
  wel_coordinator_policy_epoch :: u64

definition placement_reason_is_local_only :: "placement_reason \<Rightarrow> bool" where
  "placement_reason_is_local_only reason = placement_to_dispatch_local_only reason"

definition evaluate_worker_eligibility ::
    "capability_registry \<Rightarrow> worker_eligibility_input \<Rightarrow> timestamp \<Rightarrow> placement_reason + unit" where
  "evaluate_worker_eligibility registry input now =
     (if wel_data_class input = Secret then Inl SecretLocalOnly
      else case trust_permits_data_class (wel_trust input) (wel_data_class input) (wel_project_policy input) of
        Inl reason \<Rightarrow> Inl reason
      | Inr _ \<Rightarrow>
          if registry_get registry (wel_worker_id input) = None then Inl CapabilityUnavailable
          else case scheduling_state registry (wel_worker_id input) now of
            SchedNotCached \<Rightarrow> Inl CapabilityUnavailable
          | SchedQuarantined \<Rightarrow> Inl WorkerQuarantined
          | SchedExpired \<Rightarrow> Inl placement_reason.CapabilityStale
          | SchedDraining \<Rightarrow> Inl CapabilityUnavailable
          | _ \<Rightarrow>
              (case schedulable registry (wel_worker_id input) now False of
                 None \<Rightarrow> Inl placement_reason.CapabilityStale
               | Some caps \<Rightarrow>
                   if wcap_revocation_epoch caps < wel_coordinator_policy_epoch input then Inl WorkerRevoked
                   else if \<not> model_inventory_matches (wcap_model_inventory caps) (wel_model input)
                   then Inl CapabilityUnavailable else Inr ()))"

section \<open>The placement engine\<close>

fun state_reason :: "worker_scheduling_state \<Rightarrow> placement_reason option" where
  "state_reason SchedNotCached = Some CapabilityUnavailable"
| "state_reason SchedQuarantined = Some WorkerQuarantined"
| "state_reason SchedExpired = Some placement_reason.CapabilityStale"
| "state_reason SchedDraining = Some CapabilityUnavailable"
| "state_reason SchedDegraded = None"
| "state_reason SchedEligible = None"

definition scheduling_reason :: "capability_registry \<Rightarrow> string \<Rightarrow> timestamp \<Rightarrow> placement_reason option" where
  "scheduling_reason registry worker_id now = state_reason (scheduling_state registry worker_id now)"

definition sandbox_satisfied :: "sandbox_requirements \<Rightarrow> capability_registry \<Rightarrow> string \<Rightarrow> timestamp \<Rightarrow> bool" where
  "sandbox_satisfied required registry worker_id now =
     (case schedulable registry worker_id now False of
        None \<Rightarrow> False
      | Some caps \<Rightarrow>
          if sbr_process_tree_enforced required \<and> sbx_process_tree (wcap_sandbox caps) \<noteq> CsEnforced then False
          else if sbr_network_denial_enforced required \<and> sbx_network_denial (wcap_sandbox caps) \<noteq> CsEnforced then False
          else True)"

definition job_requests_network_deny_all :: "job_envelope \<Rightarrow> bool" where
  "job_requests_network_deny_all job \<longleftrightarrow>
     list_ex (\<lambda>c. c = network_deny_all_capability)
       (jr_environment (je_required_capabilities job) @ jr_tools (je_required_capabilities job))"

definition merge_sandbox_requirements ::
    "job_envelope \<Rightarrow> sandbox_requirements option \<Rightarrow> sandbox_requirements option" where
  "merge_sandbox_requirements job explicit_req =
     (let wants_net = job_requests_network_deny_all job
      in if explicit_req = None \<and> \<not> wants_net then None
         else let req = (case explicit_req of None \<Rightarrow> default_sandbox_requirements | Some r \<Rightarrow> r)
              in Some (if wants_net then req\<lparr>sbr_network_denial_enforced := True\<rparr> else req))"

definition evaluate_placement ::
    "placement_request \<Rightarrow> worker_trust \<Rightarrow> capability_registry option \<Rightarrow> model_selection option \<Rightarrow> timestamp \<Rightarrow>
     placement_decision" where
  "evaluate_placement request worker_trust registry model now =
     (let required_verification = (case plr_verification_policy request of
            None \<Rightarrow> VerificationNone | Some p \<Rightarrow> VerificationRequired (Some p)) in
      if plr_data_class request = Secret then PlaceLocalOnly SecretLocalOnly
      else case trust_permits_data_class worker_trust (plr_data_class request) (plr_project_policy request) of
        Inl reason \<Rightarrow> reason_to_decision reason
      | Inr _ \<Rightarrow>
         (case plr_candidate_worker request of
            None \<Rightarrow> Eligible [] required_verification
          | Some worker_id \<Rightarrow>
              let eligible = Eligible [\<lparr>et_worker_id = worker_id, et_trust = worker_trust\<rparr>] required_verification
              in case (registry, model) of
                   (Some reg, Some m) \<Rightarrow>
                     if (case plr_required_sandbox request of
                           None \<Rightarrow> False | Some s \<Rightarrow> \<not> sandbox_satisfied s reg worker_id now)
                     then reason_to_decision SandboxInsufficient
                     else (case evaluate_worker_eligibility reg
                                 \<lparr>wel_worker_id = worker_id, wel_trust = worker_trust,
                                  wel_data_class = plr_data_class request,
                                  wel_project_policy = plr_project_policy request, wel_model = m,
                                  wel_coordinator_policy_epoch = plr_policy_epoch request\<rparr> now of
                             Inl reason \<Rightarrow> reason_to_decision reason
                           | Inr _ \<Rightarrow> eligible)
                 | _ \<Rightarrow> eligible))"

fun json_as_str :: "json \<Rightarrow> string option" where
  "json_as_str (JString s) = Some s"
| "json_as_str _ = None"

text \<open>The part of the check that is special to inference: the model, and the tools it has to call.\<close>

definition infer_model_available :: "worker_capabilities \<Rightarrow> versioned_job_payload \<Rightarrow> bool" where
  "infer_model_available caps job_payload =
     (case job_payload of
        V1Infer payload \<Rightarrow>
          (case Option.bind (json_get payload ''model'') json_as_str of
             None \<Rightarrow> False
           | Some model_name \<Rightarrow>
               let model = selection_from_request model_name
                     (Option.bind (json_get payload ''model_digest'') json_as_str);
                   selected_model = find (\<lambda>c. mcap_local_name c = msel_local_name model \<and>
                     (case msel_digest model of None \<Rightarrow> True | Some d \<Rightarrow> mcap_model_digest c = Some d))
                     (wcap_model_inventory caps);
                   tools_requested = (case json_get payload ''tools'' of
                     Some (JArray tools) \<Rightarrow> tools \<noteq> [] | _ \<Rightarrow> False)
               in model_inventory_matches (wcap_model_inventory caps) model \<and>
                  \<not> (tools_requested \<and>
                     (case selected_model of None \<Rightarrow> True | Some m \<Rightarrow> \<not> mcap_tool_call_support m)))
      | _ \<Rightarrow> False)"

definition exceeds_job_limits :: "(versioned_job_payload \<Rightarrow> nat option) \<Rightarrow> job_envelope \<Rightarrow> worker_capabilities \<Rightarrow>
    job_capability \<Rightarrow> bool" where
  "exceeds_job_limits payload_len job caps job_capability =
     (let input_bytes = (case payload_len (je_payload job) of None \<Rightarrow> - 1 | Some n \<Rightarrow> (of_nat n :: u64))
      in jcap_maximum_input_bytes job_capability < input_bytes \<or>
         wlim_max_input_bytes (wcap_limits caps) < input_bytes \<or>
         jcap_maximum_artifacts job_capability < of_nat (length (je_input_artifacts job)) \<or>
         jcap_maximum_output_bytes job_capability < ol_max_bytes (je_output_limits job) \<or>
         wlim_max_output_bytes (wcap_limits caps) < ol_max_bytes (je_output_limits job) \<or>
         jcap_maximum_artifacts job_capability < ol_max_artifacts (je_output_limits job))"

definition available_memory :: "worker_capabilities \<Rightarrow> u64 option" where
  "available_memory caps =
     (case rcap_available_ram_bytes (wcap_runtime_capacity caps) of
        Some b \<Rightarrow> Some b
      | None \<Rightarrow> (case hw_available_ram_bytes (wcap_hardware caps) of
                  Some b \<Rightarrow> Some b | None \<Rightarrow> hw_total_ram_bytes (wcap_hardware caps)))"

definition resource_limits_reason :: "worker_capabilities \<Rightarrow> resource_limits \<Rightarrow> placement_reason option" where
  "resource_limits_reason caps limits =
     (let memory = (case rl_max_memory_bytes limits of
            None \<Rightarrow> None
          | Some required_memory \<Rightarrow>
              if (case available_memory caps of None \<Rightarrow> True | Some available \<Rightarrow> available < required_memory)
              then Some CapabilityUnavailable
              else if sbx_memory_limits (wcap_sandbox caps) \<noteq> CsEnforced then Some SandboxInsufficient
              else None)
      in case memory of
           Some reason \<Rightarrow> Some reason
         | None \<Rightarrow>
             if rl_max_cpu_millis limits \<noteq> None \<and> sbx_runtime_limits (wcap_sandbox caps) \<noteq> CsEnforced
             then Some SandboxInsufficient else None)"

definition evaluate_typed_job_placement ::
    "(versioned_job_payload \<Rightarrow> nat option) \<Rightarrow> job_envelope \<Rightarrow> string \<Rightarrow> worker_trust \<Rightarrow> u64 \<Rightarrow>
     project_placement_policy \<Rightarrow> fabric_trace_context \<Rightarrow> sandbox_requirements option \<Rightarrow> capability_registry \<Rightarrow>
     timestamp \<Rightarrow> placement_decision" where
  "evaluate_typed_job_placement payload_len job worker_id worker_trust policy_epoch project_policy trace
      required_sandbox registry now =
     (let sandbox = merge_sandbox_requirements job required_sandbox;
          request = placement_request_from_job job worker_id policy_epoch project_policy trace sandbox;
          trust_decision = evaluate_placement request worker_trust None None now
      in if \<not> placement_allows_remote trust_decision then trust_decision
         else case scheduling_reason registry worker_id now of
           Some reason \<Rightarrow> reason_to_decision reason
         | None \<Rightarrow>
            (case schedulable registry worker_id now False of
               None \<Rightarrow> reason_to_decision placement_reason.CapabilityStale
             | Some caps \<Rightarrow>
                 if wcap_revocation_epoch caps < policy_epoch then reason_to_decision WorkerRevoked
                 else if je_job_kind job = Infer \<and> \<not> infer_model_available caps (je_payload job)
                 then reason_to_decision CapabilityUnavailable
                 else case find (\<lambda>c. jcap_job_kind c = je_job_kind job) (wcap_supported_job_types caps) of
                   None \<Rightarrow> reason_to_decision CapabilityUnavailable
                 | Some job_capability \<Rightarrow>
                     if exceeds_job_limits payload_len job caps job_capability
                     then reason_to_decision InputTooLarge
                     else case resource_limits_reason caps (je_resource_limits job) of
                       Some reason \<Rightarrow> reason_to_decision reason
                     | None \<Rightarrow>
                         if list_ex (\<lambda>required. \<not> list_ex (\<lambda>f. f = required) (wcap_supported_features caps))
                              (plr_required_capabilities request)
                         then reason_to_decision CapabilityUnavailable
                         else if (case plr_required_sandbox request of
                                    None \<Rightarrow> False
                                  | Some s \<Rightarrow> \<not> sandbox_satisfied s registry worker_id now)
                         then reason_to_decision SandboxInsufficient
                         else trust_decision))"

section \<open>What a remote placement means\<close>

lemma reason_to_decision_local [simp]: "\<not> placement_allows_remote (reason_to_decision r)"
  by (simp add: reason_to_decision_def)

lemma trust_only_placement:
  assumes "placement_allows_remote (evaluate_placement request trust None None now)"
    and "plr_candidate_worker request = Some w"
  shows "plr_data_class request \<noteq> Secret \<and>
    trust_permits_data_class trust (plr_data_class request) (plr_project_policy request) = Inr () \<and>
    evaluate_placement request trust None None now = Eligible [\<lparr>et_worker_id = w, et_trust = trust\<rparr>]
      (case plr_verification_policy request of None \<Rightarrow> VerificationNone | Some p \<Rightarrow> VerificationRequired (Some p))"
  using assms by (auto simp: evaluate_placement_def Let_def split: if_splits sum.splits)

lemma schedulable_entry:
  assumes "scheduling_reason reg w now = None" "schedulable reg w now False = Some caps"
  obtains e where "bt_get (creg_entries reg) w = Some e" "caps = cent_caps e" "\<not> cent_quarantined e"
    "\<not> caps_expired caps now" "\<not> rcap_draining (wcap_runtime_capacity caps)"
  using assms
  by (auto simp: scheduling_reason_def scheduling_state_def schedulable_def scheduling_eligible_def
      split: option.splits if_splits)

lemma request_from_job_simps [simp]:
  "plr_candidate_worker (placement_request_from_job job w epoch policy trace sb) = Some w"
  "plr_data_class (placement_request_from_job job w epoch policy trace sb) = je_data_class job"
  "plr_project_policy (placement_request_from_job job w epoch policy trace sb) = policy"
  "plr_required_sandbox (placement_request_from_job job w epoch policy trace sb) = sb"
  by (simp_all add: placement_request_from_job_def)

text \<open>The caps of a worker that a typed job is placed on.\<close>

definition caps_fit_job ::
    "(versioned_job_payload \<Rightarrow> nat option) \<Rightarrow> job_envelope \<Rightarrow> u64 \<Rightarrow> sandbox_requirements option \<Rightarrow>
     worker_capabilities \<Rightarrow> bool" where
  "caps_fit_job payload_len job policy_epoch required_sandbox caps \<longleftrightarrow>
     policy_epoch \<le> wcap_revocation_epoch caps \<and>
     (je_job_kind job = Infer \<longrightarrow> infer_model_available caps (je_payload job)) \<and>
     (\<exists>jc. find (\<lambda>c. jcap_job_kind c = je_job_kind job) (wcap_supported_job_types caps) = Some jc \<and>
        \<not> exceeds_job_limits payload_len job caps jc) \<and>
     resource_limits_reason caps (je_resource_limits job) = None \<and>
     set (jr_tools (je_required_capabilities job)) \<subseteq> set (wcap_supported_features caps) \<and>
     set (jr_environment (je_required_capabilities job)) - {network_deny_all_capability}
       \<subseteq> set (wcap_supported_features caps) \<and>
     (job_requests_network_deny_all job \<longrightarrow> sbx_network_denial (wcap_sandbox caps) = CsEnforced) \<and>
     (\<forall>s. required_sandbox = Some s \<longrightarrow>
        (sbr_process_tree_enforced s \<longrightarrow> sbx_process_tree (wcap_sandbox caps) = CsEnforced) \<and>
        (sbr_network_denial_enforced s \<longrightarrow> sbx_network_denial (wcap_sandbox caps) = CsEnforced))"

lemma sandbox_satisfied_iff:
  "schedulable reg w now False = Some caps \<Longrightarrow>
   sandbox_satisfied s reg w now \<longleftrightarrow>
     (sbr_process_tree_enforced s \<longrightarrow> sbx_process_tree (wcap_sandbox caps) = CsEnforced) \<and>
     (sbr_network_denial_enforced s \<longrightarrow> sbx_network_denial (wcap_sandbox caps) = CsEnforced)"
  by (simp add: sandbox_satisfied_def)

lemma merged_sandbox_satisfied:
  assumes "schedulable reg w now False = Some caps"
  shows "(case merge_sandbox_requirements job sb of None \<Rightarrow> True | Some s \<Rightarrow> sandbox_satisfied s reg w now) \<longleftrightarrow>
    (job_requests_network_deny_all job \<longrightarrow> sbx_network_denial (wcap_sandbox caps) = CsEnforced) \<and>
    (\<forall>s. sb = Some s \<longrightarrow>
       (sbr_process_tree_enforced s \<longrightarrow> sbx_process_tree (wcap_sandbox caps) = CsEnforced) \<and>
       (sbr_network_denial_enforced s \<longrightarrow> sbx_network_denial (wcap_sandbox caps) = CsEnforced))"
  by (cases sb) (auto simp: merge_sandbox_requirements_def sandbox_satisfied_iff [OF assms]
      default_sandbox_requirements_def Let_def)

lemma required_capabilities_met:
  "\<not> list_ex (\<lambda>required. \<not> list_ex (\<lambda>f. f = required) (wcap_supported_features caps))
       (plr_required_capabilities (placement_request_from_job job w epoch policy trace sb)) \<longleftrightarrow>
     set (jr_tools (je_required_capabilities job)) \<subseteq> set (wcap_supported_features caps) \<and>
     set (jr_environment (je_required_capabilities job)) - {network_deny_all_capability}
       \<subseteq> set (wcap_supported_features caps)"
  by (auto simp: placement_request_from_job_def list_ex_iff)

lemma typed_placement_caps:
  assumes "placement_allows_remote (evaluate_typed_job_placement payload_len job w trust epoch policy trace sb reg now)"
  obtains caps where "scheduling_reason reg w now = None" "schedulable reg w now False = Some caps"
    "caps_fit_job payload_len job epoch sb caps"
    "evaluate_typed_job_placement payload_len job w trust epoch policy trace sb reg now =
       evaluate_placement (placement_request_from_job job w epoch policy trace (merge_sandbox_requirements job sb))
         trust None None now"
proof -
  have s: "scheduling_reason reg w now = None"
    using assms by (auto simp: evaluate_typed_job_placement_def Let_def split: if_splits option.splits)
  moreover obtain caps where c: "schedulable reg w now False = Some caps"
    using assms s by (auto simp: evaluate_typed_job_placement_def Let_def split: if_splits option.splits)
  moreover have "caps_fit_job payload_len job epoch sb caps \<and>
    evaluate_typed_job_placement payload_len job w trust epoch policy trace sb reg now =
       evaluate_placement (placement_request_from_job job w epoch policy trace (merge_sandbox_requirements job sb))
         trust None None now"
    using assms s c merged_sandbox_satisfied [OF c, of job sb] required_capabilities_met
    unfolding caps_fit_job_def
    by (simp add: evaluate_typed_job_placement_def Let_def split: if_splits option.splits) fastforce+
  ultimately show thesis using that by blast
qed

lemma schedulable_live:
  assumes "bt_get (creg_entries reg) w = Some e" "\<not> cent_quarantined e" "\<not> caps_expired (cent_caps e) now"
    "\<not> rcap_draining (wcap_runtime_capacity (cent_caps e))"
  shows "scheduling_reason reg w now = None" "schedulable reg w now False = Some (cent_caps e)"
  using assms
  by (simp_all add: scheduling_reason_def scheduling_state_def schedulable_def scheduling_eligible_def)

lemma trust_only_eligible:
  assumes "plr_candidate_worker request = Some w"
    and "trust_permits_data_class trust (plr_data_class request) (plr_project_policy request) = Inr ()"
  shows "evaluate_placement request trust None None now = Eligible [\<lparr>et_worker_id = w, et_trust = trust\<rparr>]
    (case plr_verification_policy request of None \<Rightarrow> VerificationNone | Some p \<Rightarrow> VerificationRequired (Some p))"
proof -
  have "plr_data_class request \<noteq> Secret" using assms(2) by (auto simp: trust_permits_data_class_def)
  then show ?thesis using assms by (simp add: evaluate_placement_def Let_def)
qed

lemma typed_placement_intro:
  assumes "trust_permits_data_class trust (je_data_class job) policy = Inr ()"
    and "scheduling_reason reg w now = None" "schedulable reg w now False = Some caps"
    and "caps_fit_job payload_len job epoch sb caps"
  shows "evaluate_typed_job_placement payload_len job w trust epoch policy trace sb reg now =
    evaluate_placement (placement_request_from_job job w epoch policy trace (merge_sandbox_requirements job sb))
      trust None None now"
proof -
  let ?req = "placement_request_from_job job w epoch policy trace (merge_sandbox_requirements job sb)"
  obtain jc where jc: "find (\<lambda>c. jcap_job_kind c = je_job_kind job) (wcap_supported_job_types caps) = Some jc"
      "\<not> exceeds_job_limits payload_len job caps jc"
    using assms(4) by (auto simp: caps_fit_job_def)
  have "placement_allows_remote (evaluate_placement ?req trust None None now)"
    using trust_only_eligible [of ?req w trust now] assms(1) by simp
  moreover have "\<not> wcap_revocation_epoch caps < epoch" "resource_limits_reason caps (je_resource_limits job) = None"
      "\<not> (je_job_kind job = Infer \<and> \<not> infer_model_available caps (je_payload job))"
    using assms(4) by (auto simp: caps_fit_job_def)
  moreover have "\<not> list_ex (\<lambda>required. \<not> list_ex (\<lambda>f. f = required) (wcap_supported_features caps))
      (plr_required_capabilities ?req)"
    using assms(4) unfolding required_capabilities_met by (simp add: caps_fit_job_def)
  moreover have "\<not> (case merge_sandbox_requirements job sb of
      None \<Rightarrow> False | Some s \<Rightarrow> \<not> sandbox_satisfied s reg w now)"
    using assms(4) merged_sandbox_satisfied [OF assms(3), of job sb]
    by (auto simp: caps_fit_job_def split: option.splits)
  ultimately show ?thesis
    using assms(2,3) jc by (simp only: evaluate_typed_job_placement_def Let_def option.case if_False simp_thms
        if_True request_from_job_simps)
qed

end
