(* ===== verification/Queue_Refinement.thy ===== *)
theory Queue_Refinement
  imports Admission_Queue
begin

text \<open>
  The admission queue as a state machine and as a refinement of a plain list of entries. The
  abstract operations count the list where the code keeps a member set and two counter tables, and
  serve the best entry by priority and arrival alone; the code's \<open>max_consecutive_background\<close>
  preference is shown to make no difference to the entry served.
\<close>

section \<open>The abstract queue\<close>

definition abs_insert ::
    "queue_limits \<Rightarrow> nat \<Rightarrow> compute_request \<Rightarrow> timestamp \<Rightarrow> queue_entry list \<Rightarrow>
     queue_entry list \<times> queue_admission option" where
  "abs_insert L reserved req now xs =
     (if ql_per_run_max L \<le> run_count (cr_run_id req) xs \<or>
         ql_per_worker_max L \<le> worker_count (worker_key_of req) xs \<or>
         Background \<le> cr_priority req \<and> ql_global_max L - length xs \<le> reserved
      then (xs, None)
      else (xs @ [\<lparr>qe_attempt_id = cr_attempt_id req, qe_run_id = cr_run_id req,
                   qe_task_id = cr_task_id req, qe_priority = cr_priority req, qe_queued_at = now,
                   qe_queue_deadline = dp_queue_deadline (cr_deadline req),
                   qe_worker_key = worker_key_of req\<rparr>],
            Some \<lparr>qa_attempt_id = cr_attempt_id req, qa_position = length xs, qa_queued_at = now,
                  qa_queue_deadline = dp_queue_deadline (cr_deadline req)\<rparr>))"

definition abs_enqueue ::
    "queue_limits \<Rightarrow> nat \<Rightarrow> compute_request \<Rightarrow> timestamp \<Rightarrow> queue_entry list \<Rightarrow>
     queue_entry list \<times> queue_admission option" where
  "abs_enqueue L reserved req now xs =
     (if \<exists>e \<in> set xs. qe_attempt_id e = cr_attempt_id req
      then (xs, Some \<lparr>qa_attempt_id = cr_attempt_id req,
             qa_position = length (filter (\<lambda>e. qe_priority e < cr_priority req) xs),
             qa_queued_at = now, qa_queue_deadline = dp_queue_deadline (cr_deadline req)\<rparr>)
      else if length xs < ql_global_max L then abs_insert L reserved req now xs
      else if cr_priority req \<noteq> Interactive then (xs, None)
      else (case max_rank_index xs of
              None \<Rightarrow> (xs, None)
            | Some i \<Rightarrow> abs_insert L reserved req now (remove_at i xs)))"

definition abs_remove :: "attempt_id \<Rightarrow> queue_entry list \<Rightarrow> queue_entry list \<times> bool" where
  "abs_remove att xs = (filter (\<lambda>e. qe_attempt_id e \<noteq> att) xs, \<exists>e \<in> set xs. qe_attempt_id e = att)"

definition abs_pop ::
    "timestamp \<Rightarrow> queue_entry list \<Rightarrow>
     queue_entry list \<times> (attempt_id \<times> run_id \<times> task_id \<times> compute_priority) option" where
  "abs_pop now xs =
     (let waiting = filter (\<lambda>e. now < qe_queue_deadline e) xs in
      case min_index rank_before waiting of
        None \<Rightarrow> (waiting, None)
      | Some i \<Rightarrow>
          let e = waiting ! i
          in (remove_at i waiting, Some (qe_attempt_id e, qe_run_id e, qe_task_id e, qe_priority e)))"

section \<open>Enqueueing\<close>

lemma enqueue_entry_refines:
  assumes "caches_ok g" "cr_attempt_id req \<notin> qs_members g"
  shows "(qs_entries (fst (enqueue_entry req now g)), snd (enqueue_entry req now g)) =
      abs_insert (qs_limits g) (unat (fp_interactive_reserved_slots (qs_fairness g))) req now (qs_entries g)"
    and "caches_ok (fst (enqueue_entry req now g))"
    and "qs_limits (fst (enqueue_entry req now g)) = qs_limits g"
    and "qs_fairness (fst (enqueue_entry req now g)) = qs_fairness g"
proof -
  have fin: "finite (qs_members g)" using assms(1) by (simp add: caches_ok_def)
  show "(qs_entries (fst (enqueue_entry req now g)), snd (enqueue_entry req now g)) =
      abs_insert (qs_limits g) (unat (fp_interactive_reserved_slots (qs_fairness g))) req now (qs_entries g)"
    using assms fin caches_card [OF assms(1)]
    by (simp add: enqueue_entry_def abs_insert_def Let_def caches_ok_def)
  show "caches_ok (fst (enqueue_entry req now g))"
    using assms by (auto simp: enqueue_entry_def Let_def caches_ok_def count_of_inc run_count_def worker_count_def)
  show "qs_limits (fst (enqueue_entry req now g)) = qs_limits g"
    "qs_fairness (fst (enqueue_entry req now g)) = qs_fairness g"
    by (simp_all add: enqueue_entry_def Let_def)
qed

lemma abs_insert_bounds:
  assumes "abs_insert L reserved req now xs = (ys, r)" "length xs < ql_global_max L"
    "\<And>k. run_count k xs \<le> ql_per_run_max L" "\<And>k. worker_count k xs \<le> ql_per_worker_max L"
  shows "length ys \<le> ql_global_max L" "run_count k ys \<le> ql_per_run_max L" "worker_count k ys \<le> ql_per_worker_max L"
  using assms(1) assms(2) assms(3) [of k] assms(4) [of k]
  by (auto simp: abs_insert_def run_count_def worker_count_def split: if_splits)

lemma rank_Interactive [simp]: "0 < priority_rank p \<longleftrightarrow> p \<noteq> Interactive" "priority_rank p = 0 \<longleftrightarrow> p = Interactive"
  by (cases p; simp)+

lemma enqueue_refines:
  assumes "caches_ok g"
  shows "(qs_entries (fst (enqueue req now g)), snd (enqueue req now g)) =
      abs_enqueue (qs_limits g) (unat (fp_interactive_reserved_slots (qs_fairness g))) req now (qs_entries g)"
    and "caches_ok (fst (enqueue req now g))"
    and "qs_limits (fst (enqueue req now g)) = qs_limits g"
    and "qs_fairness (fst (enqueue req now g)) = qs_fairness g"
proof -
  have mem: "cr_attempt_id req \<in> qs_members g \<longleftrightarrow> (\<exists>e \<in> set (qs_entries g). qe_attempt_id e = cr_attempt_id req)"
    using assms by (auto simp: caches_ok_def image_iff) metis
  note card = caches_card [OF assms]
  have out: "caches_ok (take_out i g)" "cr_attempt_id req \<notin> qs_members (take_out i g)"
    if "max_rank_index (qs_entries g) = Some i" "cr_attempt_id req \<notin> qs_members g" for i
    using take_out_caches [OF assms max_rank_index_bound [OF that(1)]] that(2)
    by (auto simp: take_out_def release_counts_def)
  show "(qs_entries (fst (enqueue req now g)), snd (enqueue req now g)) =
      abs_enqueue (qs_limits g) (unat (fp_interactive_reserved_slots (qs_fairness g))) req now (qs_entries g)"
    using enqueue_entry_refines(1) [OF assms] enqueue_entry_refines(1) [OF out] mem card
    by (auto simp: enqueue_def abs_enqueue_def evict_lowest_take_out less_compute_priority_def split: option.split)
  show "caches_ok (fst (enqueue req now g))"
    using enqueue_entry_refines(2) [OF assms] enqueue_entry_refines(2) [OF out] assms
    by (auto simp: enqueue_def evict_lowest_take_out split: option.split)
  show "qs_limits (fst (enqueue req now g)) = qs_limits g"
    using enqueue_entry_refines(3) [OF assms] enqueue_entry_refines(3) [OF out]
    by (auto simp: enqueue_def evict_lowest_take_out split: option.split)
  show "qs_fairness (fst (enqueue req now g)) = qs_fairness g"
    using enqueue_entry_refines(4) [OF assms] enqueue_entry_refines(4) [OF out]
    by (auto simp: enqueue_def evict_lowest_take_out split: option.split)
qed

lemma enqueue_inv:
  assumes "queue_inv g"
  shows "queue_inv (fst (enqueue req now g))"
proof -
  have c: "caches_ok g" using assms by (simp add: queue_inv_def)
  let ?L = "qs_limits g" and ?res = "unat (fp_interactive_reserved_slots (qs_fairness g))" and ?xs = "qs_entries g"
  obtain ys r where ys: "abs_enqueue ?L ?res req now ?xs = (ys, r)" by (rule prod.exhaust)
  have "length ys \<le> ql_global_max ?L \<and> (\<forall>k. run_count k ys \<le> ql_per_run_max ?L) \<and>
      (\<forall>k. worker_count k ys \<le> ql_per_worker_max ?L)"
  proof -
    consider (same) "ys = ?xs" | (insert) "length ?xs < ql_global_max ?L" "abs_insert ?L ?res req now ?xs = (ys, r)"
      | (evict) i where "max_rank_index ?xs = Some i" "abs_insert ?L ?res req now (remove_at i ?xs) = (ys, r)"
      using ys by (auto simp: abs_enqueue_def split: if_splits option.splits)
    then show ?thesis
    proof cases
      case same
      with assms show ?thesis by (simp add: queue_inv_def)
    next
      case insert
      with assms abs_insert_bounds [OF insert(2,1)] show ?thesis by (simp add: queue_inv_def)
    next
      case (evict i)
      note i = max_rank_index_bound [OF evict(1)]
      have "queue_inv (take_out i g)" using take_out_inv [OF assms i] .
      then have "run_count k (remove_at i ?xs) \<le> ql_per_run_max ?L" "worker_count k (remove_at i ?xs) \<le> ql_per_worker_max ?L" for k
        by (simp_all add: queue_inv_def)
      moreover have "length (remove_at i ?xs) < ql_global_max ?L"
      proof -
        have "length ?xs \<le> ql_global_max ?L" using assms by (simp add: queue_inv_def)
        with i show ?thesis unfolding length_remove_at [OF i] by linarith
      qed
      ultimately show ?thesis using abs_insert_bounds [OF evict(2)] by blast
    qed
  qed
  then show ?thesis using enqueue_refines [OF c, of req now] ys by (simp add: queue_inv_def)
qed

section \<open>Removing\<close>

lemma remove_refines:
  assumes "caches_ok g"
  shows "(qs_entries (fst (queue_remove att g)), snd (queue_remove att g)) = abs_remove att (qs_entries g)"
proof (cases "List.find (\<lambda>i. qe_attempt_id (qs_entries g ! i) = att) [0..<length (qs_entries g)]")
  case None
  then have "\<forall>e \<in> set (qs_entries g). qe_attempt_id e \<noteq> att" by (auto simp: find_None_iff in_set_conv_nth)
  with None show ?thesis by (auto simp: queue_remove_take_out [OF assms] abs_remove_def)
next
  case (Some i)
  then have i: "i < length (qs_entries g)" "qe_attempt_id (qs_entries g ! i) = att" by (auto simp: find_Some_iff)
  then have "qs_entries (drop_expired (qs_entries g ! i) g) = filter (\<lambda>e. qe_attempt_id e \<noteq> att) (qs_entries g)"
    using drop_expired_caches(2) [OF assms, of "qs_entries g ! i"] by simp
  moreover have "qs_entries (drop_expired (qs_entries g ! i) g) = remove_at i (qs_entries g)"
    using drop_expired_take_out [OF assms i(1)] by simp
  ultimately show ?thesis using Some i by (auto simp: queue_remove_take_out [OF assms] abs_remove_def)
qed

section \<open>Serving\<close>

lemma pop_before_rank: "pop_before prefer = rank_before"
  by (intro ext) (auto simp: pop_before_def rank_before_def less_eq_compute_priority_def split: bool.split
      elim: compute_priority.exhaust [case_product compute_priority.exhaust])

lemma fold_drop_expired:
  assumes "caches_ok g" "set es \<subseteq> set (qs_entries g)" "distinct (map qe_attempt_id es)"
  shows "caches_ok (fold drop_expired es g)"
    and "qs_entries (fold drop_expired es g) = filter (\<lambda>x. qe_attempt_id x \<notin> qe_attempt_id ` set es) (qs_entries g)"
    and "qs_limits (fold drop_expired es g) = qs_limits g"
    and "qs_fairness (fold drop_expired es g) = qs_fairness g"
proof -
  have "caches_ok (fold drop_expired es g) \<and>
    qs_entries (fold drop_expired es g) = filter (\<lambda>x. qe_attempt_id x \<notin> qe_attempt_id ` set es) (qs_entries g) \<and>
    qs_limits (fold drop_expired es g) = qs_limits g \<and> qs_fairness (fold drop_expired es g) = qs_fairness g"
    using assms
  proof (induction es arbitrary: g)
    case (Cons e es)
    note d = drop_expired_caches [OF Cons.prems(1), of e]
    have "set es \<subseteq> set (qs_entries (drop_expired e g))"
      using Cons.prems d(2) by (auto simp: image_iff)
    moreover have "qs_limits (drop_expired e g) = qs_limits g" "qs_fairness (drop_expired e g) = qs_fairness g"
      by (simp_all add: drop_expired_def release_counts_def)
    ultimately show ?case using Cons.IH [of "drop_expired e g"] Cons.prems d by (auto simp: conj_commute intro!: filter_cong)
  qed (simp add: filter_id_conv)
  then show "caches_ok (fold drop_expired es g)"
    "qs_entries (fold drop_expired es g) = filter (\<lambda>x. qe_attempt_id x \<notin> qe_attempt_id ` set es) (qs_entries g)"
    "qs_limits (fold drop_expired es g) = qs_limits g" "qs_fairness (fold drop_expired es g) = qs_fairness g" by blast+
qed

lemma filter_not_expired:
  assumes "distinct (map f xs)"
  shows "filter (\<lambda>x. f x \<notin> f ` set (filter P xs)) xs = filter (\<lambda>x. \<not> P x) xs"
  using assms by (intro filter_cong) (auto simp: distinct_map inj_on_def)

lemma pop_refines:
  assumes "caches_ok g"
  shows "(qs_entries (fst (pop_next now g)), snd (pop_next now g)) = abs_pop now (qs_entries g)"
    and "caches_ok (fst (pop_next now g))"
    and "qs_limits (fst (pop_next now g)) = qs_limits g"
    and "qs_fairness (fst (pop_next now g)) = qs_fairness g"
proof -
  let ?es = "filter (\<lambda>e. qe_queue_deadline e \<le> now) (qs_entries g)"
  define g1 where "g1 = fold drop_expired ?es g"
  have dist: "distinct (map qe_attempt_id (qs_entries g))" using assms by (simp add: caches_ok_def)
  then have es: "set ?es \<subseteq> set (qs_entries g)" "distinct (map qe_attempt_id ?es)"
    by (auto simp: distinct_map_filter)
  note f = fold_drop_expired [OF assms es, folded g1_def]
  have w: "qs_entries g1 = filter (\<lambda>e. now < qe_queue_deadline e) (qs_entries g)"
    unfolding f(2) filter_not_expired [OF dist] by (simp add: not_le)
  have pop: "pop_next now g = (case min_index rank_before (qs_entries g1) of
      None \<Rightarrow> (g1, None)
    | Some i \<Rightarrow> let e = qs_entries g1 ! i in
        ((take_out i g1)\<lparr>qs_consecutive_background := (if Background \<le> qe_priority e
            then qs_consecutive_background (take_out i g1) + 1 else 0)\<rparr>,
         Some (qe_attempt_id e, qe_run_id e, qe_task_id e, qe_priority e)))"
    by (simp add: pop_next_def g1_def [symmetric] pop_before_rank take_out_def Let_def split: option.split)
  have cc: "caches_ok (h\<lparr>qs_consecutive_background := n\<rparr>) = caches_ok h" for h n by (simp add: caches_ok_def)
  show "(qs_entries (fst (pop_next now g)), snd (pop_next now g)) = abs_pop now (qs_entries g)"
    by (simp add: pop abs_pop_def Let_def w split: option.split)
  show "caches_ok (fst (pop_next now g))"
    using f(1) by (auto simp: pop Let_def cc split: option.split intro: take_out_caches dest: min_index_bound)
  show "qs_limits (fst (pop_next now g)) = qs_limits g" "qs_fairness (fst (pop_next now g)) = qs_fairness g"
    using f(3,4) by (simp_all add: pop Let_def split: option.split)
qed

section \<open>The machine\<close>

datatype queue_op =
  OpEnqueue compute_request timestamp | OpRemove attempt_id | OpPop timestamp

fun queue_apply :: "queue_state \<Rightarrow> queue_op \<Rightarrow> queue_state" where
  "queue_apply g (OpEnqueue req now) = fst (enqueue req now g)"
| "queue_apply g (OpRemove att) = fst (queue_remove att g)"
| "queue_apply g (OpPop now) = fst (pop_next now g)"

definition queue_step :: "queue_state \<Rightarrow> queue_op \<Rightarrow> (unit, queue_state) result" where
  "queue_step g c = Ok (queue_apply g c)"

text \<open>Fewer entries keep the bounds.\<close>

lemma length_filter_filter: "length (filter Q (filter P xs)) \<le> length (filter Q xs)"
  by (induction xs) auto

lemma queue_inv_fewer:
  assumes "queue_inv g" "caches_ok g'" "qs_limits g' = qs_limits g"
    "length (qs_entries g') \<le> length (qs_entries g)"
    "\<And>k. run_count k (qs_entries g') \<le> run_count k (qs_entries g)"
    "\<And>k. worker_count k (qs_entries g') \<le> worker_count k (qs_entries g)"
  shows "queue_inv g'"
  using assms unfolding queue_inv_def by (metis order_trans)

lemma remove_inv:
  assumes "queue_inv g"
  shows "queue_inv (fst (queue_remove att g))"
proof -
  have "caches_ok g" using assms by (simp add: queue_inv_def)
  then show ?thesis
    using assms by (auto simp: queue_remove_take_out find_Some_iff split: option.split intro: take_out_inv)
qed

lemma pop_inv:
  assumes "queue_inv g"
  shows "queue_inv (fst (pop_next now g))"
proof -
  have c: "caches_ok g" using assms by (simp add: queue_inv_def)
  let ?w = "filter (\<lambda>e. now < qe_queue_deadline e) (qs_entries g)"
  have "qs_entries (fst (pop_next now g)) = fst (abs_pop now (qs_entries g))" using pop_refines(1) [OF c] by (metis fst_conv)
  moreover have "fst (abs_pop now (qs_entries g)) = ?w \<or>
      (\<exists>i < length ?w. fst (abs_pop now (qs_entries g)) = remove_at i ?w)"
    by (auto simp: abs_pop_def Let_def split: option.split dest: min_index_bound)
  moreover have "length (filter P (remove_at i ?w)) \<le> length (filter P ?w)" if "i < length ?w" for i P
    using length_filter_remove_at [OF that, of P] by simp
  ultimately have "length (filter P (qs_entries (fst (pop_next now g)))) \<le> length (filter P ?w)" for P by auto
  then have le: "length (filter P (qs_entries (fst (pop_next now g)))) \<le> length (filter P (qs_entries g))" for P
    by (rule order_trans) (rule length_filter_filter)
  show ?thesis
    using assms pop_refines(2,3) [OF c]
  proof (rule queue_inv_fewer)
    show "length (qs_entries (fst (pop_next now g))) \<le> length (qs_entries g)" using le [of "\<lambda>_. True"] by simp
    show "run_count k (qs_entries (fst (pop_next now g))) \<le> run_count k (qs_entries g)" for k
      unfolding run_count_def by (rule le)
    show "worker_count k (qs_entries (fst (pop_next now g))) \<le> worker_count k (qs_entries g)" for k
      unfolding worker_count_def by (rule le)
  qed
qed

lemma queue_new_inv: "queue_inv (queue_new L F)"
  by (simp add: queue_inv_def caches_ok_def queue_new_def count_of_def run_count_def worker_count_def)

lemma queue_apply_inv: "queue_inv g \<Longrightarrow> queue_inv (queue_apply g c)"
  by (cases c) (simp_all add: enqueue_inv remove_inv pop_inv)

interpretation queue: command_machine queue_step "\<lambda>_ _. True" queue_inv
  by unfold_locales (auto simp: queue_step_def queue_apply_inv)

lemma queue_apply_config:
  assumes "queue_inv g"
  shows "qs_limits (queue_apply g c) = qs_limits g \<and> qs_fairness (queue_apply g c) = qs_fairness g"
proof -
  have c: "caches_ok g" using assms by (simp add: queue_inv_def)
  then show ?thesis
    by (cases c) (simp_all add: enqueue_refines pop_refines queue_remove_take_out split: option.split)
qed

lemma queue_reaches_inv:
  assumes "queue.reaches (queue_new L F) g"
  shows "queue_inv g" and "qs_limits g = L" and "qs_fairness g = F"
proof -
  show "queue_inv g" using assms queue_new_inv by (rule queue.reaches_inv)
  have "qs_limits g = qs_limits (queue_new L F) \<and> qs_fairness g = qs_fairness (queue_new L F)"
    using assms queue_new_inv
    by (rule queue.reaches_respects) (auto simp: queue_step_def queue_apply_config)
  then show "qs_limits g = L" "qs_fairness g = F" by (simp_all add: queue_new_def)
qed

end
