(* ===== verification/Admission.thy ===== *)
theory Admission
  imports Ledger_Machine Queue_Refinement
begin

text \<open>
  The admission controller (\<open>tetonic-broker/src/admission.rs\<close>): the gates a compute request passes,
  the reservation it asks the budget ledger for, and the queue it waits in when a budget is
  exhausted. The controller's state is the ledger and the queue together. The tracing and telemetry
  calls of the asynchronous wrapper \<open>evaluate\<close>, which returns the outcome of \<open>evaluate_sync\<close>, are left out.
\<close>

datatype admission_rejection_reason =
  AdmReservationConflict | AdmRunCanceled | AdmStaleTaskVersion | AdmPlacementExpired
| AdmPlacementDenied | AdmResourceRequestTooLarge | AdmRunConcurrencyLimit
| AdmWorkerConcurrencyLimit | AdmMemoryBudgetExceeded | AdmVramBudgetExceeded
| AdmProcessLimitExceeded | AdmTokenBudgetExceeded | AdmSpeculationBudgetExceeded
| AdmQueueFull | AdmDeadlineImpossible | AdmSandboxUnavailable | AdmNoEligibleTarget
| AdmAttemptNotActive | AdmArtifactsUnavailable | AdmWorkspaceMismatch | AdmDataClassChanged

fun admission_reason_as_str :: "admission_rejection_reason \<Rightarrow> string" where
  "admission_reason_as_str AdmReservationConflict = ''reservation_conflict''"
| "admission_reason_as_str AdmRunCanceled = ''run_canceled''"
| "admission_reason_as_str AdmStaleTaskVersion = ''stale_task_version''"
| "admission_reason_as_str AdmPlacementExpired = ''placement_expired''"
| "admission_reason_as_str AdmPlacementDenied = ''placement_denied''"
| "admission_reason_as_str AdmResourceRequestTooLarge = ''resource_request_too_large''"
| "admission_reason_as_str AdmRunConcurrencyLimit = ''run_concurrency_limit''"
| "admission_reason_as_str AdmWorkerConcurrencyLimit = ''worker_concurrency_limit''"
| "admission_reason_as_str AdmMemoryBudgetExceeded = ''memory_budget_exceeded''"
| "admission_reason_as_str AdmVramBudgetExceeded = ''vram_budget_exceeded''"
| "admission_reason_as_str AdmProcessLimitExceeded = ''process_limit_exceeded''"
| "admission_reason_as_str AdmTokenBudgetExceeded = ''token_budget_exceeded''"
| "admission_reason_as_str AdmSpeculationBudgetExceeded = ''speculation_budget_exceeded''"
| "admission_reason_as_str AdmQueueFull = ''queue_full''"
| "admission_reason_as_str AdmDeadlineImpossible = ''deadline_impossible''"
| "admission_reason_as_str AdmSandboxUnavailable = ''sandbox_unavailable''"
| "admission_reason_as_str AdmNoEligibleTarget = ''no_eligible_target''"
| "admission_reason_as_str AdmAttemptNotActive = ''attempt_not_active''"
| "admission_reason_as_str AdmArtifactsUnavailable = ''artifacts_unavailable''"
| "admission_reason_as_str AdmWorkspaceMismatch = ''workspace_mismatch''"
| "admission_reason_as_str AdmDataClassChanged = ''data_class_changed''"

record admission_rejection =
  arj_reason :: admission_rejection_reason
  arj_message :: string

datatype admission_decision =
  Admitted resource_reservation | Queued queue_admission | Rejected admission_rejection

record admission_request =
  adm_compute :: compute_request
  adm_run_canceled :: bool
  adm_task_state :: "task_state option"
  adm_expected_task_version :: "u64 option"
  adm_attempt_active :: bool
  adm_workspace_matches :: bool
  adm_artifacts_available :: bool
  adm_data_class_unchanged :: bool
  adm_now :: timestamp

definition reject :: "admission_rejection_reason \<Rightarrow> string \<Rightarrow> admission_decision" where
  "reject reason message = Rejected \<lparr>arj_reason = reason, arj_message = message\<rparr>"

fun budget_to_reason :: "budget_reject \<Rightarrow> admission_rejection_reason" where
  "budget_to_reason ReservationConflict = AdmReservationConflict"
| "budget_to_reason ResourceRequestTooLarge = AdmResourceRequestTooLarge"
| "budget_to_reason RunConcurrencyLimit = AdmRunConcurrencyLimit"
| "budget_to_reason WorkerConcurrencyLimit = AdmWorkerConcurrencyLimit"
| "budget_to_reason MemoryBudgetExceeded = AdmMemoryBudgetExceeded"
| "budget_to_reason VramBudgetExceeded = AdmVramBudgetExceeded"
| "budget_to_reason ProcessLimitExceeded = AdmProcessLimitExceeded"
| "budget_to_reason TokenBudgetExceeded = AdmTokenBudgetExceeded"
| "budget_to_reason SpeculationBudgetExceeded = AdmSpeculationBudgetExceeded"
| "budget_to_reason UnknownReservation = AdmNoEligibleTarget"
| "budget_to_reason OverBudget = AdmResourceRequestTooLarge"

definition validate_placement :: "placement_decision_reference \<Rightarrow> timestamp \<Rightarrow> admission_decision option" where
  "validate_placement placement now =
     (if pdr_expires_at placement \<le> now
      then Some (reject AdmPlacementExpired ''placement decision expired'')
      else case pdr_decision placement of
             PlaceDenied _ \<Rightarrow> Some (reject AdmPlacementDenied ''placement denied'')
           | PlaceLocalOnly _ \<Rightarrow> None
           | Eligible _ _ \<Rightarrow> None
           | EligibleAfterRedaction _ _ _ \<Rightarrow> None)"

definition resolve_target :: "compute_request \<Rightarrow> reservation_target" where
  "resolve_target c =
     (case cr_target_worker_id c of
        Some w \<Rightarrow> TargetWorker w
      | None \<Rightarrow>
          let remote = (case pdr_decision (cr_placement_decision c) of
                          Eligible targets _ \<Rightarrow> (case targets of [] \<Rightarrow> None | t # _ \<Rightarrow> Some t)
                        | EligibleAfterRedaction targets _ _ \<Rightarrow> (case targets of [] \<Rightarrow> None | t # _ \<Rightarrow> Some t)
                        | _ \<Rightarrow> None)
          in case remote of Some t \<Rightarrow> TargetWorker (et_worker_id t) | None \<Rightarrow> TargetLocal)"

definition reserve_call :: "compute_request \<Rightarrow> timestamp \<Rightarrow> reserve_args" where
  "reserve_call c now = \<lparr>rsv_run_id = cr_run_id c, rsv_task_id = cr_task_id c,
     rsv_attempt_id = cr_attempt_id c, rsv_project_id = cr_project_id c,
     rsv_target = resolve_target c, rsv_request = cr_resource_request c,
     rsv_speculative = cr_speculative c, rsv_now = now\<rparr>"

text \<open>The rejections before any budget is touched, in the order of the code.\<close>

definition check_gates :: "budget_limits \<Rightarrow> admission_request \<Rightarrow> admission_decision option" where
  "check_gates limits request =
     (let c = adm_compute request in
      if adm_run_canceled request then Some (reject AdmRunCanceled ''run canceled'')
      else if adm_task_state request = Some TaskCanceled then Some (reject AdmRunCanceled ''task canceled'')
      else if \<not> adm_attempt_active request then Some (reject AdmAttemptNotActive ''attempt is not active'')
      else if (case adm_expected_task_version request of None \<Rightarrow> False | Some v \<Rightarrow> v \<noteq> cr_task_version c)
      then Some (reject AdmStaleTaskVersion ''task version stale'')
      else if \<not> adm_workspace_matches request
      then Some (reject AdmWorkspaceMismatch ''workspace version mismatch'')
      else if \<not> adm_artifacts_available request
      then Some (reject AdmArtifactsUnavailable ''required artifacts unavailable'')
      else if \<not> adm_data_class_unchanged request
      then Some (reject AdmDataClassChanged ''data classification changed'')
      else case validate_placement (cr_placement_decision c) (adm_now request) of
             Some rej \<Rightarrow> Some rej
           | None \<Rightarrow>
               if dp_queue_deadline (cr_deadline c) \<le> adm_now request
               then Some (reject AdmDeadlineImpossible ''queue deadline already passed'')
               else if exceeds_hard_limits (cr_resource_request c) limits
               then Some (reject AdmResourceRequestTooLarge ''resource request exceeds hard limits'')
               else None)"

definition queueable :: "budget_reject \<Rightarrow> bool" where
  "queueable e \<longleftrightarrow> e \<in> {RunConcurrencyLimit, WorkerConcurrencyLimit, MemoryBudgetExceeded,
     VramBudgetExceeded, ProcessLimitExceeded, TokenBudgetExceeded, SpeculationBudgetExceeded}"

definition evaluate_sync ::
    "(int \<Rightarrow> int option) \<Rightarrow> string \<Rightarrow> admission_request \<Rightarrow> budget_state \<Rightarrow> queue_state \<Rightarrow>
     budget_state \<times> queue_state \<times> admission_decision" where
  "evaluate_sync from_std uuid request budgets queue =
     (case check_gates (bs_limits budgets) request of
        Some rej \<Rightarrow> (budgets, queue, rej)
      | None \<Rightarrow>
          let c = adm_compute request in
          case reserve from_std uuid (reserve_call c (adm_now request)) budgets of
            (b, Inr reservation) \<Rightarrow> (b, queue, Admitted reservation)
          | (b, Inl err) \<Rightarrow>
              if queueable err then
                (case enqueue c (adm_now request) queue of
                   (q, Some qa) \<Rightarrow> (b, q, Queued qa)
                 | (q, None) \<Rightarrow> (b, q, reject (budget_to_reason err) ''budgets exhausted and queue full''))
              else (b, queue,
                case err of
                  ReservationConflict \<Rightarrow>
                    reject AdmReservationConflict ''attempt already has a different reservation''
                | ResourceRequestTooLarge \<Rightarrow>
                    reject AdmResourceRequestTooLarge ''resource request too large''
                | UnknownReservation \<Rightarrow> reject AdmNoEligibleTarget ''reservation bookkeeping error''
                | _ \<Rightarrow> reject AdmResourceRequestTooLarge ''reservation over budget''))"

definition try_admit_queued ::
    "(int \<Rightarrow> int option) \<Rightarrow> string \<Rightarrow> reserve_args \<Rightarrow> compute_priority \<Rightarrow> budget_state \<Rightarrow> queue_state \<Rightarrow>
     budget_state \<times> queue_state \<times> admission_decision" where
  "try_admit_queued from_std uuid a priority budgets queue =
     (case reserve from_std uuid a budgets of
        (b, Inr r) \<Rightarrow> (b, fst (queue_remove (rsv_attempt_id a) queue), Admitted r)
      | (b, Inl e) \<Rightarrow> (b, queue, reject (budget_to_reason e) ''queued reservation denied''))"

section \<open>Lemmas\<close>

text \<open>What a request that passes the gates satisfies.\<close>

definition gates_open :: "budget_limits \<Rightarrow> admission_request \<Rightarrow> bool" where
  "gates_open limits request \<longleftrightarrow>
     \<not> adm_run_canceled request \<and> adm_task_state request \<noteq> Some TaskCanceled \<and>
     adm_attempt_active request \<and>
     adm_expected_task_version request \<in> {None, Some (cr_task_version (adm_compute request))} \<and>
     adm_workspace_matches request \<and> adm_artifacts_available request \<and> adm_data_class_unchanged request \<and>
     adm_now request < pdr_expires_at (cr_placement_decision (adm_compute request)) \<and>
     (\<forall>reason. pdr_decision (cr_placement_decision (adm_compute request)) \<noteq> PlaceDenied reason) \<and>
     adm_now request < dp_queue_deadline (cr_deadline (adm_compute request)) \<and>
     \<not> exceeds_hard_limits (cr_resource_request (adm_compute request)) limits"

lemma validate_placement_None:
  "validate_placement p now = None \<longleftrightarrow> now < pdr_expires_at p \<and> (\<forall>reason. pdr_decision p \<noteq> PlaceDenied reason)"
  by (auto simp: validate_placement_def split: placement_decision.split)

lemma check_gates_None: "check_gates limits request = None \<longleftrightarrow> gates_open limits request"
  by (auto simp: check_gates_def gates_open_def Let_def validate_placement_None [symmetric]
      split: option.split)

lemma check_gates_Rejected: "check_gates limits request = Some d \<Longrightarrow> \<exists>rej. d = Rejected rej"
  by (auto simp: check_gates_def reject_def validate_placement_def Let_def
      split: if_splits option.splits placement_decision.splits)

lemma reserve_refused_keys:
  assumes "ledger_inv g" "snd (reserve from_std uuid a g) = Inl e"
  shows "fst (reserve from_std uuid a g) = expire_in (rsv_now a) g \<or>
    same_accounts (expire_in (rsv_now a) g) (fst (reserve from_std uuid a g))"
    and "queueable e \<Longrightarrow> bt_get (bs_by_attempt (fst (reserve from_std uuid a g))) (rsv_attempt_id a) = None"
proof -
  let ?g = "expire_in (rsv_now a) g"
  have inv: "ledger_inv ?g" using assms(1) by (rule expire_inv)
  then have t: "tables_ok ?g" by (simp add: ledger_inv_def)
  have "(fst (reserve from_std uuid a g) = ?g \<or> same_accounts ?g (fst (reserve from_std uuid a g))) \<and>
    (queueable e \<longrightarrow> bt_get (bs_by_attempt (fst (reserve from_std uuid a g))) (rsv_attempt_id a) = None)"
  proof (cases "active_reservation ?g (rsv_attempt_id a)")
    case None
    then have n: "bt_get (bs_by_attempt ?g) (rsv_attempt_id a) = None" by (simp add: active_reservation_None [OF t])
    then show ?thesis
      by (rule reserve_new_cases [OF inv, of a from_std uuid])
        (use None assms(2) n in \<open>auto simp: reserve_def Let_def same_accounts_def\<close>)
  next
    case (Some p)
    with assms(2) show ?thesis
      by (auto simp: reserve_def Let_def queueable_def split: option.splits prod.splits if_splits)
  qed
  then show "fst (reserve from_std uuid a g) = expire_in (rsv_now a) g \<or>
    same_accounts (expire_in (rsv_now a) g) (fst (reserve from_std uuid a g))"
    "queueable e \<Longrightarrow> bt_get (bs_by_attempt (fst (reserve from_std uuid a g))) (rsv_attempt_id a) = None" by blast+
qed

lemma enqueue_Some_member:
  assumes "caches_ok g" "enqueue req now g = (g', Some qa)"
  shows "cr_attempt_id req \<in> qs_members g'"
proof -
  have "(\<exists>e \<in> set (fst (abs_enqueue L res req now xs)). qe_attempt_id e = cr_attempt_id req)"
    if "snd (abs_enqueue L res req now xs) = Some qa" for L res xs
    using that by (auto simp: abs_enqueue_def abs_insert_def split: if_splits option.splits)
  moreover have "(qs_entries g', Some qa) =
      abs_enqueue (qs_limits g) (unat (fp_interactive_reserved_slots (qs_fairness g))) req now (qs_entries g)"
    "caches_ok g'"
    using enqueue_refines [OF assms(1), of req now] assms(2) by simp_all
  ultimately show ?thesis by (metis caches_ok_def fst_conv snd_conv image_eqI)
qed

lemma reserve_refused_unfit:
  assumes "ledger_inv g" "snd (reserve from_std uuid a g) = Inl e" "queueable e"
  shows "\<not> fits a (expire_in (rsv_now a) g)"
proof -
  let ?g = "expire_in (rsv_now a) g"
  have inv: "ledger_inv ?g" using assms(1) by (rule expire_inv)
  show ?thesis
  proof (cases "active_reservation ?g (rsv_attempt_id a)")
    case None
    then have "bt_get (bs_by_attempt ?g) (rsv_attempt_id a) = None"
      using inv by (simp add: active_reservation_None ledger_inv_def)
    then show ?thesis
      by (rule reserve_new_cases [OF inv, of a from_std uuid]) (use None assms(2) in \<open>simp_all add: reserve_def\<close>)
  next
    case (Some p)
    with assms(2,3) show ?thesis
      by (auto simp: reserve_def Let_def queueable_def split: option.splits prod.splits if_splits)
  qed
qed

end
