(* ===== verification/Broker_Properties.thy ===== *)
theory Broker_Properties
  imports Admission Ledger_Properties
begin

text \<open>
  What the admission queue and the admission controller guarantee. The concrete instances use a
  queue of two places, one per run, and the ledger of \<open>Ledger_Properties\<close>.
\<close>

section \<open>Concrete requests\<close>

definition demo_compute :: "attempt_id \<Rightarrow> run_id \<Rightarrow> compute_priority \<Rightarrow> compute_request" where
  "demo_compute attempt run prio = \<lparr>cr_run_id = run, cr_task_id = ''t'', cr_task_version = 1,
     cr_attempt_id = attempt, cr_job_kind = Infer, cr_input_artifacts = [], cr_input_digest = ''d'',
     cr_workspace_version = None, cr_data_class = RepositorySource,
     cr_placement_decision = \<lparr>pdr_decision_id = ''pd'', pdr_issued_at = 0, pdr_expires_at = 1000,
       pdr_policy_epoch = 1, pdr_decision = Eligible [] VerificationNone\<rparr>,
     cr_resource_request = default_resource_request,
     cr_deadline = \<lparr>dp_queue_deadline = 900, dp_execution_deadline = 2000\<rparr>,
     cr_retry_policy = \<lparr>rpr_policy_id = ''default'', rpr_max_attempts = 3\<rparr>,
     cr_verification_policy = '''', cr_priority = prio,
     cr_trace_context = \<lparr>tc_trace_id = ''tr'', tc_span_id = ''sp'', tc_run_id = None, tc_task_id = None,
       tc_attempt_id = None, tc_scheduler_decision_id = None\<rparr>,
     cr_speculative = False, cr_project_id = None, cr_target_worker_id = None, cr_fallback_order = [],
     cr_scheduler_decision_id = None\<rparr>"

definition demo_limits :: queue_limits where
  "demo_limits = \<lparr>ql_global_max = 2, ql_per_run_max = 1, ql_per_worker_max = 64\<rparr>"

definition demo_fairness :: fairness_policy where
  "demo_fairness = default_fairness_policy\<lparr>fp_interactive_reserved_slots := 0\<rparr>"

definition demo_queue :: queue_state where
  "demo_queue = queue_apply (queue_apply (queue_new demo_limits demo_fairness)
     (OpEnqueue (demo_compute ''a'' ''r1'' NormalPriority) 10)) (OpEnqueue (demo_compute ''b'' ''r2'' Background) 11)"

lemma queue_reaches_step: "queue.reaches g g' \<Longrightarrow> queue.reaches g (queue_apply g' c)"
  by (rule queue.step [where c = c]) (simp_all add: queue_step_def)

lemma demo_queue_reaches: "queue.reaches (queue_new demo_limits demo_fairness) demo_queue"
  unfolding demo_queue_def by (intro queue_reaches_step queue.refl)

definition demo_admission :: "compute_request \<Rightarrow> admission_request" where
  "demo_admission c = \<lparr>adm_compute = c, adm_run_canceled = False, adm_task_state = Some TaskRunning,
     adm_expected_task_version = Some 1, adm_attempt_active = True, adm_workspace_matches = True,
     adm_artifacts_available = True, adm_data_class_unchanged = True, adm_now = 200\<rparr>"

section \<open>The queue\<close>

text \<open>The queue is bounded and its books are right: in every reachable state the number of waiting
  attempts is within the global limit, the attempts of a run and of a worker within theirs, no
  attempt waits twice, and the member set and both counters are those of the entries.\<close>

theorem queue_bounded:
  assumes "queue.reaches (queue_new L F) g"
  shows "queue_depth g = length (qs_entries g) \<and> queue_depth g \<le> ql_global_max L \<and>
    distinct (map qe_attempt_id (qs_entries g)) \<and>
    (\<forall>k. count_of (qs_per_run g) k = run_count k (qs_entries g) \<and> run_count k (qs_entries g) \<le> ql_per_run_max L) \<and>
    (\<forall>k. count_of (qs_per_worker g) k = worker_count k (qs_entries g) \<and>
      worker_count k (qs_entries g) \<le> ql_per_worker_max L)"
  using queue_reaches_inv [OF assms] caches_card [of g]
  by (simp add: queue_inv_def caches_ok_def queue_depth_def)

text \<open>C9: the queue implements the abstract queue: on every reachable state, enqueueing, removing and
  serving give the result and the entries of the corresponding operation on the plain list, which
  has no counters and serves by priority and arrival alone.\<close>

theorem queue_refines_list:
  assumes "queue.reaches (queue_new L F) g"
  shows "(qs_entries (fst (enqueue req now g)), snd (enqueue req now g)) =
      abs_enqueue L (unat (fp_interactive_reserved_slots F)) req now (qs_entries g) \<and>
    (qs_entries (fst (queue_remove att g)), snd (queue_remove att g)) = abs_remove att (qs_entries g) \<and>
    (qs_entries (fst (pop_next now g)), snd (pop_next now g)) = abs_pop now (qs_entries g)"
proof -
  have c: "caches_ok g" and cfg: "qs_limits g = L" "qs_fairness g = F"
    using queue_reaches_inv [OF assms] by (simp_all add: queue_inv_def)
  show ?thesis
    using enqueue_refines(1) [OF c, of req now] remove_refines [OF c, of att] pop_refines(1) [OF c, of now] cfg by simp
qed

theorem queue_refines_list_witness:
  "snd (pop_next 20 demo_queue) = Some (''a'', ''r1'', ''t'', NormalPriority) \<and>
   snd (abs_pop 20 (qs_entries demo_queue)) = Some (''a'', ''r1'', ''t'', NormalPriority)"
proof -
  have "snd (pop_next 20 demo_queue) = Some (''a'', ''r1'', ''t'', NormalPriority)" by code_simp
  with queue_refines_list [OF demo_queue_reaches, where now = 20] show ?thesis by (metis snd_conv)
qed

lemma rank_before_neg_trans: "\<not> rank_before a b \<Longrightarrow> \<not> rank_before b c \<Longrightarrow> \<not> rank_before a c"
  by (auto simp: rank_before_def)

lemma rank_before_irrefl: "\<not> rank_before a a"
  by (simp add: rank_before_def)

lemma rank_before_asym: "rank_before a b \<Longrightarrow> \<not> rank_before b a"
  by (auto simp: rank_before_def)

lemma min_index_least:
  assumes "min_index rank_before xs = Some i" "x \<in> set xs"
  shows "\<not> rank_before x (xs ! i)"
  using assms
proof (induction xs arbitrary: i x)
  case (Cons e es)
  show ?case
  proof (cases "min_index rank_before es")
    case None
    with Cons.prems show ?thesis by (auto simp: min_index_None rank_before_irrefl)
  next
    case (Some k)
    have tail: "\<not> rank_before y (es ! k)" if "y \<in> set es" for y using Cons.IH [OF Some that] .
    show ?thesis
    proof (cases "rank_before (es ! k) e")
      case True
      then have "i = Suc k" using Cons.prems(1) Some by simp
      then show ?thesis using Cons.prems(2) tail rank_before_asym [OF True] by auto
    next
      case False
      then have "i = 0" using Cons.prems(1) Some by simp
      then show ?thesis using Cons.prems(2) rank_before_neg_trans [OF tail False] rank_before_irrefl by auto
    qed
  qed
qed simp

text \<open>Serving is by urgency: \<open>pop_next\<close> takes an unexpired entry that no other unexpired entry
  precedes in priority and arrival, removes it and every expired entry and nothing else, and
  returns nothing only if every entry has expired.\<close>

lemma pop_serves_best:
  assumes "queue.reaches (queue_new L F) g" and "pop_next now g = (g', res)"
  shows "case res of
      None \<Rightarrow> qs_entries g' = [] \<and> (\<forall>e \<in> set (qs_entries g). qe_queue_deadline e \<le> now)
    | Some (att, run, task, prio) \<Rightarrow>
        \<exists>e \<in> set (qs_entries g). att = qe_attempt_id e \<and> run = qe_run_id e \<and> task = qe_task_id e \<and>
          prio = qe_priority e \<and> now < qe_queue_deadline e \<and>
          (\<forall>x \<in> set (qs_entries g). now < qe_queue_deadline x \<longrightarrow> \<not> rank_before x e) \<and>
          qs_entries g' = filter (\<lambda>x. now < qe_queue_deadline x \<and> qe_attempt_id x \<noteq> att) (qs_entries g)"
proof -
  let ?w = "filter (\<lambda>e. now < qe_queue_deadline e) (qs_entries g)"
  have c: "caches_ok g" using queue_reaches_inv [OF assms(1)] by (simp add: queue_inv_def)
  then have d: "distinct (map qe_attempt_id ?w)" by (simp add: caches_ok_def distinct_map_filter)
  have pop: "(qs_entries g', res) = abs_pop now (qs_entries g)" using pop_refines(1) [OF c, of now] assms(2) by simp
  show ?thesis
  proof (cases "min_index rank_before ?w")
    case None
    then have "?w = []" by (simp add: min_index_None)
    moreover from this have "\<forall>e \<in> set (qs_entries g). qe_queue_deadline e \<le> now"
      by (auto simp: filter_empty_conv not_less)
    ultimately show ?thesis using pop None by (simp add: abs_pop_def)
  next
    case (Some i)
    note i = min_index_bound [OF Some]
    then have e: "?w ! i \<in> set ?w" by (rule nth_mem)
    have "remove_at i ?w = filter (\<lambda>x. qe_attempt_id x \<noteq> qe_attempt_id (?w ! i)) ?w"
      using d i by (rule remove_at_filter)
    then have "qs_entries g' = filter (\<lambda>x. now < qe_queue_deadline x \<and> qe_attempt_id x \<noteq> qe_attempt_id (?w ! i)) (qs_entries g)"
      using pop Some by (simp add: abs_pop_def Let_def conj_commute)
    then show ?thesis using pop Some e min_index_least [OF Some] by (auto simp: abs_pop_def Let_def)
  qed
qed

text \<open>C35: a refused request can cost another attempt its place: the queue makes room for an interactive
  request before it checks the request's run and worker limits, so there is a reachable queue in
  which \<open>enqueue\<close> refuses the request and yet drops a waiting attempt.\<close>

theorem refused_enqueue_can_evict:
  "\<exists>L F g req now g'. queue.reaches (queue_new L F) g \<and> enqueue req now g = (g', None) \<and>
     (\<exists>e \<in> set (qs_entries g). \<not> queue_contains g' (qe_attempt_id e))"
proof -
  let ?req = "demo_compute ''c'' ''r1'' Interactive"
  obtain g' res where r: "enqueue ?req 12 demo_queue = (g', res)" by (rule prod.exhaust)
  have "snd (enqueue ?req 12 demo_queue) = None"
    "list_ex (\<lambda>e. \<not> queue_contains (fst (enqueue ?req 12 demo_queue)) (qe_attempt_id e)) (qs_entries demo_queue)"
    by code_simp+
  with r have "enqueue ?req 12 demo_queue = (g', None)" "\<exists>e \<in> set (qs_entries demo_queue). \<not> queue_contains g' (qe_attempt_id e)"
    by (auto simp: list_ex_iff)
  with demo_queue_reaches show ?thesis by blast
qed

section \<open>Admission\<close>

text \<open>C11: admission is sound: the controller keeps the ledger and the queue consistent; it admits a
  request only if every gate is open and then the attempt holds a live reservation for the resolved
  target; it queues a request only if every gate is open, the request does not fit the budgets, and
  the attempt then waits without a reservation; and a rejection reserves nothing.\<close>

theorem admission_sound:
  assumes "ledger.reaches from_std (ledger_new L) b" and "limits_sane L"
    and "queue.reaches (queue_new QL F) q" and "bt_get (bs_reservations b) (''res_'' @ uuid) = None"
    and "evaluate_sync from_std uuid request b q = (b', q', decision)"
  shows "ledger_inv b' \<and> queue_inv q' \<and>
    (case decision of
       Admitted r \<Rightarrow> gates_open L request \<and> live r \<and> (\<exists>rid. bt_get (bs_reservations b') rid = Some r) \<and>
         rv_attempt_id r = cr_attempt_id (adm_compute request) \<and>
         rv_target_scope r = resolve_target (adm_compute request) \<and> q' = q
     | Queued qa \<Rightarrow> gates_open L request \<and>
         \<not> fits (reserve_call (adm_compute request) (adm_now request)) (expire_in (adm_now request) b) \<and>
         get_by_attempt b' (cr_attempt_id (adm_compute request)) = None \<and>
         queue_contains q' (cr_attempt_id (adm_compute request))
     | Rejected rej \<Rightarrow> (\<forall>rid. bt_get (bs_reservations b') rid = None \<longleftrightarrow> bt_get (bs_reservations b) rid = None))"
proof -
  let ?c = "adm_compute request"
  let ?a = "reserve_call ?c (adm_now request)"
  have inv: "ledger_inv b" and lim: "bs_limits b = L" using ledger_reaches_inv [OF assms(1,2)] by simp_all
  have qinv: "queue_inv q" using queue_reaches_inv [OF assms(3)] by simp
  then have qc: "caches_ok q" by (simp add: queue_inv_def)
  show ?thesis
  proof (cases "check_gates L request")
    case (Some rej)
    with assms(5) lim check_gates_Rejected [OF Some] inv qinv show ?thesis by (auto simp: evaluate_sync_def)
  next
    case None
    then have gates: "gates_open L request" by (simp add: check_gates_None)
    obtain b1 res where r: "reserve from_std uuid ?a b = (b1, res)" by (rule prod.exhaust)
    have b1: "ledger_inv b1" using reserve_inv [OF inv assms(4), of from_std ?a] r by simp
    show ?thesis
    proof (cases res)
      case (Inr v)
      then have "b' = b1" "q' = q" "decision = Admitted v" using assms(5) None lim r by (simp_all add: evaluate_sync_def)
      moreover obtain rid where "bt_get (bs_reservations b1) rid = Some v" "live v"
        "rv_attempt_id v = cr_attempt_id ?c" "rv_target_scope v = resolve_target ?c"
        by (rule reserve_granted [OF inv, of from_std uuid ?a v]) (use r Inr assms(4) in \<open>auto simp: reserve_call_def\<close>)
      ultimately show ?thesis using gates b1 qinv by auto
    next
      case (Inl e)
      have refused: "snd (reserve from_std uuid ?a b) = Inl e" using r Inl by simp
      have keys: "bt_get (bs_reservations b1) rid = None \<longleftrightarrow> bt_get (bs_reservations b) rid = None" for rid
        using reserve_refused_keys(1) [OF inv refused] expire_fresh r by (auto simp: same_accounts_def)
      have free: "get_by_attempt b1 (cr_attempt_id ?c) = None" if "queueable e"
        using reserve_refused_keys(2) [OF inv refused that] r by (simp add: get_by_attempt_def reserve_call_def)
      have unfit: "\<not> fits ?a (expire_in (adm_now request) b)" if "queueable e"
        using reserve_refused_unfit [OF inv refused that] by (simp add: reserve_call_def)
      obtain q1 qa where q1: "enqueue ?c (adm_now request) q = (q1, qa)" by (rule prod.exhaust)
      have "queue_inv q1" using enqueue_inv [OF qinv, of ?c "adm_now request"] q1 by simp
      then show ?thesis
        using assms(5) None lim r Inl b1 qinv gates keys free unfit q1 enqueue_Some_member [OF qc]
        by (cases qa; cases "queueable e")
          (auto simp: evaluate_sync_def queue_contains_def reject_def split: budget_reject.splits)
    qed
  qed
qed

theorem admission_sound_witness:
  "\<exists>b' r. evaluate_sync Some ''9'' (demo_admission (demo_compute ''c'' ''r9'' Interactive)) demo_ledger demo_queue =
      (b', demo_queue, Admitted r) \<and> live r \<and> ledger_inv b'"
proof -
  let ?req = "demo_admission (demo_compute ''c'' ''r9'' Interactive)"
  obtain b' q' d where e: "evaluate_sync Some ''9'' ?req demo_ledger demo_queue = (b', q', d)" by (metis prod.exhaust)
  have "case snd (snd (evaluate_sync Some ''9'' ?req demo_ledger demo_queue)) of Admitted r \<Rightarrow> True | _ \<Rightarrow> False"
    "bt_get (bs_reservations demo_ledger) (''res_'' @ ''9'') = None" by code_simp+
  with e obtain r where d: "d = Admitted r" and fresh: "bt_get (bs_reservations demo_ledger) (''res_'' @ ''9'') = None"
    by (auto split: admission_decision.splits)
  show ?thesis
    using admission_sound [OF demo_ledger_reaches default_limits_sane demo_queue_reaches fresh e] e d by auto
qed

end
