(* ===== verification/Ingress.thy ===== *)
theory Ingress
  imports Fabric
begin

text \<open>
  Idempotent delivery on a worker (\<open>fabric-protocol/src/ingress.rs\<close>) and idempotent cancellation
  (\<open>cancellation.rs\<close>). Both keep tables under keys that are printed with \<open>:\<close> between the parts; the
  lemmas show when such a key determines its parts. Both are instances of \<open>command_machine\<close>.
\<close>

section \<open>Deliveries\<close>

record delivery_key =
  dk_attempt_id :: attempt_id
  dk_lease_id :: lease_id
  dk_lease_epoch :: u64
  dk_idempotency_key :: string

definition delivery_key_from_job :: "job_envelope \<Rightarrow> delivery_key" where
  "delivery_key_from_job job = \<lparr>dk_attempt_id = je_attempt_id job, dk_lease_id = je_lease_id job,
     dk_lease_epoch = je_lease_epoch job, dk_idempotency_key = je_idempotency_key job\<rparr>"

definition delivery_digest :: "delivery_key \<Rightarrow> string" where
  "delivery_digest k = dk_attempt_id k @ '':'' @ dk_lease_id k @ '':'' @ show_word (dk_lease_epoch k) @
     '':'' @ dk_idempotency_key k"

datatype terminal_outcome = InProgress | Completed | OutcomeFailed string | OutcomeRejected string

record ingress_record =
  ir_delivery_key :: delivery_key
  ir_input_digest :: string
  ir_job_kind :: job_kind
  ir_terminal :: "terminal_outcome option"
  ir_cached_response_json :: "string option"

datatype ingress_decision = AcceptNew | ReplayExisting ingress_record | DuplicateInFlight

record ingress_state =
  is_records :: "(string, ingress_record) btree"
  is_idempotency_digests :: "(string, string) btree"

definition ingress_default :: ingress_state where
  "ingress_default = \<lparr>is_records = [], is_idempotency_digests = []\<rparr>"

definition insert_record :: "ingress_record \<Rightarrow> ingress_state \<Rightarrow> ingress_state" where
  "insert_record rec s =
     \<lparr>is_records = bt_insert (delivery_digest (ir_delivery_key rec)) rec (is_records s),
      is_idempotency_digests = bt_insert (dk_idempotency_key (ir_delivery_key rec)) (ir_input_digest rec)
        (is_idempotency_digests s)\<rparr>"

definition from_records :: "ingress_record list \<Rightarrow> ingress_state" where
  "from_records recs = fold insert_record recs ingress_default"

definition new_record :: "job_envelope \<Rightarrow> ingress_record" where
  "new_record job = \<lparr>ir_delivery_key = delivery_key_from_job job, ir_input_digest = je_input_digest job,
     ir_job_kind = je_job_kind job, ir_terminal = Some InProgress, ir_cached_response_json = None\<rparr>"

definition digest_conflict :: fabric_error where
  "digest_conflict = fabric_err FeDuplicateConflict ''idempotency key reused with different input digest''"

definition accept_delivery ::
    "job_envelope \<Rightarrow> ingress_state \<Rightarrow> ingress_state \<times> ingress_decision fabric_result" where
  "accept_delivery job s =
     (if (case bt_get (is_idempotency_digests s) (je_idempotency_key job) of
            None \<Rightarrow> False | Some existing_digest \<Rightarrow> existing_digest \<noteq> je_input_digest job)
      then (s, Err digest_conflict)
      else
        case bt_get (is_records s) (delivery_digest (delivery_key_from_job job)) of
          Some existing \<Rightarrow>
            if ir_input_digest existing \<noteq> je_input_digest job then (s, Err digest_conflict)
            else (s, Ok (case ir_terminal existing of
                           None \<Rightarrow> DuplicateInFlight
                         | Some InProgress \<Rightarrow> DuplicateInFlight
                         | Some _ \<Rightarrow> ReplayExisting existing))
        | None \<Rightarrow> (insert_record (new_record job) s, Ok AcceptNew))"

definition mark_terminal ::
    "job_envelope \<Rightarrow> terminal_outcome \<Rightarrow> string option \<Rightarrow> ingress_state \<Rightarrow> ingress_state fabric_result" where
  "mark_terminal job outcome cached s =
     (let digest = delivery_digest (delivery_key_from_job job) in
      case bt_get (is_records s) digest of
        None \<Rightarrow> Err (fabric_err FeInvalidEnvelope ''ingress record missing for terminal update'')
      | Some _ \<Rightarrow> Ok (s\<lparr>is_records := bt_modify digest (\<lambda>rec. rec\<lparr>ir_terminal := Some outcome,
            ir_cached_response_json :=
              (if cached \<noteq> None then cached else ir_cached_response_json rec)\<rparr>) (is_records s)\<rparr>))"

section \<open>Cancellations\<close>

definition cancellation_digest :: "cancellation_request \<Rightarrow> string" where
  "cancellation_digest req = cq_run_id req @ '':'' @ cq_task_id req @ '':'' @ cq_attempt_id req @ '':'' @
     cq_lease_id req @ '':'' @ show_word (cq_lease_epoch req)"

record cancellation_state =
  cs_acknowledged :: "(string, cancellation_acknowledged) btree"
  cs_canceled :: "(string, u64) btree"

definition cancellation_default :: cancellation_state where
  "cancellation_default = \<lparr>cs_acknowledged = [], cs_canceled = []\<rparr>"

definition cancel_key :: "attempt_id \<Rightarrow> u64 \<Rightarrow> string" where
  "cancel_key attempt_id lease_epoch = attempt_id @ '':'' @ show_word lease_epoch"

definition acknowledge ::
    "cancellation_request \<Rightarrow> cancellation_acknowledged \<Rightarrow> cancellation_state \<Rightarrow>
     cancellation_state \<times> bool fabric_result" where
  "acknowledge req ack s =
     (case validate_cancellation req of
        Ok _ \<Rightarrow>
          let key = cancellation_digest req in
          if bt_contains (cs_acknowledged s) key then (s, Ok False)
          else (\<lparr>cs_acknowledged = bt_insert key ack (cs_acknowledged s),
                 cs_canceled = bt_insert (cancel_key (cq_attempt_id req) (cq_lease_epoch req))
                   (cq_lease_epoch req) (cs_canceled s)\<rparr>, Ok True)
      | Err e \<Rightarrow> (s, Err e)
      | Panic \<Rightarrow> (s, Panic))"

definition is_canceled :: "cancellation_state \<Rightarrow> attempt_id \<Rightarrow> u64 \<Rightarrow> bool" where
  "is_canceled s attempt_id lease_epoch = bt_contains (cs_canceled s) (cancel_key attempt_id lease_epoch)"

definition fabric_can_renew_lease ::
    "cancellation_state \<Rightarrow> attempt_id \<Rightarrow> u64 \<Rightarrow> unit fabric_result" where
  "fabric_can_renew_lease s attempt_id lease_epoch =
     (if is_canceled s attempt_id lease_epoch
      then Err (fabric_err FeInvalidLease ''lease renewal after cancellation'') else Ok ())"

section \<open>Printed keys\<close>

text \<open>A printed number determines the number and has no colon in it.\<close>

definition digits_value :: "string \<Rightarrow> nat" where
  "digits_value s = foldl (\<lambda>n c. n * 10 + (of_char c - 48)) 0 s"

lemma digits_value_show_nat: "digits_value (show_nat n) = n"
proof (induction n rule: less_induct)
  case (less n)
  show ?case
  proof (cases "n < 10")
    case True
    then show ?thesis by (simp add: show_nat.simps [of n] digits_value_def)
  next
    case False
    then have "digits_value (show_nat (n div 10)) = n div 10" by (intro less.IH) auto
    with False show ?thesis by (simp add: show_nat.simps [of n] digits_value_def)
  qed
qed

lemma show_word_inj [simp]: "show_word (a :: 'a::len word) = show_word b \<longleftrightarrow> a = b"
proof
  assume "show_word a = show_word b"
  then have "digits_value (show_nat (unat a)) = digits_value (show_nat (unat b))" by (simp add: show_word_def)
  then show "a = b" by (simp add: digits_value_show_nat word_unat_eq_iff)
qed simp

lemma show_nat_chars: "c \<in> set (show_nat n) \<Longrightarrow> of_char c \<in> {48..(57::nat)}"
proof (induction n rule: less_induct)
  case (less n)
  show ?case
  proof (cases "n < 10")
    case True
    with less.prems show ?thesis by (simp add: show_nat.simps [of n])
  next
    case False
    then have "n div 10 < n" by simp
    with False less.prems less.IH [of "n div 10"] show ?thesis by (auto simp: show_nat.simps [of n])
  qed
qed

definition colon_free :: "string \<Rightarrow> bool" where
  "colon_free s \<longleftrightarrow> CHR '':'' \<notin> set s"

lemma colon_free_show_word [simp]: "colon_free (show_word w)"
  using show_nat_chars [of "CHR '':''" "unat w"] by (auto simp: colon_free_def show_word_def)

lemma colon_separates:
  assumes "colon_free a" "colon_free b"
  shows "a @ CHR '':'' # s = b @ CHR '':'' # t \<longleftrightarrow> a = b \<and> s = t"
  using assms
proof (induction a arbitrary: b)
  case Nil
  then show ?case by (cases b) (auto simp: colon_free_def)
next
  case (Cons c a)
  then show ?case by (cases b) (auto simp: colon_free_def)
qed

lemma delivery_digest_inj:
  assumes "colon_free (dk_attempt_id k)" "colon_free (dk_lease_id k)"
    and "colon_free (dk_attempt_id k')" "colon_free (dk_lease_id k')"
  shows "delivery_digest k = delivery_digest k' \<longleftrightarrow> k = k'"
  using assms by (cases k; cases k') (auto simp: delivery_digest_def colon_separates)

definition plain_request :: "cancellation_request \<Rightarrow> bool" where
  "plain_request req \<longleftrightarrow> colon_free (cq_run_id req) \<and> colon_free (cq_task_id req) \<and>
     colon_free (cq_attempt_id req) \<and> colon_free (cq_lease_id req)"

lemma cancellation_digest_inj:
  assumes "plain_request req" "plain_request req'" "cancellation_digest req = cancellation_digest req'"
  shows "cq_attempt_id req = cq_attempt_id req' \<and> cq_lease_epoch req = cq_lease_epoch req'"
  using assms by (auto simp: plain_request_def cancellation_digest_def colon_separates)

section \<open>The delivery machine\<close>

datatype ingress_op = Deliver job_envelope | MarkTerminal job_envelope terminal_outcome "string option"

fun ingress_step :: "ingress_state \<Rightarrow> ingress_op \<Rightarrow> ingress_state fabric_result" where
  "ingress_step s (Deliver job) = Ok (fst (accept_delivery job s))"
| "ingress_step s (MarkTerminal job outcome cached) = mark_terminal job outcome cached s"

text \<open>Every record is filed under its own key, and its idempotency key is bound to its input.\<close>

definition ingress_inv :: "ingress_state \<Rightarrow> bool" where
  "ingress_inv s \<longleftrightarrow>
     (\<forall>d rec. bt_get (is_records s) d = Some rec \<longrightarrow>
        d = delivery_digest (ir_delivery_key rec) \<and> ir_terminal rec \<noteq> None \<and>
        bt_get (is_idempotency_digests s) (dk_idempotency_key (ir_delivery_key rec)) =
          Some (ir_input_digest rec))"

lemma ingress_default_inv: "ingress_inv ingress_default"
  by (simp add: ingress_inv_def ingress_default_def)

lemma accept_delivery_cases:
  obtains (conflict) "accept_delivery job s = (s, Err digest_conflict)"
  | (known) rec d where "accept_delivery job s = (s, Ok d)" "d \<noteq> AcceptNew"
      "bt_get (is_records s) (delivery_digest (delivery_key_from_job job)) = Some rec"
      "ir_input_digest rec = je_input_digest job" "\<And>r. d = ReplayExisting r \<Longrightarrow> r = rec"
  | (fresh) "accept_delivery job s = (insert_record (new_record job) s, Ok AcceptNew)"
      "bt_get (is_records s) (delivery_digest (delivery_key_from_job job)) = None"
      "bt_get (is_idempotency_digests s) (je_idempotency_key job) \<in> {None, Some (je_input_digest job)}"
proof -
  let ?conflict = "case bt_get (is_idempotency_digests s) (je_idempotency_key job) of
    None \<Rightarrow> False | Some d \<Rightarrow> d \<noteq> je_input_digest job"
  let ?r = "bt_get (is_records s) (delivery_digest (delivery_key_from_job job))"
  show ?thesis
  proof (cases ?conflict)
    case True
    then show ?thesis by (intro conflict) (simp add: accept_delivery_def)
  next
    case ok: False
    show ?thesis
    proof (cases ?r)
      case None
      with ok show ?thesis by (intro fresh) (auto simp: accept_delivery_def split: option.splits)
    next
      case (Some rec)
      show ?thesis
      proof (cases "ir_input_digest rec = je_input_digest job")
        case False
        with Some ok show ?thesis by (intro conflict) (simp add: accept_delivery_def)
      next
        case True
        with Some ok show ?thesis
          by (intro known [of _ rec]) (auto simp: accept_delivery_def split: option.splits terminal_outcome.splits)
      qed
    qed
  qed
qed

lemma insert_record_inv:
  assumes "ingress_inv s"
    and "bt_get (is_idempotency_digests s) (je_idempotency_key job) \<in> {None, Some (je_input_digest job)}"
  shows "ingress_inv (insert_record (new_record job) s)"
proof -
  have bound: "ir_input_digest rec = je_input_digest job"
    if "bt_get (is_records s) d = Some rec" "dk_idempotency_key (ir_delivery_key rec) = je_idempotency_key job" for d rec
  proof -
    from assms(1) that have "bt_get (is_idempotency_digests s) (je_idempotency_key job) = Some (ir_input_digest rec)"
      unfolding ingress_inv_def by metis
    with assms(2) show ?thesis by simp
  qed
  with assms(1) show ?thesis
    by (auto simp: ingress_inv_def insert_record_def new_record_def delivery_key_from_job_def)
qed

lemma accept_delivery_inv: "ingress_inv s \<Longrightarrow> ingress_inv (fst (accept_delivery job s))"
  by (rule accept_delivery_cases [of job s]) (simp_all add: insert_record_inv)

lemma mark_terminal_inv: "ingress_inv s \<Longrightarrow> mark_terminal job outcome cached s = Ok s' \<Longrightarrow> ingress_inv s'"
  by (auto simp: mark_terminal_def Let_def ingress_inv_def split: option.splits if_splits)

interpretation ingress: command_machine ingress_step "\<lambda>_ _. True" ingress_inv
proof unfold_locales
  show "ingress_inv s'" if "ingress_inv s" "True" "ingress_step s c = Ok s'" for s c s'
    using that by (cases c) (auto simp: accept_delivery_inv mark_terminal_inv)
  show "ingress_step s c \<noteq> Panic" if "ingress_inv s" "True" for s c
    by (cases c) (auto simp: mark_terminal_def Let_def split: option.splits)
qed

text \<open>Records are never removed and keep the job they were created for.\<close>

definition records_kept :: "ingress_state \<Rightarrow> ingress_state \<Rightarrow> bool" where
  "records_kept s t \<longleftrightarrow>
     (\<forall>d rec. bt_get (is_records s) d = Some rec \<longrightarrow>
        (\<exists>rec'. bt_get (is_records t) d = Some rec' \<and> ir_delivery_key rec' = ir_delivery_key rec \<and>
           ir_input_digest rec' = ir_input_digest rec))"

lemma records_kept_step:
  assumes "ingress_step s c = Ok t"
  shows "records_kept s t"
proof (cases c)
  case (Deliver job)
  show ?thesis
    using assms unfolding Deliver
    by (rule_tac accept_delivery_cases [of job s]) (auto simp: records_kept_def insert_record_def new_record_def)
next
  case (MarkTerminal job outcome cached)
  with assms show ?thesis
    by (auto simp: mark_terminal_def Let_def records_kept_def split: option.splits if_splits)
qed

lemma records_kept_reaches:
  assumes "ingress.reaches s t" "ingress_inv s"
  shows "records_kept s t"
  using assms
proof (rule ingress.reaches_respects)
  show "records_kept s s" for s by (simp add: records_kept_def)
  show "records_kept s t \<Longrightarrow> records_kept t u \<Longrightarrow> records_kept s u" for s t u
    unfolding records_kept_def by metis
qed (auto intro: records_kept_step)

section \<open>The cancellation machine\<close>

fun cancel_step ::
    "cancellation_state \<Rightarrow> cancellation_request \<times> cancellation_acknowledged \<Rightarrow> cancellation_state fabric_result" where
  "cancel_step s (req, ack) = Ok (fst (acknowledge req ack s))"

definition cancel_inv :: "cancellation_state \<Rightarrow> bool" where
  "cancel_inv s \<longleftrightarrow>
     (\<forall>req. plain_request req \<and> bt_contains (cs_acknowledged s) (cancellation_digest req) \<longrightarrow>
        is_canceled s (cq_attempt_id req) (cq_lease_epoch req))"

lemma acknowledge_canceled_mono:
  "is_canceled s a e \<Longrightarrow> is_canceled (fst (acknowledge req ack s)) a e"
  by (auto simp: acknowledge_def is_canceled_def bt_contains_def Let_def split: result.split)

lemma acknowledge_inv:
  assumes "cancel_inv s" "plain_request req"
  shows "cancel_inv (fst (acknowledge req ack s))"
  unfolding cancel_inv_def
proof (intro allI impI)
  fix req'
  assume req': "plain_request req' \<and> bt_contains (cs_acknowledged (fst (acknowledge req ack s))) (cancellation_digest req')"
  show "is_canceled (fst (acknowledge req ack s)) (cq_attempt_id req') (cq_lease_epoch req')"
  proof (cases "bt_contains (cs_acknowledged s) (cancellation_digest req')")
    case True
    with req' assms(1) have "is_canceled s (cq_attempt_id req') (cq_lease_epoch req')" by (simp add: cancel_inv_def)
    then show ?thesis by (rule acknowledge_canceled_mono)
  next
    case False
    with req' have d: "cancellation_digest req' = cancellation_digest req" and
      new: "\<not> bt_contains (cs_acknowledged s) (cancellation_digest req)" and "validate_cancellation req = Ok ()"
      by (auto simp: acknowledge_def bt_contains_def Let_def split: result.splits if_splits)
    with cancellation_digest_inj [OF _ assms(2) d] req' show ?thesis
      by (auto simp: acknowledge_def is_canceled_def bt_contains_def)
  qed
qed

interpretation cancel: command_machine cancel_step "\<lambda>_ c. plain_request (fst c)" cancel_inv
  by unfold_locales (auto simp: acknowledge_inv)

lemma cancellation_default_inv: "cancel_inv cancellation_default"
  by (simp add: cancel_inv_def cancellation_default_def bt_contains_def)

lemma canceled_reaches:
  assumes "cancel.reaches s t" "cancel_inv s" "is_canceled s a e"
  shows "is_canceled t a e"
proof -
  have "is_canceled s a e \<longrightarrow> is_canceled t a e"
    using assms(1,2) by (rule cancel.reaches_respects) (auto simp: acknowledge_canceled_mono)
  with assms(3) show ?thesis by simp
qed

end
