(* ===== verification/Quarantine.thy ===== *)
theory Quarantine
  imports Fabric
begin

text \<open>
  Result integrity types and the quarantine of remote artifacts: \<open>tetonic-domain/src\<close>
  \<open>result_integrity.rs\<close> and \<open>artifact.rs\<close>, and \<open>strata/tetonic-artifact/src/quarantine.rs\<close>. Bytes and
  strings are byte sequences, so a character class of the source is a pattern on UTF-8 bytes. The
  \<open>Debug\<close> form of a string, which one error message contains, is an argument of its printer.
\<close>

section \<open>Dispositions and behaviour signals\<close>

datatype result_verification_requirement =
  StructuralValidation | LocalVerification
| IndependentRedundantVerification u32 | LocalAndRedundantVerification

datatype result_disposition =
  RdAccepted | RdQuarantined | RdInvalidSignature | RdIdentityMismatch | RdRevokedWorker
| RdStaleAttempt | RdCanceled | RdDigestMismatch | RdSchema | RdPolicy | RdVerification
| RdOversized | RdPathUnsafe | RdExecutablePayload | RdSuperseded

definition is_terminal_reject :: "result_disposition \<Rightarrow> bool" where
  "is_terminal_reject d \<longleftrightarrow> d \<noteq> RdAccepted \<and> d \<noteq> RdQuarantined"

fun result_disposition_as_str :: "result_disposition \<Rightarrow> string" where
  "result_disposition_as_str RdAccepted = ''accepted''"
| "result_disposition_as_str RdQuarantined = ''quarantined''"
| "result_disposition_as_str RdInvalidSignature = ''rejected_invalid_signature''"
| "result_disposition_as_str RdIdentityMismatch = ''rejected_identity_mismatch''"
| "result_disposition_as_str RdRevokedWorker = ''rejected_revoked_worker''"
| "result_disposition_as_str RdStaleAttempt = ''rejected_stale_attempt''"
| "result_disposition_as_str RdCanceled = ''rejected_canceled''"
| "result_disposition_as_str RdDigestMismatch = ''rejected_digest_mismatch''"
| "result_disposition_as_str RdSchema = ''rejected_schema''"
| "result_disposition_as_str RdPolicy = ''rejected_policy''"
| "result_disposition_as_str RdVerification = ''rejected_verification''"
| "result_disposition_as_str RdOversized = ''rejected_oversized''"
| "result_disposition_as_str RdPathUnsafe = ''rejected_path_unsafe''"
| "result_disposition_as_str RdExecutablePayload = ''rejected_executable_payload''"
| "result_disposition_as_str RdSuperseded = ''superseded''"

datatype worker_operational_state = OpHealthy | OpDegraded | OpQuarantined | OpRevoked

definition allows_scheduling :: "worker_operational_state \<Rightarrow> bool" where
  "allows_scheduling s \<longleftrightarrow> s = OpHealthy \<or> s = OpDegraded"

fun operational_state_as_str :: "worker_operational_state \<Rightarrow> string" where
  "operational_state_as_str OpHealthy = ''healthy''"
| "operational_state_as_str OpDegraded = ''degraded''"
| "operational_state_as_str OpQuarantined = ''quarantined''"
| "operational_state_as_str OpRevoked = ''revoked''"

record worker_behavior_signals =
  wb_invalid_signatures :: u64
  wb_digest_mismatches :: u64
  wb_stale_results :: u64
  wb_lease_violations :: u64
  wb_oversized_responses :: u64
  wb_schema_violations :: u64
  wb_verification_failures :: u64
  wb_independence_failures :: u64
  wb_malformed_output :: u64

definition default_behavior_signals :: worker_behavior_signals where
  "default_behavior_signals = \<lparr>wb_invalid_signatures = 0, wb_digest_mismatches = 0,
     wb_stale_results = 0, wb_lease_violations = 0, wb_oversized_responses = 0,
     wb_schema_violations = 0, wb_verification_failures = 0, wb_independence_failures = 0,
     wb_malformed_output = 0\<rparr>"

fun record_signal :: "result_disposition \<Rightarrow> worker_behavior_signals \<Rightarrow> worker_behavior_signals" where
  "record_signal RdInvalidSignature w = w\<lparr>wb_invalid_signatures := wb_invalid_signatures w + 1\<rparr>"
| "record_signal RdDigestMismatch w = w\<lparr>wb_digest_mismatches := wb_digest_mismatches w + 1\<rparr>"
| "record_signal RdStaleAttempt w = w\<lparr>wb_stale_results := wb_stale_results w + 1\<rparr>"
| "record_signal RdSuperseded w = w\<lparr>wb_stale_results := wb_stale_results w + 1\<rparr>"
| "record_signal RdOversized w = w\<lparr>wb_oversized_responses := wb_oversized_responses w + 1\<rparr>"
| "record_signal RdSchema w = w\<lparr>wb_schema_violations := wb_schema_violations w + 1\<rparr>"
| "record_signal RdPathUnsafe w = w\<lparr>wb_schema_violations := wb_schema_violations w + 1\<rparr>"
| "record_signal RdExecutablePayload w = w\<lparr>wb_schema_violations := wb_schema_violations w + 1\<rparr>"
| "record_signal RdVerification w = w\<lparr>wb_verification_failures := wb_verification_failures w + 1\<rparr>"
| "record_signal RdIdentityMismatch w = w\<lparr>wb_malformed_output := wb_malformed_output w + 1\<rparr>"
| "record_signal RdRevokedWorker w = w\<lparr>wb_malformed_output := wb_malformed_output w + 1\<rparr>"
| "record_signal RdCanceled w = w\<lparr>wb_malformed_output := wb_malformed_output w + 1\<rparr>"
| "record_signal RdPolicy w = w\<lparr>wb_malformed_output := wb_malformed_output w + 1\<rparr>"
| "record_signal RdAccepted w = w"
| "record_signal RdQuarantined w = w"

definition derive_operational_state :: "worker_behavior_signals \<Rightarrow> worker_operational_state" where
  "derive_operational_state w =
     (if 3 \<le> wb_invalid_signatures w \<or> 5 \<le> wb_verification_failures w then OpQuarantined
      else if 3 \<le> wb_stale_results w + wb_lease_violations w + wb_digest_mismatches w +
                wb_schema_violations w + wb_oversized_responses w + wb_malformed_output w
      then OpDegraded else OpHealthy)"

section \<open>Artifacts\<close>

datatype artifact_kind =
  KPatch | KFileSnapshot | KContextPack | KExecutionCheckpoint | KAnalysisReport | KTestReport
| KVerificationReport | KBuildLog | KModelResponse | KSymbolMap | KDiff | KReviewReport | KDiagnosticBundle

datatype artifact_state =
  ArtDeclared | ArtWriting | ArtSealed | ArtVerified | ArtAccepted | ArtRejected | ArtAbandoned
| ArtExpired | ArtDeleted

datatype verification_state =
  Unverified | StructurallyValid | LocallyVerified | IndependentlyVerified | FailedVerification

datatype retention_policy = Ephemeral | UntilRunCompletes | ProjectHistory | SecurityAudit | UserPinned

datatype artifact_location = LocalFile string | RemoteLocation string

datatype artifact_origin = OriginLocal | OriginRemote

record artifact_metadata =
  am_artifact_id :: string
  am_kind :: artifact_kind
  am_schema_version :: u32
  am_producer_run_id :: run_id
  am_producer_task_id :: task_id
  am_producer_attempt_id :: attempt_id
  am_worker_id :: "worker_id option"
  am_content_digest :: string
  am_size_bytes :: u64
  am_workspace_version :: "workspace_version option"
  am_data_class :: data_class
  am_storage_location :: artifact_location
  am_lifecycle_state :: artifact_state
  am_verification_state :: verification_state
  am_origin :: artifact_origin
  am_created_at :: timestamp
  am_retention_policy :: retention_policy

datatype provenance_trust_label = LabelLocalSealed | LabelRemoteUnverified | LabelAccepted

definition provenance_trust_label_of :: "artifact_metadata \<Rightarrow> provenance_trust_label" where
  "provenance_trust_label_of m =
     (if am_lifecycle_state m = ArtAccepted then LabelAccepted
      else case am_origin m of OriginRemote \<Rightarrow> LabelRemoteUnverified | OriginLocal \<Rightarrow> LabelLocalSealed)"

datatype artifact_error =
  AeNotFound string | AeSizeLimitExceeded u64 | AeDigestMismatch string string
| AeInvalidStateTransition string | AeIo string | AeInternal string | AeQuotaExceeded u64 u64
| AeSchemaValidation string | AeQuarantineRejected string | AeStillQuarantined

fun artifact_error_display :: "(string \<Rightarrow> string) \<Rightarrow> artifact_error \<Rightarrow> string" where
  "artifact_error_display dbg (AeNotFound i) = ''not found: '' @ i"
| "artifact_error_display dbg (AeSizeLimitExceeded n) = ''size limit exceeded: '' @ show_word n"
| "artifact_error_display dbg (AeDigestMismatch e a) =
     ''digest mismatch: expected ContentDigest('' @ dbg e @ ''), actual ContentDigest('' @ dbg a @ '')''"
| "artifact_error_display dbg (AeInvalidStateTransition m) = ''invalid state transition: '' @ m"
| "artifact_error_display dbg (AeIo m) = ''io error: '' @ m"
| "artifact_error_display dbg (AeInternal m) = ''internal error: '' @ m"
| "artifact_error_display dbg (AeQuotaExceeded usage mx) =
     ''artifact storage quota exceeded: usage '' @ show_word usage @ '' max '' @ show_word mx"
| "artifact_error_display dbg (AeSchemaValidation m) = ''schema validation failed: '' @ m"
| "artifact_error_display dbg (AeQuarantineRejected m) = ''quarantine rejected: '' @ m"
| "artifact_error_display dbg AeStillQuarantined = ''artifact still quarantined / unverified''"

section \<open>Paths\<close>

text \<open>\<open>str::split\<close> at a character, and \<open>to_ascii_uppercase\<close>.\<close>

fun str_split :: "char \<Rightarrow> string \<Rightarrow> string list" where
  "str_split d [] = [[]]"
| "str_split d (c # s) =
     (if c = d then [] # str_split d s
      else case str_split d s of [] \<Rightarrow> [[c]] | p # ps \<Rightarrow> (c # p) # ps)"

definition to_ascii_uppercase :: "string \<Rightarrow> string" where
  "to_ascii_uppercase s =
     map (\<lambda>c. if CHR ''a'' \<le> c \<and> c \<le> CHR ''z'' then char_of (of_char c - (32::nat)) else c) s"

text \<open>\<open>char::is_control\<close>: U+0000 to U+001F and U+007F to U+009F; the latter are \<open>C2 80\<close> to \<open>C2 9F\<close>.\<close>

fun has_control :: "string \<Rightarrow> bool" where
  "has_control [] = False"
| "has_control (c # s) \<longleftrightarrow>
     c \<le> CHR 0x1F \<or> c = CHR 0x7F \<or>
     (c = CHR 0xC2 \<and> (case s of [] \<Rightarrow> False | d # _ \<Rightarrow> CHR 0x80 \<le> d \<and> d \<le> CHR 0x9F)) \<or> has_control s"

definition forbidden_path_chars :: "char set" where
  "forbidden_path_chars = {CHR '':'', CHR ''<'', CHR ''>'', CHR 0x22, CHR ''|'', CHR ''?'', CHR ''*''}"

definition device_suffixes :: "string list" where
  "device_suffixes = [''1'', ''2'', ''3'', ''4'', ''5'', ''6'', ''7'', ''8'', ''9'',
     [CHR 0xC2, CHR 0xB9], [CHR 0xC2, CHR 0xB2], [CHR 0xC2, CHR 0xB3]]"

definition is_device_name :: "string \<Rightarrow> bool" where
  "is_device_name stem \<longleftrightarrow>
     stem \<in> {''CON'', ''PRN'', ''AUX'', ''NUL'', ''CONIN$'', ''CONOUT$''} \<or>
     list_ex (\<lambda>prefix. starts_with stem prefix \<and> drop (length prefix) stem \<in> set device_suffixes)
       [''COM'', ''LPT'']"

definition path_part_ok :: "string \<Rightarrow> bool" where
  "path_part_ok part =
     (if part \<noteq> [] \<and> last part \<in> {CHR ''.'', CHR '' ''} then False
      else if is_device_name (to_ascii_uppercase (trim_end (takeWhile (\<lambda>c. c \<noteq> CHR ''.'') part))) then False
      else if part = ''..'' \<or> part = ''.'' then False
      else part \<noteq> [])"

definition normalize_separators :: "string \<Rightarrow> string" where
  "normalize_separators path = map (\<lambda>c. if c = CHR 0x5C then CHR ''/'' else c) path"

definition is_safe_workspace_path :: "string \<Rightarrow> bool" where
  "is_safe_workspace_path path =
     (if path = [] \<or> starts_with path ''/'' \<or> starts_with path [CHR 0x5C] then False
      else if has_control path \<or> list_ex (\<lambda>c. c \<in> forbidden_path_chars) path then False
      else if str_contains (normalize_separators path) ''://'' then False
      else list_all path_part_ok (str_split (CHR ''/'') (normalize_separators path)))"

section \<open>Inspection\<close>

record quarantine_limits =
  qx_max_bytes :: u64
  qx_max_declared_paths :: nat
  qx_max_archive_entries :: u64
  qx_max_archive_uncompressed_bytes :: u64
  qx_allow_executable :: bool

definition default_quarantine_limits :: quarantine_limits where
  "default_quarantine_limits = \<lparr>qx_max_bytes = 100 * 1024 * 1024, qx_max_declared_paths = 10000,
     qx_max_archive_entries = 10000, qx_max_archive_uncompressed_bytes = 500 * 1024 * 1024,
     qx_allow_executable = False\<rparr>"

record quarantine_inspection =
  qi_declared_paths :: "string list"
  qi_archive_entries :: "u64 option"
  qi_archive_uncompressed_bytes :: "u64 option"
  qi_executable_content :: bool

definition default_quarantine_inspection :: quarantine_inspection where
  "default_quarantine_inspection = \<lparr>qi_declared_paths = [], qi_archive_entries = None,
     qi_archive_uncompressed_bytes = None, qi_executable_content = False\<rparr>"

definition executable_magic :: "string list" where
  "executable_magic = [''#!'', ''MZ'', CHR 0x7F # ''ELF'',
     [CHR 0xCA, CHR 0xFE, CHR 0xBA, CHR 0xBE], [CHR 0xCF, CHR 0xFA, CHR 0xED, CHR 0xFE],
     [CHR 0xCE, CHR 0xFA, CHR 0xED, CHR 0xFE], [CHR 0xFE, CHR 0xED, CHR 0xFA, CHR 0xCE],
     [CHR 0xFE, CHR 0xED, CHR 0xFA, CHR 0xCF], [CHR 0xBE, CHR 0xBA, CHR 0xFE, CHR 0xCA],
     [CHR 0xCA, CHR 0xFE, CHR 0xBA, CHR 0xBF], [CHR 0xBF, CHR 0xBA, CHR 0xFE, CHR 0xCA]]"

definition executable_extensions :: "string list" where
  "executable_extensions = [''.exe'', ''.dll'', ''.so'', ''.dylib'', ''.bat'', ''.cmd'', ''.ps1'', ''.sh'',
     ''.vbs'', ''.vbe'', ''.wsf'', ''.wsh'', ''.hta'', ''.com'', ''.scr'', ''.cpl'', ''.pif'', ''.msi'',
     ''.msp'', ''.js'', ''.jse'', ''.psm1'', ''.psd1'', ''.lnk'', ''.url'']"

definition looks_executable :: "string \<Rightarrow> string option \<Rightarrow> bool" where
  "looks_executable bytes declared_path =
     (if list_ex (starts_with bytes) executable_magic then True
      else case declared_path of
             Some path \<Rightarrow> list_ex (ends_with (to_ascii_lowercase path)) executable_extensions
           | None \<Rightarrow> False)"

definition archive_magic :: "string list" where
  "archive_magic = [''PK'' @ [CHR 0x03, CHR 0x04], ''PK'' @ [CHR 0x05, CHR 0x06],
     ''PK'' @ [CHR 0x07, CHR 0x08], [CHR 0x1F, CHR 0x8B], ''BZh'', CHR 0xFD # ''7zXZ'' @ [CHR 0x00],
     ''7z'' @ [CHR 0xBC, CHR 0xAF, CHR 0x27, CHR 0x1C], ''Rar!'',
     [CHR 0x28, CHR 0xB5, CHR 0x2F, CHR 0xFD], ''MSCF'']"

definition archive_extensions :: "string list" where
  "archive_extensions = [''.zip'', ''.tar'', ''.gz'', ''.tgz'', ''.bz2'', ''.tbz2'', ''.xz'', ''.txz'', ''.7z'',
     ''.rar'', ''.zst'', ''.cab'', ''.jar'', ''.war'', ''.whl'']"

definition is_archive :: "string \<Rightarrow> string list \<Rightarrow> bool" where
  "is_archive bytes declared_paths \<longleftrightarrow>
     list_ex (starts_with bytes) archive_magic \<or>
     262 \<le> length bytes \<and> take 5 (drop 257 bytes) = ''ustar'' \<or>
     list_ex (\<lambda>path. list_ex (ends_with (to_ascii_lowercase path)) archive_extensions) declared_paths"

definition inspect_remote_bytes ::
    "string \<Rightarrow> string list \<Rightarrow> artifact_error + quarantine_inspection" where
  "inspect_remote_bytes bytes declared_paths =
     (if is_archive bytes declared_paths
      then Inl (AeQuarantineRejected
             ''archive payload requires bounded local extraction; unsupported by quarantine'')
      else Inr (default_quarantine_inspection\<lparr>qi_declared_paths := declared_paths,
        qi_executable_content := looks_executable bytes None \<or>
          list_ex (\<lambda>path. looks_executable bytes (Some path)) declared_paths\<rparr>))"

text \<open>\<open>validate_remote_artifact_with\<close> mutates the metadata; it is returned on both outcomes.\<close>

definition quarantine_check ::
    "artifact_metadata \<Rightarrow> string \<Rightarrow> quarantine_limits \<Rightarrow> quarantine_inspection \<Rightarrow> artifact_error option" where
  "quarantine_check m actual_digest limits i =
     (if am_content_digest m \<noteq> actual_digest then Some (AeDigestMismatch (am_content_digest m) actual_digest)
      else if am_schema_version m \<noteq> 1
      then Some (AeInvalidStateTransition (''Unknown artifact schema version: '' @ show_word (am_schema_version m)))
      else if qx_max_bytes limits < am_size_bytes m
      then Some (AeQuarantineRejected (''artifact size '' @ show_word (am_size_bytes m) @ '' exceeds limit '' @
             show_word (qx_max_bytes limits)))
      else if qx_max_declared_paths limits < length (qi_declared_paths i)
      then Some (AeQuarantineRejected ''too many declared paths'')
      else case find (\<lambda>path. \<not> is_safe_workspace_path path) (qi_declared_paths i) of
        Some path \<Rightarrow> Some (AeQuarantineRejected (''unsafe path: '' @ path))
      | None \<Rightarrow>
          if (case qi_archive_entries i of None \<Rightarrow> False | Some n \<Rightarrow> qx_max_archive_entries limits < n)
          then Some (AeQuarantineRejected ''archive entry count exceeds limit (possible archive bomb)'')
          else if (case qi_archive_uncompressed_bytes i of None \<Rightarrow> False
                   | Some n \<Rightarrow> qx_max_archive_uncompressed_bytes limits < n)
          then Some (AeQuarantineRejected ''archive uncompressed size exceeds limit (possible archive bomb)'')
          else if (case qi_archive_uncompressed_bytes i of None \<Rightarrow> False
                   | Some n \<Rightarrow> 0 < am_size_bytes m \<and> 100 < n div am_size_bytes m)
          then Some (AeQuarantineRejected ''archive compression ratio exceeds policy'')
          else if qi_executable_content i \<and> \<not> qx_allow_executable limits
          then Some (AeQuarantineRejected ''executable payload rejected by quarantine policy'')
          else None)"

definition validate_remote_artifact_with ::
    "artifact_metadata \<Rightarrow> string \<Rightarrow> quarantine_limits \<Rightarrow> quarantine_inspection \<Rightarrow>
     artifact_metadata \<times> (artifact_error + unit)" where
  "validate_remote_artifact_with m0 actual_digest limits i =
     (let m = m0\<lparr>am_origin := OriginRemote\<rparr> in
      case quarantine_check m actual_digest limits i of
        Some e \<Rightarrow> (m, Inl e)
      | None \<Rightarrow> (if am_verification_state m = Unverified
                 then m\<lparr>am_verification_state := StructurallyValid\<rparr> else m, Inr ()))"

definition validate_remote_artifact ::
    "artifact_metadata \<Rightarrow> string \<Rightarrow> artifact_metadata \<times> (artifact_error + unit)" where
  "validate_remote_artifact m actual_digest =
     validate_remote_artifact_with m actual_digest default_quarantine_limits default_quarantine_inspection"

definition assert_artifact_usable :: "artifact_metadata \<Rightarrow> artifact_error + unit" where
  "assert_artifact_usable m =
     (if am_origin m = OriginRemote \<and> am_verification_state m \<in> {Unverified, FailedVerification}
      then Inl AeStillQuarantined
      else if am_origin m = OriginRemote \<and> am_verification_state m = StructurallyValid
      then Inl AeStillQuarantined
      else Inr ())"

section \<open>Safe paths stay below the workspace root\<close>

text \<open>Lexical resolution of a path against a root, with both separators: an empty part and \<open>.\<close> stay,
  \<open>..\<close> goes up, and going up at the root leaves the workspace.\<close>

fun resolve_parts :: "string list \<Rightarrow> string list \<Rightarrow> string list option" where
  "resolve_parts at [] = Some (rev at)"
| "resolve_parts at (p # ps) =
     (if p = [] \<or> p = ''.'' then resolve_parts at ps
      else if p = ''..'' then (case at of [] \<Rightarrow> None | _ # up \<Rightarrow> resolve_parts up ps)
      else resolve_parts (p # at) ps)"

definition path_parts :: "string \<Rightarrow> string list" where
  "path_parts path = str_split (CHR ''/'') (normalize_separators path)"

lemma resolve_plain_parts:
  assumes "list_all path_part_ok ps"
  shows "resolve_parts at ps = Some (rev at @ ps)"
  using assms by (induction ps arbitrary: at) (auto simp: path_part_ok_def split: if_splits)

lemma safe_path_parts:
  assumes "is_safe_workspace_path path"
  shows "list_all path_part_ok (path_parts path)" and "CHR '':'' \<notin> set path"
  using assms by (auto simp: is_safe_workspace_path_def path_parts_def forbidden_path_chars_def
      list_ex_iff split: if_splits)

lemma str_split_separator: "p \<in> set (str_split d s) \<Longrightarrow> d \<notin> set p"
  by (induction s arbitrary: p) (fastforce split: if_splits list.splits)+

lemma quarantine_check_None:
  assumes "quarantine_check m d limits i = None"
  shows "am_content_digest m = d" and "am_size_bytes m \<le> qx_max_bytes limits"
    and "list_all is_safe_workspace_path (qi_declared_paths i)"
    and "qi_executable_content i \<Longrightarrow> qx_allow_executable limits"
  using assms by (auto simp: quarantine_check_def find_None_iff list_all_iff split: if_splits option.splits)

end
