(* ===== verification/Remote_Result.thy ===== *)
theory Remote_Result
  imports Quarantine
begin

text \<open>
  The acceptance of results that workers send back: signed result envelopes, signing keys and envelope
  validation (\<open>fabric-protocol/src\<close>: \<open>result.rs\<close>, \<open>canonical.rs\<close>, \<open>result_crypto.rs\<close>,
  \<open>result_keys.rs\<close>, \<open>result_validate.rs\<close>, \<open>result_disposition.rs\<close>), the verification policies and
  the acceptance pipeline (\<open>fabric-client/src\<close>: \<open>verification.rs\<close>, \<open>result_accept.rs\<close>). Ed25519,
  SHA-256, serde's printing of JSON and \<open>Debug\<close> of strings are fields of \<open>result_host\<close>.
\<close>

section \<open>Signed results\<close>

datatype result_status = StatusOk | StatusFailed | StatusCanceled | StatusPreempted

record signed_artifact_reference =
  sr_artifact_id :: string
  sr_digest :: string
  sr_size_bytes :: u64
  sr_kind :: string
  sr_declared_paths :: "string list"

record worker_local_durations =
  wl_queue_ms :: "u64 option"
  wl_execute_ms :: "u64 option"
  wl_model_load_ms :: "u64 option"
  wl_serialize_out_ms :: "u64 option"

record execution_summary =
  es_duration_ms :: "u64 option"
  es_model :: "string option"
  es_exit_status :: "int option"
  es_truncated :: bool
  es_notes :: "string option"
  es_local :: "worker_local_durations option"

record signed_result_body =
  sb_protocol_version :: u32
  sb_result_envelope_version :: u32
  sb_result_id :: string
  sb_worker_id :: worker_id
  sb_worker_key_id :: string
  sb_coordinator_id :: string
  sb_run_id :: run_id
  sb_job_id :: string
  sb_task_id :: task_id
  sb_task_version :: u64
  sb_attempt_id :: attempt_id
  sb_lease_id :: lease_id
  sb_lease_epoch :: u64
  sb_idempotency_key :: string
  sb_job_kind :: job_kind
  sb_input_digest :: string
  sb_workspace_version :: "workspace_version option"
  sb_result_status :: result_status
  sb_result_digest :: string
  sb_artifacts :: "signed_artifact_reference list"
  sb_execution_summary :: execution_summary
  sb_completed_at :: timestamp
  sb_revocation_epoch :: u64

record result_envelope =
  re_body :: signed_result_body
  re_signature :: string
  re_payload :: json

definition result_envelope_version :: u32 where
  "result_envelope_version = 1"

text \<open>What comes from outside: \<open>serde_json::to_value\<close> and printing, \<open>VerifyingKey::from_bytes\<close> and
  \<open>verify\<close> of ed25519, SHA-256 in hexadecimal, the length of printed JSON, \<open>Debug\<close> of a string.\<close>

record result_host =
  rh_body_to_value :: "signed_result_body \<Rightarrow> string + json"
  rh_serialize :: "json \<Rightarrow> string + string"
  rh_key_from_bytes :: "string \<Rightarrow> string + unit"
  rh_verify :: "string \<Rightarrow> string \<Rightarrow> string \<Rightarrow> bool"
  rh_sha256_hex :: "string \<Rightarrow> string"
  rh_json_len :: "json \<Rightarrow> nat option"
  rh_ws_to_value :: "workspace_version option \<Rightarrow> string + json"
  rh_debug :: "string \<Rightarrow> string"

text \<open>Calls to the outside return or fail; they do not abort.\<close>

fun of_sum :: "'e + 'a \<Rightarrow> ('e, 'a) result" where
  "of_sum (Inl e) = Err e"
| "of_sum (Inr x) = Ok x"

primrec sort_value_keys :: "json \<Rightarrow> json" where
  "sort_value_keys JNull = JNull"
| "sort_value_keys (JBool b) = JBool b"
| "sort_value_keys (JNumber n) = JNumber n"
| "sort_value_keys (JString s) = JString s"
| "sort_value_keys (JArray xs) = JArray (map sort_value_keys xs)"
| "sort_value_keys (JObject kvs) = JObject (sort_key fst (map (map_prod id sort_value_keys) kvs))"

definition canonical_signed_bytes :: "result_host \<Rightarrow> signed_result_body \<Rightarrow> string fabric_result" where
  "canonical_signed_bytes h body =
     map_err (\<lambda>e. fabric_err FeInvalidEnvelope (''canonical result serialization failed: '' @ e))
       (and_then (of_sum (rh_body_to_value h body)) (\<lambda>v. of_sum (rh_serialize h (sort_value_keys v))))"

definition verify_result_signature :: "result_host \<Rightarrow> result_envelope \<Rightarrow> string \<Rightarrow> unit fabric_result" where
  "verify_result_signature h envelope verifying_key =
     and_then (canonical_signed_bytes h (re_body envelope)) (\<lambda>bytes.
       if length (re_signature envelope) \<noteq> 64
       then Err (fabric_err FeInvalidSignature ''result signature must be 64 bytes'')
       else if rh_verify h verifying_key bytes (re_signature envelope) then Ok ()
       else Err (fabric_err FeInvalidSignature ''result signature verification failed''))"

definition verifying_key_from_bytes :: "result_host \<Rightarrow> string \<Rightarrow> unit fabric_result" where
  "verifying_key_from_bytes h bytes =
     (if length bytes \<noteq> 32 then Err (fabric_err FeInvalidSignature ''verifying key must be 32 bytes'')
      else map_err (\<lambda>e. fabric_err FeInvalidSignature (''invalid verifying key: '' @ e))
             (of_sum (rh_key_from_bytes h bytes)))"

definition digest_result_payload :: "result_host \<Rightarrow> json \<Rightarrow> string fabric_result" where
  "digest_result_payload h payload =
     and_then (map_err (\<lambda>e. fabric_err FeInvalidEnvelope (''payload canonicalization failed: '' @ e))
                (of_sum (rh_serialize h (sort_value_keys payload))))
       (\<lambda>bytes. Ok (''sha256:'' @ rh_sha256_hex h bytes))"

section \<open>Signing keys\<close>

record result_signing_key_record =
  rk_key_id :: string
  rk_worker_id :: worker_id
  rk_public_key :: string
  rk_valid_from :: timestamp
  rk_valid_until :: "timestamp option"
  rk_revoked :: bool
  rk_identity_certification :: "string option"
  rk_rotation_generation :: u64

type_synonym result_signing_key_registry = "result_signing_key_record list"

definition key_matches :: "worker_id \<Rightarrow> string \<Rightarrow> result_signing_key_record \<Rightarrow> bool" where
  "key_matches worker_id key_id k \<longleftrightarrow> rk_worker_id k = worker_id \<and> rk_key_id k = key_id"

definition register_key ::
    "result_host \<Rightarrow> result_signing_key_record \<Rightarrow> result_signing_key_registry \<Rightarrow>
     result_signing_key_registry fabric_result" where
  "register_key h record keys =
     and_then (verifying_key_from_bytes h (rk_public_key record)) (\<lambda>_.
       if trim_is_empty (rk_key_id record) then Err (fabric_err FeInvalidEnvelope ''empty key_id'')
       else Ok (filter (\<lambda>k. \<not> key_matches (rk_worker_id record) (rk_key_id record) k) keys @ [record]))"

definition revoke_key ::
    "worker_id \<Rightarrow> string \<Rightarrow> result_signing_key_registry \<Rightarrow> result_signing_key_registry \<times> bool" where
  "revoke_key worker_id key_id keys =
     (map (\<lambda>k. if key_matches worker_id key_id k then k\<lparr>rk_revoked := True\<rparr> else k) keys,
      list_ex (key_matches worker_id key_id) keys)"

definition revoke_worker_keys ::
    "worker_id \<Rightarrow> result_signing_key_registry \<Rightarrow> result_signing_key_registry" where
  "revoke_worker_keys worker_id keys =
     map (\<lambda>k. if rk_worker_id k = worker_id then k\<lparr>rk_revoked := True\<rparr> else k) keys"

definition lookup_key ::
    "worker_id \<Rightarrow> string \<Rightarrow> timestamp \<Rightarrow> result_signing_key_registry \<Rightarrow>
     result_signing_key_record fabric_result" where
  "lookup_key worker_id key_id now keys =
     and_then (ok_or (find (key_matches worker_id key_id) keys)
       (fabric_err FeInvalidSignature (''unknown result signing key '' @ key_id @ '' for worker '' @ worker_id)))
     (\<lambda>rec.
       if rk_revoked rec
       then Err (fabric_err FeRevokedIdentity (''result signing key '' @ key_id @ '' revoked''))
       else if now < rk_valid_from rec
       then Err (fabric_err FeInvalidSignature ''result signing key not yet valid'')
       else if (case rk_valid_until rec of None \<Rightarrow> False | Some until \<Rightarrow> until < now)
       then Err (fabric_err FeInvalidSignature ''result signing key expired'')
       else Ok rec)"

section \<open>Envelope validation\<close>

record expected_result_binding =
  xb_channel_worker_id :: worker_id
  xb_coordinator_id :: string
  xb_run_id :: run_id
  xb_job_id :: string
  xb_task_id :: task_id
  xb_task_version :: u64
  xb_attempt_id :: attempt_id
  xb_lease_id :: lease_id
  xb_lease_epoch :: u64
  xb_input_digest :: string
  xb_workspace_version :: "workspace_version option"
  xb_worker_revoked :: bool
  xb_attempt_canceled :: bool
  xb_attempt_superseded :: bool
  xb_another_attempt_won :: bool
  xb_run_active :: bool
  xb_task_active :: bool
  xb_known_revocation_epoch :: u64
  xb_output_limits :: output_limits

record envelope_validation_outcome =
  vo_disposition :: result_disposition
  vo_reason :: string

definition outcome_ok :: envelope_validation_outcome where
  "outcome_ok = \<lparr>vo_disposition = RdQuarantined,
     vo_reason = ''envelope structurally valid; artifacts require quarantine''\<rparr>"

definition outcome_reject :: "result_disposition \<Rightarrow> string \<Rightarrow> envelope_validation_outcome" where
  "outcome_reject disposition reason = \<lparr>vo_disposition = disposition, vo_reason = reason\<rparr>"

definition identity_reject ::
    "signed_result_body \<Rightarrow> expected_result_binding \<Rightarrow> envelope_validation_outcome option" where
  "identity_reject b x =
     (case validate_channel_identity (xb_channel_worker_id x) (sb_worker_id b) of
        Err e \<Rightarrow> Some (outcome_reject RdIdentityMismatch (fe_message e))
      | _ \<Rightarrow>
          if sb_coordinator_id b \<noteq> xb_coordinator_id x
          then Some (outcome_reject RdIdentityMismatch ''result coordinator_id mismatch'')
          else if xb_worker_revoked x then Some (outcome_reject RdRevokedWorker ''worker revoked'')
          else case validate_revoked (xb_worker_revoked x) of
                 Err e \<Rightarrow> Some (outcome_reject RdRevokedWorker (fe_message e))
               | _ \<Rightarrow> None)"

definition binding_reject ::
    "signed_result_body \<Rightarrow> expected_result_binding \<Rightarrow> envelope_validation_outcome option" where
  "binding_reject b x =
     (case validate_revocation_epoch (sb_revocation_epoch b) (xb_known_revocation_epoch x) of
        Err e \<Rightarrow> Some (outcome_reject RdRevokedWorker (fe_message e))
      | _ \<Rightarrow>
          if sb_run_id b \<noteq> xb_run_id x \<or> sb_job_id b \<noteq> xb_job_id x \<or> sb_task_id b \<noteq> xb_task_id x \<or>
             sb_attempt_id b \<noteq> xb_attempt_id x
          then Some (outcome_reject RdStaleAttempt ''result bound to different run/task/attempt'')
          else if sb_task_version b \<noteq> xb_task_version x
          then Some (outcome_reject RdStaleAttempt ''task version mismatch'')
          else if sb_lease_id b \<noteq> xb_lease_id x \<or> sb_lease_epoch b \<noteq> xb_lease_epoch x
          then Some (outcome_reject RdStaleAttempt ''lease id/epoch mismatch'')
          else if \<not> xb_run_active x \<or> \<not> xb_task_active x
          then Some (outcome_reject RdCanceled ''run or task not active'')
          else if xb_attempt_canceled x then Some (outcome_reject RdCanceled ''attempt canceled'')
          else if xb_attempt_superseded x \<or> xb_another_attempt_won x
          then Some (outcome_reject RdSuperseded ''attempt superseded or another attempt already won'')
          else if sb_input_digest b \<noteq> xb_input_digest x
          then Some (outcome_reject RdDigestMismatch ''input digest mismatch'')
          else if sb_workspace_version b \<noteq> xb_workspace_version x
          then Some (outcome_reject RdStaleAttempt ''workspace version mismatch'')
          else if trim_is_empty (sb_result_digest b)
          then Some (outcome_reject RdDigestMismatch ''empty result digest'')
          else None)"

fun artifacts_reject ::
    "output_limits \<Rightarrow> signed_artifact_reference list \<Rightarrow> envelope_validation_outcome option" where
  "artifacts_reject limits [] = None"
| "artifacts_reject limits (art # arts) =
     (if trim_is_empty (sr_digest art) \<or> trim_is_empty (sr_artifact_id art)
      then Some (outcome_reject RdDigestMismatch ''artifact missing id or digest'')
      else if ol_max_artifact_size limits < sr_size_bytes art
      then Some (outcome_reject RdOversized (''artifact '' @ sr_artifact_id art @ '' exceeds size limit''))
      else artifacts_reject limits arts)"

definition content_reject ::
    "result_host \<Rightarrow> result_envelope \<Rightarrow> expected_result_binding \<Rightarrow> message_size_limits \<Rightarrow>
     envelope_validation_outcome option" where
  "content_reject h envelope x limits =
     (let payload_len = (case rh_json_len h (re_payload envelope) of None \<Rightarrow> 0 | Some n \<Rightarrow> n) in
      if ol_max_bytes (xb_output_limits x) < of_nat payload_len \<or> ml_max_payload_bytes limits < of_nat payload_len
      then Some (outcome_reject RdOversized ''result payload exceeds size limits'')
      else if ol_max_artifacts (xb_output_limits x) < of_nat (length (sb_artifacts (re_body envelope)))
      then Some (outcome_reject RdOversized ''too many artifacts'')
      else artifacts_reject (xb_output_limits x) (sb_artifacts (re_body envelope)))"

definition validate_result_envelope ::
    "result_host \<Rightarrow> result_envelope \<Rightarrow> expected_result_binding \<Rightarrow> result_signing_key_registry \<Rightarrow>
     message_size_limits \<Rightarrow> timestamp \<Rightarrow> envelope_validation_outcome fabric_result" where
  "validate_result_envelope h envelope x keys limits now =
     (let b = re_body envelope in
      and_then (validate_protocol_version (sb_protocol_version b)) (\<lambda>_.
        if sb_result_envelope_version b \<noteq> result_envelope_version
        then Ok (outcome_reject RdSchema
               (''unsupported result_envelope_version '' @ show_word (sb_result_envelope_version b)))
        else case identity_reject b x of
          Some r \<Rightarrow> Ok r
        | None \<Rightarrow>
            case lookup_key (sb_worker_id b) (sb_worker_key_id b) now keys of
              Panic \<Rightarrow> Panic
            | Err e \<Rightarrow> Ok (outcome_reject
                (if fe_code e = FeRevokedIdentity then RdRevokedWorker else RdInvalidSignature) (fe_message e))
            | Ok key_rec \<Rightarrow>
                and_then (verifying_key_from_bytes h (rk_public_key key_rec)) (\<lambda>_.
                  case verify_result_signature h envelope (rk_public_key key_rec) of
                    Panic \<Rightarrow> Panic
                  | Err e \<Rightarrow> Ok (outcome_reject RdInvalidSignature (fe_message e))
                  | Ok _ \<Rightarrow>
                      (case binding_reject b x of
                         Some r \<Rightarrow> Ok r
                       | None \<Rightarrow>
                           (case content_reject h envelope x limits of
                              Some r \<Rightarrow> Ok r
                            | None \<Rightarrow> Ok outcome_ok)))))"

section \<open>Recorded dispositions\<close>

record result_disposition_record =
  rdr_result_id :: string
  rdr_idempotency_key :: string
  rdr_disposition :: result_disposition
  rdr_reason :: string
  rdr_recorded_at :: timestamp
  rdr_audit_only :: bool

record disposition_store =
  dst_by_result :: "(string, result_disposition_record) btree"
  dst_by_idempotency :: "(string, result_disposition_record) btree"

definition disposition_store_new :: disposition_store where
  "disposition_store_new = \<lparr>dst_by_result = [], dst_by_idempotency = []\<rparr>"

definition record_disposition ::
    "signed_result_body \<Rightarrow> result_disposition \<Rightarrow> string \<Rightarrow> bool \<Rightarrow> timestamp \<Rightarrow> disposition_store \<Rightarrow>
     disposition_store \<times> result_disposition_record" where
  "record_disposition b disposition reason audit_only now st =
     (case bt_get (dst_by_result st) (sb_result_id b) of
        Some existing \<Rightarrow> (st, existing)
      | None \<Rightarrow>
          (case bt_get (dst_by_idempotency st) (sb_idempotency_key b) of
             Some existing \<Rightarrow> (st, existing)
           | None \<Rightarrow>
               let rec = \<lparr>rdr_result_id = sb_result_id b, rdr_idempotency_key = sb_idempotency_key b,
                     rdr_disposition = disposition, rdr_reason = reason, rdr_recorded_at = now,
                     rdr_audit_only = audit_only\<rparr>
               in (\<lparr>dst_by_result = bt_insert (sb_result_id b) rec (dst_by_result st),
                    dst_by_idempotency = bt_insert (sb_idempotency_key b) rec (dst_by_idempotency st)\<rparr>, rec)))"

section \<open>Verification policies\<close>

datatype fabric_client_error =
  ClProtocol fabric_error | ClEgress string | ClTls string | ClIo string | ClHttp string
| ClNoServerCert | ClTimeout string string

fun fabric_error_code_debug :: "fabric_error_code \<Rightarrow> string" where
  "fabric_error_code_debug FeUnsupportedProtocolVersion = ''UnsupportedProtocolVersion''"
| "fabric_error_code_debug FeUnsupportedJobKind = ''UnsupportedJobKind''"
| "fabric_error_code_debug FeInvalidEnvelope = ''InvalidEnvelope''"
| "fabric_error_code_debug FeInvalidSignature = ''InvalidSignature''"
| "fabric_error_code_debug FeIdentityMismatch = ''IdentityMismatch''"
| "fabric_error_code_debug FeRevokedIdentity = ''RevokedIdentity''"
| "fabric_error_code_debug FeStaleRevocationEpoch = ''StaleRevocationEpoch''"
| "fabric_error_code_debug FeDuplicateConflict = ''DuplicateConflict''"
| "fabric_error_code_debug FeInvalidLease = ''InvalidLease''"
| "fabric_error_code_debug FeStaleLeaseEpoch = ''StaleLeaseEpoch''"
| "fabric_error_code_debug FeDeadlineExceeded = ''DeadlineExceeded''"
| "fabric_error_code_debug FeInputTooLarge = ''InputTooLarge''"
| "fabric_error_code_debug FeOutputTooLarge = ''OutputTooLarge''"
| "fabric_error_code_debug FeCapabilityUnavailable = ''CapabilityUnavailable''"
| "fabric_error_code_debug FePolicyDenied = ''PolicyDenied''"
| "fabric_error_code_debug FeWorkerBusy = ''WorkerBusy''"
| "fabric_error_code_debug FeWorkerDraining = ''WorkerDraining''"
| "fabric_error_code_debug FeInternalFailure = ''InternalFailure''"

definition fabric_error_display :: "fabric_error \<Rightarrow> string" where
  "fabric_error_display e = fabric_error_code_debug (fe_code e) @ '': '' @ fe_message e"

fun client_error_display :: "fabric_client_error \<Rightarrow> string" where
  "client_error_display (ClProtocol e) = ''protocol: '' @ fabric_error_display e"
| "client_error_display (ClEgress e) = ''egress: '' @ e"
| "client_error_display (ClTls m) = ''tls: '' @ m"
| "client_error_display (ClIo m) = ''io: '' @ m"
| "client_error_display (ClHttp m) = ''http: '' @ m"
| "client_error_display ClNoServerCert = ''missing worker fabric TLS certificate''"
| "client_error_display (ClTimeout phase path) = ''request timed out ('' @ phase @ ''): '' @ path"

record independence_evidence =
  ie_worker_id :: worker_id
  ie_host_id :: string
  ie_owner_domain :: string
  ie_model_instance :: "string option"
  ie_execution_nonce :: string
  ie_shared_cache :: bool

record redundant_candidate =
  rc_envelope :: result_envelope
  rc_independence :: independence_evidence

record verification_outcome =
  vf_disposition :: result_disposition
  vf_reason :: string
  vf_locally_verified :: bool
  vf_independently_verified :: bool

definition verification_accepted :: "string \<Rightarrow> verification_outcome" where
  "verification_accepted reason = \<lparr>vf_disposition = RdAccepted, vf_reason = reason,
     vf_locally_verified = True, vf_independently_verified = False\<rparr>"

definition verification_rejected :: "string \<Rightarrow> verification_outcome" where
  "verification_rejected reason = \<lparr>vf_disposition = RdVerification, vf_reason = reason,
     vf_locally_verified = False, vf_independently_verified = False\<rparr>"

definition verify_structural :: "result_host \<Rightarrow> result_envelope \<Rightarrow> (fabric_client_error, unit) result" where
  "verify_structural h envelope =
     and_then (map_err ClProtocol (digest_result_payload h (re_payload envelope))) (\<lambda>recomputed.
       if recomputed \<noteq> sb_result_digest (re_body envelope)
       then Err (ClHttp (''result digest mismatch: envelope claims '' @ sb_result_digest (re_body envelope) @
              '', recomputed '' @ recomputed))
       else Ok ())"

definition verify_test_report :: "result_envelope \<Rightarrow> (fabric_client_error, unit) result" where
  "verify_test_report envelope =
     (case json_get (re_payload envelope) ''test_report'' of
        None \<Rightarrow> Ok ()
      | Some tests \<Rightarrow>
          if Option.bind (json_get tests ''passed'') json_as_bool = Some True \<and>
             (case es_exit_status (sb_execution_summary (re_body envelope)) of None \<Rightarrow> False | Some e \<Rightarrow> e \<noteq> 0)
          then Err (ClHttp ''fabricated test report: passed=true with non-zero exit'')
          else Ok ())"

definition verify_patch_base :: "result_host \<Rightarrow> result_envelope \<Rightarrow> (fabric_client_error, unit) result" where
  "verify_patch_base h envelope =
     (if list_ex (\<lambda>a. sr_kind a = ''patch'') (sb_artifacts (re_body envelope))
      then and_then (ok_or (json_get (re_payload envelope) ''base_workspace_version'')
                      (ClHttp ''patch result missing base_workspace_version'')) (\<lambda>base.
           and_then (map_err (\<lambda>e. ClHttp (''workspace serialize: '' @ e))
                      (of_sum (rh_ws_to_value h (sb_workspace_version (re_body envelope))))) (\<lambda>env_ws.
             if base \<noteq> env_ws then Err (ClHttp ''patch base workspace version mismatch'') else Ok ()))
      else Ok ())"

definition verify_local_adapters :: "result_host \<Rightarrow> result_envelope \<Rightarrow> (fabric_client_error, unit) result" where
  "verify_local_adapters h envelope =
     and_then (verify_structural h envelope) (\<lambda>_.
     and_then (verify_test_report envelope) (\<lambda>_. verify_patch_base h envelope))"

definition independence_holds :: "independence_evidence \<Rightarrow> independence_evidence \<Rightarrow> bool" where
  "independence_holds a b =
     (if ie_worker_id a = ie_worker_id b then False
      else if ie_host_id a = ie_host_id b then False
      else if ie_owner_domain a = ie_owner_domain b then False
      else if ie_shared_cache a \<or> ie_shared_cache b then False
      else if ie_execution_nonce a = ie_execution_nonce b \<or> ie_execution_nonce a = [] \<or>
              ie_execution_nonce b = [] then False
      else if ie_model_instance a \<noteq> None \<and> ie_model_instance a = ie_model_instance b then False
      else True)"

definition structured_claims_agree :: "json \<Rightarrow> json \<Rightarrow> bool" where
  "structured_claims_agree a b =
     (case (json_get a ''claims'', json_get b ''claims'') of
        (Some ca, Some cb) \<Rightarrow> ca = cb
      | _ \<Rightarrow> False)"

definition primary_independence :: "result_envelope \<Rightarrow> independence_evidence" where
  "primary_independence primary =
     \<lparr>ie_worker_id = sb_worker_id (re_body primary), ie_host_id = ''host:'' @ sb_worker_id (re_body primary),
      ie_owner_domain = ''primary'', ie_model_instance = es_model (sb_execution_summary (re_body primary)),
      ie_execution_nonce = sb_result_id (re_body primary), ie_shared_cache = False\<rparr>"

definition candidate_agrees :: "result_envelope \<Rightarrow> redundant_candidate \<Rightarrow> bool" where
  "candidate_agrees primary cand \<longleftrightarrow>
     sb_result_digest (re_body (rc_envelope cand)) = sb_result_digest (re_body primary) \<or>
     structured_claims_agree (re_payload primary) (re_payload (rc_envelope cand))"

text \<open>No function here aborts; the branches for \<open>Panic\<close> are never taken (\<open>result_no_panic\<close> below).
  The set of hosts the source collects along the way is not used and left out.\<close>

fun count_agreeing ::
    "result_envelope \<Rightarrow> redundant_candidate list \<Rightarrow> u32 \<Rightarrow> (fabric_client_error, u32) result" where
  "count_agreeing primary [] agreeing = Ok agreeing"
| "count_agreeing primary (cand # cands) agreeing =
     (if \<not> independence_holds (primary_independence primary) (rc_independence cand)
      then Err (ClHttp ''redundant results lack meaningful independence'')
      else count_agreeing primary cands (if candidate_agrees primary cand then agreeing + 1 else agreeing))"

definition compare_redundant_agreement ::
    "result_envelope \<Rightarrow> redundant_candidate list \<Rightarrow> u32 \<Rightarrow> (fabric_client_error, u32) result" where
  "compare_redundant_agreement primary candidates required_agreement =
     and_then (count_agreeing primary candidates 1) (\<lambda>agreeing.
       if agreeing < required_agreement
       then Err (ClHttp (''redundant agreement '' @ show_word agreeing @ '' < required '' @
              show_word required_agreement))
       else Ok agreeing)"

definition apply_verification_policy ::
    "result_host \<Rightarrow> result_verification_requirement \<Rightarrow> result_envelope \<Rightarrow> redundant_candidate list \<Rightarrow>
     verification_outcome" where
  "apply_verification_policy h requirement envelope redundant =
     (case requirement of
        StructuralValidation \<Rightarrow>
          (case verify_structural h envelope of
             Err e \<Rightarrow> verification_rejected (client_error_display e)
           | Panic \<Rightarrow> verification_rejected []
             | Ok _ \<Rightarrow> \<lparr>vf_disposition = RdAccepted, vf_reason = ''structural validation passed'',
                   vf_locally_verified = False, vf_independently_verified = False\<rparr>)
      | LocalVerification \<Rightarrow>
          (case verify_local_adapters h envelope of
             Err e \<Rightarrow> verification_rejected (client_error_display e)
           | Panic \<Rightarrow> verification_rejected []
             | Ok _ \<Rightarrow> verification_accepted ''local verification passed'')
      | IndependentRedundantVerification required_agreement \<Rightarrow>
          (case verify_structural h envelope of
             Err e \<Rightarrow> verification_rejected (client_error_display e)
           | Panic \<Rightarrow> verification_rejected []
             | Ok _ \<Rightarrow>
               (case compare_redundant_agreement envelope redundant required_agreement of
                  Err e \<Rightarrow> verification_rejected (client_error_display e)
                | Panic \<Rightarrow> verification_rejected []
             | Ok _ \<Rightarrow> \<lparr>vf_disposition = RdAccepted, vf_reason = ''independent redundant verification passed'',
                        vf_locally_verified = False, vf_independently_verified = True\<rparr>))
      | LocalAndRedundantVerification \<Rightarrow>
          (case verify_local_adapters h envelope of
             Err e \<Rightarrow> verification_rejected (client_error_display e)
           | Panic \<Rightarrow> verification_rejected []
             | Ok _ \<Rightarrow>
               (case compare_redundant_agreement envelope redundant 2 of
                  Err e \<Rightarrow> verification_rejected (client_error_display e)
                | Panic \<Rightarrow> verification_rejected []
             | Ok _ \<Rightarrow> \<lparr>vf_disposition = RdAccepted, vf_reason = ''local and redundant verification passed'',
                        vf_locally_verified = True, vf_independently_verified = True\<rparr>)))"

definition require_redundant :: "u32 \<Rightarrow> result_verification_requirement" where
  "require_redundant n = IndependentRedundantVerification (max n 2)"

text \<open>\<open>parse_u32\<close> is \<open>str::parse::<u32>\<close>.\<close>

definition requirement_from_placement ::
    "(string \<Rightarrow> u32 option) \<Rightarrow> bool \<Rightarrow> string option \<Rightarrow> result_verification_requirement" where
  "requirement_from_placement parse_u32 require_verification policy_id =
     (if \<not> require_verification then StructuralValidation
      else
        let pid = (case policy_id of None \<Rightarrow> ''local'' | Some p \<Rightarrow> p) in
        if pid = ''redundant'' \<or> pid = ''independent_redundant'' then IndependentRedundantVerification 2
        else if starts_with pid ''redundant:''
        then require_redundant (case parse_u32 (drop (length ''redundant:'') pid) of None \<Rightarrow> 2 | Some n \<Rightarrow> n)
        else if starts_with pid ''independent_redundant:''
        then require_redundant
               (case parse_u32 (drop (length ''independent_redundant:'') pid) of None \<Rightarrow> 2 | Some n \<Rightarrow> n)
        else if pid = ''local_and_redundant'' then LocalAndRedundantVerification
        else LocalVerification)"

section \<open>Acceptance\<close>

record remote_result_accept_request =
  rr_envelope :: result_envelope
  rr_expected :: expected_result_binding
  rr_verification :: result_verification_requirement
  rr_redundant :: "redundant_candidate list"
  rr_artifact_bytes :: "(string \<times> string) list"
  rr_now :: timestamp
  rr_run_snapshot :: "run_snapshot option"
  rr_lease_proof :: "lease_proof option"
  rr_command_envelope :: "command_envelope option"

record remote_result_accept_outcome =
  ro_disposition :: result_disposition
  ro_reason :: string
  ro_complete_attempt :: "complete_attempt option"
  ro_verification :: "verification_outcome option"
  ro_quarantined :: bool

fun parse_artifact_kind :: "string \<Rightarrow> artifact_kind" where
  "parse_artifact_kind raw =
     (if raw = ''patch'' then KPatch
      else if raw = ''test_report'' then KTestReport
      else if raw = ''analysis_report'' then KAnalysisReport
      else if raw = ''diff'' then KDiff
      else KModelResponse)"

definition remote_metadata ::
    "remote_result_accept_request \<Rightarrow> signed_artifact_reference \<Rightarrow> artifact_metadata" where
  "remote_metadata req art = (let b = re_body (rr_envelope req) in
     \<lparr>am_artifact_id = sr_artifact_id art, am_kind = parse_artifact_kind (sr_kind art),
      am_schema_version = 1, am_producer_run_id = sb_run_id b, am_producer_task_id = sb_task_id b,
      am_producer_attempt_id = sb_attempt_id b, am_worker_id = Some (sb_worker_id b),
      am_content_digest = sr_digest art, am_size_bytes = sr_size_bytes art,
      am_workspace_version = sb_workspace_version b, am_data_class = RepositorySource,
      am_storage_location = RemoteLocation (sr_artifact_id art), am_lifecycle_state = ArtSealed,
      am_verification_state = Unverified, am_origin = OriginRemote, am_created_at = rr_now req,
      am_retention_policy = SecurityAudit\<rparr>)"

definition reject_quarantined :: "(string \<Rightarrow> string) \<Rightarrow> artifact_error \<Rightarrow> envelope_validation_outcome" where
  "reject_quarantined dbg e =
     (case e of
        AeDigestMismatch _ _ \<Rightarrow> outcome_reject RdDigestMismatch (artifact_error_display dbg e)
      | AeQuarantineRejected msg \<Rightarrow>
          if str_contains msg ''executable'' then outcome_reject RdExecutablePayload msg
          else if str_contains msg ''path'' \<or> str_contains msg ''unsafe'' then outcome_reject RdPathUnsafe msg
          else if str_contains msg ''size'' \<or> str_contains msg ''archive'' then outcome_reject RdOversized msg
          else outcome_reject RdSchema (artifact_error_display dbg e)
      | _ \<Rightarrow> outcome_reject RdSchema (artifact_error_display dbg e))"

definition quarantine_artifact ::
    "result_host \<Rightarrow> remote_result_accept_request \<Rightarrow> quarantine_limits \<Rightarrow> signed_artifact_reference \<Rightarrow>
     envelope_validation_outcome option" where
  "quarantine_artifact h req limits art =
     (case filter (\<lambda>(id, _). id = sr_artifact_id art) (rr_artifact_bytes req) of
        [(_, bytes)] \<Rightarrow>
          if of_nat (length bytes) \<noteq> sr_size_bytes art \<or> qx_max_bytes limits < of_nat (length bytes)
          then Some (outcome_reject RdOversized (''artifact '' @ sr_artifact_id art @
                 '' byte size differs from signed size or exceeds limit''))
          else if ''sha256:'' @ rh_sha256_hex h bytes \<noteq> sr_digest art
          then Some (outcome_reject RdDigestMismatch (''artifact '' @ sr_artifact_id art @ '' digest mismatch''))
          else
            (case inspect_remote_bytes bytes (sr_declared_paths art) of
               Inl e \<Rightarrow> Some (outcome_reject RdVerification (artifact_error_display (rh_debug h) e))
             | Inr inspection \<Rightarrow>
                 (case snd (validate_remote_artifact_with (remote_metadata req art) (sr_digest art) limits inspection) of
                    Inl e \<Rightarrow> Some (reject_quarantined (rh_debug h) e)
                  | Inr _ \<Rightarrow> None))
      | _ \<Rightarrow> Some (outcome_reject RdDigestMismatch (''artifact '' @ sr_artifact_id art @
               '' requires exactly one local byte payload'')))"

fun first_reject :: "('a \<Rightarrow> 'b option) \<Rightarrow> 'a list \<Rightarrow> 'b option" where
  "first_reject f [] = None"
| "first_reject f (x # xs) = (case f x of Some r \<Rightarrow> Some r | None \<Rightarrow> first_reject f xs)"

definition quarantine_artifacts ::
    "result_host \<Rightarrow> remote_result_accept_request \<Rightarrow> envelope_validation_outcome option" where
  "quarantine_artifacts h req =
     (let limits = default_quarantine_limits\<lparr>
            qx_max_bytes := max (ol_max_artifact_size (xb_output_limits (rr_expected req))) 1\<rparr>
      in first_reject (quarantine_artifact h req limits) (sb_artifacts (re_body (rr_envelope req))))"

definition deny_remote_side_effects :: "result_envelope \<Rightarrow> (fabric_client_error, unit) result" where
  "deny_remote_side_effects envelope =
     (if list_ex (\<lambda>k. json_get (re_payload envelope) k \<noteq> None)
           [''issue_capability'', ''invoke_tool'', ''run_process'', ''approve_action'']
      then Err (ClHttp ''remote result cannot authorize capabilities, tools, processes, or approvals'')
      else Ok ())"

type_synonym accept_state = "disposition_store \<times> worker_behavior_signals"

definition finish_reject ::
    "remote_result_accept_request \<Rightarrow> result_disposition \<Rightarrow> string \<Rightarrow> bool \<Rightarrow> accept_state \<Rightarrow>
     accept_state \<times> remote_result_accept_outcome" where
  "finish_reject req disposition reason audit_only st =
     ((fst (record_disposition (re_body (rr_envelope req)) disposition reason audit_only (rr_now req) (fst st)),
       record_signal disposition (snd st)),
      \<lparr>ro_disposition = disposition, ro_reason = reason, ro_complete_attempt = None,
       ro_verification = None, ro_quarantined = False\<rparr>)"

definition accept_remote_result ::
    "result_host \<Rightarrow> remote_result_accept_request \<Rightarrow> result_signing_key_registry \<Rightarrow> accept_state \<Rightarrow>
     accept_state \<times> remote_result_accept_outcome" where
  "accept_remote_result h req keys st =
     (case validate_result_envelope h (rr_envelope req) (rr_expected req) keys default_message_limits (rr_now req) of
        Ok v \<Rightarrow>
          if is_terminal_reject (vo_disposition v)
          then finish_reject req (vo_disposition v) (vo_reason v)
                 (vo_disposition v \<in> {RdStaleAttempt, RdSuperseded, RdCanceled}) st
          else
            (case quarantine_artifacts h req of
               Some r \<Rightarrow> finish_reject req (vo_disposition r) (vo_reason r) False st
             | None \<Rightarrow>
                 let verify = apply_verification_policy h (rr_verification req) (rr_envelope req) (rr_redundant req) in
                 if vf_disposition verify \<noteq> RdAccepted
                 then finish_reject req (vf_disposition verify) (vf_reason verify) False st
                 else
                   (case deny_remote_side_effects (rr_envelope req) of
                      Err e \<Rightarrow> finish_reject req RdPolicy (client_error_display e) False st
                    | Panic \<Rightarrow> finish_reject req RdPolicy [] False st
                    | Ok _ \<Rightarrow>
                        ((fst (record_disposition (re_body (rr_envelope req)) RdAccepted
                            ''verified; signature is provenance-only, not correctness'' False (rr_now req) (fst st)),
                          snd st),
                         \<lparr>ro_disposition = RdAccepted, ro_reason = ''verified current result binding and policy'',
                          ro_complete_attempt = None, ro_verification = Some verify, ro_quarantined = True\<rparr>)))
      | Err e \<Rightarrow> finish_reject req RdSchema (fe_message e) True st
      | Panic \<Rightarrow> finish_reject req RdSchema [] True st)"

section \<open>Patches\<close>

record patch_approval =
  pa_transaction_id :: transaction_id
  pa_patch_digest :: string
  pa_base_version :: workspace_version
  pa_verification_required :: bool
  pa_verification_passed :: bool

definition validate_patch_acceptance ::
    "result_envelope \<Rightarrow> patch_approval \<Rightarrow> string \<Rightarrow> workspace_version \<Rightarrow> bool \<Rightarrow> bool \<Rightarrow>
     (fabric_client_error, unit) result" where
  "validate_patch_acceptance envelope approval staged_patch_digest current_workspace
       authorization_granted sandboxed_verification_passed =
     (if \<not> authorization_granted then Err (ClHttp ''patch application requires exact local authorization'')
      else if sb_workspace_version (re_body envelope) \<noteq> Some current_workspace
      then Err (ClHttp ''workspace version changed; patch rejected'')
      else if pa_base_version approval \<noteq> current_workspace
      then Err (ClHttp ''approval base version mismatch'')
      else if pa_patch_digest approval \<noteq> staged_patch_digest
      then Err (ClHttp ''patch changed after approval; approval invalidated'')
      else if pa_verification_required approval \<and> \<not> sandboxed_verification_passed
      then Err (ClHttp ''sandboxed verification required before commit'')
      else Ok ())"

section \<open>Nothing aborts\<close>

lemma map_err_Panic [simp]: "map_err f r = Panic \<longleftrightarrow> r = Panic"
  by (cases r) auto

lemma of_sum_Panic [simp]: "of_sum x \<noteq> Panic"
  by (cases x) auto

lemma map_err_Ok [simp]: "map_err f r = Ok x \<longleftrightarrow> r = Ok x"
  by (cases r) auto

lemma of_sum_Ok [simp]: "of_sum s = Ok x \<longleftrightarrow> s = Inr x"
  by (cases s) auto

lemma count_agreeing_no_panic: "count_agreeing p cs n \<noteq> Panic"
  by (induction cs arbitrary: n) auto

lemma result_no_panic [simp]:
  "lookup_key w k now keys \<noteq> Panic" "verifying_key_from_bytes h bs \<noteq> Panic"
  "verify_result_signature h e vk \<noteq> Panic" "verify_structural h e \<noteq> Panic"
  "verify_local_adapters h e \<noteq> Panic" "compare_redundant_agreement e cs n \<noteq> Panic"
  "deny_remote_side_effects e \<noteq> Panic"
  by (auto simp: lookup_key_def verifying_key_from_bytes_def verify_result_signature_def result_simps
      canonical_signed_bytes_def verify_structural_def digest_result_payload_def verify_local_adapters_def
      verify_test_report_def verify_patch_base_def compare_redundant_agreement_def count_agreeing_no_panic
      deny_remote_side_effects_def split: option.splits if_splits)

lemma validate_result_envelope_no_panic: "validate_result_envelope h e x keys limits now \<noteq> Panic"
  by (auto simp: validate_result_envelope_def Let_def result_simps validate_protocol_version_def
      split: option.splits result.splits if_splits)

section \<open>What an accepted envelope guarantees\<close>

text \<open>The specification of acceptance: who signed the result, that it belongs to the attempt that is still
  expected, and that its content stays within the limits.\<close>

definition signed_by :: "result_host \<Rightarrow> result_envelope \<Rightarrow> result_signing_key_record \<Rightarrow> bool" where
  "signed_by h env k \<longleftrightarrow>
     length (rk_public_key k) = 32 \<and> rh_key_from_bytes h (rk_public_key k) = Inr () \<and>
     length (re_signature env) = 64 \<and>
     (\<exists>bytes. canonical_signed_bytes h (re_body env) = Ok bytes \<and>
        rh_verify h (rk_public_key k) bytes (re_signature env))"

definition key_valid :: "timestamp \<Rightarrow> result_signing_key_record \<Rightarrow> bool" where
  "key_valid now k \<longleftrightarrow> \<not> rk_revoked k \<and> rk_valid_from k \<le> now \<and>
     (case rk_valid_until k of None \<Rightarrow> True | Some until \<Rightarrow> now \<le> until)"

definition result_authentic ::
    "result_host \<Rightarrow> result_envelope \<Rightarrow> expected_result_binding \<Rightarrow> result_signing_key_registry \<Rightarrow> timestamp \<Rightarrow> bool" where
  "result_authentic h env x keys now \<longleftrightarrow> (let b = re_body env in
     sb_protocol_version b = 1 \<and> sb_result_envelope_version b = 1 \<and>
     sb_worker_id b = xb_channel_worker_id x \<and> sb_coordinator_id b = xb_coordinator_id x \<and>
     \<not> xb_worker_revoked x \<and>
     (\<exists>k. find (key_matches (sb_worker_id b) (sb_worker_key_id b)) keys = Some k \<and>
        key_valid now k \<and> signed_by h env k))"

definition result_current :: "signed_result_body \<Rightarrow> expected_result_binding \<Rightarrow> bool" where
  "result_current b x \<longleftrightarrow>
     xb_known_revocation_epoch x \<le> sb_revocation_epoch b \<and>
     sb_run_id b = xb_run_id x \<and> sb_job_id b = xb_job_id x \<and> sb_task_id b = xb_task_id x \<and>
     sb_attempt_id b = xb_attempt_id x \<and> sb_task_version b = xb_task_version x \<and>
     sb_lease_id b = xb_lease_id x \<and> sb_lease_epoch b = xb_lease_epoch x \<and>
     xb_run_active x \<and> xb_task_active x \<and> \<not> xb_attempt_canceled x \<and>
     \<not> xb_attempt_superseded x \<and> \<not> xb_another_attempt_won x \<and>
     sb_input_digest b = xb_input_digest x \<and> sb_workspace_version b = xb_workspace_version x \<and>
     \<not> trim_is_empty (sb_result_digest b)"

lemma identity_reject_None:
  "identity_reject b x = None \<longleftrightarrow>
     sb_worker_id b = xb_channel_worker_id x \<and> sb_coordinator_id b = xb_coordinator_id x \<and> \<not> xb_worker_revoked x"
  by (auto simp: identity_reject_def validate_channel_identity_def validate_revoked_def)

lemma binding_reject_None: "binding_reject b x = None \<longleftrightarrow> result_current b x"
  unfolding binding_reject_def result_current_def validate_revocation_epoch_def
  by (auto simp: not_less)

lemma lookup_key_Ok:
  "lookup_key w k now keys = Ok r \<longleftrightarrow> find (key_matches w k) keys = Some r \<and> key_valid now r"
  by (auto simp: lookup_key_def result_simps key_valid_def not_less split: option.splits if_splits)

lemma signature_Ok:
  "verifying_key_from_bytes h (rk_public_key k) = Ok () \<and> verify_result_signature h env (rk_public_key k) = Ok () \<longleftrightarrow>
     signed_by h env k"
  by (auto simp: verifying_key_from_bytes_def verify_result_signature_def signed_by_def result_simps
      split: if_splits)

lemma rejects_terminal:
  "identity_reject b x = Some r \<Longrightarrow> is_terminal_reject (vo_disposition r)"
  "binding_reject b x = Some r \<Longrightarrow> is_terminal_reject (vo_disposition r)"
  "content_reject h env x limits = Some r \<Longrightarrow> is_terminal_reject (vo_disposition r)"
proof -
  have arts: "artifacts_reject l as = Some r \<Longrightarrow> is_terminal_reject (vo_disposition r)" for l as
    by (induction as) (auto simp: outcome_reject_def is_terminal_reject_def split: if_splits)
  show "identity_reject b x = Some r \<Longrightarrow> is_terminal_reject (vo_disposition r)"
    by (auto simp: identity_reject_def outcome_reject_def is_terminal_reject_def
        split: result.splits if_splits)
  show "binding_reject b x = Some r \<Longrightarrow> is_terminal_reject (vo_disposition r)"
    unfolding binding_reject_def
    by (auto simp: outcome_reject_def is_terminal_reject_def split: result.splits if_splits)
  show "content_reject h env x limits = Some r \<Longrightarrow> is_terminal_reject (vo_disposition r)"
    by (auto simp: content_reject_def Let_def outcome_reject_def arts split: if_splits)
      (auto simp: is_terminal_reject_def)
qed

definition envelope_accepted ::
    "result_host \<Rightarrow> result_envelope \<Rightarrow> expected_result_binding \<Rightarrow> result_signing_key_registry \<Rightarrow>
     message_size_limits \<Rightarrow> timestamp \<Rightarrow> bool" where
  "envelope_accepted h env x keys limits now \<longleftrightarrow>
     result_authentic h env x keys now \<and> result_current (re_body env) x \<and> content_reject h env x limits = None"

lemma protocol_version_Ok: "validate_protocol_version v = Ok u \<longleftrightarrow> v = 1"
proof -
  have "v = 1" if "\<not> v < 1" "\<not> 1 < v" using that by (meson antisym linorder_le_less_linear)
  then show ?thesis
    by (auto simp: validate_protocol_version_def min_supported_version_def max_supported_version_def split: if_splits)
qed

lemma validate_accepts:
  assumes "envelope_accepted h env x keys limits now"
  shows "validate_result_envelope h env x keys limits now = Ok outcome_ok"
proof -
  let ?b = "re_body env"
  from assms obtain k where k: "find (key_matches (sb_worker_id ?b) (sb_worker_key_id ?b)) keys = Some k"
    "key_valid now k" "signed_by h env k"
    by (auto simp: envelope_accepted_def result_authentic_def Let_def)
  then have look: "lookup_key (sb_worker_id ?b) (sb_worker_key_id ?b) now keys = Ok k" by (simp add: lookup_key_Ok)
  moreover have "identity_reject ?b x = None" "binding_reject ?b x = None" "content_reject h env x limits = None"
    using assms by (simp_all add: envelope_accepted_def result_authentic_def Let_def identity_reject_None binding_reject_None)
  moreover have "validate_protocol_version (sb_protocol_version ?b) = Ok ()" "sb_result_envelope_version ?b = result_envelope_version"
    using assms by (simp_all add: envelope_accepted_def result_authentic_def Let_def protocol_version_Ok
        result_envelope_version_def)
  moreover have "verifying_key_from_bytes h (rk_public_key k) = Ok ()" "verify_result_signature h env (rk_public_key k) = Ok ()"
    using k(3) signature_Ok [of h k env] by simp_all
  ultimately show ?thesis by (simp add: validate_result_envelope_def)
qed

lemma validate_refuses:
  assumes "\<not> envelope_accepted h env x keys limits now" "validate_result_envelope h env x keys limits now = Ok v"
  shows "is_terminal_reject (vo_disposition v)"
proof (rule ccontr)
  let ?b = "re_body env"
  assume nr: "\<not> is_terminal_reject (vo_disposition v)"
  have reject: "v \<noteq> outcome_reject d m" if "d \<noteq> RdAccepted" "d \<noteq> RdQuarantined" for d m
    using nr that by (auto simp: outcome_reject_def is_terminal_reject_def)
  note run = assms(2) [unfolded validate_result_envelope_def Let_def, simplified result_simps]
  from run have pv: "sb_protocol_version ?b = 1" by (auto simp: protocol_version_Ok)
  from run reject have ev: "sb_result_envelope_version ?b = 1"
    by (auto simp: result_envelope_version_def split: if_splits)
  from run reject nr have id: "identity_reject ?b x = None"
    by (auto simp: rejects_terminal split: if_splits option.splits)
  from run reject id obtain k where look: "lookup_key (sb_worker_id ?b) (sb_worker_key_id ?b) now keys = Ok k"
    by (auto split: if_splits result.splits)
  with run reject id have sig: "verifying_key_from_bytes h (rk_public_key k) = Ok ()"
    "verify_result_signature h env (rk_public_key k) = Ok ()"
    by (auto simp: result_simps split: if_splits result.splits)
  with run reject id look nr have "binding_reject ?b x = None" "content_reject h env x limits = None"
    by (auto simp: rejects_terminal split: if_splits option.splits)
  moreover have "result_authentic h env x keys now"
    using pv ev id look sig signature_Ok [of h k env]
    by (auto simp: result_authentic_def Let_def identity_reject_None lookup_key_Ok)
  ultimately show False using assms(1) by (simp add: envelope_accepted_def binding_reject_None)
qed

section \<open>What an accepted result guarantees\<close>

text \<open>The bytes of an artifact passed quarantine: there is exactly one payload for it, of the signed size
  and digest, neither archive nor executable, and all its declared paths are safe.\<close>

definition artifact_clean ::
    "result_host \<Rightarrow> remote_result_accept_request \<Rightarrow> signed_artifact_reference \<Rightarrow> bool" where
  "artifact_clean h req art \<longleftrightarrow>
     (\<exists>bytes. filter (\<lambda>(id, _). id = sr_artifact_id art) (rr_artifact_bytes req) = [(sr_artifact_id art, bytes)] \<and>
        of_nat (length bytes) = sr_size_bytes art \<and> ''sha256:'' @ rh_sha256_hex h bytes = sr_digest art \<and>
        \<not> is_archive bytes (sr_declared_paths art) \<and> \<not> looks_executable bytes None \<and>
        list_all (\<lambda>path. is_safe_workspace_path path \<and> \<not> looks_executable bytes (Some path)) (sr_declared_paths art))"

lemma filter_singleton_member: "filter P xs = [x] \<Longrightarrow> P x"
  by (metis filter_eq_Cons_iff)

lemma quarantine_artifact_None:
  assumes "quarantine_artifact h req limits art = None" "\<not> qx_allow_executable limits"
  shows "artifact_clean h req art"
proof -
  let ?f = "filter (\<lambda>(id, _). id = sr_artifact_id art) (rr_artifact_bytes req)"
  obtain id bytes where f: "?f = [(id, bytes)]"
    using assms(1) by (auto simp: quarantine_artifact_def split: list.splits)
  then have id: "id = sr_artifact_id art" using filter_singleton_member [OF f] by simp
  from f assms(1) have size: "of_nat (length bytes) = sr_size_bytes art"
    and digest: "''sha256:'' @ rh_sha256_hex h bytes = sr_digest art"
    by (auto simp: quarantine_artifact_def split: if_splits)
  obtain i where i: "inspect_remote_bytes bytes (sr_declared_paths art) = Inr i"
    and v: "snd (validate_remote_artifact_with (remote_metadata req art) (sr_digest art) limits i) = Inr ()"
    using f assms(1) by (auto simp: quarantine_artifact_def split: if_splits sum.splits)
  from v have "quarantine_check ((remote_metadata req art)\<lparr>am_origin := OriginRemote\<rparr>) (sr_digest art) limits i = None"
    by (auto simp: validate_remote_artifact_with_def Let_def split: option.splits)
  note q = quarantine_check_None(3,4) [OF this]
  with assms(2) have "\<not> qi_executable_content i" "list_all is_safe_workspace_path (qi_declared_paths i)" by auto
  with i show ?thesis
    unfolding artifact_clean_def using f id size digest
    by (intro exI [of _ bytes]) (auto simp: inspect_remote_bytes_def list_all_iff list_ex_iff split: if_splits)
qed

lemma first_reject_None: "first_reject f xs = None \<longleftrightarrow> (\<forall>x \<in> set xs. f x = None)"
  by (induction xs) (auto split: option.splits)

lemma quarantine_artifacts_None:
  assumes "quarantine_artifacts h req = None" "art \<in> set (sb_artifacts (re_body (rr_envelope req)))"
  shows "artifact_clean h req art"
  using assms by (auto simp: quarantine_artifacts_def Let_def first_reject_None default_quarantine_limits_def
      intro: quarantine_artifact_None)

lemma quarantine_reject_disposition:
  assumes "quarantine_artifacts h req = Some r"
  shows "vo_disposition r \<noteq> RdAccepted"
proof -
  have one: "vo_disposition r \<noteq> RdAccepted" if "quarantine_artifact h req limits art = Some r" for limits art r
    using that by (auto simp: quarantine_artifact_def outcome_reject_def reject_quarantined_def
        split: list.splits if_splits sum.splits artifact_error.splits)
  have "first_reject (quarantine_artifact h req limits) arts = Some r \<Longrightarrow> vo_disposition r \<noteq> RdAccepted" for limits arts
    by (induction arts) (auto simp: one split: option.splits)
  with assms show ?thesis by (auto simp: quarantine_artifacts_def Let_def)
qed

definition accepted_by_policy :: "result_host \<Rightarrow> remote_result_accept_request \<Rightarrow> bool" where
  "accepted_by_policy h req \<longleftrightarrow>
     vf_disposition (apply_verification_policy h (rr_verification req) (rr_envelope req) (rr_redundant req)) = RdAccepted"

lemma policy_structural:
  assumes "vf_disposition (apply_verification_policy h requirement env redundant) = RdAccepted"
  shows "verify_structural h env = Ok ()"
proof -
  have "verify_local_adapters h env = Ok () \<Longrightarrow> verify_structural h env = Ok ()"
    by (auto simp: verify_local_adapters_def result_simps)
  with assms show ?thesis
    by (auto simp: apply_verification_policy_def verification_rejected_def
        split: result_verification_requirement.splits result.splits)
qed

lemma finish_reject_disposition [simp]: "ro_disposition (snd (finish_reject req d m a st)) = d"
  by (simp add: finish_reject_def)

text \<open>A result is accepted exactly when the envelope is accepted, all artifacts pass quarantine, the
  verification policy accepts and the payload asks for no side effect.\<close>

lemma accept_remote_result_iff:
  "ro_disposition (snd (accept_remote_result h req keys st)) = RdAccepted \<longleftrightarrow>
     envelope_accepted h (rr_envelope req) (rr_expected req) keys default_message_limits (rr_now req) \<and>
     quarantine_artifacts h req = None \<and> accepted_by_policy h req \<and>
     deny_remote_side_effects (rr_envelope req) = Ok ()"
    (is "?l \<longleftrightarrow> ?env \<and> ?q \<and> ?p \<and> ?d")
proof (cases ?env)
  case True
  then have "validate_result_envelope h (rr_envelope req) (rr_expected req) keys default_message_limits (rr_now req) = Ok outcome_ok"
    by (rule validate_accepts)
  then have "?l \<longleftrightarrow> ?q \<and> ?p \<and> ?d"
    using quarantine_reject_disposition [of h req]
    by (auto simp: accept_remote_result_def outcome_ok_def is_terminal_reject_def accepted_by_policy_def Let_def
        split: option.splits result.splits)
  with True show ?thesis by simp
next
  case False
  let ?v = "validate_result_envelope h (rr_envelope req) (rr_expected req) keys default_message_limits (rr_now req)"
  have "\<not> ?l"
  proof (cases ?v)
    case (Ok v)
    with validate_refuses [OF False] have "is_terminal_reject (vo_disposition v)" by blast
    with Ok show ?thesis by (auto simp: accept_remote_result_def is_terminal_reject_def)
  qed (simp_all add: accept_remote_result_def)
  with False show ?thesis by simp
qed

section \<open>Recorded dispositions are final\<close>

definition dispositions_kept :: "disposition_store \<Rightarrow> disposition_store \<Rightarrow> bool" where
  "dispositions_kept s t \<longleftrightarrow>
     (\<forall>k r. bt_get (dst_by_result s) k = Some r \<longrightarrow> bt_get (dst_by_result t) k = Some r) \<and>
     (\<forall>k r. bt_get (dst_by_idempotency s) k = Some r \<longrightarrow> bt_get (dst_by_idempotency t) k = Some r)"

lemma record_disposition_kept: "dispositions_kept s (fst (record_disposition b d m a now s))"
  by (auto simp: record_disposition_def dispositions_kept_def Let_def split: option.splits)

lemma accept_remote_result_kept: "dispositions_kept (fst st) (fst (fst (accept_remote_result h req keys st)))"
  by (auto simp: accept_remote_result_def finish_reject_def record_disposition_kept Let_def
      split: result.split option.split)

end
