(* ===== verification/Fabric_Properties.thy ===== *)
theory Fabric_Properties
  imports Broker_Properties Ingress Registry Remote_Result
begin

text \<open>
  Properties of the fabric: what a coordinator dispatches and to whom (\<open>Registry\<close>), how a worker takes
  deliveries and cancellations (\<open>Ingress\<close>), and which results the coordinator accepts
  (\<open>Remote_Result\<close>, \<open>Quarantine\<close>).
\<close>

section \<open>A concrete worker, job and result\<close>

definition demo_caps :: worker_capabilities where
  "demo_caps = typed_infer_profile 0 ''w1'' ''boot-1'' 1 0 [''m''] [''m''] 8 4 0 0 0"

definition demo_session :: probe_session_input where
  "demo_session = \<lparr>psi_caps = demo_caps, psi_channel_worker_id = ''w1'', psi_known_revocation_epoch = 0,
     psi_now = 1, psi_previous = None, psi_health_ok = True, psi_models_verified = True,
     psi_verified_model_names = None\<rparr>"

definition demo_registry :: capability_registry where
  "demo_registry = (case upsert_probe_session 0 demo_session registry_new of Ok (r, _) \<Rightarrow> r | _ \<Rightarrow> registry_new)"

definition demo_remote :: compute_request where
  "demo_remote = (demo_compute ''a'' ''r'' NormalPriority)\<lparr>cr_target_worker_id := Some ''w1''\<rparr>"

lemma demo_session_probes: "list_all cpr_passed (session_probes demo_session)"
  unfolding demo_session_def session_probes_def Let_def merge_probe_results_def demo_caps_def
  using infer_profile_probes [of 4 8 typed_infer_profile] by simp

definition demo_job :: job_envelope where
  "demo_job = \<lparr>je_job_id = ''j'', je_run_id = ''r'', je_task_id = ''t'', je_task_version = 1,
     je_attempt_id = ''a'', je_idempotency_key = ''k'', je_lease_id = ''l'', je_lease_epoch = 1,
     je_job_kind = Infer, je_input_digest = ''sha256:1'', je_workspace_version = None,
     je_input_artifacts = [], je_data_class = RepositorySource,
     je_required_capabilities = \<lparr>jr_tools = [], jr_environment = []\<rparr>,
     je_resource_limits = \<lparr>rl_max_cpu_millis = None, rl_max_memory_bytes = None\<rparr>,
     je_deadlines = deadlines_from_execution 1000 60,
     je_output_limits = \<lparr>ol_max_bytes = 1000, ol_max_artifacts = 4, ol_max_artifact_size = 1000\<rparr>,
     je_verification_policy = \<lparr>jv_require_verification = False, jv_policy_id = None\<rparr>,
     je_payload = V1Infer JNull\<rparr>"



definition demo_result_host :: result_host where
  "demo_result_host = \<lparr>rh_body_to_value = (\<lambda>_. Inr JNull), rh_serialize = (\<lambda>_. Inr ''null''),
     rh_key_from_bytes = (\<lambda>_. Inr ()), rh_verify = (\<lambda>key msg sig. msg = ''null'' \<and> hd sig = hd key),
     rh_sha256_hex = (\<lambda>bytes. show_nat (length bytes)), rh_json_len = (\<lambda>_. Some 4),
     rh_ws_to_value = (\<lambda>_. Inr JNull), rh_debug = (\<lambda>s. s)\<rparr>"

definition demo_body :: signed_result_body where
  "demo_body = \<lparr>sb_protocol_version = 1, sb_result_envelope_version = 1, sb_result_id = ''res'',
     sb_worker_id = ''w1'', sb_worker_key_id = ''key'', sb_coordinator_id = ''co'', sb_run_id = ''r'',
     sb_job_id = ''j'', sb_task_id = ''t'', sb_task_version = 1, sb_attempt_id = ''a'', sb_lease_id = ''l'',
     sb_lease_epoch = 1, sb_idempotency_key = ''k'', sb_job_kind = Infer, sb_input_digest = ''sha256:1'',
     sb_workspace_version = None, sb_result_status = StatusOk, sb_result_digest = ''sha256:4'',
     sb_artifacts = [\<lparr>sr_artifact_id = ''art'', sr_digest = ''sha256:5'', sr_size_bytes = 5, sr_kind = ''diff'',
       sr_declared_paths = [''docs/a.txt'']\<rparr>],
     sb_execution_summary = \<lparr>es_duration_ms = None, es_model = None, es_exit_status = None,
       es_truncated = False, es_notes = None, es_local = None\<rparr>,
     sb_completed_at = 5, sb_revocation_epoch = 0\<rparr>"

definition demo_envelope :: result_envelope where
  "demo_envelope = \<lparr>re_body = demo_body, re_signature = replicate 64 CHR ''s'', re_payload = JNull\<rparr>"

definition demo_expected :: expected_result_binding where
  "demo_expected = \<lparr>xb_channel_worker_id = ''w1'', xb_coordinator_id = ''co'', xb_run_id = ''r'',
     xb_job_id = ''j'', xb_task_id = ''t'', xb_task_version = 1, xb_attempt_id = ''a'', xb_lease_id = ''l'',
     xb_lease_epoch = 1, xb_input_digest = ''sha256:1'', xb_workspace_version = None,
     xb_worker_revoked = False, xb_attempt_canceled = False, xb_attempt_superseded = False,
     xb_another_attempt_won = False, xb_run_active = True, xb_task_active = True,
     xb_known_revocation_epoch = 0, xb_output_limits = je_output_limits demo_job\<rparr>"

definition demo_key :: result_signing_key_record where
  "demo_key = \<lparr>rk_key_id = ''key'', rk_worker_id = ''w1'', rk_public_key = replicate 32 CHR ''s'',
     rk_valid_from = 0, rk_valid_until = None, rk_revoked = False, rk_identity_certification = None,
     rk_rotation_generation = 0\<rparr>"

definition demo_acceptance :: remote_result_accept_request where
  "demo_acceptance = \<lparr>rr_envelope = demo_envelope, rr_expected = demo_expected,
     rr_verification = StructuralValidation, rr_redundant = [], rr_artifact_bytes = [(''art'', ''hello'')],
     rr_now = 6, rr_run_snapshot = None, rr_lease_proof = None, rr_command_envelope = None\<rparr>"

lemma demo_accepted:
  "ro_disposition (snd (accept_remote_result demo_result_host demo_acceptance [demo_key]
     (disposition_store_new, default_behavior_signals))) = RdAccepted"
  by code_simp

lemma demo_registry_eq: "upsert_probe_session 0 demo_session registry_new = Ok (demo_registry, RefreshInserted)"
  by code_simp

section \<open>Dispatch to a worker\<close>

text \<open>A request passes the last check before dispatch exactly when its placement has not expired and was
  not denied, a process-class job names no worker at all, and a remote target is cached, neither
  quarantined, degraded, draining nor expired, and advertises the kind of the job.\<close>

theorem dispatch_revalidation_exact:
  "revalidate_before_dispatch request caps now = Ok () \<longleftrightarrow> dispatchable request caps now"
  by (rule revalidate_iff)





text \<open>C38: A worker that sends the typed infer profile with a fresh time stamp, clean names and no more free
  video memory than total is cached on first contact, becomes eligible, and an infer job with a valid
  placement may be dispatched to it.\<close>

theorem infer_worker_becomes_dispatchable:
  assumes "bt_get (creg_entries reg) w = None"
    and "boot \<noteq> []" "scan_field ''boot_id'' boot = Ok ()" "0 < revision"
    and "list_all (\<lambda>m. m \<noteq> [] \<and> scan_field ''model.local_name'' m = Ok ()) models"
    and "vram_free_mb \<le> vram_total_mb" "now < sent + default_dynamic_capacity_ttl"
    and "caps = typed_infer_profile sent w boot revision epoch models resident vram_total_mb vram_free_mb active queued maxc"
    and "remote_target request = Some w" "cr_job_kind request = Infer"
    and "now < pdr_expires_at (cr_placement_decision request)"
    and "placement_allows_remote (pdr_decision (cr_placement_decision request))"
  shows "\<exists>reg'. upsert_validated instant caps w epoch now reg = Ok (reg', RefreshInserted) \<and>
     scheduling_state reg' w now = SchedEligible \<and> revalidate_before_dispatch request (Some reg') now = Ok ()"
proof -
  let ?input = "\<lparr>psi_caps = caps, psi_channel_worker_id = w, psi_known_revocation_epoch = epoch, psi_now = now,
    psi_previous = None, psi_health_ok = True, psi_models_verified = True, psi_verified_model_names = None\<rparr>"
  have caps: "wcap_worker_id caps = w" "wcap_supported_job_types caps = [infer_capability True]"
      "wcap_generated_at caps = sent" "wcap_valid_until caps = sent + default_static_capability_ttl"
      "rcap_draining (wcap_runtime_capacity caps) = False"
    using assms(8) by (auto simp: typed_infer_profile_def profile_runtime_def Let_def)
  have valid: "validate_worker_capabilities caps w epoch now = Ok ()"
    using assms by (intro typed_profile_valid) auto
  have "list_all cpr_passed (session_probes ?input)"
    using infer_profile_probes [of vram_free_mb vram_total_mb typed_infer_profile] assms(6,8)
    by (auto simp: session_probes_def merge_probe_results_def Let_def)
  then have clean: "\<not> probes_quarantine (session_probes ?input)" "\<not> probes_degraded (session_probes ?input)"
    by (auto simp: probes_quarantine_def probes_degraded_def list_ex_iff list_all_iff)
  obtain reg' where u: "upsert_validated instant caps w epoch now reg = Ok (reg', RefreshInserted)"
    using valid assms(1) caps(1) upsert_succeeds [of ?input reg instant]
    by (auto simp: upsert_validated_def restart_without_bump_def refresh_outcome_def)
  have e: "bt_get (creg_entries reg') w = Some (session_entry instant ?input)"
    using upsert_cases(3) [OF u [unfolded upsert_validated_def]] caps(1) by simp
  have el: "entry_eligible (session_entry instant ?input) now"
    using clean caps assms(7)
    by (simp add: entry_eligible_def session_entry_def Let_def caps_expired_def dynamic_capacity_expired_def
        default_static_capability_ttl_def default_dynamic_capacity_ttl_def)
  have "scheduling_state reg' w now = SchedEligible" using e el by (auto simp: scheduling_state_eligible)
  moreover have "dispatchable request (Some reg') now"
    using e el caps(2) assms(9-12)
    by (auto simp: dispatchable_def session_entry_def Let_def supports_job_kind_def infer_capability_def)
  ultimately show ?thesis using u by (auto simp: revalidate_iff)
qed

theorem infer_worker_becomes_dispatchable_witness:
  "\<exists>reg'. upsert_validated 0 demo_caps ''w1'' 0 1 registry_new = Ok (reg', RefreshInserted) \<and>
     scheduling_state reg' ''w1'' 1 = SchedEligible \<and> revalidate_before_dispatch demo_remote (Some reg') 1 = Ok ()"
  by (rule infer_worker_becomes_dispatchable [OF _ _ _ _ _ _ _ demo_caps_def]; code_simp)

text \<open>C39: Whether a worker is quarantined after a probe session depends on the probes of that session alone: a
  quarantine that the coordinator imposed earlier, because of the results the worker returned, is lifted by the
  next document the worker sends.\<close>

theorem forced_quarantine_lost:
  assumes "upsert_probe_session instant input (snd (force_quarantine (wcap_worker_id (psi_caps input)) reg)) =
      Ok (reg', outcome)"
  shows "is_quarantined reg' (wcap_worker_id (psi_caps input)) \<longleftrightarrow> probes_quarantine (session_probes input)"
  using assms by (rule upsert_quarantined)

theorem forced_quarantine_lost_witness:
  "is_quarantined (snd (force_quarantine ''w1'' demo_registry)) ''w1'' \<and>
   (\<exists>reg' outcome. upsert_probe_session 0 demo_session (snd (force_quarantine ''w1'' demo_registry)) =
      Ok (reg', outcome) \<and> \<not> is_quarantined reg' ''w1'')"
proof -
  have w: "wcap_worker_id (psi_caps demo_session) = ''w1''" by code_simp
  have q: "is_quarantined (snd (force_quarantine ''w1'' demo_registry)) ''w1''" by code_simp
  have r: "\<not> restart_without_bump (snd (force_quarantine ''w1'' demo_registry)) (psi_caps demo_session)" by code_simp
  obtain reg' outcome where
    u: "upsert_probe_session 0 demo_session (snd (force_quarantine ''w1'' demo_registry)) = Ok (reg', outcome)"
    using upsert_succeeds [OF upsert_cases(1) [OF demo_registry_eq] r] by blast
  have "\<not> probes_quarantine (session_probes demo_session)"
    using demo_session_probes by (auto simp: probes_quarantine_def list_ex_iff list_all_iff)
  with forced_quarantine_lost [of 0 demo_session demo_registry reg' outcome] u w q show ?thesis by auto
qed

section \<open>Deliveries and cancellations\<close>

text \<open>C15: Once a worker has taken a delivery, no later delivery under the same key is taken as new, whatever
  else arrived in between: it leaves the state alone and is answered as a duplicate, or refused if its input
  differs.\<close>

theorem delivery_accepted_once:
  assumes "ingress.reaches ingress_default s" "accept_delivery job s = (s', Ok d)" "ingress.reaches s' t"
    and "delivery_key_from_job job' = delivery_key_from_job job"
  shows "fst (accept_delivery job' t) = t \<and> snd (accept_delivery job' t) \<noteq> Ok AcceptNew \<and>
     (je_input_digest job' \<noteq> je_input_digest job \<longrightarrow> snd (accept_delivery job' t) = Err digest_conflict)"
proof -
  have "ingress_inv s" using assms(1) ingress_default_inv by (rule ingress.reaches_inv)
  then have inv: "ingress_inv s'" using accept_delivery_inv [of s job] assms(2) by simp
  obtain rec where "bt_get (is_records s') (delivery_digest (delivery_key_from_job job)) = Some rec"
      "ir_input_digest rec = je_input_digest job"
    by (rule accept_delivery_cases [of job s]) (use assms(2) in \<open>auto simp: insert_record_def new_record_def\<close>)
  with records_kept_reaches [OF assms(3) inv] obtain rec' where
    "bt_get (is_records t) (delivery_digest (delivery_key_from_job job')) = Some rec'"
    "ir_input_digest rec' = je_input_digest job"
    unfolding records_kept_def assms(4) by metis
  then show ?thesis by (auto simp: accept_delivery_def split: option.splits terminal_outcome.splits)
qed

theorem delivery_accepted_once_witness:
  "snd (accept_delivery demo_job ingress_default) = Ok AcceptNew \<and>
   snd (accept_delivery demo_job (fst (accept_delivery demo_job ingress_default))) \<noteq> Ok AcceptNew"
proof -
  have a: "accept_delivery demo_job ingress_default =
      (fst (accept_delivery demo_job ingress_default), Ok AcceptNew)"
    by (simp add: accept_delivery_def ingress_default_def)
  from delivery_accepted_once [OF ingress.reaches.refl a ingress.reaches.refl refl] a show ?thesis
    by (metis snd_conv)
qed



section \<open>Results\<close>


text \<open>C14: Every artifact of an accepted result came with exactly one payload, of the signed size and digest, that
  is neither an archive nor executable, and is meant for safe paths only; and the payload of the result has the
  digest the worker signed.\<close>

theorem accepted_artifacts_clean:
  assumes "ro_disposition (snd (accept_remote_result h req keys st)) = RdAccepted"
  shows "list_all (artifact_clean h req) (sb_artifacts (re_body (rr_envelope req))) \<and>
     digest_result_payload h (re_payload (rr_envelope req)) = Ok (sb_result_digest (re_body (rr_envelope req)))"
proof -
  from assms have "quarantine_artifacts h req = None" "verify_structural h (rr_envelope req) = Ok ()"
    using policy_structural by (auto simp: accept_remote_result_iff accepted_by_policy_def)
  then show ?thesis
    by (auto simp: list_all_iff quarantine_artifacts_None verify_structural_def result_simps split: if_splits)
qed

theorem accepted_artifacts_clean_witness:
  "list_all (artifact_clean demo_result_host demo_acceptance) (sb_artifacts demo_body) \<and> sb_artifacts demo_body \<noteq> [] \<and>
   digest_result_payload demo_result_host JNull = Ok ''sha256:4''"
  using accepted_artifacts_clean [OF demo_accepted] by (simp add: demo_acceptance_def demo_envelope_def demo_body_def)



text \<open>C40: Redundant agreement counts candidates, not workers: one agreeing candidate, presented several times,
  reaches any required number of votes.\<close>

theorem redundant_agreement_counts_copies:
  assumes "independence_holds (primary_independence primary) (rc_independence cand)"
    and "candidate_agrees primary cand"
  shows "compare_redundant_agreement primary (replicate n cand) (1 + of_nat n) = Ok (1 + of_nat n)"
proof -
  have "count_agreeing primary (replicate n cand) k = Ok (k + of_nat n)" for k
    using assms by (induction n arbitrary: k) (simp_all add: add.assoc)
  then show ?thesis by (simp add: compare_redundant_agreement_def)
qed

definition demo_candidate :: redundant_candidate where
  "demo_candidate = \<lparr>rc_envelope = demo_envelope, rc_independence = \<lparr>ie_worker_id = ''w2'', ie_host_id = ''h2'',
     ie_owner_domain = ''other'', ie_model_instance = None, ie_execution_nonce = ''n'', ie_shared_cache = False\<rparr>\<rparr>"

theorem redundant_agreement_counts_copies_witness:
  "compare_redundant_agreement demo_envelope [demo_candidate, demo_candidate] 3 = Ok 3"
proof -
  have "independence_holds (primary_independence demo_envelope) (rc_independence demo_candidate)"
      "candidate_agrees demo_envelope demo_candidate" by code_simp+
  from redundant_agreement_counts_copies [OF this, of 2] show ?thesis by (simp add: numeral_2_eq_2)
qed

text \<open>The size check of an envelope looks at the length modulo \<open>2 ^ 32\<close>, so that a message of four
  gibibytes and more passes when the remainder is within the limit.\<close>

lemma envelope_size_check_wraps:
  "check_envelope_size len limits = Ok () \<longleftrightarrow> len mod 4294967296 \<le> unat (ml_max_envelope_bytes limits)"
  by (simp add: check_envelope_size_def word_less_nat_alt unat_of_nat not_less)

end
