(* ===== verification/Spec2Isabelle.thy ===== *)
theory Spec2Isabelle
  imports Run_Properties Supervisor_Properties Guard_Properties Ledger_Properties Scheduler_Properties
begin

text \<open>
  A verification of the execution kernel of tetonic: the part of the engine that decides what work
  exists, who may execute it, what it may cost, where its data may go and which results come back.

  \<^bold>\<open>The program.\<close> A run is a graph of tasks; a task is executed by attempts, each under a lease.
  The run supervisor (\<open>src/engine/mantle/tetonic-run\<close>) owns the runs: it accepts commands, applies
  them to a snapshot of the run with \<open>apply_command\<close>, appends an event to a journal, and can rebuild
  the snapshot from the journal. An attempt that needs inference or computation asks the compute
  broker (\<open>src/engine/mantle/tetonic-broker\<close>): the admission controller checks the request, reserves
  resources in a hierarchical budget ledger, or parks the request in a bounded queue. Its scheduler chooses
  between the local node and the workers by estimated completion time, and the placement engine
  (\<open>src/engine/atmos/tetonic-inference\<close>) says which worker may take a job at all. Before a payload
  leaves the machine the dispatch guard (\<open>src/engine/core/tetonic-policy\<close>) compares its
  classification with the trust of the destination and the project's policy. Work for another machine
  goes over the fabric (\<open>src/engine/atmos/tetonic-fabric-protocol\<close>): workers advertise capabilities
  that the coordinator validates, probes and caches; the broker checks the cached entry once more before
  dispatch; the worker takes each delivery at most once; and the coordinator accepts a result only if
  it is signed by the right worker, belongs to the attempt that is still expected, and its artifacts
  pass quarantine (\<open>tetonic-fabric-client/src/result_accept.rs\<close>, \<open>tetonic-artifact\<close>). The types all of
  them share are in \<open>src/engine/core/tetonic-domain\<close>.

  \<^bold>\<open>Theories and sources.\<close>
  \<^item> \<open>Prelude\<close>: Rust's results with panics, fixed-width arithmetic, \<open>BTreeMap\<close> as a key-sorted
    association list, and two interfaces. The locale \<open>ordered_map\<close> is what the state machines rely on
    in a map. The locale \<open>command_machine\<close> is a partial step function with an invariant that every
    legal step keeps; reachability and its rules are proved once there. It is interpreted on
    \<open>apply_command\<close> (\<open>run\<close>, \<open>unresumed\<close>, \<open>unrejected\<close>), on the supervisor (\<open>sup\<close>), on the ledger
    (\<open>ledger\<close>), on the queue (\<open>queue\<close>), on a worker's deliveries (\<open>ingress\<close>) and cancellations
    (\<open>cancel\<close>) and on the capability registry (\<open>registry\<close>). \<open>Accounting\<close>: totals over keyed tables.
  \<^item> \<open>Run_Model\<close>: the records and enums of \<open>tetonic-domain\<close> (\<open>run.rs\<close>, \<open>failure.rs\<close>,
    \<open>suspension.rs\<close>, parts of \<open>identity.rs\<close>, \<open>workspace.rs\<close>, \<open>execution.rs\<close>, \<open>classify.rs\<close>).
  \<^item> \<open>Dag\<close>, \<open>Topo\<close>: \<open>tetonic-run/src/dag.rs\<close>. \<open>Lease\<close>: \<open>lease.rs\<close>, \<open>idempotency.rs\<close>,
    \<open>side_effect.rs\<close>, \<open>retry.rs\<close>, \<open>acceptance.rs\<close>. \<open>Transition\<close>: \<open>transition.rs\<close> with
    \<open>transition/suspension.rs\<close> and \<open>transition/task_admission.rs\<close>, one definition per handler.
    \<open>Recovery\<close>: \<open>recovery.rs\<close> and the empty projection of \<open>replay.rs\<close>. \<open>Supervisor\<close>: \<open>service.rs\<close>
    over its in-memory store, with \<open>quotas.rs\<close>, \<open>replay.rs\<close> and the Safe Mode flag.
  \<^item> \<open>Budget\<close>: \<open>tetonic-broker/src/budget.rs\<close>. \<open>Admission_Queue\<close>: \<open>queue.rs\<close>, \<open>priority.rs\<close> and the
    request of \<open>types.rs\<close>. \<open>Admission\<close>: \<open>admission.rs\<close>; its state is the ledger and the queue.
  \<^item> \<open>Placement\<close>: \<open>placement.rs\<close> and \<open>trust.rs\<close> of the domain and the trust matrix of
    \<open>tetonic-policy/src/placement.rs\<close>. \<open>Guard\<close>: classification, the remote inference policy and
    \<open>PolicyDispatchGuard\<close> (\<open>tetonic-policy/src/\<close> \<open>classify.rs\<close>, \<open>engine.rs\<close>, \<open>dispatch.rs\<close>,
    \<open>mode.rs\<close>, \<open>fabric.rs\<close>, \<open>hosted.rs\<close>).
  \<^item> \<open>Fabric\<close>: messages, limits, validation, decoding and negotiation of the fabric protocol.
    \<open>Ingress\<close>: \<open>ingress.rs\<close> and \<open>cancellation.rs\<close>. \<open>Capability\<close>: \<open>capabilities.rs\<close>,
    \<open>capability_document.rs\<close>, \<open>capability_validate.rs\<close>, \<open>capability_probes.rs\<close>,
    \<open>capability_metrics.rs\<close> and \<open>capability_model_match.rs\<close>. \<open>Registry\<close>: \<open>capability_registry.rs\<close> and
    the broker's \<open>dispatch.rs\<close>. \<open>Quarantine\<close>: \<open>tetonic-artifact/src/quarantine.rs\<close> with
    \<open>artifact.rs\<close> and \<open>result_integrity.rs\<close> of the domain. \<open>Remote_Result\<close>: \<open>result.rs\<close>,
    \<open>result_crypto.rs\<close>, \<open>result_keys.rs\<close>, \<open>result_validate.rs\<close> and \<open>result_disposition.rs\<close> of the
    protocol, \<open>verification.rs\<close> and \<open>result_accept.rs\<close> of the client.
  \<^item> \<open>Scheduler\<close>: \<open>tetonic-broker/src/scheduler/\<close> (\<open>circuit.rs\<close>, \<open>estimate.rs\<close>, \<open>calibration.rs\<close>,
    \<open>score.rs\<close>, \<open>types.rs\<close>, \<open>fallback.rs\<close>, \<open>speculate.rs\<close>, \<open>stamp.rs\<close>) and \<open>job_profile.rs\<close>.
    \<open>Eligibility\<close>: \<open>worker_eligibility.rs\<close> and \<open>placement_engine.rs\<close> of \<open>tetonic-inference\<close>.
    \<open>Floats\<close>: the rounding of floating-point numbers that the scheduler relies on.

  \<^bold>\<open>How state and effects are represented.\<close> A struct is a record whose fields carry a short prefix, an
  enum a datatype. A handler that mutates a clone of the state is a function from state to result, so
  an error leaves the state as it was; an operation that mutates in place under a mutex, such as
  \<open>reserve\<close>, returns the state also on its error paths. One call under a lock is one step. Counters
  keep their width (\<open>u32\<close> and \<open>u64\<close> as words) where the source can overflow; \<open>usize\<close> counters of
  the queue count list entries and are natural numbers. Strings are UTF-8 byte sequences. A call of
  \<open>unwrap\<close> that can fail is the value \<open>Panic\<close>. An unchecked \<open>+\<close> or \<open>sum\<close> wraps, as in the release
  profile, and so does a cast \<open>as u32\<close>. The load score that a worker
  advertises is the bit pattern of an \<open>f32\<close>, rounded to nearest with ties to even; the floats that the
  scheduler compares are finite, and stand as rational numbers rounded in the same way after each operation.

  \<^bold>\<open>What comes from outside.\<close> The default hasher, the floating-point backoff and soft limit, the JSON
  codec, the payload digest, the clock, fresh identifiers and chrono's \<open>Duration::from_std\<close> are
  arguments of the definitions (the records \<open>host\<close>, \<open>sup_host\<close> and \<open>stamp\<close>, and the arguments
  \<open>from_std\<close>, \<open>uuid\<close>, \<open>now\<close>); so are ed25519, SHA-256 and serde's JSON printing for results (the record
  \<open>result_host\<close>). The properties that rely on them say so: \<open>codec_ok\<close> states that a
  command reads back from its JSON form and that its digest does not abort; \<open>op_legal\<close> that a fresh
  identifier is not in use. \<open>limits_sane\<close> is a condition on the configured limits of the ledger,
  under which no addition in \<open>reserve\<close> overflows; the default limits satisfy it.

  \<^bold>\<open>What is shown.\<close>
  \<^item> \<open>Run_Invariant\<close>, \<open>Evolution\<close>, \<open>Run_Properties\<close>: the well-formedness invariant of snapshots; at
    most one winning attempt per task; completion exactly under a current lease; fencing of old lease
    holders after a resumption; execution claimed at most once; finality of cancellation, of finished
    runs and of terminal attempts; side effects committed at most once and never retried;
    correctness and termination of the topological sort and the cycle check; absence of panics;
    suspension and restart recovery.
  \<^item> \<open>Supervisor_Properties\<close>: replay of the journal gives the snapshot, redelivery is idempotent,
    refused commands change nothing, quarantine, gap-free numbering, observation, startup recovery.
    \<open>Scenario\<close> is the concrete run on which hypotheses are discharged.
  \<^item> \<open>Ledger\<close>, \<open>Reserve\<close>, \<open>Ledger_Machine\<close>, \<open>Ledger_Properties\<close>: the counters of the ledger equal
    the load of the live reservations and stay within the limits; a reservation is granted exactly when
    it fits; reservations are unique per attempt and per exclusive device; repeated reservation and
    release.
  \<^item> \<open>Queue_Refinement\<close>, \<open>Broker_Properties\<close>: the queue with its member set and counters refines a
    plain list; its bounds; which entry is served; soundness of admission.
  \<^item> \<open>Guard_Properties\<close>: exactness of the secret detector and of the remote dispatch decision, and that
    secrets stay local.
  \<^item> \<open>Fabric_Properties\<close>: which requests may be dispatched and that the worker was vetted; the
    invariant of the registry; that a worker with a correct profile becomes eligible; that deliveries are
    taken once and cancellations last; exactly which results are accepted, and what holds of their
    artifacts and paths. Two properties state behaviour the code does not intend: a coordinator's
    quarantine that does not last, and redundant agreement reached with copies of one candidate.

  \<^item> \<open>Scheduler_Properties\<close>: a remote choice is justified by the candidates; a failing worker is held
    off for the cooldown; failover visits each target once; a stamped decision is revalidated at
    dispatch; exactly which typed jobs are placed on a worker.

  \<^bold>\<open>Termination.\<close> All loops are recursive functions with termination proofs and no fuel, except the
  worklist of the topological sort, which is a \<open>partial_function (option)\<close>; \<open>Run_Properties\<close> shows
  that it returns on every well-formed run.

  \<^bold>\<open>Not modelled.\<close> The SQLite store, event compaction and commit hooks behind the supervisor; the
  asynchronous facade of \<open>tetonic-run/src/managed\<close>; the broker's service and worker
  adapters and the part of the scheduler that works on chat requests and connections (\<open>infer_schedule.rs\<close>,
  \<open>hop_placement.rs\<close>, \<open>failover.rs\<close>, \<open>attempt_lease.rs\<close>, \<open>persist.rs\<close>), whose decisions go through the
  definitions above; signing on the worker, the network
  clients and connection pools of the fabric; \<open>classify_session\<close> and the action,
  shell and capability checks of \<open>tetonic-policy\<close>, which depend on the file system; and the
  remaining crates (agent loop, orchestrator, inference and network clients, sandbox, secrets,
  telemetry, code index, context assembly, application, command line, language server, web interface,
  tooling), which are input/output, cryptography, generated code or user interface.
\<close>

end
